(* ===== verification/Prelude.thy ===== *)
theory Prelude
  imports Complex_Main "HOL-Library.Word" "HOL-Library.Char_ord" "HOL-Library.List_Lexorder"
    "HOL-Library.Sublist"
begin

text \<open>
  Shared vocabulary of the development: the SDK's error type (\<^verbatim>\<open>include/livekit/server/error.h\<close>),
  results of fallible code, effectful code as a state-passing function over a world, byte
  strings, and the few members of \<^verbatim>\<open>std::string\<close> and \<^verbatim>\<open>std::ostream\<close> the sources use.

  A \<^verbatim>\<open>std::string\<close> is a sequence of bytes and is a \<open>string\<close> here (a HOL \<open>char\<close> has eight bits);
  a \<^verbatim>\<open>std::vector<std::uint8_t>\<close> is a list of \<open>8 word\<close>.
\<close>

unbundle bit_operations_syntax

named_theorems monad_simps \<open>equations that run the result and effect combinators\<close>
named_theorems sdk_defs \<open>definitions of the small helpers that proofs unfold together\<close>

section \<open>Errors\<close>

text \<open>\<^verbatim>\<open>enum class ErrorCode : std::uint8_t\<close>, with its stable numeric values.\<close>

datatype error_code =
    ec_invalid_argument | ec_authentication | ec_transport | ec_http
  | ec_protocol | ec_unsupported | ec_unknown

fun error_code_value :: "error_code \<Rightarrow> int" where
  "error_code_value ec_invalid_argument = 0"
| "error_code_value ec_authentication = 1"
| "error_code_value ec_transport = 2"
| "error_code_value ec_http = 3"
| "error_code_value ec_protocol = 4"
| "error_code_value ec_unsupported = 5"
| "error_code_value ec_unknown = 255"

lemma error_code_value_inject [simp]:
  "error_code_value a = error_code_value b \<longleftrightarrow> a = b"
  by (cases a; cases b) auto

text \<open>A scoped enumeration is ordered by its underlying values.\<close>

instantiation error_code :: linorder
begin

definition less_eq_error_code :: "error_code \<Rightarrow> error_code \<Rightarrow> bool" where
  "less_eq_error_code a b \<longleftrightarrow> error_code_value a \<le> error_code_value b"

definition less_error_code :: "error_code \<Rightarrow> error_code \<Rightarrow> bool" where
  "less_error_code a b \<longleftrightarrow> error_code_value a < error_code_value b"

instance
  by standard (auto simp: less_eq_error_code_def less_error_code_def)

end

text \<open>\<^verbatim>\<open>class Error\<close>; the last two constructor arguments default to \<open>0\<close> and the empty string.\<close>

record sdk_error =
  err_code :: error_code
  err_what :: string
  err_http_status :: int
  err_twirp_code :: string

definition Error :: "error_code \<Rightarrow> string \<Rightarrow> sdk_error" where
  "Error c m = \<lparr>err_code = c, err_what = m, err_http_status = 0, err_twirp_code = []\<rparr>"

lemma Error_sel [simp]:
  "err_code (Error c m) = c" "err_what (Error c m) = m"
  "err_http_status (Error c m) = 0" "err_twirp_code (Error c m) = []"
  by (simp_all add: Error_def)

text \<open>\<^verbatim>\<open>what()\<close>: the message as a C string, which ends at a NUL.\<close>

definition error_what :: "sdk_error \<Rightarrow> string" where
  "error_what e = takeWhile (\<lambda>c. c \<noteq> CHR 0x00) (err_what e)"

definition shown :: "sdk_error \<Rightarrow> sdk_error" where
  "shown e = e\<lparr>err_what := error_what e\<rparr>"

lemma error_what_length: "length (error_what e) \<le> length (err_what e)"
  by (simp add: error_what_def length_takeWhile_le)

lemma shown_Error: "CHR 0x00 \<notin> set m \<Longrightarrow> shown (Error c m) = Error c m"
  by (auto simp: shown_def error_what_def Error_def takeWhile_eq_all_conv)

text \<open>
  How a call can fail to return: an SDK error, another exception derived from
  \<^verbatim>\<open>std::exception\<close> (with its \<^verbatim>\<open>what()\<close>), an exception of any other type, or C++ undefined
  behaviour. The last is not an exception: nothing catches it. It marks the signed 64-bit
  overflows the sources may run into.
\<close>

datatype fault =
    Throw sdk_error
  | StdException string
  | ForeignException
  | Undefined

type_synonym 'a result = "fault + 'a"

definition throw :: "error_code \<Rightarrow> string \<Rightarrow> 'a result" where
  "throw c m = Inl (Throw (Error c m))"

fun and_then :: "'a result \<Rightarrow> ('a \<Rightarrow> 'b result) \<Rightarrow> 'b result" where
  "and_then (Inl e) f = Inl e"
| "and_then (Inr x) f = f x"

lemma throw_not_Inr [simp]: "throw c m \<noteq> Inr x" "Inr x \<noteq> throw c m"
  by (simp_all add: throw_def)

lemma throw_eq_throw [simp]: "throw c m = throw c' m' \<longleftrightarrow> c = c' \<and> m = m'"
  by (auto simp: throw_def Error_def)

lemma throw_not_Undefined [simp]: "throw c m \<noteq> Inl Undefined"
  by (simp add: throw_def)

lemma and_then_throw [simp, monad_simps]: "and_then (throw c m) f = throw c m"
  by (simp add: throw_def)

lemma and_then_Inr_iff: "and_then r f = Inr y \<longleftrightarrow> (\<exists>x. r = Inr x \<and> f x = Inr y)"
  by (cases r) auto

lemma and_then_Inl_iff:
  "and_then r f = Inl e \<longleftrightarrow> r = Inl e \<or> (\<exists>x. r = Inr x \<and> f x = Inl e)"
  by (cases r) auto

lemma and_then_InrE [elim!]:
  assumes "and_then r f = Inr y"
  obtains x where "r = Inr x" "f x = Inr y"
  using assms by (auto simp: and_then_Inr_iff)

lemma and_then_assoc: "and_then (and_then r f) g = and_then r (\<lambda>x. and_then (f x) g)"
  by (cases r) auto

declare and_then.simps [monad_simps]

section \<open>Effects\<close>

text \<open>
  Code that reads a clock, draws random bytes, calls a transport or an application callback
  is a function of the world \<open>'w\<close>, which it returns updated, whether it returns or fails.
\<close>

type_synonym ('w, 'a) io = "'w \<Rightarrow> 'a result \<times> 'w"

definition io_return :: "'a \<Rightarrow> ('w, 'a) io" where
  "io_return x w = (Inr x, w)"

definition io_lift :: "'a result \<Rightarrow> ('w, 'a) io" where
  "io_lift r w = (r, w)"

definition io_bind :: "('w, 'a) io \<Rightarrow> ('a \<Rightarrow> ('w, 'b) io) \<Rightarrow> ('w, 'b) io" where
  "io_bind m f w = (case m w of (Inl e, w') \<Rightarrow> (Inl e, w') | (Inr x, w') \<Rightarrow> f x w')"

lemma io_bind_return [simp, monad_simps]: "io_bind (io_return x) f = f x"
  by (rule ext) (simp add: io_bind_def io_return_def)

lemma io_bind_lift_Inr [simp, monad_simps]: "io_bind (io_lift (Inr x)) f = f x"
  by (rule ext) (simp add: io_bind_def io_lift_def)

lemma io_bind_lift_Inl [simp, monad_simps]: "io_bind (io_lift (Inl e)) f = io_lift (Inl e)"
  by (rule ext) (simp add: io_bind_def io_lift_def)

lemma io_bind_right [simp]: "io_bind m io_return = m"
  by (rule ext) (auto simp: io_bind_def io_return_def split: prod.split sum.split)

lemma io_bind_assoc: "io_bind (io_bind m f) g = io_bind m (\<lambda>x. io_bind (f x) g)"
  by (rule ext) (auto simp: io_bind_def split: prod.splits sum.splits)

lemma io_bind_Pair_Inr:
  "m w = (Inr x, w') \<Longrightarrow> io_bind m f w = f x w'"
  by (simp add: io_bind_def)

lemma io_bind_Pair_Inl:
  "m w = (Inl e, w') \<Longrightarrow> io_bind m f w = (Inl e, w')"
  by (simp add: io_bind_def)

lemma io_bind_Inr_iff:
  "io_bind m f w = (Inr y, w'') \<longleftrightarrow> (\<exists>x w'. m w = (Inr x, w') \<and> f x w' = (Inr y, w''))"
  by (auto simp: io_bind_def split: prod.splits sum.splits)

lemma io_bind_InrE [elim!]:
  assumes "io_bind m f w = (Inr y, w'')"
  obtains x w' where "m w = (Inr x, w')" "f x w' = (Inr y, w'')"
  using assms by (auto simp: io_bind_Inr_iff)

lemma io_lift_Pair_iff [simp]: "io_lift r w = (r', w') \<longleftrightarrow> r = r' \<and> w' = w"
  by (auto simp: io_lift_def)

lemma io_return_Pair_iff [simp]: "io_return x w = (r, w') \<longleftrightarrow> r = Inr x \<and> w' = w"
  by (auto simp: io_return_def)

section \<open>Bytes and strings\<close>

type_synonym bytes = "8 word list"

definition byte_of_char :: "char \<Rightarrow> 8 word" where
  "byte_of_char c = of_char c"

definition char_of_byte :: "8 word \<Rightarrow> char" where
  "char_of_byte b = char_of (unat b)"

lemma byte_less: "unat (b :: 8 word) < 256"
  using unsigned_less [of b] by simp

lemma unat_byte_of_char: "unat (byte_of_char c) = of_char c"
proof -
  have "byte_of_char c = word_of_nat (of_char c)"
    by (simp add: byte_of_char_def of_nat_of_char)
  moreover have "of_char c < (2::nat) ^ 8"
    by (simp add: nat_of_char_less_256)
  ultimately show ?thesis
    by (simp add: unat_of_nat)
qed

lemma char_of_byte_of_char [simp]: "char_of_byte (byte_of_char c) = c"
  by (simp add: char_of_byte_def unat_byte_of_char)

lemma byte_of_char_of_byte [simp]: "byte_of_char (char_of_byte b) = b"
proof -
  have "unat b < 256" using unsigned_less [of b] by simp
  then have "unat (byte_of_char (char_of_byte b)) = unat b"
    by (simp add: unat_byte_of_char char_of_byte_def)
  then show ?thesis by (simp only: unsigned_word_eqI)
qed

definition bytes_of :: "string \<Rightarrow> bytes" where
  "bytes_of s = map byte_of_char s"

definition BytesToString :: "bytes \<Rightarrow> string" where
  "BytesToString bs = map char_of_byte bs"

lemma BytesToString_bytes_of [simp]: "BytesToString (bytes_of s) = s"
  by (simp add: BytesToString_def bytes_of_def comp_def)

lemma bytes_of_BytesToString [simp]: "bytes_of (BytesToString bs) = bs"
  by (simp add: BytesToString_def bytes_of_def comp_def)

lemma bytes_of_inject [simp]: "bytes_of s = bytes_of t \<longleftrightarrow> s = t"
  by (metis BytesToString_bytes_of)

lemma length_bytes_of [simp]: "length (bytes_of s) = length s"
  by (simp add: bytes_of_def)

lemma length_BytesToString [simp]: "length (BytesToString bs) = length bs"
  by (simp add: BytesToString_def)

text \<open>Induction in steps of three, for code that consumes its input in groups of three bytes.\<close>

lemma triple_induct [case_names Nil One Two More]:
  assumes "P []" "\<And>x. P [x]" "\<And>x y. P [x, y]" "\<And>x y z xs. P xs \<Longrightarrow> P (x # y # z # xs)"
  shows "P xs"
proof (induction xs rule: length_induct)
  case (1 xs)
  show ?case
  proof (cases xs)
    case (Cons x ys)
    show ?thesis
    proof (cases ys)
      case (Cons y zs)
      then show ?thesis
        using 1 assms \<open>xs = x # ys\<close> by (cases zs) auto
    qed (use assms Cons in auto)
  qed (use assms in auto)
qed

text \<open>
  \<^verbatim>\<open>find\<close> with a start position; \<open>None\<close> is \<^verbatim>\<open>npos\<close>. Since \<^verbatim>\<open>npos + 1\<close> wraps to \<open>0\<close>, searching
  from \<^verbatim>\<open>position + 1\<close> after a failed search starts at \<open>0\<close>.
\<close>

fun find_str :: "string \<Rightarrow> string \<Rightarrow> nat \<Rightarrow> nat option" where
  "find_str pat [] k = (if pat = [] then Some k else None)"
| "find_str pat (c # cs) k =
     (if take (length pat) (c # cs) = pat then Some k else find_str pat cs (Suc k))"

definition find_from :: "string \<Rightarrow> string \<Rightarrow> nat \<Rightarrow> nat option" where
  "find_from s pat pos = (if pos \<le> length s then find_str pat (drop pos s) pos else None)"

definition after_pos :: "nat option \<Rightarrow> nat" where
  "after_pos p = (case p of None \<Rightarrow> 0 | Some i \<Rightarrow> Suc i)"

definition substr :: "string \<Rightarrow> nat \<Rightarrow> nat \<Rightarrow> string" where
  "substr s pos len = take len (drop pos s)"

definition starts_with :: "string \<Rightarrow> string \<Rightarrow> bool" where
  "starts_with s p \<longleftrightarrow> take (length p) s = p"

lemma starts_with_append [simp]: "starts_with (p @ s) p"
  by (simp add: starts_with_def)

lemma find_str_ge: "find_str pat s k = Some i \<Longrightarrow> k \<le> i"
  by (induction pat s k rule: find_str.induct) (auto split: if_splits)

lemma find_str_char_None [simp]: "find_str [c] s k = None \<longleftrightarrow> c \<notin> set s"
  by (induction "[c]" s k rule: find_str.induct) auto

lemma find_str_char_first:
  "c \<notin> set s \<Longrightarrow> find_str [c] (s @ c # t) k = Some (k + length s)"
  by (induction s arbitrary: k) auto

lemma find_str_char_Some:
  "find_str [c] s k = Some i \<Longrightarrow>
     k \<le> i \<and> i - k < length s \<and> s ! (i - k) = c \<and> c \<notin> set (take (i - k) s)"
proof (induction s arbitrary: k)
  case Nil
  then show ?case by simp
next
  case (Cons x xs)
  show ?case
  proof (cases "x = c")
    case True
    with Cons.prems show ?thesis by simp
  next
    case False
    with Cons.prems have f: "find_str [c] xs (Suc k) = Some i" by simp
    have "Suc k \<le> i" by (rule find_str_ge [OF f])
    then obtain j where "i = Suc k + j" by (metis le_iff_add)
    with Cons.IH [OF f] False show ?thesis by simp
  qed
qed

lemma find_from_char_None [simp]:
  "pos \<le> length s \<Longrightarrow> find_from s [c] pos = None \<longleftrightarrow> c \<notin> set (drop pos s)"
  by (simp add: find_from_def)

lemma find_from_0: "find_from s pat 0 = find_str pat s 0"
  by (simp add: find_from_def)

lemma drop_at_index: "i < length s \<Longrightarrow> s = take i s @ s ! i # drop (Suc i) s"
  by (simp add: id_take_nth_drop)

section \<open>Subsequences\<close>

lemma subseq_set: "subseq xs ys \<Longrightarrow> set xs \<subseteq> set ys"
  by (induction rule: list_emb.induct) auto

lemma subseq_distinct: "subseq xs ys \<Longrightarrow> distinct ys \<Longrightarrow> distinct xs"
  by (induction rule: list_emb.induct) (auto dest: subseq_set)

section \<open>Decimal and hexadecimal output\<close>

text \<open>
  \<^verbatim>\<open>std::to_string\<close> and \<^verbatim>\<open>operator<<\<close> of integers; \<^verbatim>\<open>std::setw\<close> with \<^verbatim>\<open>std::setfill('0')\<close>.
\<close>

definition digit_char :: "nat \<Rightarrow> char" where
  "digit_char d = (if d < 10 then char_of (48 + d) else char_of (87 + d))"

fun show_nat :: "nat \<Rightarrow> nat \<Rightarrow> string" where
  "show_nat base n =
     (if n < base \<or> base < 2 then [digit_char n]
      else show_nat base (n div base) @ [digit_char (n mod base)])"

declare show_nat.simps [simp del]

definition to_string :: "int \<Rightarrow> string" where
  "to_string i = (if i < 0 then CHR ''-'' # show_nat 10 (nat (- i)) else show_nat 10 (nat i))"

definition setw :: "nat \<Rightarrow> string \<Rightarrow> string" where
  "setw n s = replicate (n - length s) (CHR ''0'') @ s"

lemma of_char_digit_char: "d < 16 \<Longrightarrow> of_char (digit_char d) = (if d < 10 then 48 + d else 87 + d)"
  by (simp add: digit_char_def)

lemma show_nat_nonempty [simp]: "show_nat base n \<noteq> []"
  by (subst show_nat.simps) simp

definition is_digit :: "char \<Rightarrow> bool" where
  "is_digit c \<longleftrightarrow> 48 \<le> (of_char c :: nat) \<and> of_char c \<le> (57 :: nat)"

lemma is_digit_digit_char [simp]: "d < 10 \<Longrightarrow> is_digit (digit_char d)"
  by (simp add: is_digit_def of_char_digit_char)

lemma show_nat_10_digits: "\<forall>c \<in> set (show_nat 10 n). is_digit c"
proof (induction n rule: less_induct)
  case (less n)
  show ?case
  proof (cases "n < 10")
    case True
    then show ?thesis by (simp add: show_nat.simps [of 10 n])
  next
    case False
    then have "n div 10 < n" by simp
    with less.IH [of "n div 10"] False show ?thesis
      by (auto simp: show_nat.simps [of 10 n])
  qed
qed

section \<open>64-bit signed arithmetic\<close>

definition int64_max :: int where
  "int64_max = 9223372036854775807"

definition int64_min :: int where
  "int64_min = - 9223372036854775808"

definition in_int64 :: "int \<Rightarrow> bool" where
  "in_int64 i \<longleftrightarrow> int64_min \<le> i \<and> i \<le> int64_max"

text \<open>Signed overflow is undefined behaviour.\<close>

definition add64 :: "int \<Rightarrow> int \<Rightarrow> int result" where
  "add64 a b = (if in_int64 (a + b) then Inr (a + b) else Inl Undefined)"

definition mul64 :: "int \<Rightarrow> int \<Rightarrow> int result" where
  "mul64 a b = (if in_int64 (a * b) then Inr (a * b) else Inl Undefined)"

lemma add64_Inr_iff: "add64 a b = Inr c \<longleftrightarrow> in_int64 (a + b) \<and> c = a + b"
  by (auto simp: add64_def)

lemma add64_cases: "add64 a b = Inr (a + b) \<or> add64 a b = Inl Undefined"
  by (simp add: add64_def)

text \<open>\<^verbatim>\<open>duration_cast\<close> to a coarser unit truncates towards zero.\<close>

definition trunc_div :: "int \<Rightarrow> int \<Rightarrow> int" where
  "trunc_div a b =
     (let magnitude = \<bar>a\<bar> div \<bar>b\<bar> in if (a < 0) = (b < 0) then magnitude else - magnitude)"

lemma trunc_div_nonneg: "0 \<le> a \<Longrightarrow> 0 < b \<Longrightarrow> trunc_div a b = a div b"
  by (simp add: trunc_div_def)

lemma trunc_div_mult_self [simp]: "0 < b \<Longrightarrow> trunc_div (a * b) b = a"
  by (auto simp: trunc_div_def Let_def abs_mult mult_less_0_iff)

end
