(* ===== verification/Crypto.thy ===== *)
theory Crypto
  imports Prelude
begin

text \<open>
  \<^verbatim>\<open>src/detail/crypto.cpp\<close>: base64 and base64url encoding, the tolerant base64url decoder the
  webhook receiver uses, constant-time comparison, and the SHA-256 / HMAC-SHA-256 wrappers.
  OpenSSL is not part of the repository: the two \<^verbatim>\<open>EVP\<close> calls are the fields of the record
  \<open>crypto_backend\<close>, which every definition that signs or hashes takes as an argument.

  The lemmas relate the encoder to the arithmetic definition of RFC 4648 (a 24-bit group in
  radix 64), show that decoding undoes encoding for both alphabets, say exactly which inputs
  the decoder accepts and how long its output is, and that the constant-time comparison is
  equality.
\<close>

section \<open>Encoding\<close>

definition group_value :: "8 word \<Rightarrow> 8 word \<Rightarrow> 8 word \<Rightarrow> 32 word" where
  "group_value first second third =
     push_bit 16 (ucast first) OR push_bit 8 (ucast second) OR ucast third"

text \<open>\<^verbatim>\<open>(value >> k) & 0x3f\<close>, the index of a digit in the alphabet.\<close>

definition digit :: "nat \<Rightarrow> 32 word \<Rightarrow> 32 word" where
  "digit k v = drop_bit k v AND 0x3f"

fun Base64 :: "bytes \<Rightarrow> string \<Rightarrow> bool \<Rightarrow> string" where
  "Base64 [] alphabet padding = []"
| "Base64 (first # rest) alphabet padding =
     (let second = (case rest of [] \<Rightarrow> 0 | b # _ \<Rightarrow> b);
          third = (case rest of _ # b # _ \<Rightarrow> b | _ \<Rightarrow> 0);
          v = group_value first second third
      in [alphabet ! unat (digit 18 v), alphabet ! unat (digit 12 v)] @
         (if 1 < length (first # rest) then [alphabet ! unat (digit 6 v)]
          else if padding then ''='' else []) @
         (if 2 < length (first # rest) then [alphabet ! unat (digit 0 v)]
          else if padding then ''='' else []) @
         Base64 (drop 2 rest) alphabet padding)"

definition std_alphabet :: string where
  "std_alphabet = ''ABCDEFGHIJKLMNOPQRSTUVWXYZabcdefghijklmnopqrstuvwxyz0123456789+/''"

definition url_alphabet :: string where
  "url_alphabet = ''ABCDEFGHIJKLMNOPQRSTUVWXYZabcdefghijklmnopqrstuvwxyz0123456789-_''"

definition Base64Encode :: "bytes \<Rightarrow> string" where
  "Base64Encode value = Base64 value std_alphabet True"

definition Base64UrlEncode :: "bytes \<Rightarrow> string" where
  "Base64UrlEncode value = Base64 value url_alphabet False"

text \<open>The overload on \<^verbatim>\<open>std::string_view\<close> views the characters as bytes.\<close>

definition Base64UrlEncode_str :: "string \<Rightarrow> string" where
  "Base64UrlEncode_str value = Base64UrlEncode (bytes_of value)"

section \<open>Decoding\<close>

definition Base64UrlValue :: "char \<Rightarrow> int" where
  "Base64UrlValue ch =
     (if CHR ''A'' \<le> ch \<and> ch \<le> CHR ''Z'' then of_char ch - of_char CHR ''A''
      else if CHR ''a'' \<le> ch \<and> ch \<le> CHR ''z'' then of_char ch - of_char CHR ''a'' + 26
      else if CHR ''0'' \<le> ch \<and> ch \<le> CHR ''9'' then of_char ch - of_char CHR ''0'' + 52
      else if ch = CHR ''-'' \<or> ch = CHR ''+'' then 62
      else if ch = CHR ''_'' \<or> ch = CHR ''/'' then 63
      else - 1)"

text \<open>\<^verbatim>\<open>buffer = (buffer << 6) | decoded\<close> and \<^verbatim>\<open>(buffer >> k) & 0xff\<close>.\<close>

definition shift_in :: "32 word \<Rightarrow> 32 word \<Rightarrow> 32 word" where
  "shift_in buffer decoded = push_bit 6 buffer OR decoded"

definition byte_at :: "nat \<Rightarrow> 32 word \<Rightarrow> 8 word" where
  "byte_at k buffer = ucast (drop_bit k buffer AND 0xff)"

fun decode_loop :: "string \<Rightarrow> 32 word \<Rightarrow> int \<Rightarrow> bytes \<Rightarrow> (int \<times> bytes) result" where
  "decode_loop [] buffer bits output = Inr (bits, output)"
| "decode_loop (ch # rest) buffer bits output =
     (if ch = CHR ''='' then Inr (bits, output)
      else let decoded = Base64UrlValue ch in
        if decoded < 0 then throw ec_authentication ''JWT contains invalid base64url''
        else
          let buffer = shift_in buffer (word_of_int decoded); bits = bits + 6 in
          if 8 \<le> bits then
            let bits = bits - 8 in
            decode_loop rest buffer bits (output @ [byte_at (nat bits) buffer])
          else decode_loop rest buffer bits output)"

definition Base64UrlDecode :: "string \<Rightarrow> bytes result" where
  "Base64UrlDecode value =
     and_then (decode_loop value 0 0 []) (\<lambda>(bits, output).
       if 6 \<le> bits \<or> length value mod 4 = 1
       then throw ec_authentication ''JWT contains malformed base64url''
       else Inr output)"

section \<open>Comparison and digests\<close>

fun difference_loop :: "bytes \<Rightarrow> bytes \<Rightarrow> 8 word \<Rightarrow> 8 word" where
  "difference_loop (l # ls) (r # rs) difference = difference_loop ls rs (difference OR (l XOR r))"
| "difference_loop _ _ difference = difference"

definition ConstantTimeEqual :: "bytes \<Rightarrow> bytes \<Rightarrow> bool" where
  "ConstantTimeEqual left right =
     (if length left \<noteq> length right then False else difference_loop left right 0 = 0)"

definition ConstantTimeEqual_str :: "string \<Rightarrow> string \<Rightarrow> bool" where
  "ConstantTimeEqual_str left right = ConstantTimeEqual (bytes_of left) (bytes_of right)"

text \<open>
  \<^verbatim>\<open>EVP_Digest\<close> returns a status, the size it wrote and the contents of the 32-byte buffer;
  \<^verbatim>\<open>EVP_Q_mac\<close> a pointer that is null on failure, the size and the buffer.
\<close>

record crypto_backend =
  EVP_Digest :: "string \<Rightarrow> int \<times> nat \<times> bytes"
  EVP_Q_mac :: "string \<Rightarrow> string \<Rightarrow> bool \<times> nat \<times> bytes"

definition Sha256 :: "crypto_backend \<Rightarrow> string \<Rightarrow> bytes result" where
  "Sha256 cb value =
     (case EVP_Digest cb value of (status, written, digest) \<Rightarrow>
        if status \<noteq> 1 \<or> written \<noteq> 32 then throw ec_authentication ''SHA-256 operation failed''
        else Inr digest)"

definition HmacSha256 :: "crypto_backend \<Rightarrow> string \<Rightarrow> string \<Rightarrow> bytes result" where
  "HmacSha256 cb secret value =
     (case EVP_Q_mac cb secret value of (ok, written, digest) \<Rightarrow>
        if \<not> ok \<or> written \<noteq> 32 then throw ec_authentication ''HS256 operation failed''
        else Inr digest)"

section \<open>The encoder against RFC 4648\<close>

text \<open>Masking with \<^verbatim>\<open>0x3f\<close> and \<^verbatim>\<open>0xff\<close> is truncation to six and eight bits.\<close>

lemma and_63 [sdk_defs]: "(v :: 32 word) AND 0x3f = take_bit 6 v"
  by (simp add: take_bit_eq_mask mask_eq_exp_minus_1)

lemma and_255 [sdk_defs]: "(v :: 32 word) AND 0xff = take_bit 8 v"
  by (simp add: take_bit_eq_mask mask_eq_exp_minus_1)

lemma unat_group_value:
  "unat (group_value x y z) = unat x * 65536 + unat y * 256 + unat z"
proof -
  have xy: "push_bit 16 (ucast x :: 32 word) AND push_bit 8 (ucast y) = 0"
    by (rule bit_eqI) (auto simp: bit_simps dest: bit_imp_le_length)
  have xyz: "(push_bit 16 (ucast x :: 32 word) OR push_bit 8 (ucast y)) AND ucast z = 0"
    by (rule bit_eqI) (auto simp: bit_simps dest: bit_imp_le_length)
  have "group_value x y z = push_bit 16 (ucast x) + push_bit 8 (ucast y) + ucast z"
    unfolding group_value_def
    by (simp only: disjunctive_add_eq_or [OF xy] disjunctive_add_eq_or [OF xyz] or.assoc)
  then have "group_value x y z = word_of_nat (unat x * 65536 + unat y * 256 + unat z)"
    by (simp add: push_bit_eq_mult)
  moreover have "unat x * 65536 + unat y * 256 + unat z < 2 ^ 32"
    using byte_less [of x] byte_less [of y] byte_less [of z] by simp
  ultimately show ?thesis
    by (simp only: unat_of_nat) simp
qed

lemma unat_drop_bit_div: "unat (drop_bit k (v :: 32 word)) = unat v div 2 ^ k"
  unfolding unat_drop_bit_eq by (simp add: drop_bit_eq_div)

lemma unat_digit: "unat (digit k v) = unat v div 2 ^ k mod 64"
  by (simp only: digit_def and_63 unsigned_take_bit_eq unat_drop_bit_div) (simp add: take_bit_eq_mod)

lemma digit_less [simp]: "unat (digit k v) < 64"
  by (simp add: unat_digit)

text \<open>
  RFC 4648, section 4: 24-bit groups written in radix 64; a final group of one or two bytes is
  completed with zero bits, and its missing digits are padding.
\<close>

fun rfc4648 :: "string \<Rightarrow> bool \<Rightarrow> nat list \<Rightarrow> string" where
  "rfc4648 alphabet padding (x # y # z # rest) =
     (let v = x * 65536 + y * 256 + z in
      map (\<lambda>d. alphabet ! d) [v div 64 ^ 3, v div 64 ^ 2 mod 64, v div 64 mod 64, v mod 64]) @
     rfc4648 alphabet padding rest"
| "rfc4648 alphabet padding [x, y] =
     (let v = x * 65536 + y * 256 in
      map (\<lambda>d. alphabet ! d) [v div 64 ^ 3, v div 64 ^ 2 mod 64, v div 64 mod 64]) @
     (if padding then ''='' else [])"
| "rfc4648 alphabet padding [x] =
     (let v = x * 65536 in
      map (\<lambda>d. alphabet ! d) [v div 64 ^ 3, v div 64 ^ 2 mod 64]) @
     (if padding then ''=='' else [])"
| "rfc4648 alphabet padding [] = []"

lemma top_sextet: "unat (group_value x y z) div 262144 mod 64 = unat (group_value x y z) div 262144"
proof -
  have "unat (group_value x y z) < 64 * 262144"
    using byte_less [of x] byte_less [of y] byte_less [of z] by (simp add: unat_group_value)
  then have "unat (group_value x y z) div 262144 < 64"
    by (simp add: less_mult_imp_div_less)
  then show ?thesis by simp
qed

lemmas top_sextets =
  top_sextet [unfolded unat_group_value]
  top_sextet [where z = 0, unfolded unat_group_value, simplified]
  top_sextet [where y = 0 and z = 0, unfolded unat_group_value, simplified]

lemma Base64_rfc4648: "Base64 bs alphabet padding = rfc4648 alphabet padding (map unat bs)"
  by (induction alphabet padding "map unat bs" arbitrary: bs rule: rfc4648.induct)
    (auto simp: Let_def unat_digit unat_group_value top_sextets)

locale base64_alphabet =
  fixes alphabet :: string
  assumes valid: "i < 64 \<Longrightarrow> Base64UrlValue (alphabet ! i) = int i"
begin

lemma not_pad [simp]: "i < 64 \<Longrightarrow> alphabet ! i \<noteq> CHR ''=''"
  using valid [of i] by (auto simp: Base64UrlValue_def)

lemma not_dot [simp]: "i < 64 \<Longrightarrow> alphabet ! i \<noteq> CHR ''.''"
  using valid [of i] by (auto simp: Base64UrlValue_def)

lemmas not_special [simp] = not_pad [symmetric] not_dot [symmetric]

lemma decode_char:
  assumes "unat w < 64" "bits < 8"
  shows "decode_loop (alphabet ! unat (w :: 32 word) # rest) buffer bits output =
     (let buffer = shift_in buffer w in
      if 2 \<le> bits then decode_loop rest buffer (bits - 2) (output @ [byte_at (nat (bits - 2)) buffer])
      else decode_loop rest buffer (bits + 6) output)"
  using assms valid [of "unat w"] by (simp add: Let_def add.commute)

end

declare decode_loop.simps(2) [simp del]

text \<open>
  The first two, the middle two and the last two digits of a group give back its three bytes,
  whatever is left in the buffer from earlier groups.
\<close>

lemma less_8_cases:
  assumes "n < LENGTH(8)"
  obtains "n = 0" | "n = 1" | "n = 2" | "n = 3" | "n = 4" | "n = 5" | "n = 6" | "n = 7"
  using assms by fastforce

lemmas group_bits = digit_def shift_in_def byte_at_def and_63 and_255 group_value_def bit_simps

lemma group_first [simp]:
  "byte_at 4 (shift_in (shift_in buffer (digit 18 (group_value x y z))) (digit 12 (group_value x y z))) = x"
  by (rule bit_word_eqI, erule less_8_cases) (auto simp: group_bits dest: bit_imp_le_length)

lemma group_second [simp]:
  "byte_at 2 (shift_in (shift_in buffer (digit 12 (group_value x y z))) (digit 6 (group_value x y z))) = y"
  by (rule bit_word_eqI, erule less_8_cases) (auto simp: group_bits dest: bit_imp_le_length)

lemma group_third [simp]:
  "byte_at 0 (shift_in (shift_in buffer (digit 6 (group_value x y z))) (digit 0 (group_value x y z))) = z"
  by (rule bit_word_eqI, erule less_8_cases) (auto simp: group_bits dest: bit_imp_le_length)

text \<open>Bits left in the decoder's buffer after the encoding of \<open>n\<close> bytes.\<close>

definition leftover :: "nat \<Rightarrow> int" where
  "leftover n = (if n mod 3 = 0 then 0 else if n mod 3 = 1 then 4 else 2)"

context base64_alphabet
begin

lemma decode_encoded:
  "decode_loop (Base64 bs alphabet padding) buffer 0 out = Inr (leftover (length bs), out @ bs)"
proof (induction bs arbitrary: buffer out rule: triple_induct)
  case Nil
  then show ?case by (simp add: leftover_def)
next
  case (One x)
  then show ?case by (simp add: Let_def decode_char decode_loop.simps(2) [of "CHR ''=''"] leftover_def)
next
  case (Two x y)
  then show ?case
    by (simp add: Let_def decode_char decode_loop.simps(2) [of "CHR ''=''"] leftover_def)
next
  case (More x y z xs)
  then show ?case
    by (simp add: Let_def decode_char leftover_def)
qed

lemma length_unpadded: "length (Base64 bs alphabet False) = (4 * length bs + 2) div 3"
  by (induction bs rule: triple_induct) (auto simp: Let_def)

lemma length_padded: "length (Base64 bs alphabet True) = 4 * ((length bs + 2) div 3)"
proof (induction bs rule: triple_induct)
  case (More x y z xs)
  have "(length (x # y # z # xs) + 2) div 3 = Suc ((length xs + 2) div 3)"
    by simp
  with More show ?case by (simp add: Let_def)
qed (simp_all add: Let_def)

lemma length_mod_4: "length (Base64 bs alphabet padding) mod 4 \<noteq> 1"
proof (cases padding)
  case True
  then show ?thesis by (simp add: length_padded)
next
  case False
  then show ?thesis by (simp add: length_unpadded) presburger
qed

theorem decode_encode: "Base64UrlDecode (Base64 bs alphabet padding) = Inr bs"
  using length_mod_4 [of bs padding]
  by (simp add: Base64UrlDecode_def decode_encoded leftover_def)

lemma encode_inject: "Base64 bs alphabet padding = Base64 bs' alphabet padding \<longleftrightarrow> bs = bs'"
  by (metis decode_encode sum.inject(2))

lemma no_dot: "CHR ''.'' \<notin> set (Base64 bs alphabet padding)"
  by (induction bs rule: triple_induct) (auto simp: Let_def)

lemma encode_digits: "set (Base64 bs alphabet False) \<subseteq> (!) alphabet ` {..<64}"
  by (induction bs rule: triple_induct) (auto simp: Let_def)

lemma encode_eq_Nil [simp]: "Base64 bs alphabet padding = [] \<longleftrightarrow> bs = []"
  by (cases bs) (auto simp: Let_def)

end

lemma std_values: "list_all (\<lambda>i. Base64UrlValue (std_alphabet ! i) = int i) [0..<64]"
  by code_simp

lemma url_values: "list_all (\<lambda>i. Base64UrlValue (url_alphabet ! i) = int i) [0..<64]"
  by code_simp

interpretation std: base64_alphabet std_alphabet
  by unfold_locales (use std_values in \<open>auto simp: list_all_iff\<close>)

interpretation url: base64_alphabet url_alphabet
  by unfold_locales (use url_values in \<open>auto simp: list_all_iff\<close>)

lemma Base64UrlEncode_chars: "set (Base64UrlEncode bs) \<subseteq> set url_alphabet"
proof -
  have "length url_alphabet = 64" by code_simp
  then show ?thesis using url.encode_digits [of bs] by (fastforce simp: Base64UrlEncode_def)
qed

section \<open>What the decoder accepts\<close>

abbreviation payload :: "string \<Rightarrow> string" where
  "payload s \<equiv> takeWhile (\<lambda>c. c \<noteq> CHR ''='') s"

definition all_digits :: "string \<Rightarrow> bool" where
  "all_digits s \<longleftrightarrow> list_all (\<lambda>c. 0 \<le> Base64UrlValue c) s"

text \<open>One digit adds six bits; a byte leaves the buffer as soon as there are eight.\<close>

lemma decode_loop_digit:
  assumes "ch \<noteq> CHR ''=''" "0 \<le> Base64UrlValue ch" "0 \<le> bits" "bits < 8"
  obtains buffer' bs where
    "decode_loop (ch # rest) buffer bits out = decode_loop rest buffer' ((bits + 6) mod 8) (out @ bs)"
    "int (length bs) = (bits + 6) div 8"
proof (cases "2 \<le> bits")
  case True
  with assms have "(bits + 6) mod 8 = bits - 2" "(bits + 6) div 8 = 1" by presburger+
  with True assms that [of _ "[_]"] show ?thesis
    by (simp add: Let_def decode_loop.simps(2))
next
  case False
  with assms that [of _ "[]"] show ?thesis by (simp add: Let_def decode_loop.simps(2))
qed

lemma carry_div: "(x::int) div 8 + (x mod 8 + y) div 8 = (x + y) div 8"
proof -
  have "((x mod 8 + y) + 8 * (x div 8)) div 8 = x div 8 + (x mod 8 + y) div 8"
    by (rule div_mult_self2) simp
  moreover have "(x mod 8 + y) + 8 * (x div 8) = x + y" by simp
  ultimately show ?thesis by simp
qed

lemma six_more: "(b::int) + 6 + 6 * int n = b + 6 * int (Suc n)"
  by simp

lemma decode_loop_accepts:
  assumes "0 \<le> bits" "bits < 8" "all_digits (payload s)"
  shows "\<exists>bs. decode_loop s buffer bits out =
              Inr ((bits + 6 * int (length (payload s))) mod 8, out @ bs) \<and>
            int (length bs) = (bits + 6 * int (length (payload s))) div 8"
  using assms
proof (induction s arbitrary: buffer bits out)
  case Nil
  then show ?case by simp
next
  case (Cons ch rest)
  show ?case
  proof (cases "ch = CHR ''=''")
    case True
    with Cons.prems show ?thesis by (simp add: decode_loop.simps(2))
  next
    case False
    with Cons.prems obtain buffer' bs where
      d: "decode_loop (ch # rest) buffer bits out = decode_loop rest buffer' ((bits + 6) mod 8) (out @ bs)"
      and l: "int (length bs) = (bits + 6) div 8"
      by (auto simp: all_digits_def intro: decode_loop_digit [of ch bits rest buffer out])
    from False Cons.prems have "all_digits (payload rest)" by (simp add: all_digits_def)
    with Cons.IH [of "(bits + 6) mod 8" buffer' "out @ bs"] obtain bs' where
      d': "decode_loop rest buffer' ((bits + 6) mod 8) (out @ bs) =
        Inr (((bits + 6) mod 8 + 6 * int (length (payload rest))) mod 8, (out @ bs) @ bs')"
      and l': "int (length bs') = ((bits + 6) mod 8 + 6 * int (length (payload rest))) div 8"
      by auto
    have p: "payload (ch # rest) = ch # payload rest" using False by simp
    have "int (length (bs @ bs')) = (bits + 6 * int (length (payload (ch # rest)))) div 8"
      by (simp only: p length_append of_nat_add length_Cons l l' carry_div six_more)
    moreover have "decode_loop (ch # rest) buffer bits out =
        Inr ((bits + 6 * int (length (payload (ch # rest)))) mod 8, out @ bs @ bs')"
      by (simp only: d d' p mod_add_left_eq six_more length_Cons append_assoc)
    ultimately show ?thesis by blast
  qed
qed

lemma decode_loop_rejects:
  assumes "\<not> all_digits (payload s)"
  shows "decode_loop s buffer bits out =
    throw ec_authentication ''JWT contains invalid base64url''"
  using assms
  by (induction s buffer bits out rule: decode_loop.induct)
    (auto simp: all_digits_def Let_def decode_loop.simps(2) split: if_splits)


lemma Base64UrlDecode_Inr:
  "(\<exists>bs. Base64UrlDecode s = Inr bs) \<longleftrightarrow>
     all_digits (payload s) \<and> length (payload s) mod 4 \<noteq> 1 \<and> length s mod 4 \<noteq> 1"
proof (cases "all_digits (payload s)")
  case False
  then show ?thesis by (simp add: Base64UrlDecode_def decode_loop_rejects)
next
  case True
  obtain bs where "decode_loop s 0 0 [] = Inr ((6 * int (length (payload s))) mod 8, bs)"
    using decode_loop_accepts [of 0 s 0 "[]"] True by auto
  moreover have "6 \<le> (6 * int n) mod 8 \<longleftrightarrow> n mod 4 = 1" for n
    by presburger
  ultimately show ?thesis using True by (simp add: Base64UrlDecode_def)
qed

lemma Base64UrlDecode_length:
  assumes "Base64UrlDecode s = Inr bs"
  shows "length bs = 6 * length (payload s) div 8"
proof -
  from assms have "all_digits (payload s)" using Base64UrlDecode_Inr [of s] by blast
  with decode_loop_accepts [of 0 s 0 "[]"] obtain bs' where
    "decode_loop s 0 0 [] = Inr ((6 * int (length (payload s))) mod 8, bs')"
    and l: "int (length bs') = 6 * int (length (payload s)) div 8"
    by auto
  with assms have "bs' = bs" by (simp add: Base64UrlDecode_def split: if_splits)
  with l have "int (length bs) = int (6 * length (payload s) div 8)"
    by (simp add: zdiv_int)
  then show ?thesis by linarith
qed

lemma decode_loop_payload: "decode_loop s buffer bits out = decode_loop (payload s) buffer bits out"
  by (induction s buffer bits out rule: decode_loop.induct)
    (auto simp: decode_loop.simps(2) Let_def)

lemma Base64UrlDecode_payload:
  assumes "length s mod 4 \<noteq> 1" "length (payload s) mod 4 \<noteq> 1"
  shows "Base64UrlDecode s = Base64UrlDecode (payload s)"
  using assms by (simp add: Base64UrlDecode_def decode_loop_payload [of s])

lemma Base64UrlDecode_error:
  assumes "Base64UrlDecode s = Inl f"
  shows "f = Throw (Error ec_authentication ''JWT contains invalid base64url'') \<or>
         f = Throw (Error ec_authentication ''JWT contains malformed base64url'')"
proof (cases "all_digits (payload s)")
  case False
  with assms show ?thesis by (auto simp: Base64UrlDecode_def decode_loop_rejects throw_def)
next
  case True
  with assms decode_loop_accepts [of 0 s 0 "[]"] show ?thesis
    by (auto simp: Base64UrlDecode_def throw_def split: if_splits)
qed

section \<open>Constant-time comparison is equality\<close>

lemma xor_eq_0 [simp]: "(l :: 8 word) XOR r = 0 \<longleftrightarrow> l = r"
  by (auto simp: bit_eq_iff bit_simps)

lemma difference_loop_zero:
  "length ls = length rs \<Longrightarrow> difference_loop ls rs d = 0 \<longleftrightarrow> d = 0 \<and> ls = rs"
  by (induction ls rs d rule: difference_loop.induct) (auto simp: or_eq_0_iff)

lemma ConstantTimeEqual_iff [simp]: "ConstantTimeEqual l r \<longleftrightarrow> l = r"
  by (auto simp: ConstantTimeEqual_def difference_loop_zero)

lemma ConstantTimeEqual_str_iff [simp]: "ConstantTimeEqual_str l r \<longleftrightarrow> l = r"
  by (simp add: ConstantTimeEqual_str_def)


section \<open>The Windows digest\<close>

text \<open>
  \<^verbatim>\<open>BCryptDigest\<close> is the backend of both wrappers on Windows. The CNG calls are fields of
  \<open>bcrypt_backend\<close>: each says whether it succeeded and what it wrote (a handle is \<open>None\<close> when it
  is still null). The model returns, next to the result, the handle operations in the order the
  code performs them; \<open>\<^verbatim>\<open>ULONG\<close>\<close> has 32 bits.
\<close>

record bcrypt_backend =
  OpenAlgorithmProvider :: "bool \<Rightarrow> bool \<times> nat option"
  ObjectLength :: "nat option \<Rightarrow> bool \<times> nat"
  HashLength :: "nat option \<Rightarrow> bool \<times> nat"
  CreateHash :: "nat option \<Rightarrow> nat \<Rightarrow> string option \<Rightarrow> bool \<times> nat option"
  HashData :: "nat option \<Rightarrow> string \<Rightarrow> bool"
  FinishHash :: "nat option \<Rightarrow> nat \<Rightarrow> bool \<times> bytes"

datatype handle_op = OpenAlg nat | CloseAlg nat | NewHash nat | DestroyHash nat

fun on_handle :: "(nat \<Rightarrow> handle_op) \<Rightarrow> nat option \<Rightarrow> handle_op list" where
  "on_handle f None = []"
| "on_handle f (Some h) = [f h]"

definition BCryptDigest ::
    "bcrypt_backend \<Rightarrow> string \<Rightarrow> string \<Rightarrow> bool \<Rightarrow> bytes result \<times> handle_op list" where
  "BCryptDigest bc secret value hmac =
     (if 2 ^ 32 - 1 < length secret \<or> 2 ^ 32 - 1 < length value
      then (throw ec_invalid_argument ''cryptographic input is too large'', [])
      else
        let (opened, algorithm) = OpenAlgorithmProvider bc hmac;
            (sized, object_size) = (if opened then ObjectLength bc algorithm else (False, 0));
            (measured, hash_size) = (if sized then HashLength bc algorithm else (False, 0))
        in if \<not> opened \<or> \<not> sized \<or> \<not> measured
           then (throw ec_authentication ''failed to initialize SHA-256'',
                 on_handle OpenAlg algorithm @ on_handle CloseAlg algorithm)
           else
             let (created, hash) =
                   CreateHash bc algorithm object_size (if hmac then Some secret else None);
                 hashed = (if created then HashData bc hash value else created);
                 (finished, digest) =
                   (if hashed then FinishHash bc hash hash_size
                    else (hashed, replicate hash_size 0));
                 ops = on_handle OpenAlg algorithm @ on_handle NewHash hash @
                       on_handle DestroyHash hash @ on_handle CloseAlg algorithm
             in if \<not> created \<or> \<not> hashed \<or> \<not> finished
                then (throw ec_authentication ''SHA-256 operation failed'', ops)
                else (Inr digest, ops))"

text \<open>
  Handles still open after a sequence of operations: \<open>None\<close> when an operation closes a handle
  that is not open or an algorithm is closed while one of its hashes lives.
\<close>

fun live_handles :: "nat list \<times> nat list \<Rightarrow> handle_op list \<Rightarrow> (nat list \<times> nat list) option" where
  "live_handles live [] = Some live"
| "live_handles (algs, hashes) (OpenAlg h # ops) = live_handles (h # algs, hashes) ops"
| "live_handles (algs, hashes) (NewHash h # ops) = live_handles (algs, h # hashes) ops"
| "live_handles (algs, hashes) (DestroyHash h # ops) =
     (if h \<in> set hashes then live_handles (algs, remove1 h hashes) ops else None)"
| "live_handles (algs, hashes) (CloseAlg h # ops) =
     (if h \<in> set algs \<and> hashes = [] then live_handles (remove1 h algs, hashes) ops else None)"

lemma live_handles_alg [simp]:
  "live_handles ([], []) (on_handle OpenAlg a @ on_handle CloseAlg a) = Some ([], [])"
  by (cases a) simp_all

lemma live_handles_hash [simp]:
  "live_handles ([], [])
     (on_handle OpenAlg a @ on_handle NewHash h @ on_handle DestroyHash h @ on_handle CloseAlg a) =
   Some ([], [])"
  by (cases a; cases h) simp_all

lemma HmacSha256_error:
  "HmacSha256 cb secret v = Inl f \<Longrightarrow> f = Throw (Error ec_authentication ''HS256 operation failed'')"
  by (auto simp: HmacSha256_def throw_def split: prod.splits if_splits)

lemma Sha256_error:
  "Sha256 cb v = Inl f \<Longrightarrow> f = Throw (Error ec_authentication ''SHA-256 operation failed'')"
  by (auto simp: Sha256_def throw_def split: prod.splits if_splits)

section \<open>Properties\<close>

text \<open>
  C28. Decoding undoes encoding: the webhook decoder returns exactly the bytes that either
  encoder (base64url without padding, standard base64 with padding) was given.
\<close>

theorem base64_roundtrip:
  "Base64UrlDecode (Base64UrlEncode bs) = Inr bs \<and> Base64UrlDecode (Base64Encode bs) = Inr bs"
  by (simp add: Base64UrlEncode_def Base64Encode_def url.decode_encode std.decode_encode)

text \<open>
  C30. Both encoders, which work with shifts and masks on a 32-bit word, compute the encoding
  RFC 4648 defines arithmetically on 24-bit groups in radix 64.
\<close>

theorem base64_is_rfc4648:
  "Base64Encode bs = rfc4648 std_alphabet True (map unat bs) \<and>
   Base64UrlEncode bs = rfc4648 url_alphabet False (map unat bs)"
  by (simp add: Base64Encode_def Base64UrlEncode_def Base64_rfc4648)

text \<open>
  C29. What the decoder accepts: it fails, always with an authentication error, unless every
  character before the first \<open>=\<close> is a digit of one of the two alphabets and neither that prefix
  nor the whole text has length 1 modulo 4; otherwise its output has one byte per eight bits of
  the prefix. Whatever follows the first \<open>=\<close> is ignored.
\<close>

theorem base64_decoder_exact:
  "case Base64UrlDecode s of
     Inr bs \<Rightarrow> all_digits (payload s) \<and> length (payload s) mod 4 \<noteq> 1 \<and> length s mod 4 \<noteq> 1 \<and>
       length bs = 6 * length (payload s) div 8 \<and> Base64UrlDecode (payload s) = Inr bs
   | Inl f \<Rightarrow> \<not> (all_digits (payload s) \<and> length (payload s) mod 4 \<noteq> 1 \<and> length s mod 4 \<noteq> 1) \<and>
       (\<exists>m. f = Throw (Error ec_authentication m))"
proof (cases "Base64UrlDecode s")
  case (Inl f)
  then show ?thesis
    using Base64UrlDecode_Inr [of s] Base64UrlDecode_error [of s f] by auto
next
  case (Inr bs)
  then have acc: "all_digits (payload s)" "length (payload s) mod 4 \<noteq> 1" "length s mod 4 \<noteq> 1"
    using Base64UrlDecode_Inr [of s] by auto
  moreover have "length bs = 6 * length (payload s) div 8"
    using Inr by (rule Base64UrlDecode_length)
  moreover have "Base64UrlDecode (payload s) = Inr bs"
    using Base64UrlDecode_payload [OF acc(3,2)] Inr by simp
  ultimately show ?thesis unfolding Inr sum.case by blast
qed

text \<open>
  The comparison that visits every byte and accumulates differences decides equality.
\<close>

theorem constant_time_equal_is_equality:
  "ConstantTimeEqual left right \<longleftrightarrow> left = right"
  by simp

text \<open>
  On every path of the Windows digest, failures included, every algorithm and hash handle
  that was obtained is released exactly once, and the algorithm after its hash.
\<close>

theorem bcrypt_digest_releases_handles:
  "live_handles ([], []) (snd (BCryptDigest bc secret value hmac)) = Some ([], [])"
  by (simp add: BCryptDigest_def Let_def case_prod_unfold)

end
