(* ===== verification/JsonText.thy ===== *)
theory JsonText
  imports Prelude
begin

text \<open>
  A reference reader for compact JSON (RFC 8259 without insignificant whitespace and with
  integer numbers only), against which the text that the SDK writes by hand is judged. It
  models no code of the repository: the SDK parses JSON with protobuf. Strings are byte
  strings; an escape \<^verbatim>\<open>\uXXXX\<close> outside the surrogate range is read as the UTF-8 encoding of the
  code point.

  \<open>denotes t v\<close> says that the text \<open>t\<close> is read as the value \<open>v\<close> wherever it is followed by the
  end of the text or by a structural character; it composes over objects and arrays, so a
  writer that builds its output piece by piece is verified piece by piece.
\<close>

datatype json =
    JNull
  | JBool bool
  | JInt int
  | JString string
  | JArray "json list"
  | JObject "(string \<times> json) list"

section \<open>Strings\<close>

abbreviation (input) quote_char :: char where "quote_char \<equiv> CHR 0x22"
abbreviation (input) backslash :: char where "backslash \<equiv> CHR 0x5C"

definition hex_value :: "char \<Rightarrow> nat option" where
  "hex_value c =
     (if CHR ''0'' \<le> c \<and> c \<le> CHR ''9'' then Some (of_char c - 48)
      else if CHR ''a'' \<le> c \<and> c \<le> CHR ''f'' then Some (of_char c - 87)
      else if CHR ''A'' \<le> c \<and> c \<le> CHR ''F'' then Some (of_char c - 55)
      else None)"

definition utf8 :: "nat \<Rightarrow> string option" where
  "utf8 n =
     (if n < 0x80 then Some [char_of n]
      else if n < 0x800 then Some [char_of (0xC0 + n div 64), char_of (0x80 + n mod 64)]
      else if 0xD800 \<le> n \<and> n \<le> 0xDFFF \<or> 0x10000 \<le> n then None
      else Some [char_of (0xE0 + n div 4096), char_of (0x80 + n div 64 mod 64),
                 char_of (0x80 + n mod 64)])"

fun read_hex4 :: "char \<Rightarrow> char \<Rightarrow> char \<Rightarrow> char \<Rightarrow> string option" where
  "read_hex4 a b c d =
     (case (hex_value a, hex_value b, hex_value c, hex_value d) of
        (Some a', Some b', Some c', Some d') \<Rightarrow> utf8 (((a' * 16 + b') * 16 + c') * 16 + d')
      | _ \<Rightarrow> None)"

definition short_escape :: "char \<Rightarrow> char option" where
  "short_escape c =
     map_of [(quote_char, quote_char), (backslash, backslash), (CHR ''/'', CHR ''/''),
             (CHR ''b'', CHR 0x08), (CHR ''f'', CHR 0x0C), (CHR ''n'', CHR 0x0A),
             (CHR ''r'', CHR 0x0D), (CHR ''t'', CHR 0x09)] c"

definition prepend :: "string \<Rightarrow> (string \<times> string) option \<Rightarrow> (string \<times> string) option" where
  "prepend s r = map_option (\<lambda>(t, rest). (s @ t, rest)) r"

lemma prepend_Some [simp]: "prepend s (Some (t, rest)) = Some (s @ t, rest)"
  by (simp add: prepend_def)

text \<open>Reads the characters of a string up to and including its closing quote.\<close>

fun read_chars :: "string \<Rightarrow> (string \<times> string) option" where
  "read_chars [] = None"
| "read_chars (c # cs) =
     (if c = quote_char then Some ([], cs)
      else if c = backslash then
        (case cs of
           [] \<Rightarrow> None
         | e # es \<Rightarrow>
             if e = CHR ''u'' then
               (case es of
                  h1 # h2 # h3 # h4 # rest \<Rightarrow>
                    (case read_hex4 h1 h2 h3 h4 of
                       None \<Rightarrow> None | Some s \<Rightarrow> prepend s (read_chars rest))
                | _ \<Rightarrow> None)
             else
               (case short_escape e of None \<Rightarrow> None | Some d \<Rightarrow> prepend [d] (read_chars es)))
      else if (of_char c :: nat) < 0x20 then None
      else prepend [c] (read_chars cs))"

section \<open>Values\<close>

fun digits_value :: "nat \<Rightarrow> string \<Rightarrow> nat" where
  "digits_value n [] = n"
| "digits_value n (c # cs) = digits_value (n * 10 + (of_char c - 48)) cs"

definition read_digits :: "string \<Rightarrow> (nat \<times> string) option" where
  "read_digits s =
     (let ds = takeWhile is_digit s in
      if ds = [] \<or> (1 < length ds \<and> hd ds = CHR ''0'') then None
      else Some (digits_value 0 ds, dropWhile is_digit s))"

definition read_int :: "string \<Rightarrow> (json \<times> string) option" where
  "read_int s =
     (case s of
        [] \<Rightarrow> None
      | c # cs \<Rightarrow>
          if c = CHR ''-'' then map_option (\<lambda>(n, rest). (JInt (- int n), rest)) (read_digits cs)
          else map_option (\<lambda>(n, rest). (JInt (int n), rest)) (read_digits s))"

fun read_value :: "nat \<Rightarrow> string \<Rightarrow> (json \<times> string) option"
  and read_members :: "nat \<Rightarrow> string \<Rightarrow> ((string \<times> json) list \<times> string) option"
  and read_elements :: "nat \<Rightarrow> string \<Rightarrow> (json list \<times> string) option" where
  "read_value 0 s = None"
| "read_value (Suc n) s =
     (case s of
        [] \<Rightarrow> None
      | c # cs \<Rightarrow>
          if c = quote_char then
            map_option (\<lambda>(t, rest). (JString t, rest)) (read_chars cs)
          else if c = CHR ''{'' then
            (if starts_with cs ''}'' then Some (JObject [], tl cs)
             else map_option (\<lambda>(ms, rest). (JObject ms, rest)) (read_members n cs))
          else if c = CHR ''['' then
            (if starts_with cs '']'' then Some (JArray [], tl cs)
             else map_option (\<lambda>(vs, rest). (JArray vs, rest)) (read_elements n cs))
          else if starts_with s ''true'' then Some (JBool True, drop 4 s)
          else if starts_with s ''false'' then Some (JBool False, drop 5 s)
          else if starts_with s ''null'' then Some (JNull, drop 4 s)
          else read_int s)"
| "read_members 0 s = None"
| "read_members (Suc n) s =
     (case s of
        [] \<Rightarrow> None
      | c # cs \<Rightarrow>
          if c \<noteq> quote_char then None
          else (case read_chars cs of
                  Some (k, d # ds) \<Rightarrow>
                    if d \<noteq> CHR '':'' then None
                    else (case read_value n ds of
                            Some (v, e # es) \<Rightarrow>
                              if e = CHR '','' then
                                map_option (\<lambda>(ms, rest). ((k, v) # ms, rest)) (read_members n es)
                              else if e = CHR ''}'' then Some ([(k, v)], es)
                              else None
                          | _ \<Rightarrow> None)
                | _ \<Rightarrow> None))"
| "read_elements 0 s = None"
| "read_elements (Suc n) s =
     (case read_value n s of
        Some (v, e # es) \<Rightarrow>
          if e = CHR '','' then map_option (\<lambda>(vs, rest). (v # vs, rest)) (read_elements n es)
          else if e = CHR '']'' then Some ([v], es)
          else None
      | _ \<Rightarrow> None)"

text \<open>The whole text is one value. Its length bounds the nesting, so it is enough fuel.\<close>

definition json_read :: "string \<Rightarrow> json option" where
  "json_read s =
     (case read_value (length s) s of Some (v, []) \<Rightarrow> Some v | _ \<Rightarrow> None)"

section \<open>Composing texts\<close>

definition ends :: "string \<Rightarrow> bool" where
  "ends rest \<longleftrightarrow> rest = [] \<or> hd rest \<in> {CHR '','', CHR ''}'', CHR '']''}"

definition denotes :: "string \<Rightarrow> json \<Rightarrow> bool" where
  "denotes t v \<longleftrightarrow>
     (\<forall>n rest. length t \<le> n \<longrightarrow> ends rest \<longrightarrow> read_value n (t @ rest) = Some (v, rest))"

lemma denotesI:
  assumes "\<And>n rest. length t \<le> n \<Longrightarrow> ends rest \<Longrightarrow> read_value n (t @ rest) = Some (v, rest)"
  shows "denotes t v"
  using assms by (simp add: denotes_def)

lemma denotes_json_read: "denotes t v \<Longrightarrow> json_read t = Some v"
  unfolding denotes_def json_read_def by (force simp: ends_def)

lemma ends_simps [simp]:
  "ends []" "ends (CHR '','' # s)" "ends (CHR ''}'' # s)" "ends (CHR '']'' # s)"
  by (simp_all add: ends_def)

text \<open>Members and elements of a text under construction, separated by commas.\<close>

fun join :: "string list \<Rightarrow> string" where
  "join [] = []"
| "join [t] = t"
| "join (t # ts) = t @ '','' @ join ts"

lemma join_Cons: "join (t # ts) = (if ts = [] then t else t @ '','' @ join ts)"
  by (cases ts) simp_all

lemma join_snoc: "join (ts @ [t]) = (if ts = [] then t else join ts @ '','' @ t)"
  by (induction ts) (auto simp: join_Cons)

definition quoted :: "string \<Rightarrow> string \<Rightarrow> bool" where
  "quoted body s \<longleftrightarrow> (\<forall>rest. read_chars (body @ quote_char # rest) = Some (s, rest))"

definition member :: "string \<times> string \<Rightarrow> string" where
  "member m = (case m of (body, t) \<Rightarrow> [quote_char] @ body @ [quote_char, CHR '':''] @ t)"

lemma member_Pair [simp]:
  "member (body, t) = [quote_char] @ body @ [quote_char, CHR '':''] @ t"
  by (simp add: member_def)

lemma denotes_SucI:
  assumes "t \<noteq> []"
    and "\<And>n rest. length t \<le> Suc n \<Longrightarrow> ends rest \<Longrightarrow> read_value (Suc n) (t @ rest) = Some (v, rest)"
  shows "denotes t v"
proof (rule denotesI)
  fix n rest
  assume "length t \<le> n" "ends rest"
  with assms show "read_value n (t @ rest) = Some (v, rest)" by (cases n) auto
qed

lemma denotes_bool:
  "denotes ''true'' (JBool True)" "denotes ''false'' (JBool False)"
  by (rule denotes_SucI; simp add: starts_with_def)+

lemma denotes_string: "quoted body s \<Longrightarrow> denotes ([quote_char] @ body @ [quote_char]) (JString s)"
  by (rule denotes_SucI) (auto simp: quoted_def)

lemma takeWhile_digits_ends:
  assumes "list_all is_digit ds" "ends rest"
  shows "takeWhile is_digit (ds @ rest) = ds" "dropWhile is_digit (ds @ rest) = rest"
proof -
  have "\<not> is_digit (hd rest)" if "rest \<noteq> []"
    using assms(2) that by (auto simp: ends_def is_digit_def)
  then have "takeWhile is_digit rest = []" "dropWhile is_digit rest = rest"
    by (cases rest; simp)+
  with assms(1) show "takeWhile is_digit (ds @ rest) = ds" "dropWhile is_digit (ds @ rest) = rest"
    by (induction ds) auto
qed

lemma digits_value_append: "digits_value n (s @ t) = digits_value (digits_value n s) t"
  by (induction s arbitrary: n) auto

lemma digits_value_show_nat: "digits_value 0 (show_nat 10 n) = n"
proof (induction n rule: less_induct)
  case (less n)
  show ?case
  proof (cases "n < 10")
    case True
    then show ?thesis by (simp add: show_nat.simps [of 10 n] of_char_digit_char)
  next
    case False
    then show ?thesis using less.IH [of "n div 10"]
      by (simp add: show_nat.simps [of 10 n] digits_value_append of_char_digit_char)
  qed
qed

lemma char_of_48 [simp]: "char_of (48 :: nat) = CHR ''0''"
  by code_simp

lemma digit_char_0 [simp]: "digit_char 0 = CHR ''0''"
  by (simp add: digit_char_def)

lemma show_nat_0 [simp]: "show_nat 10 0 = ''0''"
  by (simp add: show_nat.simps [of 10 0])

lemma hd_show_nat: "hd (show_nat 10 n) = CHR ''0'' \<longleftrightarrow> n = 0"
proof (induction n rule: less_induct)
  case (less n)
  show ?case
  proof (cases "n < 10")
    case True
    have "digit_char n = CHR ''0'' \<longleftrightarrow> n = 0"
      using True of_char_digit_char [of n] by (auto simp: digit_char_def dest: arg_cong [where f = "of_char :: char \<Rightarrow> nat"])
    with True show ?thesis by (simp add: show_nat.simps [of 10 n])
  next
    case False
    then show ?thesis using less.IH [of "n div 10"]
      by (simp add: show_nat.simps [of 10 n])
  qed
qed

lemma list_all_show_nat: "list_all is_digit (show_nat 10 n)"
  using show_nat_10_digits [of n] by (simp add: list_all_iff)

lemma read_digits_show_nat:
  assumes "ends rest"
  shows "read_digits (show_nat 10 n @ rest) = Some (n, rest)"
proof -
  have "\<not> (1 < length (show_nat 10 n) \<and> hd (show_nat 10 n) = CHR ''0'')"
    by (cases n) (auto simp: hd_show_nat)
  then show ?thesis
    using takeWhile_digits_ends [OF list_all_show_nat assms] 
    by (simp add: read_digits_def digits_value_show_nat Let_def)
qed

lemma read_value_digit:
  assumes "is_digit c \<or> c = CHR ''-''"
  shows "read_value (Suc n) (c # cs) = read_int (c # cs)"
proof -
  have "c \<noteq> quote_char" "c \<noteq> CHR ''{''" "c \<noteq> CHR ''[''" "c \<noteq> CHR ''t''" "c \<noteq> CHR ''f''" "c \<noteq> CHR ''n''"
    using assms by (auto simp: is_digit_def)
  then show ?thesis by (simp add: starts_with_def)
qed

lemma denotes_int: "denotes (to_string i) (JInt i)"
proof (rule denotesI)
  fix n rest
  assume n: "length (to_string i) \<le> n" and e: "ends rest"
  obtain m where m: "n = Suc m"
    using n by (cases n) (auto simp: to_string_def split: if_splits)
  show "read_value n (to_string i @ rest) = Some (JInt i, rest)"
  proof (cases "i < 0")
    case True
    then show ?thesis
      using e by (simp add: m to_string_def read_value_digit read_int_def read_digits_show_nat
          del: read_value.simps)
  next
    case False
    obtain c cs where c: "show_nat 10 (nat i) = c # cs"
      by (meson list.exhaust show_nat_nonempty)
    with list_all_show_nat [of "nat i"] have d: "is_digit c" by simp
    then have "c \<noteq> CHR ''-''" by (auto simp: is_digit_def)
    with False c d e show ?thesis
      using read_digits_show_nat [OF e, of "nat i"]
      by (simp add: m to_string_def read_value_digit read_int_def del: read_value.simps)
  qed
qed

lemma read_members_join:
  assumes "ms \<noteq> []" "list_all2 (\<lambda>(body, t) (k, v). quoted body k \<and> denotes t v) ms kvs"
    and "length (join (map member ms)) \<le> n"
  shows "read_members n (join (map member ms) @ CHR ''}'' # rest) = Some (kvs, rest)"
  using assms
proof (induction ms arbitrary: kvs n)
  case Nil
  then show ?case by simp
next
  case (Cons m ms)
  obtain body t where m: "m = (body, t)" by (cases m)
  from Cons.prems(2) obtain k v kvs' where kvs: "kvs = (k, v) # kvs'"
    and q: "quoted body k" and d: "denotes t v"
    and rest: "list_all2 (\<lambda>(body, t) (k, v). quoted body k \<and> denotes t v) ms kvs'"
    by (auto simp: m list_all2_Cons1)
  obtain n' where n: "n = Suc n'"
    using Cons.prems(3) by (cases n) (auto simp: join_Cons m split: if_splits)
  have t: "length t \<le> n'"
    using Cons.prems(3) by (auto simp: n join_Cons m split: if_splits)
  show ?case
  proof (cases "ms = []")
    case True
    with rest q d t show ?thesis
      by (simp add: n m kvs quoted_def denotes_def)
  next
    case False
    have "length (join (map member ms)) \<le> n'"
      using Cons.prems(3) False by (simp add: n join_Cons)
    with Cons.IH [OF False rest] q d t False show ?thesis
      by (simp add: n m kvs quoted_def denotes_def join_Cons)
  qed
qed

lemma denotes_object:
  assumes "list_all2 (\<lambda>(body, t) (k, v). quoted body k \<and> denotes t v) ms kvs"
  shows "denotes (''{'' @ join (map member ms) @ ''}'') (JObject kvs)"
proof (rule denotesI)
  fix n rest
  assume len: "length (''{'' @ join (map member ms) @ ''}'') \<le> n"
  then obtain n' where n: "n = Suc n'" by (cases n) auto
  show "read_value n ((''{'' @ join (map member ms) @ ''}'') @ rest) = Some (JObject kvs, rest)"
  proof (cases ms)
    case Nil
    with assms show ?thesis by (simp add: n starts_with_def)
  next
    case (Cons m ms')
    then have "\<not> starts_with (join (map member ms) @ CHR ''}'' # rest) ''}''"
      by (cases m) (simp add: starts_with_def join_Cons)
    moreover have "read_members n' (join (map member ms) @ CHR ''}'' # rest) = Some (kvs, rest)"
      by (rule read_members_join) (use Cons assms len in \<open>auto simp: n\<close>)
    ultimately show ?thesis by (simp add: n)
  qed
qed

lemma read_elements_join:
  assumes "ts \<noteq> []" "list_all2 denotes ts vs" "length (join ts) < n"
  shows "read_elements n (join ts @ CHR '']'' # rest) = Some (vs, rest)"
  using assms
proof (induction ts arbitrary: vs n)
  case Nil
  then show ?case by simp
next
  case (Cons t ts)
  from Cons.prems(2) obtain v vs' where vs: "vs = v # vs'" and d: "denotes t v"
    and rest: "list_all2 denotes ts vs'"
    by (auto simp: list_all2_Cons1)
  obtain n' where n: "n = Suc n'"
    using Cons.prems(3) by (cases n) auto
  have t: "length t \<le> n'"
    using Cons.prems(3) by (auto simp: n join_Cons split: if_splits)
  show ?case
  proof (cases "ts = []")
    case True
    with rest d t show ?thesis by (simp add: n vs denotes_def)
  next
    case False
    have "length (join ts) < n'"
      using Cons.prems(3) False by (simp add: n join_Cons)
    with Cons.IH [OF False rest] d t False show ?thesis
      by (simp add: n vs denotes_def join_Cons)
  qed
qed

lemma denotes_nonempty: "denotes t v \<Longrightarrow> t \<noteq> []"
proof
  assume "denotes t v" "t = []"
  then have "read_value 0 ([] @ []) = Some (v, [])"
    unfolding denotes_def by (metis ends_simps(1) le0 list.size(3))
  then show False by simp
qed

lemma denotes_array:
  assumes "ts \<noteq> []" "list_all2 denotes ts vs" "\<not> starts_with (hd ts) '']''"
  shows "denotes (''['' @ join ts @ '']'') (JArray vs)"
proof (rule denotesI)
  fix n rest
  assume len: "length (''['' @ join ts @ '']'') \<le> n"
  then obtain n' where n: "n = Suc n'" by (cases n) auto
  obtain t ts' where ts: "ts = t # ts'" using assms(1) by (cases ts) auto
  with assms(2) have "t \<noteq> []" by (auto simp: list_all2_Cons1 dest: denotes_nonempty)
  with assms(3) ts have "\<not> starts_with (join ts @ CHR '']'' # rest) '']''"
    by (cases t) (auto simp: starts_with_def join_Cons)
  moreover have "read_elements n' (join ts @ CHR '']'' # rest) = Some (vs, rest)"
    by (rule read_elements_join) (use assms len in \<open>auto simp: n\<close>)
  ultimately show "read_value n ((''['' @ join ts @ '']'') @ rest) = Some (JArray vs, rest)"
    by (simp add: n)
qed

text \<open>Names without quotes, backslashes and control characters stand for themselves.\<close>

definition plain :: "string \<Rightarrow> bool" where
  "plain s \<longleftrightarrow> list_all (\<lambda>c. c \<noteq> quote_char \<and> c \<noteq> backslash \<and> (0x20::nat) \<le> of_char c) s"

lemma quoted_plain: "plain s \<Longrightarrow> quoted s s"
  unfolding quoted_def plain_def by (induction s) auto


end
