(* ===== verification/AccessToken.thy ===== *)
theory AccessToken
  imports Crypto JsonText
begin

text \<open>
  \<^verbatim>\<open>include/livekit/server/access_token.h\<close> and \<^verbatim>\<open>src/access_token.cpp\<close>: the grants, the token
  builder with its setters, the hand-written JSON of the claims, and \<^verbatim>\<open>ToJwt\<close>.

  A \<^verbatim>\<open>std::map<std::string, std::string>\<close> is an association list strictly sorted by key
  (\<open>std_map\<close>), the order in which it is iterated. A time point is a count of clock ticks since
  the epoch; \<open>ticks\<close> is the number of ticks in a second, which depends on the standard
  library (\<open>10\<^sup>9\<close>, \<open>10\<^sup>6\<close> or \<open>10\<^sup>7\<close>). Durations in seconds are signed 64-bit integers, so the
  addition that computes the expiry can overflow.

  The lemmas show that escaping is invertible for every byte string, that the claims are read
  back by the reference reader of \<open>JsonText\<close> as exactly the object the setters describe, and
  that the three parts of the token decode to the header, the claims and their HMAC.
\<close>

section \<open>Grants and the token builder\<close>

record VideoGrant =
  vg_room_create :: bool
  vg_room_list :: bool
  vg_room_record :: bool
  vg_room_admin :: bool
  vg_room_join :: bool
  vg_room :: string
  vg_destination_room :: string
  vg_ingress_admin :: bool
  vg_can_publish :: "bool option"
  vg_can_subscribe :: "bool option"
  vg_can_publish_data :: "bool option"
  vg_can_update_own_metadata :: "bool option"
  vg_can_publish_sources :: "string list"
  vg_hidden :: bool
  vg_recorder :: bool
  vg_agent :: bool

definition empty_VideoGrant :: VideoGrant where
  "empty_VideoGrant =
     \<lparr>vg_room_create = False, vg_room_list = False, vg_room_record = False, vg_room_admin = False,
      vg_room_join = False, vg_room = [], vg_destination_room = [], vg_ingress_admin = False,
      vg_can_publish = None, vg_can_subscribe = None, vg_can_publish_data = None,
      vg_can_update_own_metadata = None, vg_can_publish_sources = [], vg_hidden = False,
      vg_recorder = False, vg_agent = False\<rparr>"

record SipGrant =
  sg_admin :: bool
  sg_call :: bool

record AgentGrant =
  ag_admin :: bool
  ag_simulation_admin :: bool

type_synonym std_map = "(string \<times> string) list"

record AccessToken =
  at_api_key :: string
  at_api_secret :: string
  at_identity :: string
  at_name :: string
  at_metadata :: string
  at_attributes :: std_map
  at_valid_for :: int
  at_video_grant :: "VideoGrant option"
  at_sip_grant :: "SipGrant option"
  at_agent_grant :: "AgentGrant option"

text \<open>The constructor; the lifetime defaults to six hours.\<close>

definition new_AccessToken :: "string \<Rightarrow> string \<Rightarrow> AccessToken" where
  "new_AccessToken api_key api_secret =
     \<lparr>at_api_key = api_key, at_api_secret = api_secret, at_identity = [], at_name = [],
      at_metadata = [], at_attributes = [], at_valid_for = 6 * 3600, at_video_grant = None,
      at_sip_grant = None, at_agent_grant = None\<rparr>"

definition SetIdentity :: "string \<Rightarrow> AccessToken \<Rightarrow> AccessToken" where
  "SetIdentity identity t = t\<lparr>at_identity := identity\<rparr>"

definition SetName :: "string \<Rightarrow> AccessToken \<Rightarrow> AccessToken" where
  "SetName name t = t\<lparr>at_name := name\<rparr>"

definition SetMetadata :: "string \<Rightarrow> AccessToken \<Rightarrow> AccessToken" where
  "SetMetadata metadata t = t\<lparr>at_metadata := metadata\<rparr>"

definition SetAttributes :: "std_map \<Rightarrow> AccessToken \<Rightarrow> AccessToken" where
  "SetAttributes attributes t = t\<lparr>at_attributes := attributes\<rparr>"

definition SetValidFor :: "int \<Rightarrow> AccessToken \<Rightarrow> AccessToken result" where
  "SetValidFor valid_for t =
     (if valid_for \<le> 0 then throw ec_invalid_argument ''token lifetime must be positive''
      else Inr (t\<lparr>at_valid_for := valid_for\<rparr>))"

definition SetVideoGrant :: "VideoGrant \<Rightarrow> AccessToken \<Rightarrow> AccessToken" where
  "SetVideoGrant grant t = t\<lparr>at_video_grant := Some grant\<rparr>"

definition SetSipGrant :: "SipGrant \<Rightarrow> AccessToken \<Rightarrow> AccessToken" where
  "SetSipGrant grant t = t\<lparr>at_sip_grant := Some grant\<rparr>"

definition SetAgentGrant :: "AgentGrant \<Rightarrow> AccessToken \<Rightarrow> AccessToken" where
  "SetAgentGrant grant t = t\<lparr>at_agent_grant := Some grant\<rparr>"

lemmas setter_defs = SetIdentity_def SetName_def SetMetadata_def SetAttributes_def
  SetVideoGrant_def SetSipGrant_def SetAgentGrant_def

section \<open>Writing JSON\<close>

definition escape_char :: "char \<Rightarrow> string" where
  "escape_char ch =
     (if ch = quote_char then [backslash, quote_char]
      else if ch = backslash then [backslash, backslash]
      else if ch = CHR 0x08 then [backslash, CHR ''b'']
      else if ch = CHR 0x0C then [backslash, CHR ''f'']
      else if ch = CHR 0x0A then [backslash, CHR ''n'']
      else if ch = CHR 0x0D then [backslash, CHR ''r'']
      else if ch = CHR 0x09 then [backslash, CHR ''t'']
      else if (of_char ch :: nat) < 0x20
      then [backslash, CHR ''u''] @ setw 4 (show_nat 16 (of_char ch))
      else [ch])"

definition EscapeJson :: "string \<Rightarrow> string" where
  "EscapeJson value = concat (map escape_char value)"

text \<open>An output stream together with the \<open>first\<close> flag the helpers thread through.\<close>

type_synonym json_stream = "string \<times> bool"

definition separator :: "bool \<Rightarrow> string" where
  "separator first = (if first then [] else '','')"

fun AddBool :: "json_stream \<Rightarrow> string \<Rightarrow> bool \<Rightarrow> bool \<Rightarrow> json_stream" where
  "AddBool (json, first) name value include_false =
     (if \<not> value \<and> \<not> include_false then (json, first)
      else (json @ separator first @ [quote_char] @ name @ [quote_char, CHR '':''] @
              (if value then ''true'' else ''false''), False))"

fun AddString :: "json_stream \<Rightarrow> string \<Rightarrow> string \<Rightarrow> json_stream" where
  "AddString (json, first) name value =
     (if value = [] then (json, first)
      else (json @ separator first @ [quote_char] @ name @ [quote_char, CHR '':'', quote_char] @
              EscapeJson value @ [quote_char], False))"

definition AddOptional :: "json_stream \<Rightarrow> string \<Rightarrow> bool option \<Rightarrow> json_stream" where
  "AddOptional s name value = (case value of None \<Rightarrow> s | Some b \<Rightarrow> AddBool s name b True)"

fun sources_loop :: "bool \<Rightarrow> string list \<Rightarrow> string" where
  "sources_loop first [] = []"
| "sources_loop first (v # vs) =
     separator first @ [quote_char] @ EscapeJson v @ [quote_char] @ sources_loop False vs"

fun AddSources :: "json_stream \<Rightarrow> string list \<Rightarrow> json_stream" where
  "AddSources (json, first) sources =
     (if sources = [] then (json, first)
      else (json @ separator first @ [quote_char] @ ''canPublishSources'' @
              [quote_char, CHR '':'', CHR ''[''] @ sources_loop True sources @ '']'', False))"

definition VideoGrantJson :: "VideoGrant \<Rightarrow> string" where
  "VideoGrantJson grant =
     (let s = (''{'', True);
          s = AddBool s ''roomCreate'' (vg_room_create grant) False;
          s = AddBool s ''roomList'' (vg_room_list grant) False;
          s = AddBool s ''roomRecord'' (vg_room_record grant) False;
          s = AddBool s ''roomAdmin'' (vg_room_admin grant) False;
          s = AddBool s ''roomJoin'' (vg_room_join grant) False;
          s = AddString s ''room'' (vg_room grant);
          s = AddString s ''destinationRoom'' (vg_destination_room grant);
          s = AddBool s ''ingressAdmin'' (vg_ingress_admin grant) False;
          s = AddOptional s ''canPublish'' (vg_can_publish grant);
          s = AddOptional s ''canSubscribe'' (vg_can_subscribe grant);
          s = AddOptional s ''canPublishData'' (vg_can_publish_data grant);
          s = AddOptional s ''canUpdateOwnMetadata'' (vg_can_update_own_metadata grant);
          s = AddSources s (vg_can_publish_sources grant);
          s = AddBool s ''hidden'' (vg_hidden grant) False;
          s = AddBool s ''recorder'' (vg_recorder grant) False;
          s = AddBool s ''agent'' (vg_agent grant) False
      in fst s @ ''}'')"

fun attributes_loop :: "bool \<Rightarrow> std_map \<Rightarrow> string" where
  "attributes_loop first [] = []"
| "attributes_loop first ((key, value) # rest) =
     separator first @ [quote_char] @ EscapeJson key @ [quote_char, CHR '':'', quote_char] @
     EscapeJson value @ [quote_char] @ attributes_loop False rest"

section \<open>Signing\<close>

definition string_member :: "string \<Rightarrow> string \<Rightarrow> string" where
  "string_member name value =
     [quote_char] @ name @ [quote_char, CHR '':'', quote_char] @ EscapeJson value @ [quote_char]"

definition int_member :: "string \<Rightarrow> int \<Rightarrow> string" where
  "int_member name value = [quote_char] @ name @ [quote_char, CHR '':''] @ to_string value"

definition object_member :: "string \<Rightarrow> string \<Rightarrow> string" where
  "object_member name body = [quote_char] @ name @ [quote_char, CHR '':''] @ body"

text \<open>The stream \<open>claims\<close> of \<^verbatim>\<open>ToJwt\<close>.\<close>

definition claims_json :: "AccessToken \<Rightarrow> int \<Rightarrow> int \<Rightarrow> string" where
  "claims_json t issued_at expires_at =
     ''{'' @ string_member ''iss'' (at_api_key t) @
     '','' @ int_member ''nbf'' issued_at @
     '','' @ int_member ''exp'' expires_at @
     '','' @ int_member ''iat'' issued_at @
     (if at_identity t \<noteq> [] then '','' @ string_member ''sub'' (at_identity t) else []) @
     (if at_name t \<noteq> [] then '','' @ string_member ''name'' (at_name t) else []) @
     (if at_metadata t \<noteq> [] then '','' @ string_member ''metadata'' (at_metadata t) else []) @
     (if at_attributes t \<noteq> []
      then '','' @ object_member ''attributes''
             (''{'' @ attributes_loop True (at_attributes t) @ ''}'') else []) @
     (case at_video_grant t of None \<Rightarrow> []
      | Some g \<Rightarrow> '','' @ object_member ''video'' (VideoGrantJson g)) @
     (case at_sip_grant t of None \<Rightarrow> []
      | Some g \<Rightarrow>
          (let s = AddBool (''{'', True) ''admin'' (sg_admin g) False;
               s = AddBool s ''call'' (sg_call g) False
           in '','' @ object_member ''sip'' (fst s @ ''}''))) @
     (case at_agent_grant t of None \<Rightarrow> []
      | Some g \<Rightarrow>
          (let s = AddBool (''{'', True) ''admin'' (ag_admin g) False;
               s = AddBool s ''simulationAdmin'' (ag_simulation_admin g) False
           in '','' @ object_member ''agent'' (fst s @ ''}''))) @
     ''}''"

definition jwt_header :: string where
  "jwt_header =
     ''{'' @ object_member ''alg'' ([quote_char] @ ''HS256'' @ [quote_char]) @ '','' @
     object_member ''typ'' ([quote_char] @ ''JWT'' @ [quote_char]) @ ''}''"

definition sign_claims :: "crypto_backend \<Rightarrow> string \<Rightarrow> string \<Rightarrow> string result" where
  "sign_claims cb secret claims =
     (let unsigned_token = Base64UrlEncode_str jwt_header @ ''.'' @ Base64UrlEncode_str claims
      in and_then (HmacSha256 cb secret unsigned_token) (\<lambda>signature.
           Inr (unsigned_token @ ''.'' @ Base64UrlEncode signature)))"

definition ToJwt :: "crypto_backend \<Rightarrow> int \<Rightarrow> AccessToken \<Rightarrow> int \<Rightarrow> string result" where
  "ToJwt cb ticks t now =
     (if at_api_key t = [] \<or> at_api_secret t = []
      then throw ec_authentication ''API key and secret are required to sign a token''
      else
        let issued_at = trunc_div now ticks
        in and_then (add64 issued_at (at_valid_for t)) (\<lambda>expires_at.
             sign_claims cb (at_api_secret t) (claims_json t issued_at expires_at)))"

section \<open>Escaping\<close>

lemma hex_digits: "list_all (\<lambda>d. hex_value (digit_char d) = Some d) [0..<16]"
  by code_simp

lemma hex_value_digit_char: "d < 16 \<Longrightarrow> hex_value (digit_char d) = Some d"
  using hex_digits by (auto simp: list_all_iff)

lemma replicate_small: "replicate 3 x = [x, x, x]" "replicate 2 x = [x, x]"
  by (simp_all add: numeral_eq_Suc)

lemma setw_4_hex:
  assumes "n < 32"
  shows "setw 4 (show_nat 16 n) = [CHR ''0'', CHR ''0'', digit_char (n div 16), digit_char (n mod 16)]"
proof (cases "n < 16")
  case True
  then show ?thesis by (simp add: setw_def show_nat.simps [of 16 n] replicate_small)
next
  case False
  with assms have "n div 16 = 1" by (simp add: div_nat_eqI)
  with False show ?thesis
    by (simp add: setw_def show_nat.simps [of 16 n] show_nat.simps [of 16 "Suc 0"] replicate_small)
qed

lemma read_chars_escape_char:
  "read_chars (escape_char ch @ rest) = prepend [ch] (read_chars rest)"
proof (cases "(of_char ch :: nat) < 0x20 \<and> ch \<noteq> CHR 0x08 \<and> ch \<noteq> CHR 0x0C \<and> ch \<noteq> CHR 0x0A \<and>
    ch \<noteq> CHR 0x0D \<and> ch \<noteq> CHR 0x09")
  case True
  define n :: nat where "n = of_char ch"
  have n: "n < 32" using True by (simp add: n_def)
  from True have lt: "(of_char ch :: nat) < 0x20" by (rule conjunct1)
  have "ch \<noteq> quote_char" "ch \<noteq> backslash" by (rule notI, use lt in simp)+
  with True have "escape_char ch = [backslash, CHR ''u''] @ setw 4 (show_nat 16 n)"
    unfolding escape_char_def n_def by (simp only: if_False if_True simp_thms)
  moreover have "read_hex4 (CHR ''0'') (CHR ''0'') (digit_char (n div 16)) (digit_char (n mod 16)) = Some [ch]"
  proof -
    have "hex_value (CHR ''0'') = Some 0" using hex_value_digit_char [of 0] by simp
    moreover have "hex_value (digit_char (n div 16)) = Some (n div 16)"
      by (rule hex_value_digit_char) (use n in simp)
    moreover have "hex_value (digit_char (n mod 16)) = Some (n mod 16)"
      by (rule hex_value_digit_char) simp
    moreover have "utf8 n = Some [ch]" using n by (simp add: utf8_def) (simp add: n_def)
    ultimately show ?thesis by simp
  qed
  ultimately show ?thesis by (simp add: setw_4_hex [OF n])
next
  case False
  then show ?thesis
    by (auto simp: escape_char_def short_escape_def)
qed

lemma quoted_EscapeJson: "quoted (EscapeJson s) s"
  unfolding quoted_def
  by (induction s) (simp_all add: EscapeJson_def read_chars_escape_char)

lemma denotes_escaped:
  "denotes ([quote_char] @ EscapeJson s @ [quote_char]) (JString s)"
  by (rule denotes_string) (rule quoted_EscapeJson)

section \<open>Streams of members\<close>

definition render :: "(string \<times> string) list \<Rightarrow> json_stream" where
  "render ms = (''{'' @ join (map member ms), ms = [])"

lemma render_Nil: "render [] = (''{'', True)"
  by (simp add: render_def)

lemma render_snoc:
  "(fst (render ms) @ separator (snd (render ms)) @ member m, False) = render (ms @ [m])"
  by (simp add: render_def join_snoc separator_def)

definition bool_text :: "bool \<Rightarrow> string" where
  "bool_text b = (if b then ''true'' else ''false'')"

lemma AddBool_render:
  "AddBool (render ms) name v inc =
     render (ms @ (if v \<or> inc then [(name, bool_text v)] else []))"
  by (auto simp: render_snoc [symmetric] bool_text_def) (auto simp: render_def)

lemma AddString_render:
  "AddString (render ms) name v =
     render (ms @ (if v = [] then [] else [(name, [quote_char] @ EscapeJson v @ [quote_char])]))"
  by (auto simp: render_snoc [symmetric]) (auto simp: render_def)

lemma AddOptional_render:
  "AddOptional (render ms) name v =
     render (ms @ (case v of None \<Rightarrow> [] | Some b \<Rightarrow> [(name, bool_text b)]))"
  by (auto simp: AddOptional_def AddBool_render simp del: AddBool.simps split: option.splits)

lemma sources_loop_join:
  "sources_loop first vs =
     (if vs = [] then [] else separator first @ join (map (\<lambda>v. [quote_char] @ EscapeJson v @ [quote_char]) vs))"
  by (induction first vs rule: sources_loop.induct) (auto simp: join_Cons separator_def)

lemma AddSources_render:
  "AddSources (render ms) vs =
     render (ms @ (if vs = [] then [] else [(''canPublishSources'',
        ''['' @ join (map (\<lambda>v. [quote_char] @ EscapeJson v @ [quote_char]) vs) @ '']'')]))"
  by (auto simp: render_snoc [symmetric])
    (auto simp: render_def sources_loop_join separator_def)

lemma attributes_loop_join:
  "attributes_loop first ms =
     (if ms = [] then [] else separator first @
        join (map (\<lambda>(k, v). member (EscapeJson k, [quote_char] @ EscapeJson v @ [quote_char])) ms))"
  by (induction first ms rule: attributes_loop.induct) (auto simp: join_Cons separator_def)

section \<open>What the claims say\<close>

definition flag :: "string \<Rightarrow> bool \<Rightarrow> (string \<times> json) list" where
  "flag name b = (if b then [(name, JBool True)] else [])"

definition text_field :: "string \<Rightarrow> string \<Rightarrow> (string \<times> json) list" where
  "text_field name v = (if v = [] then [] else [(name, JString v)])"

definition optional_flag :: "string \<Rightarrow> bool option \<Rightarrow> (string \<times> json) list" where
  "optional_flag name v = (case v of None \<Rightarrow> [] | Some b \<Rightarrow> [(name, JBool b)])"

definition video_members :: "VideoGrant \<Rightarrow> (string \<times> json) list" where
  "video_members g =
     flag ''roomCreate'' (vg_room_create g) @ flag ''roomList'' (vg_room_list g) @
     flag ''roomRecord'' (vg_room_record g) @ flag ''roomAdmin'' (vg_room_admin g) @
     flag ''roomJoin'' (vg_room_join g) @ text_field ''room'' (vg_room g) @
     text_field ''destinationRoom'' (vg_destination_room g) @
     flag ''ingressAdmin'' (vg_ingress_admin g) @
     optional_flag ''canPublish'' (vg_can_publish g) @
     optional_flag ''canSubscribe'' (vg_can_subscribe g) @
     optional_flag ''canPublishData'' (vg_can_publish_data g) @
     optional_flag ''canUpdateOwnMetadata'' (vg_can_update_own_metadata g) @
     (if vg_can_publish_sources g = [] then []
      else [(''canPublishSources'', JArray (map JString (vg_can_publish_sources g)))]) @
     flag ''hidden'' (vg_hidden g) @ flag ''recorder'' (vg_recorder g) @ flag ''agent'' (vg_agent g)"

definition claims_members :: "AccessToken \<Rightarrow> int \<Rightarrow> int \<Rightarrow> (string \<times> json) list" where
  "claims_members t issued_at expires_at =
     [(''iss'', JString (at_api_key t)), (''nbf'', JInt issued_at), (''exp'', JInt expires_at),
      (''iat'', JInt issued_at)] @
     text_field ''sub'' (at_identity t) @ text_field ''name'' (at_name t) @
     text_field ''metadata'' (at_metadata t) @
     (if at_attributes t = [] then []
      else [(''attributes'', JObject (map (\<lambda>(k, v). (k, JString v)) (at_attributes t)))]) @
     (case at_video_grant t of None \<Rightarrow> [] | Some g \<Rightarrow> [(''video'', JObject (video_members g))]) @
     (case at_sip_grant t of None \<Rightarrow> []
      | Some g \<Rightarrow> [(''sip'', JObject (flag ''admin'' (sg_admin g) @ flag ''call'' (sg_call g)))]) @
     (case at_agent_grant t of None \<Rightarrow> []
      | Some g \<Rightarrow> [(''agent'', JObject (flag ''admin'' (ag_admin g) @
                                     flag ''simulationAdmin'' (ag_simulation_admin g)))])"

text \<open>Texts of members against the members they denote, list by list.\<close>

definition matches :: "(string \<times> string) list \<Rightarrow> (string \<times> json) list \<Rightarrow> bool" where
  "matches = list_all2 (\<lambda>(body, t) (k, v). quoted body k \<and> denotes t v)"

lemma matches_Nil [simp, intro]: "matches [] []"
  by (simp add: matches_def)

lemma matches_append [intro]: "matches ms kvs \<Longrightarrow> matches ms' kvs' \<Longrightarrow> matches (ms @ ms') (kvs @ kvs')"
  by (simp add: matches_def list_all2_appendI)

lemma matches_single: "plain k \<Longrightarrow> denotes t v \<Longrightarrow> matches [(k, t)] [(k, v)]"
  by (simp add: matches_def quoted_plain)

lemma denotes_render:
  assumes "matches ms kvs"
  shows "denotes (fst (render ms) @ ''}'') (JObject kvs)"
  using denotes_object [OF assms [unfolded matches_def]] by (simp add: render_def)

lemma denotes_bool_text: "denotes (bool_text b) (JBool b)"
  by (simp add: bool_text_def denotes_bool)

lemma matches_flag [intro]:
  "plain k \<Longrightarrow> matches (if b \<or> False then [(k, bool_text b)] else []) (flag k b)"
  using denotes_bool_text [of True] by (auto simp: flag_def intro: matches_single)

lemma matches_text_field [intro]:
  "plain k \<Longrightarrow>
   matches (if v = [] then [] else [(k, [quote_char] @ EscapeJson v @ [quote_char])]) (text_field k v)"
  using denotes_escaped [of v] by (auto simp: text_field_def intro: matches_single)

lemma matches_optional_flag [intro]:
  "plain k \<Longrightarrow>
   matches (case v of None \<Rightarrow> [] | Some b \<Rightarrow> [(k, bool_text b)]) (optional_flag k v)"
  by (auto simp: optional_flag_def intro: matches_single denotes_bool_text split: option.split)

lemma matches_sources [intro]:
  "matches (if vs = [] then [] else [(''canPublishSources'',
        ''['' @ join (map (\<lambda>v. [quote_char] @ EscapeJson v @ [quote_char]) vs) @ '']'')])
     (if vs = [] then [] else [(''canPublishSources'', JArray (map JString vs))])"
proof (cases "vs = []")
  case False
  have "denotes (''['' @ join (map (\<lambda>v. [quote_char] @ EscapeJson v @ [quote_char]) vs) @ '']'')
      (JArray (map JString vs))"
    by (rule denotes_array)
      (use False in \<open>auto simp: list_all2_map1 list_all2_map2 list_all2_same hd_map starts_with_def
         denotes_escaped [simplified]\<close>)
  with False show ?thesis by (auto intro: matches_single simp: plain_def)
qed auto

lemma denotes_VideoGrantJson: "denotes (VideoGrantJson g) (JObject (video_members g))"
  unfolding VideoGrantJson_def Let_def render_Nil [symmetric]
    AddBool_render AddString_render AddOptional_render AddSources_render append.assoc append_Nil
  by (rule denotes_render, unfold video_members_def)
    (intro matches_append matches_flag matches_text_field matches_optional_flag matches_sources;
      simp add: plain_def)

lemma denotes_SipGrant:
  "denotes (fst (AddBool (AddBool (''{'', True) n1 b1 False) n2 b2 False) @ ''}'')
     (JObject (flag n1 b1 @ flag n2 b2))" if "plain n1" "plain n2"
  unfolding render_Nil [symmetric] AddBool_render append_Nil
  using that by (intro denotes_render matches_append matches_flag)

lemma denotes_attributes:
  "denotes (''{'' @ attributes_loop True ms @ ''}'') (JObject (map (\<lambda>(k, v). (k, JString v)) ms))"
proof -
  have "matches (map (\<lambda>(k, v). (EscapeJson k, [quote_char] @ EscapeJson v @ [quote_char])) ms)
      (map (\<lambda>(k, v). (k, JString v)) ms)"
    unfolding matches_def
    by (auto simp: list_all2_map1 list_all2_map2 list_all2_same quoted_EscapeJson
        denotes_escaped [simplified])
  from denotes_object [OF this [unfolded matches_def]] show ?thesis
    by (cases "ms = []") (simp_all add: attributes_loop_join separator_def comp_def case_prod_unfold)
qed

text \<open>The members the claims stream writes, as (name, text) pairs.\<close>

definition claims_texts :: "AccessToken \<Rightarrow> int \<Rightarrow> int \<Rightarrow> (string \<times> string) list" where
  "claims_texts t issued_at expires_at =
     (let str = (\<lambda>n v. (n, [quote_char] @ EscapeJson v @ [quote_char]));
          opt = (\<lambda>n v. if v = [] then [] else [str n v])
      in [str ''iss'' (at_api_key t), (''nbf'', to_string issued_at), (''exp'', to_string expires_at),
          (''iat'', to_string issued_at)] @
         opt ''sub'' (at_identity t) @ opt ''name'' (at_name t) @ opt ''metadata'' (at_metadata t) @
         (if at_attributes t = [] then []
          else [(''attributes'', ''{'' @ attributes_loop True (at_attributes t) @ ''}'')]) @
         (case at_video_grant t of None \<Rightarrow> [] | Some g \<Rightarrow> [(''video'', VideoGrantJson g)]) @
         (case at_sip_grant t of None \<Rightarrow> []
          | Some g \<Rightarrow> [(''sip'', fst (AddBool (AddBool (''{'', True) ''admin'' (sg_admin g) False)
                                     ''call'' (sg_call g) False) @ ''}'')]) @
         (case at_agent_grant t of None \<Rightarrow> []
          | Some g \<Rightarrow> [(''agent'', fst (AddBool (AddBool (''{'', True) ''admin'' (ag_admin g) False)
                                     ''simulationAdmin'' (ag_simulation_admin g) False) @ ''}'')]))"

text \<open>Every member after the first four is written with a leading comma.\<close>

definition comma :: "(string \<times> string) list \<Rightarrow> string" where
  "comma ms = concat (map (\<lambda>m. '','' @ member m) ms)"

lemma comma_simps [simp]:
  "comma [] = []" "comma (ms @ ms') = comma ms @ comma ms'" "comma [m] = '','' @ member m"
  by (simp_all add: comma_def)

lemma join_comma: "join (map member (m # ms)) = member m @ comma ms"
  by (induction ms arbitrary: m) (auto simp: join_Cons comma_def)

lemma claims_json_join:
  "claims_json t issued_at expires_at =
     ''{'' @ join (map member (claims_texts t issued_at expires_at)) @ ''}''"
proof -
  have "comma (m # ms) = '','' @ member m @ comma ms" for m ms by (simp add: comma_def)
  then show ?thesis
    unfolding claims_json_def claims_texts_def Let_def append.simps(2) join_comma
    by (simp add: string_member_def int_member_def object_member_def split: option.splits)
qed

declare AddBool.simps [simp del]

lemma matches_option:
  "(\<And>x. matches (f x) (g x)) \<Longrightarrow>
   matches (case v of None \<Rightarrow> [] | Some x \<Rightarrow> f x) (case v of None \<Rightarrow> [] | Some x \<Rightarrow> g x)"
  by (simp split: option.split)

lemma matches_unless:
  "matches ms kvs \<Longrightarrow> matches (if c then [] else ms) (if c then [] else kvs)"
  by simp

lemma matches_claims: "matches (claims_texts t iat e) (claims_members t iat e)"
proof -
  have str: "matches [(n, [quote_char] @ EscapeJson v @ [quote_char])] [(n, JString v)]"
    if "plain n" for n v using that denotes_escaped by (rule matches_single)
  have int: "matches [(n, to_string i)] [(n, JInt i)]" if "plain n" for n i
    using that denotes_int by (rule matches_single)
  have four: "matches [a, b, c, d] [a', b', c', d']"
    if "matches [a] [a']" "matches [b] [b']" "matches [c] [c']" "matches [d] [d']" for a b c d a' b' c' d'
    using that by (simp add: matches_def)
  show ?thesis
    unfolding claims_texts_def claims_members_def Let_def
    by (intro matches_append four str int matches_text_field matches_option matches_unless
        matches_single denotes_attributes denotes_VideoGrantJson denotes_SipGrant;
      simp add: plain_def)
qed

lemma denotes_claims: "denotes (claims_json t iat e) (JObject (claims_members t iat e))"
  using denotes_object [OF matches_claims [unfolded matches_def]] by (simp add: claims_json_join)

section \<open>Tokens\<close>

text \<open>Every token a program can build: the constructor, then setters in any order.\<close>

inductive built :: "AccessToken \<Rightarrow> bool" where
  constructed: "built (new_AccessToken api_key api_secret)"
| identity: "built t \<Longrightarrow> built (SetIdentity v t)"
| name: "built t \<Longrightarrow> built (SetName v t)"
| metadata: "built t \<Longrightarrow> built (SetMetadata v t)"
| attributes: "built t \<Longrightarrow> built (SetAttributes m t)"
| lifetime: "built t \<Longrightarrow> SetValidFor v t = Inr t' \<Longrightarrow> built t'"
| video: "built t \<Longrightarrow> built (SetVideoGrant g t)"
| sip: "built t \<Longrightarrow> built (SetSipGrant sg t)"
| agent: "built t \<Longrightarrow> built (SetAgentGrant ag t)"

lemma built_valid_for: "built t \<Longrightarrow> 0 < at_valid_for t"
  by (induction rule: built.induct)
    (auto simp: new_AccessToken_def setter_defs SetValidFor_def split: if_splits)

text \<open>The names of the claims are a subsequence of the distinct names the code can write.\<close>

lemma subseq_optional:
  "subseq (map fst (text_field n v)) [n]"
  "subseq (map fst (if c then [] else [(n, x)])) [n]"
  "subseq (map fst (case u of None \<Rightarrow> [] | Some g \<Rightarrow> [(n, f g)])) [n]"
  by (auto simp: text_field_def split: option.split)

lemma claims_names:
  "subseq (map fst (claims_members t iat e))
     ([''iss'', ''nbf'', ''exp'', ''iat''] @ [''sub''] @ [''name''] @ [''metadata''] @ [''attributes''] @
      [''video''] @ [''sip''] @ [''agent''])"
  unfolding claims_members_def map_append
  by (intro list_emb_append_mono subseq_optional) simp

lemma distinct_claims: "distinct (map fst (claims_members t iat e))"
  by (rule subseq_distinct [OF claims_names]) code_simp

lemma map_of_claims:
  "map_of (claims_members t iat e) ''exp'' = Some (JInt e)"
  "map_of (claims_members t iat e) ''nbf'' = Some (JInt iat)"
  "map_of (claims_members t iat e) ''iat'' = Some (JInt iat)"
  "map_of (claims_members t iat e) ''iss'' = Some (JString (at_api_key t))"
  by (simp_all add: claims_members_def)

lemma jwt_header_reads:
  "json_read jwt_header = Some (JObject [(''alg'', JString ''HS256''), (''typ'', JString ''JWT'')])"
  by code_simp

text \<open>
  The compact serialization \<open>h.c.s\<close> of a signed token: what the three parts decode to. It has no
  characters but those of the URL alphabet and the two dots.
\<close>

definition signed_by :: "crypto_backend \<Rightarrow> string \<Rightarrow> string \<Rightarrow> string \<Rightarrow> string \<Rightarrow> bool" where
  "signed_by cb secret header claims jwt \<longleftrightarrow>
     (\<exists>h c s mac. jwt = h @ ''.'' @ c @ ''.'' @ s \<and>
        CHR ''.'' \<notin> set h \<and> CHR ''.'' \<notin> set c \<and> CHR ''.'' \<notin> set s \<and>
        Base64UrlDecode h = Inr (bytes_of header) \<and> Base64UrlDecode c = Inr (bytes_of claims) \<and>
        HmacSha256 cb secret (h @ ''.'' @ c) = Inr mac \<and> Base64UrlDecode s = Inr mac) \<and>
     set jwt \<subseteq> insert (CHR ''.'') (set url_alphabet)"

lemma sign_claims_signed_by:
  "sign_claims cb secret claims = Inr jwt \<Longrightarrow> signed_by cb secret jwt_header claims jwt"
proof -
  assume a: "sign_claims cb secret claims = Inr jwt"
  define h where "h = Base64UrlEncode_str jwt_header"
  define c where "c = Base64UrlEncode_str claims"
  from a obtain mac where m: "HmacSha256 cb secret (h @ ''.'' @ c) = Inr mac"
    and j: "jwt = h @ ''.'' @ c @ ''.'' @ Base64UrlEncode mac"
    by (auto simp: sign_claims_def Let_def h_def c_def)
  have "CHR ''.'' \<notin> set (Base64UrlEncode bs) \<and> Base64UrlDecode (Base64UrlEncode bs) = Inr bs" for bs
    by (simp add: Base64UrlEncode_def url.no_dot url.decode_encode)
  then have "CHR ''.'' \<notin> set h" "CHR ''.'' \<notin> set c" "CHR ''.'' \<notin> set (Base64UrlEncode mac)"
    "Base64UrlDecode h = Inr (bytes_of jwt_header)" "Base64UrlDecode c = Inr (bytes_of claims)"
    "Base64UrlDecode (Base64UrlEncode mac) = Inr mac"
    by (simp_all add: h_def c_def Base64UrlEncode_str_def)
  moreover have "set jwt \<subseteq> insert (CHR ''.'') (set url_alphabet)"
    using Base64UrlEncode_chars by (auto simp: j h_def c_def Base64UrlEncode_str_def)
  ultimately show ?thesis using m j unfolding signed_by_def by blast
qed

section \<open>Properties\<close>

text \<open>
  Escaping cannot be broken out of and loses nothing: for every byte string, the reference
  reader of string bodies reads the escaped text up to exactly the closing quote the SDK writes
  after it, and gives back the string.
\<close>

theorem escape_json_roundtrip:
  "read_chars (EscapeJson s @ quote_char # rest) = Some (s, rest)"
  using quoted_EscapeJson [of s] by (simp add: quoted_def)

text \<open>
  C4. The claims text of any token is one JSON object with exactly the members that the setters
  describe (optional members only when set, no member twice), for arbitrary strings in every field.
\<close>

theorem claims_denote_the_token:
  "json_read (claims_json t iat e) = Some (JObject (claims_members t iat e)) \<and>
   distinct (map fst (claims_members t iat e))"
  by (simp add: denotes_json_read [OF denotes_claims] distinct_claims)

text \<open>
  C5. \<^verbatim>\<open>ToJwt\<close> on every path: without an API key or secret it fails with an authentication error;
  when the expiry does not fit in 64 bits the addition overflows; when the HMAC fails it reports
  that; otherwise the result has three dot-free parts that decode to the HS256 header, the claims
  issued at \<open>now\<close> and expiring after the lifetime, and the HMAC of the first two parts under the
  secret.
\<close>

theorem to_jwt_exact:
  "case ToJwt cb ticks t now of
     Inr jwt \<Rightarrow>
       at_api_key t \<noteq> [] \<and> at_api_secret t \<noteq> [] \<and>
       in_int64 (trunc_div now ticks + at_valid_for t) \<and>
       signed_by cb (at_api_secret t) jwt_header
         (claims_json t (trunc_div now ticks) (trunc_div now ticks + at_valid_for t)) jwt
   | Inl f \<Rightarrow>
       (if at_api_key t = [] \<or> at_api_secret t = []
        then f = Throw (Error ec_authentication ''API key and secret are required to sign a token'')
        else if in_int64 (trunc_div now ticks + at_valid_for t)
        then f = Throw (Error ec_authentication ''HS256 operation failed'')
        else f = Undefined)"
proof -
  define e where "e = trunc_div now ticks + at_valid_for t"
  define claims where "claims = claims_json t (trunc_div now ticks) e"
  have mac: "f = Throw (Error ec_authentication ''HS256 operation failed'')"
    if "sign_claims cb (at_api_secret t) claims = Inl f" for f
    using that by (auto simp: sign_claims_def Let_def and_then_Inl_iff dest: HmacSha256_error)
  show ?thesis
    using mac sign_claims_signed_by [of cb "at_api_secret t" claims]
    by (auto simp: ToJwt_def Let_def add64_def claims_def e_def throw_def split: sum.split)
qed

text \<open>
  C35. A token built through the public setters expires strictly after it is issued, and is not
  valid before that time: the lifetime stays positive whatever setters ran.
\<close>

theorem built_token_lifetime:
  assumes "built t" and "ToJwt cb ticks t now = Inr jwt"
  shows "\<exists>claims ms iat e. signed_by cb (at_api_secret t) jwt_header claims jwt \<and>
    json_read claims = Some (JObject ms) \<and> map_of ms ''nbf'' = Some (JInt iat) \<and>
    map_of ms ''iat'' = Some (JInt iat) \<and> map_of ms ''exp'' = Some (JInt e) \<and> iat < e"
proof -
  define iat where "iat = trunc_div now ticks"
  have "sign_claims cb (at_api_secret t) (claims_json t iat (iat + at_valid_for t)) = Inr jwt"
    using assms(2) by (auto simp: ToJwt_def Let_def add64_Inr_iff iat_def split: if_splits)
  then have "signed_by cb (at_api_secret t) jwt_header (claims_json t iat (iat + at_valid_for t)) jwt"
    by (rule sign_claims_signed_by)
  then show ?thesis
    using built_valid_for [OF assms(1)] denotes_json_read [OF denotes_claims] map_of_claims
    by (metis less_add_same_cancel1)
qed

text \<open>A backend that always succeeds, for the witnesses.\<close>

definition zero_backend :: crypto_backend where
  "zero_backend = \<lparr>EVP_Digest = (\<lambda>_. (1, 32, replicate 32 0)),
                   EVP_Q_mac = (\<lambda>_ _. (True, 32, replicate 32 0))\<rparr>"

lemma zero_backend_simps [simp]:
  "Sha256 zero_backend v = Inr (replicate 32 0)"
  "HmacSha256 zero_backend k v = Inr (replicate 32 0)"
  by (simp_all add: Sha256_def HmacSha256_def zero_backend_def)

lemma built_token_lifetime_witness:
  "\<exists>jwt claims ms iat e.
     ToJwt zero_backend 1 (SetIdentity ''alice'' (new_AccessToken ''key'' ''secret'')) 1700000000 = Inr jwt \<and>
     signed_by zero_backend ''secret'' jwt_header claims jwt \<and>
     json_read claims = Some (JObject ms) \<and> map_of ms ''nbf'' = Some (JInt iat) \<and>
     map_of ms ''iat'' = Some (JInt iat) \<and> map_of ms ''exp'' = Some (JInt e) \<and> iat < e"
proof -
  define t where "t = SetIdentity ''alice'' (new_AccessToken ''key'' ''secret'')"
  have secret: "at_api_secret t = ''secret''" by (simp add: t_def setter_defs new_AccessToken_def)
  obtain jwt where jwt: "ToJwt zero_backend 1 t 1700000000 = Inr jwt"
    by (simp add: t_def ToJwt_def setter_defs new_AccessToken_def add64_def in_int64_def
        int64_min_def int64_max_def trunc_div_nonneg sign_claims_def Let_def)
  have "built t" unfolding t_def by (intro built.intros)
  from built_token_lifetime [OF this jwt] obtain claims ms iat e where
    c: "signed_by zero_backend ''secret'' jwt_header claims jwt" "json_read claims = Some (JObject ms)"
       "map_of ms ''nbf'' = Some (JInt iat)" "map_of ms ''iat'' = Some (JInt iat)"
       "map_of ms ''exp'' = Some (JInt e)" "iat < e"
    unfolding secret by blast
  have "\<exists>jwt claims ms iat e. ToJwt zero_backend 1 t 1700000000 = Inr jwt \<and>
     signed_by zero_backend ''secret'' jwt_header claims jwt \<and>
     json_read claims = Some (JObject ms) \<and> map_of ms ''nbf'' = Some (JInt iat) \<and>
     map_of ms ''iat'' = Some (JInt iat) \<and> map_of ms ''exp'' = Some (JInt e) \<and> iat < e"
    by (intro exI conjI) (rule jwt, rule c, rule c, rule c, rule c, rule c, rule c)
  then show ?thesis by (simp only: t_def)
qed

end
