(* ===== verification/Protobuf.thy ===== *)
theory Protobuf
  imports JsonText
begin

text \<open>
  The part of the protobuf runtime the SDK is written against. \<^verbatim>\<open>google::protobuf::Struct\<close> and
  \<^verbatim>\<open>Value\<close> are data here, because the sources inspect and build them member by member. Messages
  of the LiveKit protocol, whose classes the build generates, are values of an arbitrary type
  \<open>'m\<close>, and the runtime functions the sources call on them are the components of the record
  \<open>protobuf\<close>, a parameter of every definition that uses them.

  A \<open>pb_struct\<close> lists its fields; the fields of a protobuf map have distinct keys, and \<open>put\<close>
  (\<^verbatim>\<open>fields[key] = value\<close>) keeps them distinct.
\<close>

section \<open>Struct and Value\<close>

datatype pb_value =
    KindNotSet
  | NullValue
  | NumberValue real
  | StringValue string
  | BoolValue bool
  | StructValue "(string \<times> pb_value) list"
  | ListValue "pb_value list"

type_synonym pb_struct = "(string \<times> pb_value) list"

text \<open>\<^verbatim>\<open>Value::KindCase\<close>.\<close>

datatype kind_case =
    KIND_NOT_SET | kNullValue | kNumberValue | kStringValue | kBoolValue | kStructValue | kListValue

fun kind_of :: "pb_value \<Rightarrow> kind_case" where
  "kind_of KindNotSet = KIND_NOT_SET"
| "kind_of NullValue = kNullValue"
| "kind_of (NumberValue r) = kNumberValue"
| "kind_of (StringValue s) = kStringValue"
| "kind_of (BoolValue b) = kBoolValue"
| "kind_of (StructValue s) = kStructValue"
| "kind_of (ListValue l) = kListValue"

text \<open>The accessors return the default of their type when another kind is set.\<close>

fun string_value :: "pb_value \<Rightarrow> string" where
  "string_value (StringValue s) = s"
| "string_value _ = []"

fun bool_value :: "pb_value \<Rightarrow> bool" where
  "bool_value (BoolValue b) = b"
| "bool_value _ = False"

fun struct_value :: "pb_value \<Rightarrow> pb_struct" where
  "struct_value (StructValue s) = s"
| "struct_value _ = []"

fun list_value :: "pb_value \<Rightarrow> pb_value list" where
  "list_value (ListValue l) = l"
| "list_value _ = []"

lemma kind_of_iff [simp]:
  "kind_of v = KIND_NOT_SET \<longleftrightarrow> v = KindNotSet"
  "kind_of v = kNullValue \<longleftrightarrow> v = NullValue"
  "kind_of v = kNumberValue \<longleftrightarrow> (\<exists>r. v = NumberValue r)"
  "kind_of v = kStringValue \<longleftrightarrow> (\<exists>s. v = StringValue s)"
  "kind_of v = kBoolValue \<longleftrightarrow> (\<exists>b. v = BoolValue b)"
  "kind_of v = kStructValue \<longleftrightarrow> (\<exists>s. v = StructValue s)"
  "kind_of v = kListValue \<longleftrightarrow> (\<exists>l. v = ListValue l)"
  by (cases v; simp)+

fun put :: "string \<Rightarrow> pb_value \<Rightarrow> pb_struct \<Rightarrow> pb_struct" where
  "put k v [] = [(k, v)]"
| "put k v ((k', v') # s) = (if k' = k then (k, v) # s else (k', v') # put k v s)"

lemma map_of_put [simp]: "map_of (put k v s) = (map_of s)(k \<mapsto> v)"
  by (induction k v s rule: put.induct) (auto simp: fun_eq_iff)

lemma set_put: "fst ` set (put k v s) = insert k (fst ` set s)"
  by (induction k v s rule: put.induct) auto

lemma distinct_put: "distinct (map fst s) \<Longrightarrow> distinct (map fst (put k v s))"
  by (induction k v s rule: put.induct) (auto simp: set_put)

section \<open>The runtime\<close>

text \<open>
  \<^descr> \<open>pb_parse_struct\<close>, \<open>pb_print_struct\<close>: \<^verbatim>\<open>JsonStringToMessage\<close> and \<^verbatim>\<open>MessageToJsonString\<close> at
    \<^verbatim>\<open>Struct\<close>; \<open>None\<close> is a status that is not \<^verbatim>\<open>ok()\<close>.
  \<^descr> \<open>pb_from_json type ignore_unknown json\<close>, \<open>pb_to_json\<close>: the same functions at a generated
    message type, named in full; \<open>Inl\<close> holds the text of the failed status.
  \<^descr> \<open>pb_serialize\<close>, \<open>pb_parse type\<close>: \<^verbatim>\<open>SerializeToString\<close> and \<^verbatim>\<open>ParseFromString\<close>.
  \<^descr> \<open>pb_empty type\<close>: the default-constructed message; \<open>pb_string\<close>, \<open>pb_set_string\<close>, \<open>pb_int64\<close>,
    \<open>pb_has\<close>, \<open>pb_message\<close>, \<open>pb_repeated\<close>: the generated accessors of the field they name.
\<close>

record 'm protobuf =
  pb_parse_struct :: "string \<Rightarrow> pb_struct option"
  pb_print_struct :: "pb_struct \<Rightarrow> string option"
  pb_from_json :: "string \<Rightarrow> bool \<Rightarrow> string \<Rightarrow> string + 'm"
  pb_to_json :: "'m \<Rightarrow> string + string"
  pb_serialize :: "'m \<Rightarrow> string option"
  pb_parse :: "string \<Rightarrow> string \<Rightarrow> 'm option"
  pb_empty :: "string \<Rightarrow> 'm"
  pb_string :: "string \<Rightarrow> 'm \<Rightarrow> string"
  pb_set_string :: "string \<Rightarrow> string \<Rightarrow> 'm \<Rightarrow> 'm"
  pb_int64 :: "string \<Rightarrow> 'm \<Rightarrow> int"
  pb_has :: "string \<Rightarrow> 'm \<Rightarrow> bool"
  pb_message :: "string \<Rightarrow> 'm \<Rightarrow> 'm"
  pb_repeated :: "string \<Rightarrow> 'm \<Rightarrow> 'm list"

section \<open>Contracts of the JSON reader\<close>

text \<open>
  What the SDK relies on when it reads JSON objects into a \<^verbatim>\<open>Struct\<close>: a member it finds has the
  kind of the JSON value and, for strings and booleans, its contents; numbers become doubles.
  The laws speak of objects without repeated members. The first locale is about texts that the
  runtime accepts; the second adds that it accepts flat objects written in ASCII.
\<close>

fun value_matches :: "json \<Rightarrow> pb_value \<Rightarrow> bool" where
  "value_matches JNull v \<longleftrightarrow> v = NullValue"
| "value_matches (JBool b) v \<longleftrightarrow> v = BoolValue b"
| "value_matches (JInt i) v \<longleftrightarrow> kind_of v = kNumberValue"
| "value_matches (JString s) v \<longleftrightarrow> v = StringValue s"
| "value_matches (JArray vs) v \<longleftrightarrow> kind_of v = kListValue"
| "value_matches (JObject ms) v \<longleftrightarrow> kind_of v = kStructValue"

fun scalar :: "json \<Rightarrow> bool" where
  "scalar (JArray vs) = False"
| "scalar (JObject ms) = False"
| "scalar _ = True"

definition flat :: "(string \<times> json) list \<Rightarrow> bool" where
  "flat ms \<longleftrightarrow> list_all (\<lambda>(n, v). scalar v) ms"

definition ascii :: "string \<Rightarrow> bool" where
  "ascii s \<longleftrightarrow> list_all (\<lambda>c. (of_char c :: nat) < 128) s"

locale json_runtime =
  fixes pb :: "'m protobuf"
  assumes parse_sound:
    "pb_parse_struct pb doc = Some fs \<Longrightarrow> json_read doc = Some (JObject ms) \<Longrightarrow>
     distinct (map fst ms) \<Longrightarrow> rel_option value_matches (map_of ms n) (map_of fs n)"
begin

lemma parsed_member:
  assumes "pb_parse_struct pb doc = Some fs" "json_read doc = Some (JObject ms)" "distinct (map fst ms)"
    "map_of fs n = Some (StringValue s)"
  shows "map_of ms n = Some (JString s)"
proof -
  from parse_sound [OF assms(1-3), of n] assms(4) obtain j where
    "map_of ms n = Some j" "value_matches j (StringValue s)"
    by (auto simp: rel_option_iff split: option.splits)
  then show ?thesis by (cases j) auto
qed

lemma parsed_string:
  assumes "pb_parse_struct pb doc = Some fs" "json_read doc = Some (JObject ms)" "distinct (map fst ms)"
    "map_of ms n = Some (JString s)"
  shows "map_of fs n = Some (StringValue s)"
  using parse_sound [OF assms(1-3), of n] assms(4) by (auto simp: rel_option_iff split: option.splits)

end

locale json_runtime_complete = json_runtime +
  assumes parse_flat:
    "json_read doc = Some (JObject ms) \<Longrightarrow> distinct (map fst ms) \<Longrightarrow> flat ms \<Longrightarrow> ascii doc \<Longrightarrow>
     \<exists>fs. pb_parse_struct pb doc = Some fs"

text \<open>
  A runtime that satisfies both, built from the reference reader; its messages are the texts that
  encode them.
\<close>

fun json_value :: "json \<Rightarrow> pb_value" where
  "json_value JNull = NullValue"
| "json_value (JBool b) = BoolValue b"
| "json_value (JInt i) = NumberValue (real_of_int i)"
| "json_value (JString s) = StringValue s"
| "json_value (JArray vs) = ListValue (map json_value vs)"
| "json_value (JObject ms) = StructValue (map (\<lambda>(n, v). (n, json_value v)) ms)"

definition reader_protobuf :: "string protobuf" where
  "reader_protobuf =
     \<lparr>pb_parse_struct = (\<lambda>doc. case json_read doc of
          Some (JObject ms) \<Rightarrow> Some (map (\<lambda>(n, v). (n, json_value v)) ms)
        | _ \<Rightarrow> None),
      pb_print_struct = (\<lambda>s. Some ''{}''),
      pb_from_json = (\<lambda>type ignore_unknown doc. Inr doc),
      pb_to_json = Inr, pb_serialize = Some, pb_parse = (\<lambda>type data. Some data),
      pb_empty = (\<lambda>type. []), pb_string = (\<lambda>name m. []), pb_set_string = (\<lambda>name v m. m),
      pb_int64 = (\<lambda>name m. 0), pb_has = (\<lambda>name m. False), pb_message = (\<lambda>name m. m),
      pb_repeated = (\<lambda>name m. [])\<rparr>"

lemma value_matches_json_value: "value_matches v (json_value v)"
  by (cases v) simp_all

lemma map_of_map_snd: "map_of (map (\<lambda>(n, v). (n, f v)) ms) n = map_option f (map_of ms n)"
  by (induction ms) auto

interpretation reader: json_runtime_complete reader_protobuf
proof
  fix doc fs ms n
  assume "pb_parse_struct reader_protobuf doc = Some fs" "json_read doc = Some (JObject ms)"
  then have "fs = map (\<lambda>(n, v). (n, json_value v)) ms" by (simp add: reader_protobuf_def)
  then show "rel_option value_matches (map_of ms n) (map_of fs n)"
    by (simp add: map_of_map_snd option.rel_map option.rel_refl value_matches_json_value)
next
  fix doc ms
  assume "json_read doc = Some (JObject ms)"
  then show "\<exists>fs. pb_parse_struct reader_protobuf doc = Some fs" by (simp add: reader_protobuf_def)
qed

end
