(* ===== verification/Transport.thy ===== *)
theory Transport
  imports Crypto
begin

text \<open>
  \<^verbatim>\<open>include/livekit/server/http_transport.h\<close> and \<^verbatim>\<open>api_options.h\<close>: requests, responses and
  transports, the options of a client, and the platform services the SDK draws on.

  A transport is any function of the world: the default one is a platform service, the one that
  calls back through the C ABI is modelled in \<open>CApi\<close>, and an application may supply its own.
\<close>

type_synonym HttpHeaders = "(string \<times> string) list"

record HttpRequest =
  hr_url :: string
  hr_method :: string
  hr_headers :: HttpHeaders
  hr_body :: string
  hr_timeout :: int

definition new_HttpRequest :: HttpRequest where
  "new_HttpRequest =
     \<lparr>hr_url = [], hr_method = ''POST'', hr_headers = [], hr_body = [], hr_timeout = 30000\<rparr>"

record HttpResponse =
  rs_status_code :: int
  rs_headers :: HttpHeaders
  rs_body :: string

type_synonym 'w transport = "HttpRequest \<Rightarrow> ('w, HttpResponse) io"

text \<open>A null \<^verbatim>\<open>shared_ptr<HttpTransport>\<close> is \<open>None\<close>.\<close>

record 'w ApiOptions =
  ao_url :: string
  ao_api_key :: string
  ao_api_secret :: string
  ao_access_token :: string
  ao_timeout :: int
  ao_transport :: "'w transport option"

definition new_ApiOptions :: "'w ApiOptions" where
  "new_ApiOptions =
     \<lparr>ao_url = [], ao_api_key = [], ao_api_secret = [], ao_access_token = [], ao_timeout = 30000,
      ao_transport = None\<rparr>"

text \<open>
  The platform: the preprocessor condition \<^verbatim>\<open>_WIN32\<close>, the environment, the two random sources
  (\<^verbatim>\<open>std::random_device\<close>, whose constructor and draws may throw, and \<^verbatim>\<open>BCryptGenRandom\<close>, which
  reports success and the contents it wrote at each index of the buffer), the system clock and
  its ticks in a second, the default transport, and the digest functions.
\<close>

record 'w platform =
  pf_windows :: bool
  pf_getenv :: "string \<Rightarrow> string option"
  pf_random_device :: "('w, unit) io"
  pf_random :: "('w, 32 word) io"
  pf_gen_random :: "nat \<Rightarrow> 'w \<Rightarrow> (bool \<times> (nat \<Rightarrow> 8 word)) \<times> 'w"
  pf_now :: "'w \<Rightarrow> int \<times> 'w"
  pf_ticks :: int
  pf_default_transport :: "('w, 'w transport) io"
  pf_crypto :: crypto_backend

definition io_now :: "'w platform \<Rightarrow> ('w, int) io" where
  "io_now pf w = (case pf_now pf w of (t, w') \<Rightarrow> (Inr t, w'))"

fun draw_bytes :: "'w platform \<Rightarrow> nat \<Rightarrow> ('w, bytes) io" where
  "draw_bytes pf 0 = io_return []"
| "draw_bytes pf (Suc n) =
     io_bind (pf_random pf) (\<lambda>r. io_bind (draw_bytes pf n) (\<lambda>bs. io_return (ucast r # bs)))"

text \<open>
  Filling a buffer of \<open>n\<close> bytes, as \<^verbatim>\<open>RequestId\<close> and \<^verbatim>\<open>Nonce\<close> do it on every platform;
  \<open>None\<close> is a failure of \<^verbatim>\<open>BCryptGenRandom\<close>.
\<close>

definition random_bytes :: "'w platform \<Rightarrow> nat \<Rightarrow> ('w, bytes option) io" where
  "random_bytes pf n =
     (if pf_windows pf
      then (\<lambda>w. case pf_gen_random pf n w of ((ok, buf), w') \<Rightarrow>
                  (Inr (if ok then Some (map buf [0..<n]) else None), w'))
      else io_bind (pf_random_device pf) (\<lambda>_. io_bind (draw_bytes pf n) (\<lambda>bs. io_return (Some bs))))"

lemma draw_bytes_length: "draw_bytes pf n w = (Inr bs, w') \<Longrightarrow> length bs = n"
  by (induction n arbitrary: w bs w') auto

lemma random_bytes_length: "random_bytes pf n w = (Inr (Some bs), w') \<Longrightarrow> length bs = n"
  by (auto simp: random_bytes_def draw_bytes_length split: if_splits prod.splits)

lemma random_bytes_posix:
  "\<not> pf_windows pf \<Longrightarrow> random_bytes pf n w = (Inr r, w') \<Longrightarrow> \<exists>bs. r = Some bs"
  by (auto simp: random_bytes_def)

end
