(* ===== verification/WebhookReceiver.thy ===== *)
theory WebhookReceiver
  imports Crypto JsonText Protobuf Transport
begin

text \<open>
  \<^verbatim>\<open>include/livekit/server/webhook_receiver.h\<close> and \<^verbatim>\<open>src/webhook_receiver.cpp\<close>: the verification
  of a webhook (token structure, algorithm, issuer, signature, time window, body checksum), the
  conversion of its body, and the choice of the callbacks that see it.

  The time claims are found by a textual search for the quoted name of the claim, as the source
  does, and not by the JSON parser. The concurrent use of a receiver is modelled in
  \<open>WebhookDispatch\<close>.
\<close>

section \<open>Data\<close>

record WebhookRoom =
  wr_sid :: string
  wr_name :: string
  wr_metadata :: string

record WebhookParticipant =
  wp_sid :: string
  wp_identity :: string
  wp_name :: string
  wp_metadata :: string

record WebhookTrack =
  wt_sid :: string
  wt_name :: string

record WebhookEgress =
  we_egress_id :: string
  we_room_id :: string
  we_room_name :: string

record WebhookIngress =
  wi_ingress_id :: string
  wi_name :: string
  wi_room_name :: string

record WebhookEvent =
  ev_event :: string
  ev_id :: string
  ev_created_at :: int
  ev_room :: "WebhookRoom option"
  ev_participant :: "WebhookParticipant option"
  ev_track :: "WebhookTrack option"
  ev_egress :: "WebhookEgress option"
  ev_ingress :: "WebhookIngress option"
  ev_raw_body :: string

text \<open>
  The callbacks, over the type \<open>'f\<close> of a callback; an empty \<^verbatim>\<open>std::function\<close> is \<open>None\<close>.
\<close>

record 'f WebhookCallbacks =
  on_event :: "'f option"
  on_room_started :: "'f option"
  on_room_finished :: "'f option"
  on_participant_joined :: "'f option"
  on_participant_left :: "'f option"
  on_participant_connection_aborted :: "'f option"
  on_track_published :: "'f option"
  on_track_unpublished :: "'f option"
  on_egress_started :: "'f option"
  on_egress_updated :: "'f option"
  on_egress_ended :: "'f option"
  on_ingress_started :: "'f option"
  on_ingress_ended :: "'f option"

definition SpecificCallback :: "'f WebhookCallbacks \<Rightarrow> string \<Rightarrow> 'f option" where
  "SpecificCallback callbacks event =
     (if event = ''room_started'' then on_room_started callbacks
      else if event = ''room_finished'' then on_room_finished callbacks
      else if event = ''participant_joined'' then on_participant_joined callbacks
      else if event = ''participant_left'' then on_participant_left callbacks
      else if event = ''participant_connection_aborted'' then on_participant_connection_aborted callbacks
      else if event = ''track_published'' then on_track_published callbacks
      else if event = ''track_unpublished'' then on_track_unpublished callbacks
      else if event = ''egress_started'' then on_egress_started callbacks
      else if event = ''egress_updated'' then on_egress_updated callbacks
      else if event = ''egress_ended'' then on_egress_ended callbacks
      else if event = ''ingress_started'' then on_ingress_started callbacks
      else if event = ''ingress_ended'' then on_ingress_ended callbacks
      else None)"

type_synonym 'w key_provider = "string \<Rightarrow> ('w, string) io"
type_synonym 'w callback = "WebhookEvent \<Rightarrow> ('w, unit) io"

record 'w WebhookReceiver =
  wr_key_provider :: "'w key_provider"
  wr_callbacks :: "'w callback WebhookCallbacks"

text \<open>The three constructors; an empty key provider is refused.\<close>

definition new_WebhookReceiver ::
  "'w key_provider option \<Rightarrow> 'w callback WebhookCallbacks \<Rightarrow> 'w WebhookReceiver result" where
  "new_WebhookReceiver key_provider callbacks =
     (case key_provider of
        None \<Rightarrow> throw ec_invalid_argument ''webhook key provider is required''
      | Some p \<Rightarrow> Inr \<lparr>wr_key_provider = p, wr_callbacks = callbacks\<rparr>)"

definition single_key_provider :: "string \<Rightarrow> string \<Rightarrow> 'w key_provider" where
  "single_key_provider key secret requested =
     io_return (if requested = key then secret else [])"

definition map_key_provider :: "(string \<times> string) list \<Rightarrow> 'w key_provider" where
  "map_key_provider secrets requested =
     io_return (case map_of secrets requested of None \<Rightarrow> [] | Some secret \<Rightarrow> secret)"

definition SetCallbacks ::
  "'w callback WebhookCallbacks \<Rightarrow> 'w WebhookReceiver \<Rightarrow> 'w WebhookReceiver" where
  "SetCallbacks callbacks r = r\<lparr>wr_callbacks := callbacks\<rparr>"

section \<open>Claims\<close>

definition JsonStringField_jwt :: "'m protobuf \<Rightarrow> string \<Rightarrow> string \<Rightarrow> string result" where
  "JsonStringField_jwt pb json name =
     (case pb_parse_struct pb json of
        None \<Rightarrow> throw ec_authentication ''webhook JWT contains invalid JSON''
      | Some obj \<Rightarrow>
          (case map_of obj name of
             None \<Rightarrow> Inr []
           | Some v \<Rightarrow>
               (if kind_of v \<noteq> kStringValue
                then throw ec_authentication ''webhook JWT string claim is invalid''
                else Inr (string_value v))))"

text \<open>\<^verbatim>\<open>std::isspace\<close> in the C locale.\<close>

definition isspace :: "char \<Rightarrow> bool" where
  "isspace c \<longleftrightarrow> c = CHR '' '' \<or> (9 \<le> (of_char c :: nat) \<and> of_char c \<le> (13 :: nat))"

fun digits_loop :: "int \<Rightarrow> string \<Rightarrow> int result" where
  "digits_loop value [] = Inr value"
| "digits_loop value (c # cs) =
     (if is_digit c
      then let digit = int (of_char c) - 48
           in if value > (int64_max - digit) div 10
              then throw ec_authentication ''webhook JWT time claim is too large''
              else digits_loop (value * 10 + digit) cs
      else Inr value)"

definition JsonIntegerField :: "string \<Rightarrow> string \<Rightarrow> int option result" where
  "JsonIntegerField json name =
     (let marker = CHR 0x22 # name @ [CHR 0x22]
      in case find_from json marker 0 of
           None \<Rightarrow> Inr None
         | Some position \<Rightarrow>
             (case find_from json '':'' (position + length marker) of
                None \<Rightarrow> throw ec_authentication ''webhook JWT contains invalid JSON''
              | Some position \<Rightarrow>
                  (let rest = dropWhile isspace (drop (Suc position) json);
                       negative = (rest \<noteq> [] \<and> hd rest = CHR ''-'');
                       rest = (if negative then tl rest else rest)
                   in if rest = [] \<or> \<not> is_digit (hd rest)
                      then throw ec_authentication ''webhook JWT time claim is invalid''
                      else and_then (digits_loop 0 rest) (\<lambda>value.
                        Inr (Some (if negative then - value else value))))))"

section \<open>Verification\<close>

definition bearer_token :: "string \<Rightarrow> string" where
  "bearer_token authorization =
     (if starts_with authorization ''Bearer '' then drop 7 authorization else authorization)"

text \<open>The positions of the only two dots.\<close>

definition token_dots :: "string \<Rightarrow> (nat \<times> nat) result" where
  "token_dots authorization =
     (let first_dot = find_from authorization ''.'' 0;
          second_dot = find_from authorization ''.'' (after_pos first_dot);
          third_dot = find_from authorization ''.'' (after_pos second_dot)
      in case (first_dot, second_dot) of
           (Some i, Some j) \<Rightarrow>
             (if third_dot \<noteq> None
              then throw ec_authentication ''webhook Authorization header is not a JWT''
              else Inr (i, j))
         | _ \<Rightarrow> throw ec_authentication ''webhook Authorization header is not a JWT'')"

definition token_leeway :: int where
  "token_leeway = 60"

definition check_times :: "string \<Rightarrow> int \<Rightarrow> unit result" where
  "check_times claims now_seconds =
     and_then (JsonIntegerField claims ''exp'') (\<lambda>expires.
     and_then (case expires of
                 None \<Rightarrow> Inr False
               | Some e \<Rightarrow> and_then (add64 e token_leeway) (\<lambda>limit. Inr (now_seconds > limit)))
       (\<lambda>expired.
     if expired then throw ec_authentication ''webhook JWT has expired''
     else
     and_then (JsonIntegerField claims ''nbf'') (\<lambda>not_before.
     and_then (case not_before of
                 None \<Rightarrow> Inr False
               | Some b \<Rightarrow> and_then (add64 now_seconds token_leeway) (\<lambda>limit. Inr (limit < b)))
       (\<lambda>early.
     if early then throw ec_authentication ''webhook JWT is not valid yet'' else Inr ()))))"

definition check_body :: "'m protobuf \<Rightarrow> crypto_backend \<Rightarrow> string \<Rightarrow> string \<Rightarrow> unit result" where
  "check_body pb cb claims body =
     and_then (JsonStringField_jwt pb claims ''sha256'') (\<lambda>claimed_checksum.
     and_then (Sha256 cb body) (\<lambda>digest.
       let actual_checksum = Base64Encode digest
       in if claimed_checksum = [] \<or> \<not> ConstantTimeEqual_str claimed_checksum actual_checksum
          then throw ec_authentication ''webhook body checksum is invalid'' else Inr ()))"

definition event_of :: "'m protobuf \<Rightarrow> 'm \<Rightarrow> string \<Rightarrow> WebhookEvent" where
  "event_of pb parsed body =
     (let get = (\<lambda>path name. pb_string pb name (pb_message pb path parsed));
          present = (\<lambda>path. pb_has pb path parsed)
      in \<lparr>ev_event = pb_string pb ''event'' parsed,
          ev_id = pb_string pb ''id'' parsed,
          ev_created_at = pb_int64 pb ''created_at'' parsed,
          ev_room =
            (if present ''room''
             then Some \<lparr>wr_sid = get ''room'' ''sid'', wr_name = get ''room'' ''name'',
                        wr_metadata = get ''room'' ''metadata''\<rparr> else None),
          ev_participant =
            (if present ''participant''
             then Some \<lparr>wp_sid = get ''participant'' ''sid'', wp_identity = get ''participant'' ''identity'',
                        wp_name = get ''participant'' ''name'',
                        wp_metadata = get ''participant'' ''metadata''\<rparr> else None),
          ev_track =
            (if present ''track''
             then Some \<lparr>wt_sid = get ''track'' ''sid'', wt_name = get ''track'' ''name''\<rparr> else None),
          ev_egress =
            (if present ''egress_info''
             then Some \<lparr>we_egress_id = get ''egress_info'' ''egress_id'',
                        we_room_id = get ''egress_info'' ''room_id'',
                        we_room_name = get ''egress_info'' ''room_name''\<rparr> else None),
          ev_ingress =
            (if present ''ingress_info''
             then Some \<lparr>wi_ingress_id = get ''ingress_info'' ''ingress_id'',
                        wi_name = get ''ingress_info'' ''name'',
                        wi_room_name = get ''ingress_info'' ''room_name''\<rparr> else None),
          ev_raw_body = body\<rparr>)"

definition parse_body :: "'m protobuf \<Rightarrow> string \<Rightarrow> WebhookEvent result" where
  "parse_body pb body =
     (case pb_from_json pb ''livekit.WebhookEvent'' True body of
        Inl status \<Rightarrow> throw ec_protocol (''webhook JSON is invalid: '' @ status)
      | Inr parsed \<Rightarrow> Inr (event_of pb parsed body))"

definition decode_part :: "string \<Rightarrow> string result" where
  "decode_part part = and_then (Base64UrlDecode part) (\<lambda>bs. Inr (BytesToString bs))"

text \<open>The part of \<^verbatim>\<open>ReceiveAt\<close> before the key provider is asked: the dots, claims and issuer.\<close>

definition token_issuer :: "'m protobuf \<Rightarrow> string \<Rightarrow> (nat \<times> string \<times> string) result" where
  "token_issuer pb authorization =
     (if authorization = []
      then throw ec_authentication ''webhook Authorization header is required''
      else
        and_then (token_dots authorization) (\<lambda>(first_dot, second_dot).
        and_then (decode_part (substr authorization 0 first_dot)) (\<lambda>header.
        and_then (JsonStringField_jwt pb header ''alg'') (\<lambda>alg.
        if alg \<noteq> ''HS256'' then throw ec_authentication ''webhook JWT must use HS256''
        else
        and_then (decode_part (substr authorization (first_dot + 1) (second_dot - first_dot - 1)))
          (\<lambda>claims.
        and_then (JsonStringField_jwt pb claims ''iss'') (\<lambda>issuer.
        if issuer = [] then throw ec_authentication ''webhook JWT issuer is missing''
        else Inr (second_dot, claims, issuer)))))))"

text \<open>The part after it.\<close>

definition verify_signature :: "crypto_backend \<Rightarrow> string \<Rightarrow> nat \<Rightarrow> string \<Rightarrow> unit result" where
  "verify_signature cb authorization second_dot secret =
     and_then (HmacSha256 cb secret (substr authorization 0 second_dot)) (\<lambda>expected_signature.
     and_then (Base64UrlDecode (drop (second_dot + 1) authorization)) (\<lambda>actual_signature.
     if \<not> ConstantTimeEqual expected_signature actual_signature
     then throw ec_authentication ''webhook JWT signature is invalid'' else Inr ()))"

definition ReceiveAt ::
  "'m protobuf \<Rightarrow> 'w platform \<Rightarrow> 'w WebhookReceiver \<Rightarrow> string \<Rightarrow> string \<Rightarrow> int \<Rightarrow> ('w, WebhookEvent) io" where
  "ReceiveAt pb pf r body authorization0 now =
     (let authorization = bearer_token authorization0
      in io_bind (io_lift (token_issuer pb authorization)) (\<lambda>(second_dot, claims, issuer).
         io_bind (wr_key_provider r issuer) (\<lambda>secret.
         io_lift
           (if secret = [] then throw ec_authentication ''webhook API secret was not found''
            else
              and_then (verify_signature (pf_crypto pf) authorization second_dot secret) (\<lambda>_.
              and_then (check_times claims (trunc_div now (pf_ticks pf))) (\<lambda>_.
              and_then (check_body pb (pf_crypto pf) claims body) (\<lambda>_.
                parse_body pb body)))))))"

definition Receive ::
  "'m protobuf \<Rightarrow> 'w platform \<Rightarrow> 'w WebhookReceiver \<Rightarrow> string \<Rightarrow> string \<Rightarrow> ('w, WebhookEvent) io" where
  "Receive pb pf r body authorization =
     io_bind (io_now pf) (\<lambda>now. ReceiveAt pb pf r body authorization now)"

definition run_callback :: "'w callback option \<Rightarrow> WebhookEvent \<Rightarrow> ('w, unit) io" where
  "run_callback callback event =
     (case callback of None \<Rightarrow> io_return () | Some f \<Rightarrow> f event)"

definition Dispatch :: "'w WebhookReceiver \<Rightarrow> WebhookEvent \<Rightarrow> ('w, unit) io" where
  "Dispatch r event =
     (let callbacks = wr_callbacks r
      in io_bind (run_callback (on_event callbacks) event) (\<lambda>_.
           run_callback (SpecificCallback callbacks (ev_event event)) event))"

definition ReceiveAndDispatch ::
  "'m protobuf \<Rightarrow> 'w platform \<Rightarrow> 'w WebhookReceiver \<Rightarrow> string \<Rightarrow> string \<Rightarrow> ('w, unit) io" where
  "ReceiveAndDispatch pb pf r body authorization =
     io_bind (Receive pb pf r body authorization) (\<lambda>event. Dispatch r event)"

section \<open>Structure of tokens\<close>

lemma find_char_split:
  assumes "c \<notin> set s"
  shows "find_from (p @ s @ c # t) [c] (length p) = Some (length p + length s)"
    and "find_from (p @ s) [c] (length p) = None"
  using assms by (simp_all add: find_from_def find_str_char_first)

text \<open>\<open>compact_form a h c s\<close>: \<open>a\<close> is the compact serialization of three dot-free parts.\<close>

definition compact_form :: "string \<Rightarrow> string \<Rightarrow> string \<Rightarrow> string \<Rightarrow> bool" where
  "compact_form a h c s \<longleftrightarrow>
     a = h @ ''.'' @ c @ ''.'' @ s \<and> CHR ''.'' \<notin> set h \<and> CHR ''.'' \<notin> set c \<and> CHR ''.'' \<notin> set s"

lemma token_dots_compact:
  assumes "compact_form a h c s"
  shows "token_dots a = Inr (length h, length h + 1 + length c)"
proof -
  have a: "a = h @ ''.'' @ c @ ''.'' @ s" and d: "CHR ''.'' \<notin> set h" "CHR ''.'' \<notin> set c" "CHR ''.'' \<notin> set s"
    using assms by (simp_all add: compact_form_def)
  have 1: "find_from a ''.'' 0 = Some (length h)"
    using find_char_split(1) [of "CHR ''.''" h "[]" "c @ ''.'' @ s"] d a by simp
  have 2: "find_from a ''.'' (Suc (length h)) = Some (length h + 1 + length c)"
    using find_char_split(1) [of "CHR ''.''" c "h @ ''.''" s] d a by simp
  have 3: "find_from a ''.'' (Suc (length h + 1 + length c)) = None"
    using find_char_split(2) [of "CHR ''.''" s "h @ ''.'' @ c @ ''.''"] d a by simp
  show ?thesis by (simp add: token_dots_def after_pos_def 1 2 3 [simplified])
qed

lemma find_from_char_SomeD:
  assumes "find_from s [c] k = Some i"
  obtains u v where "s = take k s @ u @ c # v" "k \<le> length s" "i = k + length u" "c \<notin> set u"
proof -
  from assms have k: "k \<le> length s" and f: "find_str [c] (drop k s) k = Some i"
    by (simp_all add: find_from_def split: if_splits)
  from find_str_char_Some [OF f] have ki: "k \<le> i" and l: "i - k < length (drop k s)"
    and at: "drop k s ! (i - k) = c" and nin: "c \<notin> set (take (i - k) (drop k s))" by auto
  have "s = take k s @ drop k s" by simp
  also have "drop k s = take (i - k) (drop k s) @ c # drop (Suc (i - k)) (drop k s)"
    using drop_at_index [OF l] at by simp
  finally show thesis
    using that [of "take (i - k) (drop k s)" "drop (Suc (i - k)) (drop k s)"] k ki l nin by simp
qed

lemma token_dots_Inr:
  assumes "token_dots a = Inr (i, j)"
  obtains h c s where "compact_form a h c s" "i = length h" "j = length h + 1 + length c"
proof -
  from assms have 1: "find_from a ''.'' 0 = Some i" and 2: "find_from a ''.'' (Suc i) = Some j"
    and 3: "find_from a ''.'' (Suc j) = None"
    by (auto simp: token_dots_def Let_def after_pos_def split: option.splits if_splits)
  from 1 obtain h v where h: "a = h @ CHR ''.'' # v" "i = length h" "CHR ''.'' \<notin> set h"
    by (rule find_from_char_SomeD) auto
  from 2 obtain c s where c: "a = take (Suc i) a @ c @ CHR ''.'' # s" "j = Suc i + length c" "CHR ''.'' \<notin> set c"
    by (rule find_from_char_SomeD) auto
  have take: "take (Suc i) a = h @ ''.''" using h by simp
  have a: "a = h @ ''.'' @ c @ ''.'' @ s" using c(1) unfolding take by simp
  have "CHR ''.'' \<notin> set s"
    using 3 find_from_char_None [of "Suc j" a "CHR ''.''"] c(2) h(2) a by simp
  with a h c that [of h c s] show thesis by (simp add: compact_form_def)
qed

lemma substr_compact:
  assumes "compact_form a h c s"
  shows "substr a 0 (length h) = h" "substr a (length h + 1) (length h + 1 + length c - length h - 1) = c"
    "substr a 0 (length h + 1 + length c) = h @ ''.'' @ c" "drop (length h + 1 + length c + 1) a = s"
  using assms by (simp_all add: compact_form_def substr_def)

lemma compact_unique:
  assumes "compact_form a h c s" "compact_form a h' c' s'"
  shows "h' = h" "c' = c" "s' = s"
proof -
  have "length h' = length h" "length c' = length c"
    using token_dots_compact [OF assms(1)] token_dots_compact [OF assms(2)] by auto
  with assms show "h' = h" "c' = c" "s' = s" by (auto simp: compact_form_def)
qed

section \<open>Integer claims\<close>

lemma digits_loop_range:
  "digits_loop v s = Inr r \<Longrightarrow> 0 \<le> v \<Longrightarrow> v \<le> int64_max \<Longrightarrow> 0 \<le> r \<and> r \<le> int64_max"
proof (induction v s rule: digits_loop.induct)
  case (2 v c cs)
  show ?case
  proof (cases "is_digit c")
    case True
    define d where "d = int (of_char c) - 48"
    have d: "0 \<le> d" "d \<le> 9" using True by (auto simp: is_digit_def d_def)
    from 2(2) True have le: "v \<le> (int64_max - d) div 10" and
      rec: "digits_loop (v * 10 + d) cs = Inr r"
      by (auto simp: Let_def d_def split: if_splits)
    from le have "v * 10 + d \<le> int64_max" by linarith
    with 2(1) [OF True d_def _ rec] le 2(3) d show ?thesis by simp
  next
    case False
    with 2 show ?thesis by simp
  qed
qed simp

lemma digits_loop_0_range: "digits_loop 0 s = Inr r \<Longrightarrow> 0 \<le> r \<and> r \<le> int64_max \<and> 0 \<le> int64_max"
  using digits_loop_range [of 0 s r] by (simp add: int64_max_def)

lemma digits_loop_error: "digits_loop v s = Inl f \<Longrightarrow> \<exists>m. f = Throw (Error ec_authentication m)"
  by (induction v s rule: digits_loop.induct) (auto simp: Let_def throw_def split: if_splits)

lemma JsonIntegerField_range:
  "JsonIntegerField json name = Inr (Some v) \<Longrightarrow> - int64_max \<le> v \<and> v \<le> int64_max"
  by (auto simp: JsonIntegerField_def Let_def and_then_Inr_iff split: option.splits if_splits
      dest!: digits_loop_0_range)

lemma JsonIntegerField_error:
  "JsonIntegerField json name = Inl f \<Longrightarrow> \<exists>m. f = Throw (Error ec_authentication m)"
  by (auto simp: JsonIntegerField_def Let_def and_then_Inl_iff throw_def split: option.splits if_splits
      dest: digits_loop_error)


section \<open>What acceptance means\<close>

text \<open>The time window, with a minute of leeway on both sides and no overflow.\<close>

definition in_window :: "string \<Rightarrow> int \<Rightarrow> bool" where
  "in_window claims now \<longleftrightarrow>
     (case (JsonIntegerField claims ''exp'', JsonIntegerField claims ''nbf'') of
        (Inr expires, Inr not_before) \<Rightarrow>
          (case expires of None \<Rightarrow> True | Some e \<Rightarrow> in_int64 (e + 60) \<and> now \<le> e + 60) \<and>
          (case not_before of None \<Rightarrow> True | Some b \<Rightarrow> in_int64 (now + 60) \<and> b \<le> now + 60)
      | _ \<Rightarrow> False)"

lemma and_then_guard:
  "and_then r (\<lambda>x. if x then throw c m else k) = Inr y \<longleftrightarrow> r = Inr False \<and> k = Inr y"
  by (cases r) auto

lemma and_then_compare:
  "and_then (add64 a b) (\<lambda>limit. Inr (P limit)) = Inr False \<longleftrightarrow> in_int64 (a + b) \<and> \<not> P (a + b)"
  by (simp add: add64_def)

lemma check_times_iff: "check_times claims now = Inr () \<longleftrightarrow> in_window claims now"
proof (cases "JsonIntegerField claims ''exp''")
  case (Inl f)
  then show ?thesis unfolding check_times_def in_window_def by simp
next
  case e: (Inr expires)
  show ?thesis
  proof (cases "JsonIntegerField claims ''nbf''")
    case (Inl f)
    then show ?thesis unfolding check_times_def in_window_def e and_then.simps and_then_guard by simp
  next
    case (Inr not_before)
    then show ?thesis
      unfolding check_times_def in_window_def e Inr and_then.simps and_then_guard token_leeway_def
      by (cases expires; cases not_before) (simp_all add: and_then_compare not_less)
  qed
qed

lemma check_body_iff:
  "check_body pb cb claims body = Inr () \<longleftrightarrow>
     (\<exists>digest. Sha256 cb body = Inr digest \<and> Base64Encode digest \<noteq> [] \<and>
        JsonStringField_jwt pb claims ''sha256'' = Inr (Base64Encode digest))"
  unfolding check_body_def Let_def by (auto simp: and_then_Inr_iff)

lemma verify_signature_iff:
  assumes "compact_form a h c s"
  shows "verify_signature cb a (length h + 1 + length c) secret = Inr () \<longleftrightarrow>
    (\<exists>mac. HmacSha256 cb secret (h @ ''.'' @ c) = Inr mac \<and> Base64UrlDecode s = Inr mac)"
  unfolding verify_signature_def substr_compact [OF assms] by (auto simp: and_then_Inr_iff)

lemma token_issuer_iff:
  "token_issuer pb a = Inr (j, claims, issuer) \<longleftrightarrow>
     (\<exists>h c s header. compact_form a h c s \<and> j = length h + 1 + length c \<and>
        decode_part h = Inr header \<and> JsonStringField_jwt pb header ''alg'' = Inr ''HS256'' \<and>
        decode_part c = Inr claims \<and> JsonStringField_jwt pb claims ''iss'' = Inr issuer \<and> issuer \<noteq> [])"
    (is "?l \<longleftrightarrow> ?r")
proof
  assume ?l
  then obtain i header where dots: "token_dots a = Inr (i, j)" and
    rest: "decode_part (substr a 0 i) = Inr header" "JsonStringField_jwt pb header ''alg'' = Inr ''HS256''"
      "decode_part (substr a (i + 1) (j - i - 1)) = Inr claims"
      "JsonStringField_jwt pb claims ''iss'' = Inr issuer" "issuer \<noteq> []"
    by (auto simp: token_issuer_def and_then_Inr_iff split: if_splits)
  from dots obtain h c s where com: "compact_form a h c s" and i: "i = length h" and j: "j = length h + 1 + length c"
    by (rule token_dots_Inr)
  show ?r
    using com j rest unfolding i j substr_compact [OF com] by blast
next
  assume ?r
  then obtain h c s header where com: "compact_form a h c s" and j: "j = length h + 1 + length c" and
    rest: "decode_part h = Inr header" "JsonStringField_jwt pb header ''alg'' = Inr ''HS256''"
      "decode_part c = Inr claims" "JsonStringField_jwt pb claims ''iss'' = Inr issuer" "issuer \<noteq> []"
    by blast
  have "a \<noteq> []" using com by (auto simp: compact_form_def)
  then show ?l
    by (simp only: token_issuer_def token_dots_compact [OF com] and_then.simps prod.case if_False
        substr_compact [OF com] rest not_True_eq_False j simp_thms)
qed

text \<open>
  \<open>authentic \<dots> event\<close>: everything a webhook must satisfy. The token has three parts, its header
  asks for HS256, its claims name an issuer whose secret, as the key provider gives it, signed
  them; the time is in the window, the checksum is that of the body, and the body parses.
\<close>

definition authentic ::
  "'m protobuf \<Rightarrow> 'w platform \<Rightarrow> 'w WebhookReceiver \<Rightarrow> string \<Rightarrow> string \<Rightarrow> int \<Rightarrow> 'w \<Rightarrow> WebhookEvent \<Rightarrow> 'w \<Rightarrow> bool" where
  "authentic pb pf r body authorization now w event w' \<longleftrightarrow>
     (\<exists>h c s header claims issuer secret mac digest.
        compact_form (bearer_token authorization) h c s \<and>
        decode_part h = Inr header \<and> JsonStringField_jwt pb header ''alg'' = Inr ''HS256'' \<and>
        decode_part c = Inr claims \<and> JsonStringField_jwt pb claims ''iss'' = Inr issuer \<and> issuer \<noteq> [] \<and>
        wr_key_provider r issuer w = (Inr secret, w') \<and> secret \<noteq> [] \<and>
        HmacSha256 (pf_crypto pf) secret (h @ ''.'' @ c) = Inr mac \<and> Base64UrlDecode s = Inr mac \<and>
        in_window claims (trunc_div now (pf_ticks pf)) \<and>
        Sha256 (pf_crypto pf) body = Inr digest \<and> Base64Encode digest \<noteq> [] \<and>
        JsonStringField_jwt pb claims ''sha256'' = Inr (Base64Encode digest) \<and>
        parse_body pb body = Inr event)"

lemma ReceiveAt_Inr:
  "ReceiveAt pb pf r body authorization now w = (Inr event, w') \<longleftrightarrow>
    (\<exists>j claims issuer secret.
       token_issuer pb (bearer_token authorization) = Inr (j, claims, issuer) \<and>
       wr_key_provider r issuer w = (Inr secret, w') \<and> secret \<noteq> [] \<and>
       verify_signature (pf_crypto pf) (bearer_token authorization) j secret = Inr () \<and>
       check_times claims (trunc_div now (pf_ticks pf)) = Inr () \<and>
       check_body pb (pf_crypto pf) claims body = Inr () \<and> parse_body pb body = Inr event)"
proof -
  have tail: "(if secret = [] then throw ec_authentication ''webhook API secret was not found''
      else and_then v (\<lambda>_. and_then t (\<lambda>_. and_then b (\<lambda>_. p)))) = Inr event \<longleftrightarrow>
    secret \<noteq> [] \<and> v = Inr () \<and> t = Inr () \<and> b = Inr () \<and> p = Inr event"
    for secret :: string and v t b :: "unit result" and p :: "WebhookEvent result"
    by (cases v; cases t; cases b) auto
  show ?thesis
    unfolding ReceiveAt_def Let_def io_bind_Inr_iff io_lift_Pair_iff case_prod_unfold tail
    by auto
qed

lemma ReceiveAt_authentic:
  "ReceiveAt pb pf r body authorization now w = (Inr event, w') \<longleftrightarrow>
     authentic pb pf r body authorization now w event w'"
proof
  assume "ReceiveAt pb pf r body authorization now w = (Inr event, w')"
  then obtain j claims issuer secret where
    ti: "token_issuer pb (bearer_token authorization) = Inr (j, claims, issuer)" and
    vs: "verify_signature (pf_crypto pf) (bearer_token authorization) j secret = Inr ()" and
    rest: "wr_key_provider r issuer w = (Inr secret, w')" "secret \<noteq> []"
      "in_window claims (trunc_div now (pf_ticks pf))" "parse_body pb body = Inr event" and
    body: "check_body pb (pf_crypto pf) claims body = Inr ()"
    unfolding ReceiveAt_Inr check_times_iff by blast
  from ti obtain h c s header where com: "compact_form (bearer_token authorization) h c s" and
    j: "j = length h + 1 + length c" and
    parts: "decode_part h = Inr header" "JsonStringField_jwt pb header ''alg'' = Inr ''HS256''"
      "decode_part c = Inr claims" "JsonStringField_jwt pb claims ''iss'' = Inr issuer" "issuer \<noteq> []"
    unfolding token_issuer_iff by blast
  show "authentic pb pf r body authorization now w event w'"
    using vs [unfolded j verify_signature_iff [OF com]] body [unfolded check_body_iff] com parts rest
    unfolding authentic_def by blast
next
  assume "authentic pb pf r body authorization now w event w'"
  then obtain h c s header claims issuer secret mac digest where
    com: "compact_form (bearer_token authorization) h c s" and
    parts: "decode_part h = Inr header" "JsonStringField_jwt pb header ''alg'' = Inr ''HS256''"
      "decode_part c = Inr claims" "JsonStringField_jwt pb claims ''iss'' = Inr issuer" "issuer \<noteq> []" and
    key: "wr_key_provider r issuer w = (Inr secret, w')" "secret \<noteq> []" and
    mac: "HmacSha256 (pf_crypto pf) secret (h @ ''.'' @ c) = Inr mac" "Base64UrlDecode s = Inr mac" and
    window: "in_window claims (trunc_div now (pf_ticks pf))" and
    body: "Sha256 (pf_crypto pf) body = Inr digest" "Base64Encode digest \<noteq> []"
      "JsonStringField_jwt pb claims ''sha256'' = Inr (Base64Encode digest)"
      "parse_body pb body = Inr event"
    unfolding authentic_def by blast
  have "token_issuer pb (bearer_token authorization) = Inr (length h + 1 + length c, claims, issuer)"
    unfolding token_issuer_iff using com parts by blast
  moreover have "verify_signature (pf_crypto pf) (bearer_token authorization) (length h + 1 + length c) secret = Inr ()"
    unfolding verify_signature_iff [OF com] using mac by blast
  moreover have "check_body pb (pf_crypto pf) claims body = Inr ()"
    unfolding check_body_iff using body by blast
  ultimately show "ReceiveAt pb pf r body authorization now w = (Inr event, w')"
    unfolding ReceiveAt_Inr check_times_iff using key window body(4) by blast
qed

section \<open>What rejection means\<close>

definition auth_error :: "fault \<Rightarrow> bool" where
  "auth_error f \<longleftrightarrow> (\<exists>m. f = Throw (Error ec_authentication m))"

lemma auth_error_throw: "throw ec_authentication m = Inl f \<Longrightarrow> auth_error f"
  by (auto simp: throw_def auth_error_def)

lemma crypto_auth_error:
  "Base64UrlDecode s = Inl f \<Longrightarrow> auth_error f" "HmacSha256 cb secret v = Inl f \<Longrightarrow> auth_error f"
  "Sha256 cb v = Inl f \<Longrightarrow> auth_error f"
  using Base64UrlDecode_error [of s f] HmacSha256_error [of cb secret v f] Sha256_error [of cb v f]
  unfolding auth_error_def by blast+

lemma decode_part_error: "decode_part p = Inl f \<Longrightarrow> auth_error f"
  by (auto simp: decode_part_def and_then_Inl_iff dest: crypto_auth_error)

lemma JsonStringField_jwt_error: "JsonStringField_jwt pb json name = Inl f \<Longrightarrow> auth_error f"
  by (auto simp: JsonStringField_jwt_def dest: auth_error_throw split: option.splits if_splits)

lemma token_dots_error: "token_dots a = Inl f \<Longrightarrow> auth_error f"
  by (auto simp: token_dots_def Let_def dest: auth_error_throw split: option.splits if_splits)

lemma token_issuer_error: "token_issuer pb a = Inl f \<Longrightarrow> auth_error f"
  by (auto simp: token_issuer_def and_then_Inl_iff split: if_splits
      dest: auth_error_throw decode_part_error JsonStringField_jwt_error token_dots_error)

lemma verify_signature_error: "verify_signature cb a j secret = Inl f \<Longrightarrow> auth_error f"
  by (auto simp: verify_signature_def and_then_Inl_iff split: if_splits
      dest: auth_error_throw crypto_auth_error)

lemma check_body_error: "check_body pb cb claims body = Inl f \<Longrightarrow> auth_error f"
  by (auto simp: check_body_def Let_def and_then_Inl_iff split: if_splits
      dest: auth_error_throw JsonStringField_jwt_error crypto_auth_error)

lemma parse_body_error: "parse_body pb body = Inl f \<Longrightarrow> \<exists>m. f = Throw (Error ec_protocol m)"
  by (auto simp: parse_body_def throw_def split: sum.splits)

lemma parse_body_raw: "parse_body pb body = Inr event \<Longrightarrow> ev_raw_body event = body"
  by (auto simp: parse_body_def event_of_def Let_def split: sum.splits)

text \<open>An expiry or a clock within a minute of the end of the 64-bit range.\<close>

definition near_limit :: "string \<Rightarrow> int \<Rightarrow> bool" where
  "near_limit claims now \<longleftrightarrow>
     (\<exists>e. JsonIntegerField claims ''exp'' = Inr (Some e) \<and> int64_max - 60 < e) \<or>
     \<not> in_int64 (now + 60)"

lemma compare_error: "and_then (add64 a b) (\<lambda>limit. Inr (P limit)) = Inl f \<Longrightarrow> f = Undefined \<and> \<not> in_int64 (a + b)"
  by (auto simp: add64_def split: if_splits)

lemma and_then_guard_Inl:
  "and_then r (\<lambda>x. if x then throw c m else k) = Inl f \<longleftrightarrow>
     r = Inl f \<or> r = Inr True \<and> throw c m = (Inl f :: 'a result) \<or> r = Inr False \<and> k = (Inl f :: 'a result)"
  by (cases r) auto

lemma check_times_error:
  assumes "check_times claims now = Inl f"
  shows "auth_error f \<or> f = Undefined \<and> near_limit claims now"
proof -
  have nbf: "auth_error f \<or> f = Undefined \<and> near_limit claims now"
    if "and_then (JsonIntegerField claims ''nbf'') (\<lambda>not_before.
      and_then (case not_before of None \<Rightarrow> Inr False
        | Some b \<Rightarrow> and_then (add64 now token_leeway) (\<lambda>limit. Inr (limit < b)))
      (\<lambda>early. if early then throw ec_authentication ''webhook JWT is not valid yet'' else Inr ())) = Inl f"
    using that JsonIntegerField_error [of claims "''nbf''" f]
    by (auto simp: and_then_Inl_iff [of "JsonIntegerField _ _"] and_then_guard_Inl auth_error_def
        near_limit_def token_leeway_def throw_def split: option.splits dest: compare_error)
  show ?thesis
  proof (cases "JsonIntegerField claims ''exp''")
    case (Inl g)
    then show ?thesis using assms JsonIntegerField_error [OF Inl]
      by (simp add: check_times_def auth_error_def)
  next
    case (Inr expires)
    have limit: "int64_max - 60 < e" if "expires = Some e" "\<not> in_int64 (e + 60)" for e
      using that Inr JsonIntegerField_range [of claims "''exp''" e]
      by (auto simp: in_int64_def int64_min_def int64_max_def)
    from assms nbf show ?thesis
      unfolding check_times_def Inr and_then.simps and_then_guard_Inl
      by (cases expires) (auto simp: token_leeway_def near_limit_def Inr
          dest: compare_error auth_error_throw limit)
  qed
qed

lemma ReceiveAt_error:
  assumes "ReceiveAt pb pf r body authorization now w = (Inl f, w')"
  shows "auth_error f \<or> (\<exists>m. f = Throw (Error ec_protocol m)) \<or>
    (\<exists>issuer. fst (wr_key_provider r issuer w) = Inl f) \<or>
    f = Undefined \<and> (\<exists>claims. near_limit claims (trunc_div now (pf_ticks pf)))"
proof (cases "token_issuer pb (bearer_token authorization)")
  case (Inl g)
  with assms token_issuer_error [OF Inl] show ?thesis by (simp add: ReceiveAt_def Let_def)
next
  case (Inr t)
  obtain j claims issuer where t: "t = (j, claims, issuer)" by (cases t)
  show ?thesis
  proof (cases "wr_key_provider r issuer w")
    case (Pair res w1)
    show ?thesis
    proof (cases res)
      case (Inl g)
      then have "g = f" using assms Pair by (simp add: ReceiveAt_def Let_def Inr t io_bind_Pair_Inl)
      with Inl Pair show ?thesis by (metis fst_conv)
    next
      case sec: (Inr secret)
      have "(if secret = [] then throw ec_authentication ''webhook API secret was not found''
            else
              and_then (verify_signature (pf_crypto pf) (bearer_token authorization) j secret) (\<lambda>_.
              and_then (check_times claims (trunc_div now (pf_ticks pf))) (\<lambda>_.
              and_then (check_body pb (pf_crypto pf) claims body) (\<lambda>_. parse_body pb body)))) = Inl f"
        using assms Pair by (simp add: ReceiveAt_def Let_def Inr t sec io_bind_Pair_Inr)
      then show ?thesis
        by (auto simp: and_then_Inl_iff split: if_splits dest: auth_error_throw verify_signature_error
            check_times_error check_body_error parse_body_error)
    qed
  qed
qed

section \<open>Properties\<close>


section \<open>Claims of tokens whose JSON is known\<close>

context json_runtime
begin

lemma claim_present:
  assumes "JsonStringField_jwt pb doc n = Inr s" "json_read doc = Some (JObject ms)" "distinct (map fst ms)"
    "s \<noteq> []"
  shows "map_of ms n = Some (JString s)"
proof -
  from assms(1,4) obtain fs where fs: "pb_parse_struct pb doc = Some fs" and "map_of fs n = Some (StringValue s)"
    by (auto simp: JsonStringField_jwt_def split: option.splits if_splits)
  with parsed_member assms(2,3) show ?thesis by blast
qed

end

context json_runtime_complete
begin

lemma claim_read:
  assumes "json_read doc = Some (JObject ms)" "distinct (map fst ms)" "flat ms" "ascii doc"
    "map_of ms n = Some (JString s)"
  shows "JsonStringField_jwt pb doc n = Inr s"
proof -
  obtain fs where fs: "pb_parse_struct pb doc = Some fs" using parse_flat assms(1-4) by blast
  with parsed_string assms(1,2,5) have "map_of fs n = Some (StringValue s)" by blast
  with fs show ?thesis by (simp add: JsonStringField_jwt_def)
qed

end

section \<open>Reading integers\<close>

lemma digits_loop_digit:
  assumes "d < 10" "0 \<le> v" "v * 10 + int d \<le> int64_max"
  shows "digits_loop v (digit_char d # s) = digits_loop (v * 10 + int d) s"
proof -
  have o: "int (of_char (digit_char d)) - 48 = int d" using assms(1) by (simp add: of_char_digit_char)
  have "\<not> v > (int64_max - int d) div 10" using assms(3) by linarith
  then show ?thesis using assms(1) by (simp add: o Let_def)
qed

lemma digits_loop_show_nat:
  "int n \<le> int64_max \<Longrightarrow> digits_loop 0 (show_nat 10 n @ s) = digits_loop (int n) s"
proof (induction n arbitrary: s rule: less_induct)
  case (less n)
  show ?case
  proof (cases "n < 10")
    case True
    then show ?thesis using digits_loop_digit [of n 0 s] less.prems
      by (simp add: show_nat.simps [of 10 n])
  next
    case False
    have div_mod: "int (n div 10) * 10 + int (n mod 10) = int n"
      by (metis div_mult_mod_eq of_nat_add of_nat_mult of_nat_numeral)
    have le: "int (n div 10) * 10 + int (n mod 10) \<le> int64_max" unfolding div_mod by (rule less.prems)
    have "int (n div 10) \<le> int64_max" using less.prems by (simp add: zdiv_int)
    then have "digits_loop 0 (show_nat 10 n @ s) =
        digits_loop (int (n div 10)) (digit_char (n mod 10) # s)"
      using False less.IH [of "n div 10"] by (simp add: show_nat.simps [of 10 n])
    also have "digits_loop (int (n div 10)) (digit_char (n mod 10) # s) =
        digits_loop (int (n div 10) * 10 + int (n mod 10)) s"
      by (rule digits_loop_digit [OF _ _ le]) simp_all
    finally show ?thesis unfolding div_mod .
  qed
qed

lemma digits_loop_stop: "s = [] \<or> \<not> is_digit (hd s) \<Longrightarrow> digits_loop v s = Inr v"
  by (cases s) auto

definition first_at :: "string \<Rightarrow> string \<Rightarrow> nat \<Rightarrow> bool" where
  "first_at doc marker k \<longleftrightarrow> find_from doc marker 0 = Some k"

lemma hd_show_nat_digit: "is_digit (hd (show_nat 10 n))" "hd (show_nat 10 n) \<noteq> CHR ''-''"
  "\<not> isspace (hd (show_nat 10 n))"
proof -
  show d: "is_digit (hd (show_nat 10 n))"
    using show_nat_10_digits [of n] show_nat_nonempty [of 10 n] by (meson list.set_sel(1))
  show "hd (show_nat 10 n) \<noteq> CHR ''-''" "\<not> isspace (hd (show_nat 10 n))"
    using d by (auto simp: is_digit_def isspace_def)
qed

text \<open>
  What the search for a time claim reads: when the first occurrence of the quoted name is
  followed by a colon and an integer of at most 64 bits, it is that integer, sign included.
\<close>

theorem integer_claim_read:
  assumes "first_at (before @ [CHR 0x22] @ name @ [CHR 0x22, CHR '':''] @ to_string i @ after)
      ([CHR 0x22] @ name @ [CHR 0x22]) (length before)"
    and "after = [] \<or> \<not> is_digit (hd after)" and "\<bar>i\<bar> \<le> int64_max"
  shows "JsonIntegerField (before @ [CHR 0x22] @ name @ [CHR 0x22, CHR '':''] @ to_string i @ after) name
    = Inr (Some i)"
proof -
  define doc where "doc = before @ [CHR 0x22] @ name @ [CHR 0x22, CHR '':''] @ to_string i @ after"
  define marker where "marker = CHR 0x22 # name @ [CHR 0x22]"
  have f1: "find_from doc marker 0 = Some (length before)"
    using assms(1) by (simp add: first_at_def doc_def marker_def)
  have t: "doc = (before @ marker) @ [] @ CHR '':'' # to_string i @ after"
    by (simp add: doc_def marker_def)
  have f2: "find_from doc '':'' (length before + length marker) = Some (length before + length marker)"
    unfolding t using find_char_split(1) [of "CHR '':''" "[]" "before @ marker"] by simp
  have rest: "drop (Suc (length before + length marker)) doc = to_string i @ after"
    by (simp add: t)
  have n: "digits_loop 0 (show_nat 10 m @ after) = Inr (int m)" if "int m \<le> int64_max" for m
    using digits_loop_show_nat [OF that] digits_loop_stop [OF assms(2)] by simp
  have minus: "\<not> isspace (CHR ''-'')" by code_simp
  have ne: "show_nat 10 m = hd (show_nat 10 m) # tl (show_nat 10 m)" for m by simp
  have dw: "dropWhile isspace (show_nat 10 m @ after) = show_nat 10 m @ after" for m
    using hd_show_nat_digit(3) [of m] ne [of m] by (metis append_Cons dropWhile.simps(2))
  have hd: "hd (show_nat 10 m @ after) = hd (show_nat 10 m)" for m by simp
  define tail where "tail = to_string i @ after"
  have run: "JsonIntegerField doc name = Inr (Some i)"
    if "dropWhile isspace tail = tail" "tail \<noteq> []"
      "(if hd tail = CHR ''-'' then tl tail else tail) = show_nat 10 m @ after"
      "int m \<le> int64_max" "i = (if hd tail = CHR ''-'' then - int m else int m)" for m
  proof -
    have "is_digit (hd (show_nat 10 m @ after))" "show_nat 10 m @ after \<noteq> []"
      using hd_show_nat_digit(1) [of m] by (simp_all add: hd)
    moreover have "tail \<noteq> [] \<and> hd tail = CHR ''-'' \<longleftrightarrow> hd tail = CHR ''-''" using that(2) by blast
    ultimately show ?thesis
      unfolding JsonIntegerField_def Let_def marker_def [symmetric] f1 f2 option.case rest
        tail_def [symmetric] that(1)
      by (simp only: that(3) n [OF that(4)] and_then.simps simp_thms if_False not_True_eq_False
          that(5) [symmetric])
  qed
  have "JsonIntegerField doc name = Inr (Some i)"
  proof (cases "i < 0")
    case True
    then have t: "tail = CHR ''-'' # show_nat 10 (nat (- i)) @ after" by (simp add: to_string_def tail_def)
    show ?thesis by (rule run [of "nat (- i)"]) (use True assms(3) minus in \<open>simp_all add: t\<close>)
  next
    case False
    then have t: "tail = show_nat 10 (nat i) @ after" by (simp add: to_string_def tail_def)
    show ?thesis
      by (rule run [of "nat i"]) (use False assms(3) in \<open>simp_all add: t dw hd hd_show_nat_digit\<close>)
  qed
  then show ?thesis by (simp only: doc_def)
qed

lemma integer_claim_read_witness:
  "JsonIntegerField (''{'' @ [CHR 0x22] @ ''exp'' @ [CHR 0x22, CHR '':''] @ to_string 60 @ ''}'') ''exp''
     = Inr (Some 60)"
proof (rule integer_claim_read [of "''{''" "''exp''" 60 "''}''"])
  show "first_at (''{'' @ [CHR 0x22] @ ''exp'' @ [CHR 0x22, CHR '':''] @ to_string 60 @ ''}'')
      ([CHR 0x22] @ ''exp'' @ [CHR 0x22]) (length ''{'')"
    by code_simp
qed (code_simp, simp add: int64_max_def)

text \<open>Well-formed claims of an issuer whose key is called \<open>exp\<close>.\<close>

definition misread_claims :: string where
  "misread_claims =
     ''{'' @ member (''iss'', [CHR 0x22] @ ''exp'' @ [CHR 0x22]) @ '','' @ member (''nbf'', ''1'') @ '','' @
     member (''exp'', ''2'') @ ''}''"

text \<open>
  The search does not parse: where a claim's value is the quoted name of another claim, it
  is taken for that claim. Here the token of the issuer \<open>exp\<close> expires, as JSON, at 2, and the
  receiver reads its \<open>nbf\<close>, which is 1.
\<close>

theorem integer_claims_are_misread:
  "json_read misread_claims =
     Some (JObject [(''iss'', JString ''exp''), (''nbf'', JInt 1), (''exp'', JInt 2)]) \<and>
   JsonIntegerField misread_claims ''exp'' = Inr (Some 1)"
  by code_simp

lemma compare_undefined: "and_then (add64 a b) (\<lambda>limit. Inr (P limit)) = Inl Undefined \<longleftrightarrow> \<not> in_int64 (a + b)"
  by (simp add: add64_def)

lemma compare_true:
  "and_then (add64 a b) (\<lambda>limit. Inr (P limit)) = Inr c \<longleftrightarrow> in_int64 (a + b) \<and> c = P (a + b)"
  by (auto simp: add64_def)

lemma JsonIntegerField_defined: "JsonIntegerField json name \<noteq> Inl Undefined"
  using JsonIntegerField_error by blast

lemma not_before_undefined:
  "and_then (JsonIntegerField claims ''nbf'') (\<lambda>not_before.
     and_then (case not_before of None \<Rightarrow> Inr False
       | Some b \<Rightarrow> and_then (add64 now token_leeway) (\<lambda>limit. Inr (limit < b)))
     (\<lambda>early. if early then throw ec_authentication ''webhook JWT is not valid yet'' else Inr ())) = Inl Undefined \<longleftrightarrow>
   \<not> in_int64 (now + 60) \<and> (\<exists>b. JsonIntegerField claims ''nbf'' = Inr (Some b))"
  using JsonIntegerField_defined [of claims "''nbf''"]
  by (auto simp: and_then_Inl_iff [of "JsonIntegerField _ _"] and_then_guard_Inl compare_undefined
      token_leeway_def throw_def split: option.splits)

text \<open>
  C40. The check of the time window computes outside the 64-bit range exactly when the token has an
  expiry within a minute of the largest integer, or when the clock is within a minute of it, the
  expiry does not decide and there is a start time. The search does read such expiries, so a token
  can have one, at any time.
\<close>

theorem expiry_check_overflows:
  "(check_times claims now = Inl Undefined \<longleftrightarrow>
     (case JsonIntegerField claims ''exp'' of
        Inl f \<Rightarrow> False
      | Inr expires \<Rightarrow>
          (\<exists>e. expires = Some e \<and> int64_max - 60 < e) \<or>
          \<not> in_int64 (now + 60) \<and> (expires = None \<or> (\<exists>e. expires = Some e \<and> now \<le> e + 60)) \<and>
            (\<exists>b. JsonIntegerField claims ''nbf'' = Inr (Some b)))) \<and>
   JsonIntegerField (''{'' @ member (''exp'', ''9223372036854775807'') @ ''}'') ''exp'' = Inr (Some int64_max)"
proof (intro conjI)
  show "check_times claims now = Inl Undefined \<longleftrightarrow>
     (case JsonIntegerField claims ''exp'' of
        Inl f \<Rightarrow> False
      | Inr expires \<Rightarrow>
          (\<exists>e. expires = Some e \<and> int64_max - 60 < e) \<or>
          \<not> in_int64 (now + 60) \<and> (expires = None \<or> (\<exists>e. expires = Some e \<and> now \<le> e + 60)) \<and>
            (\<exists>b. JsonIntegerField claims ''nbf'' = Inr (Some b)))"
  proof (cases "JsonIntegerField claims ''exp''")
    case (Inl f)
    then show ?thesis using JsonIntegerField_defined [of claims "''exp''"] by (simp add: check_times_def)
  next
    case (Inr expires)
    have limit: "in_int64 (e + 60) \<longleftrightarrow> \<not> int64_max - 60 < e" if "expires = Some e" for e
      using that Inr JsonIntegerField_range [of claims "''exp''" e]
      by (auto simp: in_int64_def int64_min_def int64_max_def)
    show ?thesis
      unfolding check_times_def Inr and_then.simps and_then_guard_Inl not_before_undefined sum.case
      by (cases expires) (auto simp: token_leeway_def compare_undefined compare_true limit throw_def)
  qed
  show "JsonIntegerField (''{'' @ member (''exp'', ''9223372036854775807'') @ ''}'') ''exp'' = Inr (Some int64_max)"
    by code_simp
qed

section \<open>Stores of secrets\<close>

text \<open>
  A key provider that answers from a fixed table, as the providers of the first two constructors
  do; a missing key gives the empty secret.
\<close>

locale key_store =
  fixes provider :: "'w key_provider"
    and secrets :: "string \<Rightarrow> string option"
  assumes provides: "provider issuer = io_return (case secrets issuer of None \<Rightarrow> [] | Some s \<Rightarrow> s)"
begin

lemma accepted_key:
  assumes "authentic pb pf \<lparr>wr_key_provider = provider, wr_callbacks = cbs\<rparr> body authorization now w event w'"
  obtains h c s issuer secret mac where
    "compact_form (bearer_token authorization) h c s" "secrets issuer = Some secret" "secret \<noteq> []"
    "HmacSha256 (pf_crypto pf) secret (h @ ''.'' @ c) = Inr mac" "Base64UrlDecode s = Inr mac" "w' = w"
proof -
  from assms obtain h c s issuer secret mac where
    "compact_form (bearer_token authorization) h c s" "provider issuer w = (Inr secret, w')" "secret \<noteq> []"
    "HmacSha256 (pf_crypto pf) secret (h @ ''.'' @ c) = Inr mac" "Base64UrlDecode s = Inr mac"
    unfolding authentic_def by auto
  moreover from calculation have "secrets issuer = Some secret" "w' = w"
    by (auto simp: provides split: option.splits)
  ultimately show thesis using that by blast
qed

end

interpretation single: key_store "single_key_provider key secret" "[key \<mapsto> secret]"
  for key secret
  by unfold_locales (simp add: single_key_provider_def fun_eq_iff)

interpretation map_store: key_store "map_key_provider secrets" "map_of secrets"
  for secrets
  by unfold_locales (simp add: map_key_provider_def fun_eq_iff)

text \<open>
  C36. A receiver built from a key or a map of keys accepts only tokens signed with a non-empty
  secret that was configured, whatever issuer the token claims, and consults nothing else.
\<close>

theorem only_configured_keys_sign:
  "case ReceiveAt pb pf \<lparr>wr_key_provider = map_key_provider secrets, wr_callbacks = cbs\<rparr>
          body authorization now w of
     (Inr event, w') \<Rightarrow>
       w' = w \<and>
       (\<exists>h c s issuer secret mac.
          compact_form (bearer_token authorization) h c s \<and> map_of secrets issuer = Some secret \<and>
          secret \<noteq> [] \<and> HmacSha256 (pf_crypto pf) secret (h @ ''.'' @ c) = Inr mac \<and>
          Base64UrlDecode s = Inr mac)
   | (Inl f, w') \<Rightarrow> True"
proof (cases "ReceiveAt pb pf \<lparr>wr_key_provider = map_key_provider secrets, wr_callbacks = cbs\<rparr>
          body authorization now w")
  case (Pair r w')
  show ?thesis
  proof (cases r)
    case (Inr event)
    then have "authentic pb pf \<lparr>wr_key_provider = map_key_provider secrets, wr_callbacks = cbs\<rparr>
        body authorization now w event w'"
      using Pair by (simp add: ReceiveAt_authentic [symmetric])
    then show ?thesis
      unfolding Pair Inr prod.case sum.case by (rule map_store.accepted_key) blast
  qed (simp add: Pair)
qed

text \<open>
  The constructor with one key is the constructor with a map of that one key.
\<close>

theorem single_key_is_singleton_map:
  "single_key_provider key secret = map_key_provider [(key, secret)]"
  by (rule ext) (simp add: single.provides map_store.provides)

end
