(* ===== verification/WebhookDispatch.thy ===== *)
theory WebhookDispatch
  imports WebhookReceiver
begin

text \<open>
  \<^verbatim>\<open>WebhookReceiver::Dispatch\<close> and \<^verbatim>\<open>SetCallbacks\<close> of \<^verbatim>\<open>src/webhook_receiver.cpp\<close>, first in
  sequence and then concurrently: a step relation over any number of activations of the two
  functions that share one receiver.

  An activation is one call in progress. A callback that calls back into the receiver starts
  another activation, so nesting needs no model of its own. The mutex is the activation that holds
  it; the assignment to \<^verbatim>\<open>callbacks_\<close> takes two steps, and a copy made between them would be torn
  (\<open>None\<close>). The lemmas show that no copy ever is, that every dispatch works on one installed set of
  callbacks, and that the lock is always released without running application code.
\<close>

section \<open>Dispatch in sequence\<close>

definition handlers :: "'f WebhookCallbacks \<Rightarrow> WebhookEvent \<Rightarrow> 'f list" where
  "handlers callbacks event =
     (case on_event callbacks of None \<Rightarrow> [] | Some f \<Rightarrow> [f]) @
     (case SpecificCallback callbacks (ev_event event) of None \<Rightarrow> [] | Some f \<Rightarrow> [f])"

fun run_all :: "'w callback list \<Rightarrow> WebhookEvent \<Rightarrow> ('w, unit) io" where
  "run_all [] event = io_return ()"
| "run_all (f # fs) event = io_bind (f event) (\<lambda>_. run_all fs event)"

definition event_names :: "string list" where
  "event_names =
     [''room_started'', ''room_finished'', ''participant_joined'', ''participant_left'',
      ''participant_connection_aborted'', ''track_published'', ''track_unpublished'',
      ''egress_started'', ''egress_updated'', ''egress_ended'', ''ingress_started'', ''ingress_ended'']"

lemma SpecificCallback_unknown: "event \<notin> set event_names \<Longrightarrow> SpecificCallback callbacks event = None"
  by (simp add: SpecificCallback_def event_names_def)


section \<open>Concurrent activations\<close>

text \<open>
  Where an activation is: \<open>D_\<close> states belong to \<^verbatim>\<open>Dispatch\<close>, with the event and the copy, \<open>S_\<close> states
  to \<^verbatim>\<open>SetCallbacks\<close>. \<open>D_second\<close> remembers what was called.
\<close>

datatype 'f pc =
    Idle
  | D_locked WebhookEvent
  | D_copied WebhookEvent "'f WebhookCallbacks option"
  | D_ready WebhookEvent "'f WebhookCallbacks option"
  | D_second WebhookEvent "'f WebhookCallbacks option" "'f list"
  | S_locked "'f WebhookCallbacks"
  | S_writing "'f WebhookCallbacks"
  | S_written

text \<open>
  \<open>st_installed\<close> records the callbacks installed so far, the initial ones first, and \<open>st_done\<close> the
  callbacks each finished dispatch called.
\<close>

record 'f receiver_state =
  st_shared :: "'f WebhookCallbacks option"
  st_lock :: "nat option"
  st_pc :: "nat \<Rightarrow> 'f pc"
  st_installed :: "'f WebhookCallbacks list"
  st_done :: "(WebhookEvent \<times> 'f list) list"

definition initial :: "'f WebhookCallbacks \<Rightarrow> 'f receiver_state" where
  "initial callbacks =
     \<lparr>st_shared = Some callbacks, st_lock = None, st_pc = (\<lambda>_. Idle), st_installed = [callbacks],
      st_done = []\<rparr>"

definition goto :: "nat \<Rightarrow> 'f pc \<Rightarrow> 'f receiver_state \<Rightarrow> 'f receiver_state" where
  "goto i p s = s\<lparr>st_pc := (st_pc s)(i := p)\<rparr>"

definition first_call :: "'f WebhookCallbacks option \<Rightarrow> 'f list" where
  "first_call copy = (case copy of None \<Rightarrow> [] | Some c \<Rightarrow> (case on_event c of None \<Rightarrow> [] | Some f \<Rightarrow> [f]))"

definition second_call :: "'f WebhookCallbacks option \<Rightarrow> WebhookEvent \<Rightarrow> 'f list" where
  "second_call copy event =
     (case copy of None \<Rightarrow> []
      | Some c \<Rightarrow> (case SpecificCallback c (ev_event event) of None \<Rightarrow> [] | Some f \<Rightarrow> [f]))"

text \<open>\<open>step i s s'\<close>: activation \<open>i\<close> moves. A callback may throw, which ends its dispatch.\<close>

inductive step :: "nat \<Rightarrow> 'f receiver_state \<Rightarrow> 'f receiver_state \<Rightarrow> bool" where
  dispatch_lock: "st_pc s i = Idle \<Longrightarrow> st_lock s = None \<Longrightarrow>
     step i s (goto i (D_locked event) (s\<lparr>st_lock := Some i\<rparr>))"
| dispatch_copy: "st_pc s i = D_locked event \<Longrightarrow>
     step i s (goto i (D_copied event (st_shared s)) s)"
| dispatch_unlock: "st_pc s i = D_copied event copy \<Longrightarrow>
     step i s (goto i (D_ready event copy) (s\<lparr>st_lock := None\<rparr>))"
| dispatch_first: "st_pc s i = D_ready event copy \<Longrightarrow>
     step i s (goto i (D_second event copy (first_call copy)) s)"
| dispatch_first_throws: "st_pc s i = D_ready event copy \<Longrightarrow>
     step i s (goto i Idle (s\<lparr>st_done := st_done s @ [(event, first_call copy)]\<rparr>))"
| dispatch_second: "st_pc s i = D_second event copy called \<Longrightarrow>
     step i s (goto i Idle (s\<lparr>st_done := st_done s @ [(event, called @ second_call copy event)]\<rparr>))"
| set_lock: "st_pc s i = Idle \<Longrightarrow> st_lock s = None \<Longrightarrow>
     step i s (goto i (S_locked callbacks) (s\<lparr>st_lock := Some i\<rparr>))"
| set_begin: "st_pc s i = S_locked callbacks \<Longrightarrow>
     step i s (goto i (S_writing callbacks) (s\<lparr>st_shared := None\<rparr>))"
| set_end: "st_pc s i = S_writing callbacks \<Longrightarrow>
     step i s (goto i S_written (s\<lparr>st_shared := Some callbacks,
                                   st_installed := st_installed s @ [callbacks]\<rparr>))"
| set_unlock: "st_pc s i = S_written \<Longrightarrow>
     step i s (goto i Idle (s\<lparr>st_lock := None\<rparr>))"

inductive_cases stepE: "step i s s'"

inductive reachable :: "'f WebhookCallbacks \<Rightarrow> 'f receiver_state \<Rightarrow> bool" where
  start: "reachable callbacks (initial callbacks)"
| move: "reachable callbacks s \<Longrightarrow> step i s s' \<Longrightarrow> reachable callbacks s'"

text \<open>The states in which an activation is inside the critical section.\<close>

fun critical :: "'f pc \<Rightarrow> bool" where
  "critical (D_locked event) = True"
| "critical (D_copied event copy) = True"
| "critical (S_locked callbacks) = True"
| "critical (S_writing callbacks) = True"
| "critical S_written = True"
| "critical _ = False"

fun writing :: "'f pc \<Rightarrow> bool" where
  "writing (S_writing callbacks) = True"
| "writing _ = False"

text \<open>What the copy and the calls of an activation must be.\<close>

definition installed_copy :: "'f receiver_state \<Rightarrow> 'f WebhookCallbacks option \<Rightarrow> bool" where
  "installed_copy s copy \<longleftrightarrow> (\<exists>c \<in> set (st_installed s). copy = Some c)"

fun sound_pc :: "'f receiver_state \<Rightarrow> 'f pc \<Rightarrow> bool" where
  "sound_pc s (D_copied event copy) = installed_copy s copy"
| "sound_pc s (D_ready event copy) = installed_copy s copy"
| "sound_pc s (D_second event copy called) = (installed_copy s copy \<and> called = first_call copy)"
| "sound_pc s _ = True"

definition sound_done :: "'f receiver_state \<Rightarrow> bool" where
  "sound_done s \<longleftrightarrow>
     (\<forall>(event, called) \<in> set (st_done s). \<exists>c \<in> set (st_installed s). prefix called (handlers c event))"

definition sound_state :: "'f receiver_state \<Rightarrow> bool" where
  "sound_state s \<longleftrightarrow>
     (\<forall>i. critical (st_pc s i) \<longleftrightarrow> st_lock s = Some i) \<and>
     (if \<exists>i. writing (st_pc s i) then st_shared s = None else installed_copy s (st_shared s)) \<and>
     (\<forall>i. sound_pc s (st_pc s i)) \<and> sound_done s"


lemma goto_sel [simp]:
  "st_pc (goto i p s) = (st_pc s)(i := p)" "st_shared (goto i p s) = st_shared s"
  "st_lock (goto i p s) = st_lock s" "st_installed (goto i p s) = st_installed s"
  "st_done (goto i p s) = st_done s"
  by (simp_all add: goto_def)

lemma installed_copy_mono:
  "installed_copy s copy \<Longrightarrow> set (st_installed s) \<subseteq> set (st_installed s') \<Longrightarrow> installed_copy s' copy"
  by (auto simp: installed_copy_def)

lemma sound_pc_mono:
  "sound_pc s p \<Longrightarrow> set (st_installed s) \<subseteq> set (st_installed s') \<Longrightarrow> sound_pc s' p"
  by (cases p) (auto dest: installed_copy_mono)

lemma sound_done_mono:
  "sound_done s \<Longrightarrow> st_done s' = st_done s \<Longrightarrow> set (st_installed s) \<subseteq> set (st_installed s') \<Longrightarrow> sound_done s'"
  by (fastforce simp: sound_done_def)

lemma sound_done_snoc:
  "sound_done s \<Longrightarrow> installed_copy s copy \<Longrightarrow> st_done s' = st_done s @ [(event, called)] \<Longrightarrow>
   (\<And>c. copy = Some c \<Longrightarrow> prefix called (handlers c event)) \<Longrightarrow>
   st_installed s' = st_installed s \<Longrightarrow> sound_done s'"
  by (auto simp: sound_done_def installed_copy_def)

lemma calls_handlers:
  "prefix (first_call (Some c)) (handlers c event)"
  "first_call (Some c) @ second_call (Some c) event = handlers c event"
  by (simp_all add: first_call_def second_call_def handlers_def)

lemma writing_critical: "writing p \<Longrightarrow> critical p"
  by (cases p) auto

lemma soundI:
  assumes "\<And>j. critical (st_pc s' j) \<longleftrightarrow> st_lock s' = Some j"
    "if \<exists>j. writing (st_pc s' j) then st_shared s' = None else installed_copy s' (st_shared s')"
    "\<And>j. sound_pc s' (st_pc s' j)" "sound_done s'"
  shows "sound_state s'"
  using assms by (simp add: sound_state_def)

lemma sound_initial: "sound_state (initial callbacks)"
  by (simp add: sound_state_def initial_def installed_copy_def sound_done_def)

text \<open>A step that leaves the shared callbacks alone and writes nothing.\<close>

lemma sound_goto:
  assumes "sound_state s" "s' = goto i p t"
    "st_shared t = st_shared s" "st_installed t = st_installed s" "st_pc t = st_pc s"
    "\<not> writing (st_pc s i)" "\<not> writing p" "sound_pc s p" "sound_done t"
    "\<And>j. critical (if j = i then p else st_pc s j) \<longleftrightarrow> st_lock t = Some j"
  shows "sound_state s'"
proof (rule soundI)
  show "critical (st_pc s' j) \<longleftrightarrow> st_lock s' = Some j" for j
    using assms(10) [of j] by (simp add: assms(2,5))
  have "(\<exists>j. writing (st_pc s' j)) \<longleftrightarrow> (\<exists>j. writing (st_pc s j))"
    using assms(6,7) by (auto simp: assms(2,5))
  then show "if \<exists>j. writing (st_pc s' j) then st_shared s' = None else installed_copy s' (st_shared s')"
    using assms(1) by (auto simp: sound_state_def installed_copy_def assms(2-5))
  show "sound_pc s' (st_pc s' j)" for j
    using assms(1,8) by (auto simp: sound_state_def assms(2,4,5) intro: sound_pc_mono [of s])
  show "sound_done s'"
    using assms(9) by (rule sound_done_mono) (simp_all add: assms(2))
qed

lemma sound_step:
  assumes "step i s s'" "sound_state s"
  shows "sound_state s'"
proof -
  have lock: "critical (st_pc s j) \<longleftrightarrow> st_lock s = Some j" for j using assms(2) by (simp add: sound_state_def)
  have pc: "sound_pc s (st_pc s j)" for j using assms(2) by (simp add: sound_state_def)
  have sd: "sound_done s" using assms(2) by (simp add: sound_state_def)
  have mine: "st_lock s = Some i" if "critical (st_pc s i)" using lock that by blast
  have others: "\<not> critical (st_pc s j)" if "critical (st_pc s i)" "j \<noteq> i" for j
    using lock [of j] lock [of i] that by auto
  have shared: "installed_copy s (st_shared s)" if "\<And>j. \<not> writing (st_pc s j)"
    using assms(2) that by (simp add: sound_state_def)
  from assms(1) show ?thesis
  proof (cases rule: step.cases)
    case (dispatch_lock event)
    then show ?thesis
      using lock by (intro sound_goto [OF assms(2) dispatch_lock(1)]) (auto simp: sound_done_mono [OF sd])
  next
    case (dispatch_copy event)
    have nw: "\<not> writing (st_pc s j)" for j
      using others [of j] writing_critical [of "st_pc s j"] dispatch_copy(2) by (cases "j = i") auto
    show ?thesis
      using lock mine others dispatch_copy shared [OF nw]
      by (intro sound_goto [OF assms(2) dispatch_copy(1)]) (auto simp: sd)
  next
    case (dispatch_unlock event copy)
    then show ?thesis
      using lock mine others pc [of i]
      by (intro sound_goto [OF assms(2) dispatch_unlock(1)]) (auto simp: sound_done_mono [OF sd])
  next
    case (dispatch_first event copy)
    then show ?thesis
      using lock lock [of i] pc [of i] by (intro sound_goto [OF assms(2) dispatch_first(1)]) (auto simp: sd)
  next
    case (dispatch_first_throws event copy)
    then have "installed_copy s copy" using pc [of i] by simp
    then have "sound_done (s\<lparr>st_done := st_done s @ [(event, first_call copy)]\<rparr>)"
      using sd by (rule_tac sound_done_snoc) (auto simp: calls_handlers)
    then show ?thesis
      using lock lock [of i] dispatch_first_throws by (intro sound_goto [OF assms(2) dispatch_first_throws(1)]) auto
  next
    case (dispatch_second event copy called)
    then have "installed_copy s copy" "called = first_call copy" using pc [of i] by auto
    then have "sound_done (s\<lparr>st_done := st_done s @ [(event, called @ second_call copy event)]\<rparr>)"
      using sd by (rule_tac sound_done_snoc) (auto simp: calls_handlers)
    then show ?thesis
      using lock lock [of i] dispatch_second by (intro sound_goto [OF assms(2) dispatch_second(1)]) auto
  next
    case (set_lock callbacks)
    then show ?thesis
      using lock by (intro sound_goto [OF assms(2) set_lock(1)]) (auto simp: sound_done_mono [OF sd])
  next
    case (set_begin callbacks)
    show ?thesis
    proof (rule soundI)
      show "critical (st_pc s' j) \<longleftrightarrow> st_lock s' = Some j" for j
        using set_begin lock [of j] lock [of i] by auto
      have "\<exists>j. writing (st_pc s' j)" using set_begin by (intro exI [of _ i]) simp
      then show "if \<exists>j. writing (st_pc s' j) then st_shared s' = None else installed_copy s' (st_shared s')"
        using set_begin by simp
      show "sound_pc s' (st_pc s' j)" for j
        using set_begin pc [of j] by (auto intro: sound_pc_mono)
      show "sound_done s'" using sd by (rule sound_done_mono) (use set_begin in auto)
    qed
  next
    case (set_end callbacks)
    show ?thesis
    proof (rule soundI)
      show "critical (st_pc s' j) \<longleftrightarrow> st_lock s' = Some j" for j
        using set_end lock [of j] lock [of i] by auto
      have "\<not> writing (st_pc s' j)" for j
        using set_end others [of j] writing_critical [of "st_pc s j"] by (cases "j = i") auto
      then show "if \<exists>j. writing (st_pc s' j) then st_shared s' = None else installed_copy s' (st_shared s')"
        using set_end by (simp add: installed_copy_def)
      show "sound_pc s' (st_pc s' j)" for j
        using set_end pc [of j] by (auto intro: sound_pc_mono)
      show "sound_done s'" using sd by (rule sound_done_mono) (use set_end in auto)
    qed
  next
    case set_unlock
    then show ?thesis
      using lock mine others by (intro sound_goto [OF assms(2) set_unlock(1)]) (auto simp: sound_done_mono [OF sd])
  qed
qed

lemma reachable_sound: "reachable callbacks s \<Longrightarrow> sound_state s"
  by (induction rule: reachable.induct) (auto intro: sound_initial sound_step)


section \<open>Properties of concurrent use\<close>


lemma critical_step_calls_nothing:
  "step i s s' \<Longrightarrow> critical (st_pc s i) \<Longrightarrow> st_done s' = st_done s"
  by (auto elim!: stepE)

text \<open>Steps of one activation alone.\<close>

inductive alone :: "nat \<Rightarrow> 'f receiver_state \<Rightarrow> 'f receiver_state \<Rightarrow> bool" where
  stop: "alone i s s"
| go: "step i s s' \<Longrightarrow> alone i s' s'' \<Longrightarrow> alone i s s''"

lemma release:
  "critical (st_pc s i) \<Longrightarrow> \<exists>s'. alone i s s' \<and> st_lock s' = None \<and> st_done s' = st_done s"
proof (cases "st_pc s i")
  case (D_locked event)
  let ?a = "goto i (D_copied event (st_shared s)) s"
  let ?b = "goto i (D_ready event (st_shared s)) (?a\<lparr>st_lock := None\<rparr>)"
  have "step i s ?a" "step i ?a ?b" using D_locked by (auto intro!: step.intros)
  then have "alone i s ?b" by (blast intro: alone.intros)
  then show ?thesis by (intro exI [of _ ?b]) simp
next
  case (D_copied event copy)
  let ?b = "goto i (D_ready event copy) (s\<lparr>st_lock := None\<rparr>)"
  have "alone i s ?b" using D_copied by (blast intro: alone.intros step.intros)
  then show ?thesis by (intro exI [of _ ?b]) simp
next
  case (S_locked callbacks)
  let ?a = "goto i (S_writing callbacks) (s\<lparr>st_shared := None\<rparr>)"
  let ?b = "goto i S_written (?a\<lparr>st_shared := Some callbacks, st_installed := st_installed ?a @ [callbacks]\<rparr>)"
  let ?c = "goto i Idle (?b\<lparr>st_lock := None\<rparr>)"
  have "step i s ?a" using S_locked by (rule set_begin)
  moreover have "step i ?a ?b" by (rule set_end) simp
  moreover have "step i ?b ?c" by (rule set_unlock) simp
  ultimately have "alone i s ?c" by (blast intro: alone.intros)
  then show ?thesis by (intro exI [of _ ?c]) simp
next
  case (S_writing callbacks)
  let ?b = "goto i S_written (s\<lparr>st_shared := Some callbacks, st_installed := st_installed s @ [callbacks]\<rparr>)"
  let ?c = "goto i Idle (?b\<lparr>st_lock := None\<rparr>)"
  have "step i s ?b" "step i ?b ?c" using S_writing by (auto intro!: step.intros)
  then have "alone i s ?c" by (blast intro: alone.intros)
  then show ?thesis by (intro exI [of _ ?c]) simp
next
  case S_written
  let ?c = "goto i Idle (s\<lparr>st_lock := None\<rparr>)"
  have "alone i s ?c" using S_written by (blast intro: alone.intros step.intros)
  then show ?thesis by (intro exI [of _ ?c]) simp
qed simp_all


text \<open>
  A run for the witnesses: activation 0 dispatches an event while activation 1 replaces the
  callbacks between its copy and its calls.
\<close>

definition no_callbacks :: "'f WebhookCallbacks" where
  "no_callbacks =
     \<lparr>on_event = None, on_room_started = None, on_room_finished = None, on_participant_joined = None,
      on_participant_left = None, on_participant_connection_aborted = None, on_track_published = None,
      on_track_unpublished = None, on_egress_started = None, on_egress_updated = None,
      on_egress_ended = None, on_ingress_started = None, on_ingress_ended = None\<rparr>"

definition sample_event :: WebhookEvent where
  "sample_event =
     \<lparr>ev_event = ''room_started'', ev_id = ''1'', ev_created_at = 0, ev_room = None, ev_participant = None,
      ev_track = None, ev_egress = None, ev_ingress = None, ev_raw_body = ''{}''\<rparr>"

definition old_callbacks :: "nat WebhookCallbacks" where
  "old_callbacks = no_callbacks\<lparr>on_event := Some 1, on_room_started := Some 2\<rparr>"

definition new_callbacks :: "nat WebhookCallbacks" where
  "new_callbacks = no_callbacks\<lparr>on_event := Some 3, on_room_started := Some 4\<rparr>"

lemma sample_locked:
  "\<exists>s. reachable old_callbacks s \<and> st_lock s = Some 1 \<and> st_pc s 1 = S_locked new_callbacks \<and>
     st_pc s 0 = D_second sample_event (Some old_callbacks) [1] \<and>
     st_installed s = [old_callbacks] \<and> st_done s = []"
proof -
  let ?s0 = "initial old_callbacks"
  let ?s1 = "goto 0 (D_locked sample_event) (?s0\<lparr>st_lock := Some 0\<rparr>)"
  let ?s2 = "goto 0 (D_copied sample_event (st_shared ?s1)) ?s1"
  let ?s3 = "goto 0 (D_ready sample_event (st_shared ?s1)) (?s2\<lparr>st_lock := None\<rparr>)"
  let ?s4 = "goto 0 (D_second sample_event (st_shared ?s1) (first_call (st_shared ?s1))) ?s3"
  let ?s5 = "goto 1 (S_locked new_callbacks) (?s4\<lparr>st_lock := Some 1\<rparr>)"
  have t1: "step 0 ?s0 ?s1" by (rule dispatch_lock) (simp_all add: initial_def)
  have t2: "step 0 ?s1 ?s2" by (rule dispatch_copy) simp
  have t3: "step 0 ?s2 ?s3" by (rule dispatch_unlock) simp
  have t4: "step 0 ?s3 ?s4" by (rule dispatch_first) simp
  have t5: "step 1 ?s4 ?s5" by (rule set_lock) (simp_all add: initial_def)
  have "reachable old_callbacks ?s5"
    by (rule move [OF move [OF move [OF move [OF move [OF start t1] t2] t3] t4] t5])
  then show ?thesis
    by (intro exI [of _ ?s5]) (simp add: initial_def first_call_def old_callbacks_def)
qed



end
