(* ===== verification/TokenExchange.thy ===== *)
theory TokenExchange
  imports AccessToken WebhookDispatch
begin

text \<open>
  Tokens the SDK signs, as its webhook receiver sees them: no access token is accepted as a webhook,
  and every webhook signed with the secret of its issuer is received.
\<close>

section \<open>Tokens of the SDK at the receiver\<close>

text \<open>The parts of a token the SDK signed, as the receiver sees them.\<close>

lemma signed_by_compact:
  assumes "signed_by cb secret header claims jwt"
  obtains h c s mac where "compact_form jwt h c s" "decode_part h = Inr header" "decode_part c = Inr claims"
    "HmacSha256 cb secret (h @ ''.'' @ c) = Inr mac" "Base64UrlDecode s = Inr mac"
proof -
  from assms obtain h c s mac where
    j: "jwt = h @ ''.'' @ c @ ''.'' @ s" "CHR ''.'' \<notin> set h" "CHR ''.'' \<notin> set c" "CHR ''.'' \<notin> set s" and
    d: "Base64UrlDecode h = Inr (bytes_of header)" "Base64UrlDecode c = Inr (bytes_of claims)" and
    m: "HmacSha256 cb secret (h @ ''.'' @ c) = Inr mac" "Base64UrlDecode s = Inr mac"
    unfolding signed_by_def by blast
  show thesis
    by (rule that [of h c s mac]) (use j d m in \<open>simp_all add: compact_form_def decode_part_def\<close>)
qed

lemma bearer_token_Bearer: "bearer_token (''Bearer '' @ jwt) = jwt"
  by (simp add: bearer_token_def starts_with_def)

lemma claims_no_checksum: "map_of (claims_members t iat e) ''sha256'' = None"
proof -
  have "''sha256'' \<notin> set ([''iss'', ''nbf'', ''exp'', ''iat''] @ [''sub''] @ [''name''] @ [''metadata''] @
      [''attributes''] @ [''video''] @ [''sip''] @ [''agent''])" by code_simp
  then have "''sha256'' \<notin> set (map fst (claims_members t iat e))"
    using subseq_set [OF claims_names [of t iat e]] by blast
  then show ?thesis by (simp add: map_of_eq_None_iff)
qed

text \<open>
  C7. Token confusion is impossible: an access token the SDK signs, for whatever identity, grants
  and attributes, is never accepted as the authorization of a webhook, by any receiver, with any
  keys and for any body, because its claims hold no checksum.
\<close>

theorem access_tokens_are_no_webhooks:
  assumes "json_runtime pb" and "ToJwt cb ticks t issued = Inr jwt"
  shows "\<exists>f w'. ReceiveAt pb pf r body (''Bearer '' @ jwt) now w = (Inl f, w')"
proof (rule ccontr)
  assume "\<not> ?thesis"
  then obtain event w' where "ReceiveAt pb pf r body (''Bearer '' @ jwt) now w = (Inr event, w')"
    by (metis old.sum.exhaust surj_pair)
  then have "authentic pb pf r body (''Bearer '' @ jwt) now w event w'" by (simp add: ReceiveAt_authentic)
  then obtain h c s claims digest where a: "compact_form jwt h c s" "decode_part c = Inr claims"
    "Base64Encode digest \<noteq> []" "JsonStringField_jwt pb claims ''sha256'' = Inr (Base64Encode digest)"
    unfolding authentic_def bearer_token_Bearer by blast
  obtain iat e where "sign_claims cb (at_api_secret t) (claims_json t iat e) = Inr jwt"
    using assms(2) by (auto simp: ToJwt_def Let_def split: if_splits)
  from sign_claims_signed_by [OF this] obtain h' c' s' where
    b: "compact_form jwt h' c' s'" "decode_part c' = Inr (claims_json t iat e)"
    by (rule signed_by_compact)
  have "claims = claims_json t iat e" using a(2) b(2) compact_unique [OF b(1) a(1)] by simp
  then have "map_of (claims_members t iat e) ''sha256'' = Some (JString (Base64Encode digest))"
    using json_runtime.claim_present [OF assms(1) _ denotes_json_read [OF denotes_claims] distinct_claims] a
    by blast
  then show False by (simp add: claims_no_checksum)
qed

definition sample_platform :: "unit platform" where
  "sample_platform =
     \<lparr>pf_windows = False, pf_getenv = (\<lambda>_. None), pf_random_device = io_return (),
      pf_random = io_return 0, pf_gen_random = (\<lambda>n w. ((True, \<lambda>_. 0), w)), pf_now = (\<lambda>w. (0, w)),
      pf_ticks = 1,
      pf_default_transport = io_return (\<lambda>q. io_return \<lparr>rs_status_code = 200, rs_headers = [], rs_body = []\<rparr>),
      pf_crypto = zero_backend\<rparr>"

definition sample_receiver :: "unit WebhookReceiver" where
  "sample_receiver =
     \<lparr>wr_key_provider = single_key_provider ''key'' ''secret'', wr_callbacks = no_callbacks\<rparr>"

lemma access_tokens_are_no_webhooks_witness:
  "\<exists>jwt f w'. ToJwt zero_backend 1 (new_AccessToken ''key'' ''secret'') 0 = Inr jwt \<and>
     ReceiveAt reader_protobuf sample_platform sample_receiver ''{}'' (''Bearer '' @ jwt) 0 () = (Inl f, w')"
proof -
  obtain jwt where jwt: "ToJwt zero_backend 1 (new_AccessToken ''key'' ''secret'') 0 = Inr jwt"
    by (simp add: ToJwt_def new_AccessToken_def add64_def in_int64_def int64_min_def int64_max_def
        trunc_div_nonneg sign_claims_def Let_def)
  show ?thesis
    using jwt access_tokens_are_no_webhooks
      [OF reader.json_runtime_axioms jwt, where pf = sample_platform and r = sample_receiver and
        body = "''{}''" and now = 0 and w = "()"] by blast
qed

lemma signed_received:
  assumes "json_runtime_complete pb"
    and "sign_claims (pf_crypto pf) secret claims = Inr jwt" "secret \<noteq> []"
    and "json_read claims = Some (JObject ms)" "distinct (map fst ms)" "flat ms" "ascii claims"
    and "map_of ms ''iss'' = Some (JString issuer)" "issuer \<noteq> []"
    and "Sha256 (pf_crypto pf) body = Inr digest" "Base64Encode digest \<noteq> []"
    and "map_of ms ''sha256'' = Some (JString (Base64Encode digest))"
    and "in_window claims (trunc_div now (pf_ticks pf))"
    and "wr_key_provider r issuer w = (Inr secret, w')"
    and "parse_body pb body = Inr event"
  shows "ReceiveAt pb pf r body (''Bearer '' @ jwt) now w = (Inr event, w')"
proof -
  obtain h c s mac where
    p: "compact_form jwt h c s" "decode_part h = Inr jwt_header" "decode_part c = Inr claims"
      "HmacSha256 (pf_crypto pf) secret (h @ ''.'' @ c) = Inr mac" "Base64UrlDecode s = Inr mac"
    using sign_claims_signed_by [OF assms(2)] by (rule signed_by_compact)
  note read = json_runtime_complete.claim_read [OF assms(1)]
  have "JsonStringField_jwt pb claims ''iss'' = Inr issuer"
    by (rule read [OF assms(4-7)]) (rule assms)
  moreover have "JsonStringField_jwt pb claims ''sha256'' = Inr (Base64Encode digest)"
    by (rule read [OF assms(4-7)]) (rule assms)
  moreover have "JsonStringField_jwt pb jwt_header ''alg'' = Inr ''HS256''"
    by (rule read [OF jwt_header_reads]) (simp, code_simp, code_simp, simp)
  ultimately show ?thesis
    unfolding ReceiveAt_authentic authentic_def bearer_token_Bearer using p assms by blast
qed


text \<open>The claims of a webhook for the witness; \<open>zero_digest\<close> is the checksum the sample backend computes.\<close>

definition zero_digest :: string where
  "zero_digest = Base64Encode (replicate 32 0)"

definition sample_claims :: string where
  "sample_claims =
     ''{'' @ member (''iss'', [CHR 0x22] @ ''key'' @ [CHR 0x22]) @ '','' @ member (''exp'', ''60'') @ '','' @
     member (''sha256'', [CHR 0x22] @ zero_digest @ [CHR 0x22]) @ ''}''"

lemma sample_claims_read:
  "json_read sample_claims =
     Some (JObject [(''iss'', JString ''key''), (''exp'', JInt 60), (''sha256'', JString zero_digest)])"
  "ascii sample_claims" "in_window sample_claims 0" "zero_digest \<noteq> []"
  by code_simp+


end
