(* ===== verification/ClientContext.thy ===== *)
theory ClientContext
  imports AccessToken Protobuf Transport
begin

text \<open>
  \<^verbatim>\<open>src/detail/client_context.h\<close> and \<^verbatim>\<open>src/detail/client_context.cpp\<close>: how a client is configured
  from its options and the environment, and how one Twirp call is authenticated, sent and
  answered. Every service client goes through \<open>Call\<close>.
\<close>

record RequestGrant =
  rg_video :: "VideoGrant option"
  rg_sip :: "SipGrant option"
  rg_agent :: "AgentGrant option"

record 'w ClientContext =
  cc_url :: string
  cc_api_key :: string
  cc_api_secret :: string
  cc_access_token :: string
  cc_timeout :: int
  cc_transport :: "'w transport"

definition Environment :: "'w platform \<Rightarrow> string \<Rightarrow> string" where
  "Environment pf name = (case pf_getenv pf name of None \<Rightarrow> [] | Some value \<Rightarrow> value)"

section \<open>URLs\<close>

text \<open>\<^verbatim>\<open>std::tolower\<close> in the C locale.\<close>

definition tolower :: "char \<Rightarrow> char" where
  "tolower c = (if 65 \<le> (of_char c :: nat) \<and> of_char c \<le> (90 :: nat)
                then char_of (of_char c + 32 :: nat) else c)"

definition StartsWithCaseInsensitive :: "string \<Rightarrow> string \<Rightarrow> bool" where
  "StartsWithCaseInsensitive value pre \<longleftrightarrow>
     length pre \<le> length value \<and> list_all2 (\<lambda>left right. tolower left = tolower right)
       pre (take (length pre) value)"

definition replace_scheme :: "string \<Rightarrow> string" where
  "replace_scheme url =
     (if StartsWithCaseInsensitive url ''ws://'' then ''http://'' @ drop 5 url
      else if StartsWithCaseInsensitive url ''wss://'' then ''https://'' @ drop 6 url
      else url)"

text \<open>The loop that pops trailing slashes; \<open>rev\<close> puts \<^verbatim>\<open>back()\<close> at the head.\<close>

fun pop_slashes :: "string \<Rightarrow> string" where
  "pop_slashes [] = []"
| "pop_slashes (c # cs) = (if c = CHR ''/'' then pop_slashes cs else c # cs)"

definition strip_slashes :: "string \<Rightarrow> string" where
  "strip_slashes url = rev (pop_slashes (rev url))"

definition NormalizeUrl :: "string \<Rightarrow> string result" where
  "NormalizeUrl url0 =
     (let url = replace_scheme url0
      in if \<not> StartsWithCaseInsensitive url ''http://'' \<and> \<not> StartsWithCaseInsensitive url ''https://''
         then throw ec_invalid_argument ''LiveKit URL must use http, https, ws, or wss''
         else Inr (strip_slashes url))"

section \<open>Configuration\<close>

text \<open>
  The credentials the constructor settles on: the options first, \<^verbatim>\<open>LIVEKIT_TOKEN\<close> when they hold
  no credential at all, and the key pair of the environment when that is empty too.
\<close>

definition credentials :: "'w platform \<Rightarrow> 'w ApiOptions \<Rightarrow> string \<times> string \<times> string" where
  "credentials pf options =
     (let api_key = ao_api_key options;
          api_secret = ao_api_secret options;
          access_token = ao_access_token options;
          access_token = (if access_token = [] \<and> api_key = [] \<and> api_secret = []
                          then Environment pf ''LIVEKIT_TOKEN'' else access_token)
      in if access_token = [] \<and> api_key = [] \<and> api_secret = []
         then (access_token, Environment pf ''LIVEKIT_API_KEY'', Environment pf ''LIVEKIT_API_SECRET'')
         else (access_token, api_key, api_secret))"

definition new_ClientContext ::
  "'w platform \<Rightarrow> 'w ApiOptions \<Rightarrow> ('w, 'w ClientContext) io" where
  "new_ClientContext pf options =
     (let url = (if ao_url options = [] then Environment pf ''LIVEKIT_URL'' else ao_url options)
      in if url = []
         then io_lift (throw ec_invalid_argument ''LiveKit URL is required (ApiOptions::url or LIVEKIT_URL)'')
         else io_bind (io_lift (NormalizeUrl url)) (\<lambda>url.
           let (access_token, api_key, api_secret) = credentials pf options
           in if access_token = [] \<and> (api_key = [] \<or> api_secret = [])
              then io_lift (throw ec_authentication ''provide an access token or both an API key and secret'')
              else if ao_timeout options \<le> 0
              then io_lift (throw ec_invalid_argument ''HTTP timeout must be positive'')
              else io_bind (case ao_transport options of
                              None \<Rightarrow> pf_default_transport pf
                            | Some t \<Rightarrow> io_return t) (\<lambda>transport.
                io_return \<lparr>cc_url = url, cc_api_key = api_key, cc_api_secret = api_secret,
                           cc_access_token = access_token, cc_timeout = ao_timeout options,
                           cc_transport = transport\<rparr>)))"

section \<open>Calls\<close>

definition uuid_text :: "bytes \<Rightarrow> string" where
  "uuid_text bs =
     concat (map (\<lambda>i. (if i = 4 \<or> i = 6 \<or> i = 8 \<or> i = 10 then ''-'' else []) @
                      setw 2 (show_nat 16 (unat (bs ! i)))) [0..<length bs])"

definition stamp_version :: "bytes \<Rightarrow> bytes" where
  "stamp_version bs =
     (let bs = bs[6 := (bs ! 6 AND 0x0f) OR 0x40] in bs[8 := (bs ! 8 AND 0x3f) OR 0x80])"

definition RequestId :: "'w platform \<Rightarrow> ('w, string) io" where
  "RequestId pf =
     io_bind (random_bytes pf 16) (\<lambda>r. case r of
       None \<Rightarrow> io_lift (throw ec_transport ''failed to create request id'')
     | Some bs \<Rightarrow> io_return (uuid_text (stamp_version bs)))"

definition JsonStringField :: "'m protobuf \<Rightarrow> string \<Rightarrow> string \<Rightarrow> string" where
  "JsonStringField pb json name =
     (case pb_parse_struct pb json of
        None \<Rightarrow> []
      | Some obj \<Rightarrow>
          (case map_of obj name of
             None \<Rightarrow> []
           | Some v \<Rightarrow> (if kind_of v \<noteq> kStringValue then [] else string_value v)))"

definition granted_token :: "'w ClientContext \<Rightarrow> RequestGrant \<Rightarrow> AccessToken" where
  "granted_token ctx grant =
     (let token = new_AccessToken (cc_api_key ctx) (cc_api_secret ctx);
          token = (case rg_video grant of None \<Rightarrow> token | Some g \<Rightarrow> SetVideoGrant g token);
          token = (case rg_sip grant of None \<Rightarrow> token | Some g \<Rightarrow> SetSipGrant g token)
      in case rg_agent grant of None \<Rightarrow> token | Some g \<Rightarrow> SetAgentGrant g token)"

definition TokenFor :: "'w platform \<Rightarrow> 'w ClientContext \<Rightarrow> RequestGrant \<Rightarrow> ('w, string) io" where
  "TokenFor pf ctx grant =
     (if cc_access_token ctx \<noteq> [] then io_return (cc_access_token ctx)
      else io_bind (io_now pf) (\<lambda>now.
        io_lift (ToJwt (pf_crypto pf) (pf_ticks pf) (granted_token ctx grant) now)))"

definition call_headers :: "string \<Rightarrow> string \<Rightarrow> HttpHeaders" where
  "call_headers token request_id =
     [(''Content-Type'', ''application/protobuf''), (''Accept'', ''application/protobuf''),
      (''Authorization'', ''Bearer '' @ token), (''X-Livekit-Request-Id'', request_id),
      (''User-Agent'', ''livekit-server-cpp/0.1'')]"

definition http_failure :: "'m protobuf \<Rightarrow> HttpResponse \<Rightarrow> sdk_error" where
  "http_failure pb response =
     (let twirp_code = JsonStringField pb (rs_body response) ''code'';
          message = JsonStringField pb (rs_body response) ''msg'';
          message = (if message = []
                     then ''LiveKit server returned HTTP '' @ to_string (rs_status_code response)
                     else message)
      in \<lparr>err_code = ec_http, err_what = message, err_http_status = rs_status_code response,
          err_twirp_code = twirp_code\<rparr>)"

definition read_response :: "'m protobuf \<Rightarrow> string \<Rightarrow> HttpResponse \<Rightarrow> 'm result" where
  "read_response pb response_type response =
     (if rs_status_code response < 200 \<or> rs_status_code response \<ge> 300
      then Inl (Throw (http_failure pb response))
      else case pb_parse pb response_type (rs_body response) of
             None \<Rightarrow> throw ec_protocol ''failed to parse protobuf response''
           | Some m \<Rightarrow> Inr m)"

text \<open>
  \<open>response\<close> is the type of the message to fill, \<open>None\<close> for a null pointer.
\<close>

definition Call ::
  "'m protobuf \<Rightarrow> 'w platform \<Rightarrow> 'w ClientContext \<Rightarrow> string \<Rightarrow> string \<Rightarrow> 'm \<Rightarrow> string option \<Rightarrow>
     RequestGrant \<Rightarrow> ('w, 'm) io" where
  "Call pb pf ctx service method request response grant =
     (case response of
        None \<Rightarrow> io_lift (throw ec_invalid_argument ''response must not be null'')
      | Some response_type \<Rightarrow>
          io_bind (TokenFor pf ctx grant) (\<lambda>token.
          io_bind (RequestId pf) (\<lambda>request_id.
          case pb_serialize pb request of
            None \<Rightarrow> io_lift (throw ec_protocol ''failed to serialize protobuf request'')
          | Some body \<Rightarrow>
              io_bind (cc_transport ctx
                (new_HttpRequest
                   \<lparr>hr_url := cc_url ctx @ ''/twirp/livekit.'' @ service @ ''/'' @ method,
                    hr_timeout := cc_timeout ctx,
                    hr_headers := call_headers token request_id,
                    hr_body := body\<rparr>))
                (\<lambda>http_response. io_lift (read_response pb response_type http_response)))))"

section \<open>URL normalization\<close>

lemma pop_slashes_spec:
  "\<exists>n. s = replicate n (CHR ''/'') @ pop_slashes s"
proof (induction s)
  case (Cons c cs)
  then obtain n where "cs = replicate n (CHR ''/'') @ pop_slashes cs" by blast
  then show ?case
    by (cases "c = CHR ''/''") (auto intro: exI [of _ "Suc n"] exI [of _ 0])
qed simp

lemma pop_slashes_hd: "pop_slashes s \<noteq> [] \<Longrightarrow> hd (pop_slashes s) \<noteq> CHR ''/''"
  by (induction s) auto

lemma pop_slashes_fix: "s = [] \<or> hd s \<noteq> CHR ''/'' \<Longrightarrow> pop_slashes s = s"
  by (cases s) auto

lemma strip_slashes_spec: "\<exists>n. s = strip_slashes s @ replicate n (CHR ''/'')"
  using pop_slashes_spec [of "rev s"]
  by (metis rev_append rev_replicate rev_rev_ident strip_slashes_def)

lemma strip_slashes_last: "strip_slashes s \<noteq> [] \<Longrightarrow> last (strip_slashes s) \<noteq> CHR ''/''"
  using pop_slashes_hd [of "rev s"] by (simp add: strip_slashes_def last_rev)

lemma strip_slashes_fix: "s \<noteq> [] \<Longrightarrow> last s \<noteq> CHR ''/'' \<Longrightarrow> strip_slashes s = s"
  by (simp add: strip_slashes_def pop_slashes_fix hd_rev)

lemma tolower_ascii:
  "tolower (CHR ''h'') = CHR ''h''" "tolower (CHR ''t'') = CHR ''t''" "tolower (CHR ''p'') = CHR ''p''"
  "tolower (CHR ''s'') = CHR ''s''" "tolower (CHR ''w'') = CHR ''w''" "tolower (CHR '':'') = CHR '':''"
  "tolower (CHR ''/'') = CHR ''/''"
  by code_simp+

lemma starts_ci_iff:
  "StartsWithCaseInsensitive s p \<longleftrightarrow> length p \<le> length s \<and> map tolower (take (length p) s) = map tolower p"
  by (auto simp: StartsWithCaseInsensitive_def list_all2_conv_all_nth list_eq_iff_nth_eq)

lemma starts_ci_append: "StartsWithCaseInsensitive (p @ s) p"
  by (simp add: starts_ci_iff)

definition http_scheme :: "string \<Rightarrow> bool" where
  "http_scheme url \<longleftrightarrow> StartsWithCaseInsensitive url ''http://'' \<or> StartsWithCaseInsensitive url ''https://''"

definition ws_scheme :: "string \<Rightarrow> bool" where
  "ws_scheme url \<longleftrightarrow> StartsWithCaseInsensitive url ''ws://'' \<or> StartsWithCaseInsensitive url ''wss://''"

lemma schemes_disjoint: "http_scheme url \<Longrightarrow> \<not> ws_scheme url"
  unfolding http_scheme_def ws_scheme_def starts_ci_iff
  by (cases url) (auto simp: tolower_ascii)

lemma replace_scheme_http: "http_scheme (replace_scheme url) \<longleftrightarrow> http_scheme url \<or> ws_scheme url"
  using starts_ci_append [of "''http://''"] starts_ci_append [of "''https://''"]
  by (auto simp: replace_scheme_def http_scheme_def ws_scheme_def)

lemma replace_scheme_id: "http_scheme url \<Longrightarrow> replace_scheme url = url"
  using schemes_disjoint [of url] by (auto simp: replace_scheme_def ws_scheme_def)

lemma NormalizeUrl_alt:
  "NormalizeUrl url =
     (if http_scheme url \<or> ws_scheme url then Inr (strip_slashes (replace_scheme url))
      else throw ec_invalid_argument ''LiveKit URL must use http, https, ws, or wss'')"
  using replace_scheme_http [of url] by (auto simp: NormalizeUrl_def Let_def http_scheme_def)

lemma tolower_slash [simp]: "tolower c = CHR ''/'' \<longleftrightarrow> c = CHR ''/''"
proof
  assume a: "tolower c = CHR ''/''"
  have "\<not> (65 \<le> (of_char c :: nat) \<and> of_char c \<le> (90 :: nat))"
  proof
    assume b: "65 \<le> (of_char c :: nat) \<and> of_char c \<le> (90 :: nat)"
    with a have "char_of (of_char c + 32 :: nat) = CHR ''/''" by (simp add: tolower_def)
    then have "of_char (char_of (of_char c + 32 :: nat)) = (of_char (CHR ''/'') :: nat)" by (rule arg_cong)
    with b show False by simp
  qed
  with a show "c = CHR ''/''" by (simp add: tolower_def split: if_splits)
qed (simp add: tolower_ascii)

text \<open>Stripping slashes keeps the scheme, or leaves just the scheme name and its colon.\<close>

lemma strip_slashes_scheme:
  assumes "StartsWithCaseInsensitive s (q @ ''//'')" "q \<noteq> []" "last q \<noteq> CHR ''/''" "map tolower q = q"
  shows "StartsWithCaseInsensitive (strip_slashes s) (q @ ''//'') \<or> map tolower (strip_slashes s) = q"
proof -
  define u where "u = strip_slashes s"
  obtain n where s: "s = u @ replicate n (CHR ''/'')" using strip_slashes_spec u_def by blast
  have low: "map tolower (take (length q + 2) s) = q @ ''//''" and len: "length q + 2 \<le> length s"
    using assms(1,4) by (auto simp: starts_ci_iff tolower_ascii)
  have at: "tolower (s ! i) = (q @ ''//'') ! i" if "i < length q + 2" for i
    using arg_cong [OF low, of "\<lambda>l. l ! i"] that len by simp
  have slash: "s ! i = CHR ''/''" if "length u \<le> i" "i < length s" for i
    using that by (simp add: s nth_append)
  have "length q \<le> length u"
  proof (rule ccontr)
    assume "\<not> length q \<le> length u"
    then have "s ! (length q - 1) = CHR ''/''" using slash [of "length q - 1"] len assms(2) by simp
    moreover have "length q - 1 < length q + 2" by simp
    note at [OF this]
    ultimately show False using assms(2,3)
      by (simp add: nth_append last_conv_nth tolower_ascii)
  qed
  moreover have "length u \<noteq> length q + 1"
  proof
    assume l: "length u = length q + 1"
    then have "tolower (u ! length q) = CHR ''/''" using at [of "length q"] by (simp add: s nth_append)
    moreover have ne: "u \<noteq> []" using l by auto
    then have "last u = u ! length q" using l by (simp add: last_conv_nth)
    ultimately show False
      using strip_slashes_last [of s] ne unfolding u_def [symmetric] by simp
  qed
  ultimately consider "length u = length q" | "length q + 2 \<le> length u" by linarith
  then show ?thesis
  proof cases
    case 1
    then have "map tolower u = take (length q) (map tolower (take (length q + 2) s))"
      by (simp add: s take_map)
    with low 1 show ?thesis by (simp add: u_def)
  next
    case 2
    then have "take (length q + 2) s = take (length q + 2) u" by (simp add: s)
    with 2 low show ?thesis by (simp add: starts_ci_iff u_def [symmetric] assms(4) tolower_ascii)
  qed
qed



section \<open>Request identifiers\<close>

definition is_hex :: "char \<Rightarrow> bool" where
  "is_hex c \<longleftrightarrow> c \<in> set ''0123456789abcdef''"

text \<open>RFC 4122, version 4: \<open>x\<close> is any digit, \<open>y\<close> a digit with the variant bits \<open>10\<close>.\<close>

definition uuid4_char :: "char \<Rightarrow> char \<Rightarrow> bool" where
  "uuid4_char t c =
     (if t = CHR ''x'' then is_hex c
      else if t = CHR ''y'' then c \<in> set ''89ab''
      else c = t)"

definition is_uuid4 :: "string \<Rightarrow> bool" where
  "is_uuid4 s \<longleftrightarrow> list_all2 uuid4_char ''xxxxxxxx-xxxx-4xxx-yxxx-xxxxxxxxxxxx'' s"

lemma uuid4_char_simps:
  "uuid4_char (CHR ''x'') c \<longleftrightarrow> is_hex c" "uuid4_char (CHR ''y'') c \<longleftrightarrow> c \<in> set ''89ab''"
  "uuid4_char (CHR ''-'') (CHR ''-'')" "uuid4_char (CHR ''4'') (CHR ''4'')"
  by (simp_all add: uuid4_char_def)

definition hex2 :: "8 word \<Rightarrow> string" where
  "hex2 b = setw 2 (show_nat 16 (unat b))"

lemma hex2_digits: "hex2 b = [digit_char (unat b div 16), digit_char (unat b mod 16)]"
proof (cases "unat b < 16")
  case True
  then show ?thesis
    by (simp add: hex2_def setw_def show_nat.simps [of 16 "unat b"] replicate_small)
next
  case False
  have "unat b div 16 < 16" using byte_less [of b] by simp
  with False show ?thesis
    by (simp add: hex2_def setw_def show_nat.simps [of 16 "unat b"] show_nat.simps [of 16 "unat b div 16"])
qed

lemma is_hex_digits: "list_all (\<lambda>d. is_hex (digit_char d)) [0..<16]"
  by code_simp

lemma is_hex_digit_char: "d < 16 \<Longrightarrow> is_hex (digit_char d)"
  using is_hex_digits by (auto simp: list_all_iff)

lemma version_digits:
  "list_all (\<lambda>n. unat ((word_of_nat n AND 0x0f) OR 0x40 :: 8 word) div 16 = 4 \<and>
                 unat ((word_of_nat n AND 0x3f) OR 0x80 :: 8 word) div 16 \<in> {8, 9, 10, 11}) [0..<256]"
  by code_simp

lemma version_digit:
  "unat ((b AND 0x0f) OR 0x40 :: 8 word) div 16 = 4"
  "unat ((b AND 0x3f) OR 0x80 :: 8 word) div 16 \<in> {8, 9, 10, 11}"
proof -
  have b: "word_of_nat (unat b) = b" by simp
  have "unat b \<in> set [0..<256]" using byte_less [of b] by simp
  with version_digits have "unat ((word_of_nat (unat b) AND 0x0f) OR 0x40 :: 8 word) div 16 = 4 \<and>
      unat ((word_of_nat (unat b) AND 0x3f) OR 0x80 :: 8 word) div 16 \<in> {8, 9, 10, 11}"
    unfolding list_all_iff by (rule bspec)
  then show "unat ((b AND 0x0f) OR 0x40 :: 8 word) div 16 = 4"
    "unat ((b AND 0x3f) OR 0x80 :: 8 word) div 16 \<in> {8, 9, 10, 11}"
    unfolding b by (rule conjunct1, rule conjunct2)
qed

lemma version_chars:
  "digit_char 4 = CHR ''4''" "list_all (\<lambda>d. digit_char d \<in> set ''89ab'') [8, 9, 10, 11]"
  by code_simp+

lemma stamp_version_at:
  assumes "length bs = 16"
  shows "length (stamp_version bs) = 16" "stamp_version bs ! 6 = (bs ! 6 AND 0x0f) OR 0x40"
    "stamp_version bs ! 8 = (bs ! 8 AND 0x3f) OR 0x80"
    "i \<noteq> 6 \<Longrightarrow> i \<noteq> 8 \<Longrightarrow> stamp_version bs ! i = bs ! i"
  using assms by (simp_all add: stamp_version_def Let_def)

lemma uuid_text_unfold:
  assumes "length bs = 16"
  shows "uuid_text bs =
    hex2 (bs ! 0) @ hex2 (bs ! 1) @ hex2 (bs ! 2) @ hex2 (bs ! 3) @ ''-'' @
    hex2 (bs ! 4) @ hex2 (bs ! 5) @ ''-'' @ hex2 (bs ! 6) @ hex2 (bs ! 7) @ ''-'' @
    hex2 (bs ! 8) @ hex2 (bs ! 9) @ ''-'' @ hex2 (bs ! 10) @ hex2 (bs ! 11) @
    hex2 (bs ! 12) @ hex2 (bs ! 13) @ hex2 (bs ! 14) @ hex2 (bs ! 15)"
proof -
  have u: "[0..<16] = [0, 1, 2, 3, 4, 5, 6, 7, 8, 9, 10, 11, 12, 13, 14, 15 :: nat]" by code_simp
  show ?thesis unfolding uuid_text_def assms u by (simp add: hex2_def)
qed

lemma is_uuid4_text:
  assumes "length bs = 16"
  shows "is_uuid4 (uuid_text (stamp_version bs))"
proof -
  define cs where "cs = stamp_version bs"
  define hi where "hi = (\<lambda>i. digit_char (unat (cs ! i) div 16))"
  define lo where "lo = (\<lambda>i. digit_char (unat (cs ! i) mod 16))"
  have len: "length cs = 16" using stamp_version_at assms by (simp add: cs_def)
  have h: "hex2 (cs ! i) = [hi i, lo i]" for i by (simp add: hex2_digits hi_def lo_def)
  have d: "is_hex (hi i)" "is_hex (lo i)" for i
    using byte_less [of "cs ! i"] by (auto simp: hi_def lo_def intro: is_hex_digit_char)
  have v: "hi 6 = CHR ''4''"
    using assms by (simp add: hi_def cs_def stamp_version_at version_digit version_chars)
  have w8: "unat (cs ! 8) div 16 \<in> set [8, 9, 10, 11]"
    using assms version_digit(2) [of "bs ! 8"] by (simp add: cs_def stamp_version_at)
  have w: "hi 8 \<in> set ''89ab''"
    using version_chars(2) unfolding list_all_iff hi_def by (rule bspec [OF _ w8])
  show ?thesis
    by (simp only: is_uuid4_def cs_def [symmetric] uuid_text_unfold [OF len] h append.simps
        list_all2_Cons list_all2_Nil uuid4_char_simps v d w simp_thms)
qed

lemma RequestId_result:
  "fst (RequestId pf w) =
     (case fst (random_bytes pf 16 w) of
        Inl f \<Rightarrow> Inl f
      | Inr None \<Rightarrow> throw ec_transport ''failed to create request id''
      | Inr (Some bs) \<Rightarrow> Inr (uuid_text (stamp_version bs)))"
  unfolding RequestId_def io_bind_def io_lift_def io_return_def
  by (simp split: prod.split sum.split option.split)

lemma random_bytes_windows: "pf_windows pf \<Longrightarrow> \<exists>r. fst (random_bytes pf n w) = Inr r"
  by (simp add: random_bytes_def split: prod.split)

text \<open>
  C34. Whatever the random source delivers, a request identifier is the text of a version 4 UUID;
  the only failures are those of the random source.
\<close>

theorem request_id_is_uuid4:
  "case fst (RequestId pf w) of
     Inr request_id \<Rightarrow> is_uuid4 request_id
   | Inl f \<Rightarrow> (if pf_windows pf then f = Throw (Error ec_transport ''failed to create request id'')
              else fst (random_bytes pf 16 w) = Inl f)"
proof -
  consider f where "fst (random_bytes pf 16 w) = Inl f" | "fst (random_bytes pf 16 w) = Inr None"
    | bs where "fst (random_bytes pf 16 w) = Inr (Some bs)"
    by (metis not_None_eq sum.exhaust)
  then show ?thesis
  proof cases
    case 1
    then show ?thesis using random_bytes_windows [of pf 16 w] by (auto simp: RequestId_result)
  next
    case 2
    then have "pf_windows pf" using random_bytes_posix [of pf 16 w] by (metis eq_fst_iff option.distinct(1))
    with 2 show ?thesis unfolding RequestId_result throw_def by simp
  next
    case 3
    then have "length bs = 16" using random_bytes_length by (metis eq_fst_iff)
    with 3 is_uuid4_text show ?thesis unfolding RequestId_result by simp
  qed
qed

section \<open>What the constructor guarantees\<close>

definition valid_context :: "'w ClientContext \<Rightarrow> bool" where
  "valid_context ctx \<longleftrightarrow>
     cc_url ctx \<noteq> [] \<and> last (cc_url ctx) \<noteq> CHR ''/'' \<and> 0 < cc_timeout ctx \<and>
     (cc_access_token ctx \<noteq> [] \<or> cc_api_key ctx \<noteq> [] \<and> cc_api_secret ctx \<noteq> [])"

text \<open>
  The precedence of the credential sources: options that hold any credential exclude the
  environment altogether, and a token from the environment excludes its key pair.
\<close>

definition preferred_credentials :: "'w platform \<Rightarrow> 'w ApiOptions \<Rightarrow> string \<times> string \<times> string" where
  "preferred_credentials pf options =
     (if ao_access_token options \<noteq> [] \<or> ao_api_key options \<noteq> [] \<or> ao_api_secret options \<noteq> []
      then (ao_access_token options, ao_api_key options, ao_api_secret options)
      else if Environment pf ''LIVEKIT_TOKEN'' \<noteq> [] then (Environment pf ''LIVEKIT_TOKEN'', [], [])
      else ([], Environment pf ''LIVEKIT_API_KEY'', Environment pf ''LIVEKIT_API_SECRET''))"

fun usable :: "string \<times> string \<times> string \<Rightarrow> bool" where
  "usable (access_token, api_key, api_secret) \<longleftrightarrow>
     access_token \<noteq> [] \<or> api_key \<noteq> [] \<and> api_secret \<noteq> []"

lemma credentials_preferred: "credentials pf options = preferred_credentials pf options"
  unfolding credentials_def preferred_credentials_def Let_def by auto

lemma NormalizeUrl_Inr:
  assumes "NormalizeUrl url = Inr u"
  shows "u \<noteq> []" "last u \<noteq> CHR ''/''"
proof -
  from assms have u: "u = strip_slashes (replace_scheme url)" and
    sch: "http_scheme (replace_scheme url)"
    by (auto simp: NormalizeUrl_alt replace_scheme_http split: if_splits)
  show "u \<noteq> []"
    using sch strip_slashes_scheme [of "replace_scheme url" "''http:''"]
      strip_slashes_scheme [of "replace_scheme url" "''https:''"]
    by (auto simp: http_scheme_def u tolower_ascii StartsWithCaseInsensitive_def)
  with u show "last u \<noteq> CHR ''/''" using strip_slashes_last by blast
qed

text \<open>
  C32. The constructor on every path: a context has a URL without trailing slash, a positive
  timeout and either a token or both keys, taken from the first source that has any; the errors
  come in the order URL, credentials, timeout, default transport.
\<close>

theorem new_context_exact:
  "let url = (if ao_url options = [] then Environment pf ''LIVEKIT_URL'' else ao_url options);
       cred = preferred_credentials pf options
   in case fst (new_ClientContext pf options w) of
     Inr ctx \<Rightarrow>
       valid_context ctx \<and> (cc_access_token ctx, cc_api_key ctx, cc_api_secret ctx) = cred \<and>
       NormalizeUrl url = Inr (cc_url ctx) \<and> cc_timeout ctx = ao_timeout options
   | Inl f \<Rightarrow>
       (if \<not> (http_scheme url \<or> ws_scheme url) then \<exists>m. f = Throw (Error ec_invalid_argument m)
        else if \<not> usable cred then \<exists>m. f = Throw (Error ec_authentication m)
        else if ao_timeout options \<le> 0
        then f = Throw (Error ec_invalid_argument ''HTTP timeout must be positive'')
        else ao_transport options = None \<and> fst (pf_default_transport pf w) = Inl f)"
proof -
  define url where "url = (if ao_url options = [] then Environment pf ''LIVEKIT_URL'' else ao_url options)"
  obtain tok key sec where cred: "preferred_credentials pf options = (tok, key, sec)"
    by (metis prod_cases3)
  have nil: "\<not> (http_scheme [] \<or> ws_scheme [])" by code_simp
  show ?thesis
  proof (cases "http_scheme url \<or> ws_scheme url")
    case False
    then have "\<exists>m. fst (new_ClientContext pf options w) = Inl (Throw (Error ec_invalid_argument m))"
      by (auto simp: new_ClientContext_def url_def [symmetric] Let_def NormalizeUrl_alt throw_def io_lift_def)
    with False show ?thesis unfolding Let_def url_def [symmetric] by auto
  next
    case True
    then obtain u where u: "NormalizeUrl url = Inr u" by (auto simp: NormalizeUrl_alt)
    have ne: "url \<noteq> []" using True nil by auto
    note u' = NormalizeUrl_Inr [OF u]
    have run: "new_ClientContext pf options w =
       (if \<not> usable (tok, key, sec)
        then io_lift (throw ec_authentication ''provide an access token or both an API key and secret'') w
        else if ao_timeout options \<le> 0
        then io_lift (throw ec_invalid_argument ''HTTP timeout must be positive'') w
        else io_bind (case ao_transport options of None \<Rightarrow> pf_default_transport pf | Some t \<Rightarrow> io_return t)
          (\<lambda>t. io_return \<lparr>cc_url = u, cc_api_key = key, cc_api_secret = sec, cc_access_token = tok,
                 cc_timeout = ao_timeout options, cc_transport = t\<rparr>) w)"
      using ne u by (auto simp: new_ClientContext_def url_def [symmetric] Let_def credentials_preferred cred)
    show ?thesis
      unfolding Let_def url_def [symmetric] cred run using True u u'
      by (cases "fst (pf_default_transport pf w)")
        (auto simp: io_lift_def throw_def io_bind_def io_return_def valid_context_def
          split: option.split prod.split)
  qed
qed

section \<open>What a call sends and reports\<close>

text \<open>The members the claims of a request hold for its grants, and all the members.\<close>

definition grant_members :: "RequestGrant \<Rightarrow> (string \<times> json) list" where
  "grant_members grant =
     (case rg_video grant of None \<Rightarrow> [] | Some g \<Rightarrow> [(''video'', JObject (video_members g))]) @
     (case rg_sip grant of None \<Rightarrow> []
      | Some g \<Rightarrow> [(''sip'', JObject (flag ''admin'' (sg_admin g) @ flag ''call'' (sg_call g)))]) @
     (case rg_agent grant of None \<Rightarrow> []
      | Some g \<Rightarrow> [(''agent'', JObject (flag ''admin'' (ag_admin g) @
                                     flag ''simulationAdmin'' (ag_simulation_admin g)))])"

definition request_claims :: "string \<Rightarrow> RequestGrant \<Rightarrow> int \<Rightarrow> json" where
  "request_claims api_key grant iat =
     JObject ([(''iss'', JString api_key), (''nbf'', JInt iat), (''exp'', JInt (iat + 21600)),
               (''iat'', JInt iat)] @ grant_members grant)"

lemma granted_token_sel:
  "at_api_key (granted_token ctx grant) = cc_api_key ctx"
  "at_api_secret (granted_token ctx grant) = cc_api_secret ctx"
  "at_valid_for (granted_token ctx grant) = 21600"
  by (simp_all add: granted_token_def new_AccessToken_def setter_defs Let_def split: option.split)

lemma claims_members_granted:
  "JObject (claims_members (granted_token ctx grant) iat (iat + 21600)) =
     request_claims (cc_api_key ctx) grant iat"
  unfolding claims_members_def request_claims_def grant_members_def granted_token_def
  by (cases "rg_video grant"; cases "rg_sip grant"; cases "rg_agent grant")
    (simp_all add: new_AccessToken_def setter_defs Let_def text_field_def)

text \<open>\<open>token\<close> is the bearer token the context must present for \<open>grant\<close> at the time \<open>now\<close>.\<close>

definition authorizes ::
  "'w platform \<Rightarrow> 'w ClientContext \<Rightarrow> RequestGrant \<Rightarrow> int \<Rightarrow> string \<Rightarrow> bool" where
  "authorizes pf ctx grant now token \<longleftrightarrow>
     (if cc_access_token ctx \<noteq> [] then token = cc_access_token ctx
      else \<exists>claims. signed_by (pf_crypto pf) (cc_api_secret ctx) jwt_header claims token \<and>
             json_read claims =
               Some (request_claims (cc_api_key ctx) grant (trunc_div now (pf_ticks pf))))"

lemma ToJwt_granted:
  assumes "ToJwt cb ticks (granted_token ctx grant) now = Inr token"
  shows "\<exists>claims. signed_by cb (cc_api_secret ctx) jwt_header claims token \<and>
    json_read claims = Some (request_claims (cc_api_key ctx) grant (trunc_div now ticks))"
proof -
  define iat where "iat = trunc_div now ticks"
  have "sign_claims cb (cc_api_secret ctx) (claims_json (granted_token ctx grant) iat (iat + 21600)) = Inr token"
    using assms by (auto simp: ToJwt_def granted_token_sel Let_def add64_Inr_iff iat_def split: if_splits)
  then show ?thesis
    using sign_claims_signed_by denotes_json_read [OF denotes_claims]
    unfolding claims_members_granted [symmetric] iat_def [symmetric] by metis
qed

lemma ToJwt_granted_error:
  assumes "ToJwt cb ticks (granted_token ctx grant) now = Inl f"
  shows "if cc_api_key ctx = [] \<or> cc_api_secret ctx = []
    then f = Throw (Error ec_authentication ''API key and secret are required to sign a token'')
    else f = Undefined \<or> f = Throw (Error ec_authentication ''HS256 operation failed'')"
proof (cases "cc_api_key ctx = [] \<or> cc_api_secret ctx = []")
  case True
  with assms show ?thesis by (auto simp: ToJwt_def granted_token_sel throw_def)
next
  case False
  with assms show ?thesis
    by (auto simp: ToJwt_def granted_token_sel Let_def add64_def sign_claims_def and_then_Inl_iff
        dest: HmacSha256_error split: if_splits)
qed

lemma TokenFor_run:
  "cc_access_token ctx = [] \<Longrightarrow> TokenFor pf ctx grant w =
     (ToJwt (pf_crypto pf) (pf_ticks pf) (granted_token ctx grant) (fst (pf_now pf w)), snd (pf_now pf w))"
  by (simp add: TokenFor_def io_bind_def io_now_def io_lift_def split: prod.split)

lemma TokenFor_authorizes:
  "TokenFor pf ctx grant w = (Inr token, w') \<Longrightarrow> authorizes pf ctx grant (fst (pf_now pf w)) token"
proof (cases "cc_access_token ctx = []")
  case True
  assume "TokenFor pf ctx grant w = (Inr token, w')"
  with TokenFor_run [OF True] have
    "ToJwt (pf_crypto pf) (pf_ticks pf) (granted_token ctx grant) (fst (pf_now pf w)) = Inr token" by simp
  from ToJwt_granted [OF this] True show ?thesis by (simp add: authorizes_def)
qed (simp add: TokenFor_def authorizes_def)

text \<open>
  C31. The token of a request: the configured access token, read without consulting the clock; or,
  signed with the API secret, a token that decodes to exactly the issuer, the time window of six
  hours from now and the grants of the method, and to no other member. The only failures are
  missing keys, a failed HMAC and, for a clock within six hours of the end of the 64-bit range,
  overflow.
\<close>

theorem token_for_exact:
  "case TokenFor pf ctx grant w of
     (Inr token, w') \<Rightarrow>
       w' = (if cc_access_token ctx \<noteq> [] then w else snd (pf_now pf w)) \<and>
       authorizes pf ctx grant (fst (pf_now pf w)) token
   | (Inl f, w') \<Rightarrow>
       cc_access_token ctx = [] \<and>
       (if cc_api_key ctx = [] \<or> cc_api_secret ctx = []
        then f = Throw (Error ec_authentication ''API key and secret are required to sign a token'')
        else f = Undefined \<or> f = Throw (Error ec_authentication ''HS256 operation failed''))"
proof (cases "cc_access_token ctx = []")
  case False
  then show ?thesis by (simp add: TokenFor_def authorizes_def io_return_def)
next
  case True
  show ?thesis
  proof (cases "ToJwt (pf_crypto pf) (pf_ticks pf) (granted_token ctx grant) (fst (pf_now pf w))")
    case (Inl f)
    then show ?thesis unfolding TokenFor_run [OF True] using True ToJwt_granted_error [OF Inl] by simp
  next
    case (Inr token)
    then show ?thesis
      unfolding TokenFor_run [OF True] using True ToJwt_granted [OF Inr] by (simp add: authorizes_def)
  qed
qed

lemma RequestId_uuid4:
  assumes "RequestId pf w = (Inr request_id, w')"
  shows "is_uuid4 request_id"
proof -
  from assms have "fst (RequestId pf w) = Inr request_id" by simp
  then obtain bs where bs: "fst (random_bytes pf 16 w) = Inr (Some bs)"
    "request_id = uuid_text (stamp_version bs)"
    by (auto simp: RequestId_result split: sum.splits option.splits)
  then have "length bs = 16" using random_bytes_length by (metis eq_fst_iff)
  with bs show ?thesis by (simp add: is_uuid4_text)
qed

text \<open>
  \<open>sent \<dots> w r w'\<close>: starting in \<open>w\<close>, one request went to the transport, with the URL of the
  method, an authorization for \<open>grant\<close>, a fresh request identifier and the serialized message;
  the transport gave \<open>r\<close> and left the world \<open>w'\<close>.
\<close>

definition sent ::
  "'m protobuf \<Rightarrow> 'w platform \<Rightarrow> 'w ClientContext \<Rightarrow> string \<Rightarrow> string \<Rightarrow> 'm \<Rightarrow> RequestGrant \<Rightarrow>
     'w \<Rightarrow> HttpResponse result \<Rightarrow> 'w \<Rightarrow> bool" where
  "sent pb pf ctx service rpc request grant w r w' \<longleftrightarrow>
     (\<exists>token request_id body w1.
        authorizes pf ctx grant (fst (pf_now pf w)) token \<and> is_uuid4 request_id \<and>
        pb_serialize pb request = Some body \<and>
        cc_transport ctx
          \<lparr>hr_url = cc_url ctx @ ''/twirp/livekit.'' @ service @ ''/'' @ rpc,
           hr_method = ''POST'',
           hr_headers =
             [(''Content-Type'', ''application/protobuf''), (''Accept'', ''application/protobuf''),
              (''Authorization'', ''Bearer '' @ token), (''X-Livekit-Request-Id'', request_id),
              (''User-Agent'', ''livekit-server-cpp/0.1'')],
           hr_body = body, hr_timeout = cc_timeout ctx\<rparr> w1 = (r, w'))"

definition success :: "HttpResponse \<Rightarrow> bool" where
  "success response \<longleftrightarrow> 200 \<le> rs_status_code response \<and> rs_status_code response < 300"

text \<open>
  A call either fails before anything is sent, or sends one request and maps the answer.
\<close>

lemma Call_run:
  obtains (unsent) f w' where "Call pb pf ctx service rpc request (Some ty) grant w = (Inl f, w')"
      "fst (TokenFor pf ctx grant w) = Inl f \<or> (\<exists>w1. fst (RequestId pf w1) = Inl f) \<or>
       pb_serialize pb request = None \<and>
         f = Throw (Error ec_protocol ''failed to serialize protobuf request'')"
  | (answered) r w' where "sent pb pf ctx service rpc request grant w r w'"
      "Call pb pf ctx service rpc request (Some ty) grant w = (and_then r (read_response pb ty), w')"
proof (cases "TokenFor pf ctx grant w")
  case token: (Pair r1 w1)
  show ?thesis
  proof (cases r1)
    case (Inl f)
    with token unsent show ?thesis by (simp add: Call_def io_bind_def)
  next
    case tok: (Inr token)
    have auth: "authorizes pf ctx grant (fst (pf_now pf w)) token"
      using TokenFor_authorizes token tok by metis
    show ?thesis
    proof (cases "RequestId pf w1")
      case rid: (Pair r2 w2)
      show ?thesis
      proof (cases r2)
        case (Inl f)
        then have "fst (RequestId pf w1) = Inl f" using rid by simp
        moreover have "Call pb pf ctx service rpc request (Some ty) grant w = (Inl f, w2)"
          using Inl token tok rid by (simp add: Call_def io_bind_def)
        ultimately show ?thesis using unsent by blast
      next
        case id: (Inr request_id)
        have uuid: "is_uuid4 request_id" using RequestId_uuid4 rid id by metis
        show ?thesis
        proof (cases "pb_serialize pb request")
          case None
          with token tok rid id unsent show ?thesis
            by (simp add: Call_def io_bind_def io_lift_def throw_def)
        next
          case body: (Some body)
          define q where "q =
            \<lparr>hr_url = cc_url ctx @ ''/twirp/livekit.'' @ service @ ''/'' @ rpc,
             hr_method = ''POST'', hr_headers = call_headers token request_id,
             hr_body = body, hr_timeout = cc_timeout ctx\<rparr>"
          obtain r w' where tr: "cc_transport ctx q w2 = (r, w')" by fastforce
          have "sent pb pf ctx service rpc request grant w r w'"
            unfolding sent_def using auth uuid body tr unfolding q_def call_headers_def by blast
          moreover have "Call pb pf ctx service rpc request (Some ty) grant w =
              (and_then r (read_response pb ty), w')"
            using token tok rid id body tr
            by (cases r) (simp_all add: Call_def io_bind_def new_HttpRequest_def q_def io_lift_def)
          ultimately show ?thesis by (rule answered)
        qed
      qed
    qed
  qed
qed

lemma Call_success:
  assumes "Call pb pf ctx service rpc request (Some ty) grant w = (Inr message, w')"
  obtains response where "sent pb pf ctx service rpc request grant w (Inr response) w'"
    "success response" "pb_parse pb ty (rs_body response) = Some message"
proof (rule Call_run [of pb pf ctx service rpc request ty grant w])
  fix r w''
  assume s: "sent pb pf ctx service rpc request grant w r w''"
    and "Call pb pf ctx service rpc request (Some ty) grant w = (and_then r (read_response pb ty), w'')"
  with assms obtain response where "r = Inr response" "read_response pb ty response = Inr message" "w'' = w'"
    by (cases r) auto
  with s that show thesis
    by (auto simp: read_response_def success_def split: if_splits option.splits)
qed (use assms in simp)


end
