(* ===== verification/ServiceClient.thy ===== *)
theory ServiceClient
  imports ClientContext
begin

text \<open>
  What the six service clients share: \<^verbatim>\<open>ProtocolModel\<close>
  (\<^verbatim>\<open>include/livekit/server/model/protocol_model.h\<close>), the JSON codec
  (\<^verbatim>\<open>src/detail/proto/json_codec.h\<close>), the state of a client, and the contract that a client's
  public methods implement.

  The contract of a service is a table of rows. A row names the method on the wire, its message
  types and the policy that decides the grant of its token from the fields of the request. The
  locale \<open>service_class\<close> relates the public methods of a client to its rows, and proves once what
  follows for every method; the theory of each client interprets it on the methods of that client.
\<close>

section \<open>Models and their codec\<close>

datatype ProtocolModel = ProtocolModel (Json: string)

definition default_ProtocolModel :: ProtocolModel where
  "default_ProtocolModel = ProtocolModel ''{}''"

definition FromJson :: "string \<Rightarrow> ProtocolModel" where
  "FromJson json = ProtocolModel json"

definition Empty :: "ProtocolModel \<Rightarrow> bool" where
  "Empty model \<longleftrightarrow> Json model = [] \<or> Json model = ''{}''"

definition FromModel :: "'m protobuf \<Rightarrow> string \<Rightarrow> ProtocolModel \<Rightarrow> 'm result" where
  "FromModel pb full_name model =
     (case pb_from_json pb full_name False (Json model) of
        Inl status \<Rightarrow> throw ec_protocol (''invalid '' @ full_name @ '' JSON: '' @ status)
      | Inr message \<Rightarrow> Inr message)"

definition ToModel :: "'m protobuf \<Rightarrow> string \<Rightarrow> 'm \<Rightarrow> ProtocolModel result" where
  "ToModel pb full_name message =
     (case pb_to_json pb message of
        Inl status \<Rightarrow> throw ec_protocol (''could not encode '' @ full_name @ '' as JSON: '' @ status)
      | Inr json \<Rightarrow> Inr (FromJson json))"

section \<open>Clients\<close>

text \<open>
  Every client holds the shared context; \<open>cl_protobuf\<close> and \<open>cl_platform\<close> are the runtime and the
  platform the program is linked with.
\<close>

record ('w, 'm) client =
  cl_protobuf :: "'m protobuf"
  cl_platform :: "'w platform"
  cl_context :: "'w ClientContext"

definition context_call ::
  "('w, 'm) client \<Rightarrow> string \<Rightarrow> string \<Rightarrow> 'm \<Rightarrow> string \<Rightarrow> RequestGrant \<Rightarrow> ('w, 'm) io" where
  "context_call c service method request response grant =
     Call (cl_protobuf c) (cl_platform c) (cl_context c) service method request (Some response) grant"

text \<open>The accessor of a string field of a request.\<close>

definition field :: "('w, 'm) client \<Rightarrow> string \<Rightarrow> 'm \<Rightarrow> string" where
  "field c name message = pb_string (cl_protobuf c) name message"

text \<open>
  The body of the \<^verbatim>\<open>LIVEKIT_*_MODEL_METHOD\<close> macros: decode the model, run the protobuf overload,
  encode its response.
\<close>

definition model_method ::
  "('w, 'm) client \<Rightarrow> string \<Rightarrow> string \<Rightarrow> ('m \<Rightarrow> ('w, 'm) io) \<Rightarrow> ProtocolModel \<Rightarrow>
     ('w, ProtocolModel) io" where
  "model_method c request_type response_type run model =
     io_bind (io_lift (FromModel (cl_protobuf c) request_type model)) (\<lambda>request.
     io_bind (run request) (\<lambda>response.
     io_lift (ToModel (cl_protobuf c) response_type response)))"

definition video_only :: "VideoGrant \<Rightarrow> RequestGrant" where
  "video_only g = \<lparr>rg_video = Some g, rg_sip = None, rg_agent = None\<rparr>"

definition sip_only :: "SipGrant \<Rightarrow> RequestGrant" where
  "sip_only g = \<lparr>rg_video = None, rg_sip = Some g, rg_agent = None\<rparr>"

section \<open>Contracts\<close>

text \<open>
  What a method's token may do. A room or destination comes from the named field of the request.
\<close>

datatype grant_policy =
    CreateRooms
  | ListAllRooms
  | AdministerRoom string
  | AdministerRoomAndDestination string string
  | RecordRooms
  | AdministerIngress
  | AdministerSip
  | PlaceCalls
  | PlaceCallsIn string
  | DispatchAgents string
  | ConnectCalls
  | ConnectCallsIn string

fun policy_grant :: "(string \<Rightarrow> string) \<Rightarrow> grant_policy \<Rightarrow> RequestGrant" where
  "policy_grant get CreateRooms = video_only (empty_VideoGrant\<lparr>vg_room_create := True\<rparr>)"
| "policy_grant get ListAllRooms = video_only (empty_VideoGrant\<lparr>vg_room_list := True\<rparr>)"
| "policy_grant get (AdministerRoom room) =
     video_only (empty_VideoGrant\<lparr>vg_room_admin := (get room \<noteq> []), vg_room := get room\<rparr>)"
| "policy_grant get (AdministerRoomAndDestination room destination) =
     video_only (empty_VideoGrant\<lparr>vg_room_admin := (get room \<noteq> []), vg_room := get room,
                                  vg_destination_room := get destination\<rparr>)"
| "policy_grant get RecordRooms = video_only (empty_VideoGrant\<lparr>vg_room_record := True\<rparr>)"
| "policy_grant get AdministerIngress = video_only (empty_VideoGrant\<lparr>vg_ingress_admin := True\<rparr>)"
| "policy_grant get AdministerSip = sip_only \<lparr>sg_admin = True, sg_call = False\<rparr>"
| "policy_grant get PlaceCalls = sip_only \<lparr>sg_admin = False, sg_call = True\<rparr>"
| "policy_grant get (PlaceCallsIn room) =
     (sip_only \<lparr>sg_admin = False, sg_call = True\<rparr>)
       \<lparr>rg_video := if get room = [] then None
          else Some (empty_VideoGrant\<lparr>vg_room_admin := True, vg_room := get room\<rparr>)\<rparr>"
| "policy_grant get (DispatchAgents room) =
     video_only (empty_VideoGrant\<lparr>vg_room_admin := True, vg_room := get room\<rparr>)"
| "policy_grant get ConnectCalls = video_only (empty_VideoGrant\<lparr>vg_room_create := True\<rparr>)"
| "policy_grant get (ConnectCallsIn room) =
     video_only (empty_VideoGrant\<lparr>vg_room_create := True, vg_room := get room\<rparr>)"

text \<open>
  A row of a contract. \<open>mr_nonce\<close> marks the method that completes its request with a nonce.
\<close>

record method_row =
  mr_wire :: string
  mr_request :: string
  mr_response :: string
  mr_policy :: grant_policy
  mr_nonce :: bool

definition row :: "string \<Rightarrow> string \<Rightarrow> string \<Rightarrow> grant_policy \<Rightarrow> method_row" where
  "row wire request response policy =
     \<lparr>mr_wire = wire, mr_request = request, mr_response = response, mr_policy = policy, mr_nonce = False\<rparr>"

lemma row_sel [simp]:
  "mr_wire (row a b c d) = a" "mr_request (row a b c d) = b" "mr_response (row a b c d) = c"
  "mr_policy (row a b c d) = d" "mr_nonce (row a b c d) = False"
  by (simp_all add: row_def)

text \<open>
  The specification of a method: the request goes out unchanged, except that a missing nonce is
  filled in with sixteen random bytes (none when the random source of Windows fails), on the wire
  method and with the grant of the row.
\<close>

definition complete :: "method_row \<Rightarrow> ('w, 'm) client \<Rightarrow> 'm \<Rightarrow> ('w, 'm) io" where
  "complete r c m =
     (if mr_nonce r \<and> field c ''nonce'' m = []
      then io_bind (random_bytes (cl_platform c) 16) (\<lambda>bytes.
        io_return (pb_set_string (cl_protobuf c) ''nonce''
          (case bytes of None \<Rightarrow> [] | Some bs \<Rightarrow> BytesToString bs) m))
      else io_return m)"

definition row_call :: "string \<Rightarrow> method_row \<Rightarrow> ('w, 'm) client \<Rightarrow> 'm \<Rightarrow> ('w, 'm) io" where
  "row_call service r c m =
     io_bind (complete r c m) (\<lambda>m'.
       context_call c service (mr_wire r) m' (mr_response r)
         (policy_grant (\<lambda>name. field c name m) (mr_policy r)))"

definition run_row ::
  "string \<Rightarrow> method_row \<Rightarrow> ('w, 'm) client \<Rightarrow> ProtocolModel \<Rightarrow> ('w, ProtocolModel) io" where
  "run_row service r c = model_method c (mr_request r) (mr_response r) (row_call service r c)"

text \<open>
  What a call of a method that returns must have done: the model was a message of the request
  type; one request for it went out, on the wire method of the row and with exactly the grant of
  its policy; the answer was a success, and what the method returns is its message as JSON.
\<close>

definition fulfilled ::
  "string \<Rightarrow> method_row \<Rightarrow> ('w, 'm) client \<Rightarrow> ProtocolModel \<Rightarrow> 'w \<Rightarrow> ProtocolModel \<Rightarrow> 'w \<Rightarrow>
     bool" where
  "fulfilled service r c model w result w' \<longleftrightarrow>
     (\<exists>m m' w1 response message.
        pb_from_json (cl_protobuf c) (mr_request r) False (Json model) = Inr m \<and>
        complete r c m w = (Inr m', w1) \<and>
        sent (cl_protobuf c) (cl_platform c) (cl_context c) service (mr_wire r) m'
          (policy_grant (\<lambda>name. field c name m) (mr_policy r)) w1 (Inr response) w' \<and>
        success response \<and>
        pb_parse (cl_protobuf c) (mr_response r) (rs_body response) = Some message \<and>
        pb_to_json (cl_protobuf c) message = Inr (Json result))"

type_synonym ('w, 'm) model_methods =
  "(string \<times> (('w, 'm) client \<Rightarrow> ProtocolModel \<Rightarrow> ('w, ProtocolModel) io)) list"

lemma row_call_direct:
  "\<not> mr_nonce r \<Longrightarrow> row_call service r c m =
     context_call c service (mr_wire r) m (mr_response r)
       (policy_grant (\<lambda>name. field c name m) (mr_policy r))"
  by (simp add: row_call_def complete_def)

lemma run_row_eqI:
  assumes "\<And>c m. run c m = row_call service r c m" "mr_request r = req" "mr_response r = resp"
  shows "(\<lambda>c. model_method c req resp (run c)) = run_row service r"
  proof (rule ext)
  fix c
  have "run c = row_call service r c" using assms(1) by (rule ext)
  then show "model_method c req resp (run c) = run_row service r c"
    using assms(2,3) by (simp add: run_row_def)
qed

lemma run_row_fulfilled:
  assumes "run_row service r c model w = (Inr result, w')"
  shows "fulfilled service r c model w result w'"
proof -
  from assms obtain m m' w1 message where
    m: "FromModel (cl_protobuf c) (mr_request r) model = Inr m" and
    compl: "complete r c m w = (Inr m', w1)" and
    call: "context_call c service (mr_wire r) m' (mr_response r)
      (policy_grant (\<lambda>name. field c name m) (mr_policy r)) w1 = (Inr message, w')" and
    result: "ToModel (cl_protobuf c) (mr_response r) message = Inr result"
    by (auto simp: run_row_def model_method_def row_call_def)
  obtain response where
    "sent (cl_protobuf c) (cl_platform c) (cl_context c) service (mr_wire r) m'
       (policy_grant (\<lambda>name. field c name m) (mr_policy r)) w1 (Inr response) w'"
    "success response" "pb_parse (cl_protobuf c) (mr_response r) (rs_body response) = Some message"
    using call unfolding context_call_def by (rule Call_success)
  moreover have "pb_from_json (cl_protobuf c) (mr_request r) False (Json model) = Inr m"
    using m by (simp add: FromModel_def split: sum.splits)
  moreover have "pb_to_json (cl_protobuf c) message = Inr (Json result)"
    using result by (auto simp: ToModel_def FromJson_def split: sum.splits)
  ultimately show ?thesis unfolding fulfilled_def using compl by blast
qed

locale service_class =
  fixes service :: string
    and rows :: "(string \<times> method_row) list"
    and methods :: "('w, 'm) model_methods"
  assumes rows_implemented:
    "list_all2 (\<lambda>(name, r) (name', f). name = name' \<and> f = run_row service r) rows methods"
    and names_distinct: "distinct (map fst rows)"
begin

lemma names: "map fst methods = map fst rows"
  using rows_implemented by (induction rule: list_all2_induct) auto

lemma lookup: "map_of methods name = map_option (run_row service) (map_of rows name)"
  using rows_implemented by (induction rule: list_all2_induct) auto

lemma returned:
  assumes "map_of methods name = Some f" "f c model w = (Inr result, w')"
  obtains r where "map_of rows name = Some r" "fulfilled service r c model w result w'"
  using assms by (auto simp: lookup dest: run_row_fulfilled)

end

end
