(* ===== verification/RoomService.thy ===== *)
theory RoomService
  imports ServiceClient
begin

text \<open>
  \<^verbatim>\<open>src/room_service_client.cpp\<close>: the grants of the room service, the nonce of data packets, the
  fourteen methods of \<^verbatim>\<open>RoomServiceClient\<close> and their model overloads, against the contract of the
  service.
\<close>

section \<open>Methods\<close>

definition RoomService_Call ::
  "('w, 'm) client \<Rightarrow> string \<Rightarrow> 'm \<Rightarrow> string \<Rightarrow> RequestGrant \<Rightarrow> ('w, 'm) io" where
  "RoomService_Call c method request response grant =
     context_call c ''RoomService'' method request response grant"

definition RoomGrant :: "bool \<Rightarrow> bool \<Rightarrow> string \<Rightarrow> string \<Rightarrow> RequestGrant" where
  "RoomGrant create list_rooms room destination =
     (let video = empty_VideoGrant
            \<lparr>vg_room_create := create, vg_room_list := list_rooms, vg_room_admin := (room \<noteq> []),
             vg_room := room, vg_destination_room := destination\<rparr>
      in \<lparr>rg_video = Some video, rg_sip = None, rg_agent = None\<rparr>)"

text \<open>Sixteen random bytes, or none when the random source of Windows fails.\<close>

definition Nonce :: "'w platform \<Rightarrow> ('w, string) io" where
  "Nonce pf =
     io_bind (random_bytes pf 16) (\<lambda>r. case r of
       Some bs \<Rightarrow> io_return (BytesToString bs)
     | None \<Rightarrow> io_return [])"

definition CreateRoom :: "('w, 'm) client \<Rightarrow> 'm \<Rightarrow> ('w, 'm) io" where
  "CreateRoom c request =
     RoomService_Call c ''CreateRoom'' request ''livekit.Room'' (RoomGrant True False [] [])"

definition ListRooms :: "('w, 'm) client \<Rightarrow> 'm \<Rightarrow> ('w, 'm) io" where
  "ListRooms c request =
     RoomService_Call c ''ListRooms'' request ''livekit.ListRoomsResponse''
       (RoomGrant False True [] [])"

definition DeleteRoom :: "('w, 'm) client \<Rightarrow> 'm \<Rightarrow> ('w, 'm) io" where
  "DeleteRoom c request =
     RoomService_Call c ''DeleteRoom'' request ''livekit.DeleteRoomResponse''
       (RoomGrant True False [] [])"

definition ListParticipants :: "('w, 'm) client \<Rightarrow> 'm \<Rightarrow> ('w, 'm) io" where
  "ListParticipants c request =
     RoomService_Call c ''ListParticipants'' request ''livekit.ListParticipantsResponse''
       (RoomGrant False False (field c ''room'' request) [])"

definition GetParticipant :: "('w, 'm) client \<Rightarrow> 'm \<Rightarrow> ('w, 'm) io" where
  "GetParticipant c request =
     RoomService_Call c ''GetParticipant'' request ''livekit.ParticipantInfo''
       (RoomGrant False False (field c ''room'' request) [])"

definition RemoveParticipant :: "('w, 'm) client \<Rightarrow> 'm \<Rightarrow> ('w, 'm) io" where
  "RemoveParticipant c request =
     RoomService_Call c ''RemoveParticipant'' request ''livekit.RemoveParticipantResponse''
       (RoomGrant False False (field c ''room'' request) [])"

definition MutePublishedTrack :: "('w, 'm) client \<Rightarrow> 'm \<Rightarrow> ('w, 'm) io" where
  "MutePublishedTrack c request =
     RoomService_Call c ''MutePublishedTrack'' request ''livekit.MuteRoomTrackResponse''
       (RoomGrant False False (field c ''room'' request) [])"

definition UpdateParticipant :: "('w, 'm) client \<Rightarrow> 'm \<Rightarrow> ('w, 'm) io" where
  "UpdateParticipant c request =
     RoomService_Call c ''UpdateParticipant'' request ''livekit.ParticipantInfo''
       (RoomGrant False False (field c ''room'' request) [])"

definition UpdateSubscriptions :: "('w, 'm) client \<Rightarrow> 'm \<Rightarrow> ('w, 'm) io" where
  "UpdateSubscriptions c request =
     RoomService_Call c ''UpdateSubscriptions'' request ''livekit.UpdateSubscriptionsResponse''
       (RoomGrant False False (field c ''room'' request) [])"

definition SendData :: "('w, 'm) client \<Rightarrow> 'm \<Rightarrow> ('w, 'm) io" where
  "SendData c request =
     io_bind (if field c ''nonce'' request = []
              then io_bind (Nonce (cl_platform c)) (\<lambda>nonce.
                io_return (pb_set_string (cl_protobuf c) ''nonce'' nonce request))
              else io_return request) (\<lambda>request_with_nonce.
       RoomService_Call c ''SendData'' request_with_nonce ''livekit.SendDataResponse''
         (RoomGrant False False (field c ''room'' request) []))"

definition UpdateRoomMetadata :: "('w, 'm) client \<Rightarrow> 'm \<Rightarrow> ('w, 'm) io" where
  "UpdateRoomMetadata c request =
     RoomService_Call c ''UpdateRoomMetadata'' request ''livekit.Room''
       (RoomGrant False False (field c ''room'' request) [])"

definition ForwardParticipant :: "('w, 'm) client \<Rightarrow> 'm \<Rightarrow> ('w, 'm) io" where
  "ForwardParticipant c request =
     RoomService_Call c ''ForwardParticipant'' request ''livekit.ForwardParticipantResponse''
       (RoomGrant False False (field c ''room'' request) (field c ''destination_room'' request))"

definition MoveParticipant :: "('w, 'm) client \<Rightarrow> 'm \<Rightarrow> ('w, 'm) io" where
  "MoveParticipant c request =
     RoomService_Call c ''MoveParticipant'' request ''livekit.MoveParticipantResponse''
       (RoomGrant False False (field c ''room'' request) (field c ''destination_room'' request))"

definition PerformRpc :: "('w, 'm) client \<Rightarrow> 'm \<Rightarrow> ('w, 'm) io" where
  "PerformRpc c request =
     RoomService_Call c ''PerformRpc'' request ''livekit.PerformRpcResponse''
       (RoomGrant False False (field c ''room'' request) [])"

text \<open>The model overloads, in the order of the macro calls.\<close>

definition CreateRoom_model ::
  "('w, 'm) client \<Rightarrow> ProtocolModel \<Rightarrow> ('w, ProtocolModel) io" where
  "CreateRoom_model c =
     model_method c ''livekit.CreateRoomRequest'' ''livekit.Room'' (CreateRoom c)"

definition ListRooms_model ::
  "('w, 'm) client \<Rightarrow> ProtocolModel \<Rightarrow> ('w, ProtocolModel) io" where
  "ListRooms_model c =
     model_method c ''livekit.ListRoomsRequest'' ''livekit.ListRoomsResponse'' (ListRooms c)"

definition DeleteRoom_model ::
  "('w, 'm) client \<Rightarrow> ProtocolModel \<Rightarrow> ('w, ProtocolModel) io" where
  "DeleteRoom_model c =
     model_method c ''livekit.DeleteRoomRequest'' ''livekit.DeleteRoomResponse'' (DeleteRoom c)"

definition ListParticipants_model ::
  "('w, 'm) client \<Rightarrow> ProtocolModel \<Rightarrow> ('w, ProtocolModel) io" where
  "ListParticipants_model c =
     model_method c ''livekit.ListParticipantsRequest''
       ''livekit.ListParticipantsResponse'' (ListParticipants c)"

definition GetParticipant_model ::
  "('w, 'm) client \<Rightarrow> ProtocolModel \<Rightarrow> ('w, ProtocolModel) io" where
  "GetParticipant_model c =
     model_method c ''livekit.RoomParticipantIdentity''
       ''livekit.ParticipantInfo'' (GetParticipant c)"

definition RemoveParticipant_model ::
  "('w, 'm) client \<Rightarrow> ProtocolModel \<Rightarrow> ('w, ProtocolModel) io" where
  "RemoveParticipant_model c =
     model_method c ''livekit.RoomParticipantIdentity''
       ''livekit.RemoveParticipantResponse'' (RemoveParticipant c)"

definition MutePublishedTrack_model ::
  "('w, 'm) client \<Rightarrow> ProtocolModel \<Rightarrow> ('w, ProtocolModel) io" where
  "MutePublishedTrack_model c =
     model_method c ''livekit.MuteRoomTrackRequest''
       ''livekit.MuteRoomTrackResponse'' (MutePublishedTrack c)"

definition UpdateParticipant_model ::
  "('w, 'm) client \<Rightarrow> ProtocolModel \<Rightarrow> ('w, ProtocolModel) io" where
  "UpdateParticipant_model c =
     model_method c ''livekit.UpdateParticipantRequest''
       ''livekit.ParticipantInfo'' (UpdateParticipant c)"

definition UpdateSubscriptions_model ::
  "('w, 'm) client \<Rightarrow> ProtocolModel \<Rightarrow> ('w, ProtocolModel) io" where
  "UpdateSubscriptions_model c =
     model_method c ''livekit.UpdateSubscriptionsRequest''
       ''livekit.UpdateSubscriptionsResponse'' (UpdateSubscriptions c)"

definition SendData_model ::
  "('w, 'm) client \<Rightarrow> ProtocolModel \<Rightarrow> ('w, ProtocolModel) io" where
  "SendData_model c =
     model_method c ''livekit.SendDataRequest'' ''livekit.SendDataResponse'' (SendData c)"

definition UpdateRoomMetadata_model ::
  "('w, 'm) client \<Rightarrow> ProtocolModel \<Rightarrow> ('w, ProtocolModel) io" where
  "UpdateRoomMetadata_model c =
     model_method c ''livekit.UpdateRoomMetadataRequest'' ''livekit.Room'' (UpdateRoomMetadata c)"

definition ForwardParticipant_model ::
  "('w, 'm) client \<Rightarrow> ProtocolModel \<Rightarrow> ('w, ProtocolModel) io" where
  "ForwardParticipant_model c =
     model_method c ''livekit.ForwardParticipantRequest''
       ''livekit.ForwardParticipantResponse'' (ForwardParticipant c)"

definition MoveParticipant_model ::
  "('w, 'm) client \<Rightarrow> ProtocolModel \<Rightarrow> ('w, ProtocolModel) io" where
  "MoveParticipant_model c =
     model_method c ''livekit.MoveParticipantRequest''
       ''livekit.MoveParticipantResponse'' (MoveParticipant c)"

definition PerformRpc_model ::
  "('w, 'm) client \<Rightarrow> ProtocolModel \<Rightarrow> ('w, ProtocolModel) io" where
  "PerformRpc_model c =
     model_method c ''livekit.PerformRpcRequest'' ''livekit.PerformRpcResponse'' (PerformRpc c)"

definition RoomServiceClient_models :: "('w, 'm) model_methods" where
  "RoomServiceClient_models =
     [(''CreateRoom'', CreateRoom_model),
      (''ListRooms'', ListRooms_model),
      (''DeleteRoom'', DeleteRoom_model),
      (''ListParticipants'', ListParticipants_model),
      (''GetParticipant'', GetParticipant_model),
      (''RemoveParticipant'', RemoveParticipant_model),
      (''MutePublishedTrack'', MutePublishedTrack_model),
      (''UpdateParticipant'', UpdateParticipant_model),
      (''UpdateSubscriptions'', UpdateSubscriptions_model),
      (''SendData'', SendData_model),
      (''UpdateRoomMetadata'', UpdateRoomMetadata_model),
      (''ForwardParticipant'', ForwardParticipant_model),
      (''MoveParticipant'', MoveParticipant_model),
      (''PerformRpc'', PerformRpc_model)]"

text \<open>\<^verbatim>\<open>ListRooms()\<close> and \<^verbatim>\<open>ListRoomsModel()\<close>, without a request.\<close>

definition ListRooms_all :: "('w, 'm) client \<Rightarrow> ('w, 'm) io" where
  "ListRooms_all c = ListRooms c (pb_empty (cl_protobuf c) ''livekit.ListRoomsRequest'')"

definition ListRoomsModel :: "('w, 'm) client \<Rightarrow> ('w, ProtocolModel) io" where
  "ListRoomsModel c =
     model_method c ''livekit.ListRoomsRequest'' ''livekit.ListRoomsResponse'' (ListRooms c)
       default_ProtocolModel"

section \<open>Contract\<close>

text \<open>The contract of the service.\<close>

definition RoomService_rows :: "(string \<times> method_row) list" where
  "RoomService_rows =
     [(''CreateRoom'', row ''CreateRoom'' ''livekit.CreateRoomRequest''
         ''livekit.Room'' CreateRooms),
      (''ListRooms'', row ''ListRooms'' ''livekit.ListRoomsRequest''
         ''livekit.ListRoomsResponse'' ListAllRooms),
      (''DeleteRoom'', row ''DeleteRoom'' ''livekit.DeleteRoomRequest''
         ''livekit.DeleteRoomResponse'' CreateRooms),
      (''ListParticipants'', row ''ListParticipants'' ''livekit.ListParticipantsRequest''
         ''livekit.ListParticipantsResponse'' (AdministerRoom ''room'')),
      (''GetParticipant'', row ''GetParticipant'' ''livekit.RoomParticipantIdentity''
         ''livekit.ParticipantInfo'' (AdministerRoom ''room'')),
      (''RemoveParticipant'', row ''RemoveParticipant'' ''livekit.RoomParticipantIdentity''
         ''livekit.RemoveParticipantResponse'' (AdministerRoom ''room'')),
      (''MutePublishedTrack'', row ''MutePublishedTrack'' ''livekit.MuteRoomTrackRequest''
         ''livekit.MuteRoomTrackResponse'' (AdministerRoom ''room'')),
      (''UpdateParticipant'', row ''UpdateParticipant'' ''livekit.UpdateParticipantRequest''
         ''livekit.ParticipantInfo'' (AdministerRoom ''room'')),
      (''UpdateSubscriptions'', row ''UpdateSubscriptions'' ''livekit.UpdateSubscriptionsRequest''
         ''livekit.UpdateSubscriptionsResponse'' (AdministerRoom ''room'')),
      (''SendData'', (row ''SendData'' ''livekit.SendDataRequest''
         ''livekit.SendDataResponse'' (AdministerRoom ''room''))\<lparr>mr_nonce := True\<rparr>),
      (''UpdateRoomMetadata'', row ''UpdateRoomMetadata'' ''livekit.UpdateRoomMetadataRequest''
         ''livekit.Room'' (AdministerRoom ''room'')),
      (''ForwardParticipant'', row ''ForwardParticipant'' ''livekit.ForwardParticipantRequest''
         ''livekit.ForwardParticipantResponse'' (AdministerRoomAndDestination ''room'' ''destination_room'')),
      (''MoveParticipant'', row ''MoveParticipant'' ''livekit.MoveParticipantRequest''
         ''livekit.MoveParticipantResponse'' (AdministerRoomAndDestination ''room'' ''destination_room'')),
      (''PerformRpc'', row ''PerformRpc'' ''livekit.PerformRpcRequest''
         ''livekit.PerformRpcResponse'' (AdministerRoom ''room''))]"

text \<open>Every method is a call of its row.\<close>

lemmas room_method_defs = CreateRoom_def ListRooms_def DeleteRoom_def ListParticipants_def
  GetParticipant_def RemoveParticipant_def MutePublishedTrack_def UpdateParticipant_def
  UpdateSubscriptions_def UpdateRoomMetadata_def ForwardParticipant_def MoveParticipant_def
  PerformRpc_def RoomService_Call_def RoomGrant_def
lemmas room_model_defs = CreateRoom_model_def [abs_def] ListRooms_model_def [abs_def]
  DeleteRoom_model_def [abs_def] ListParticipants_model_def [abs_def] GetParticipant_model_def
  [abs_def] RemoveParticipant_model_def [abs_def] MutePublishedTrack_model_def [abs_def]
  UpdateParticipant_model_def [abs_def] UpdateSubscriptions_model_def [abs_def] SendData_model_def
  [abs_def] UpdateRoomMetadata_model_def [abs_def] ForwardParticipant_model_def [abs_def]
  MoveParticipant_model_def [abs_def] PerformRpc_model_def [abs_def]

lemma SendData_row:
  "SendData (c :: ('w, 'm) client) = row_call ''RoomService''
     ((row ''SendData'' ''livekit.SendDataRequest'' ''livekit.SendDataResponse''
        (AdministerRoom ''room''))\<lparr>mr_nonce := True\<rparr>) c"
proof (rule ext)
  fix request :: 'm
  have nonce: "io_bind (io_bind (random_bytes (cl_platform c) 16)
      (\<lambda>r. case r of None \<Rightarrow> io_return [] | Some bs \<Rightarrow> io_return (BytesToString bs))) f =
    io_bind (random_bytes (cl_platform c) 16)
      (\<lambda>r. f (case r of None \<Rightarrow> [] | Some bs \<Rightarrow> BytesToString bs))" for f :: "string \<Rightarrow> ('w, 'm) io"
    unfolding io_bind_assoc by (rule arg_cong [where f = "io_bind _"]) (auto split: option.split)
  show "SendData c request = row_call ''RoomService''
     ((row ''SendData'' ''livekit.SendDataRequest'' ''livekit.SendDataResponse''
        (AdministerRoom ''room''))\<lparr>mr_nonce := True\<rparr>) c request"
    unfolding SendData_def row_call_def complete_def Nonce_def nonce RoomService_Call_def
    by (simp add: RoomGrant_def video_only_def Let_def row_def empty_VideoGrant_def cong: option.case_cong)
qed

interpretation room: service_class "''RoomService''" RoomService_rows RoomServiceClient_models
proof
  show "list_all2 (\<lambda>(name, r) (name', f). name = name' \<and> f = run_row ''RoomService'' r)
      RoomService_rows (RoomServiceClient_models :: ('w, 'm) model_methods)"
    unfolding RoomService_rows_def RoomServiceClient_models_def room_model_defs
    by (simp only: list_all2_Cons list_all2_Nil prod.case simp_thms)
      (intro conjI run_row_eqI;
        simp add: SendData_row row_call_direct room_method_defs video_only_def sip_only_def Let_def
          empty_VideoGrant_def)
  show "distinct (map fst RoomService_rows)"
    unfolding RoomService_rows_def by simp
qed

lemmas room_implemented =
  room.rows_implemented [unfolded RoomService_rows_def RoomServiceClient_models_def list_all2_Cons list_all2_Nil
    prod.case simp_thms]

section \<open>Properties\<close>


end
