(* ===== verification/EgressService.thy ===== *)
theory EgressService
  imports ServiceClient
begin

text \<open>
  \<^verbatim>\<open>src/egress_client.cpp\<close>: the ten methods of \<^verbatim>\<open>EgressClient\<close>, which all ask for the permission to
  record rooms.
\<close>

section \<open>Methods\<close>

definition EgressService_Call :: "('w, 'm) client \<Rightarrow> string \<Rightarrow> 'm \<Rightarrow> string \<Rightarrow> ('w, 'm) io" where
  "EgressService_Call c method request response =
     (let grant = \<lparr>rg_video = Some (empty_VideoGrant\<lparr>vg_room_record := True\<rparr>), rg_sip = None,
                   rg_agent = None\<rparr>
      in context_call c ''Egress'' method request response grant)"

definition StartEgress :: "('w, 'm) client \<Rightarrow> 'm \<Rightarrow> ('w, 'm) io" where
  "StartEgress c request =
     EgressService_Call c ''StartEgress'' request ''livekit.EgressInfo''"

definition StartRoomCompositeEgress :: "('w, 'm) client \<Rightarrow> 'm \<Rightarrow> ('w, 'm) io" where
  "StartRoomCompositeEgress c request =
     EgressService_Call c ''StartRoomCompositeEgress'' request ''livekit.EgressInfo''"

definition StartWebEgress :: "('w, 'm) client \<Rightarrow> 'm \<Rightarrow> ('w, 'm) io" where
  "StartWebEgress c request =
     EgressService_Call c ''StartWebEgress'' request ''livekit.EgressInfo''"

definition StartParticipantEgress :: "('w, 'm) client \<Rightarrow> 'm \<Rightarrow> ('w, 'm) io" where
  "StartParticipantEgress c request =
     EgressService_Call c ''StartParticipantEgress'' request ''livekit.EgressInfo''"

definition StartTrackCompositeEgress :: "('w, 'm) client \<Rightarrow> 'm \<Rightarrow> ('w, 'm) io" where
  "StartTrackCompositeEgress c request =
     EgressService_Call c ''StartTrackCompositeEgress'' request ''livekit.EgressInfo''"

definition StartTrackEgress :: "('w, 'm) client \<Rightarrow> 'm \<Rightarrow> ('w, 'm) io" where
  "StartTrackEgress c request =
     EgressService_Call c ''StartTrackEgress'' request ''livekit.EgressInfo''"

definition UpdateLayout :: "('w, 'm) client \<Rightarrow> 'm \<Rightarrow> ('w, 'm) io" where
  "UpdateLayout c request =
     EgressService_Call c ''UpdateLayout'' request ''livekit.EgressInfo''"

definition UpdateStream :: "('w, 'm) client \<Rightarrow> 'm \<Rightarrow> ('w, 'm) io" where
  "UpdateStream c request =
     EgressService_Call c ''UpdateStream'' request ''livekit.EgressInfo''"

definition ListEgress :: "('w, 'm) client \<Rightarrow> 'm \<Rightarrow> ('w, 'm) io" where
  "ListEgress c request =
     EgressService_Call c ''ListEgress'' request ''livekit.ListEgressResponse''"

definition StopEgress :: "('w, 'm) client \<Rightarrow> 'm \<Rightarrow> ('w, 'm) io" where
  "StopEgress c request =
     EgressService_Call c ''StopEgress'' request ''livekit.EgressInfo''"

text \<open>The model overloads, in the order of the macro calls.\<close>

definition StartEgress_model ::
  "('w, 'm) client \<Rightarrow> ProtocolModel \<Rightarrow> ('w, ProtocolModel) io" where
  "StartEgress_model c =
     model_method c ''livekit.StartEgressRequest'' ''livekit.EgressInfo'' (StartEgress c)"

definition StartRoomCompositeEgress_model ::
  "('w, 'm) client \<Rightarrow> ProtocolModel \<Rightarrow> ('w, ProtocolModel) io" where
  "StartRoomCompositeEgress_model c =
     model_method c ''livekit.RoomCompositeEgressRequest''
       ''livekit.EgressInfo'' (StartRoomCompositeEgress c)"

definition StartWebEgress_model ::
  "('w, 'm) client \<Rightarrow> ProtocolModel \<Rightarrow> ('w, ProtocolModel) io" where
  "StartWebEgress_model c =
     model_method c ''livekit.WebEgressRequest'' ''livekit.EgressInfo'' (StartWebEgress c)"

definition StartParticipantEgress_model ::
  "('w, 'm) client \<Rightarrow> ProtocolModel \<Rightarrow> ('w, ProtocolModel) io" where
  "StartParticipantEgress_model c =
     model_method c ''livekit.ParticipantEgressRequest''
       ''livekit.EgressInfo'' (StartParticipantEgress c)"

definition StartTrackCompositeEgress_model ::
  "('w, 'm) client \<Rightarrow> ProtocolModel \<Rightarrow> ('w, ProtocolModel) io" where
  "StartTrackCompositeEgress_model c =
     model_method c ''livekit.TrackCompositeEgressRequest''
       ''livekit.EgressInfo'' (StartTrackCompositeEgress c)"

definition StartTrackEgress_model ::
  "('w, 'm) client \<Rightarrow> ProtocolModel \<Rightarrow> ('w, ProtocolModel) io" where
  "StartTrackEgress_model c =
     model_method c ''livekit.TrackEgressRequest'' ''livekit.EgressInfo'' (StartTrackEgress c)"

definition UpdateLayout_model ::
  "('w, 'm) client \<Rightarrow> ProtocolModel \<Rightarrow> ('w, ProtocolModel) io" where
  "UpdateLayout_model c =
     model_method c ''livekit.UpdateLayoutRequest'' ''livekit.EgressInfo'' (UpdateLayout c)"

definition UpdateStream_model ::
  "('w, 'm) client \<Rightarrow> ProtocolModel \<Rightarrow> ('w, ProtocolModel) io" where
  "UpdateStream_model c =
     model_method c ''livekit.UpdateStreamRequest'' ''livekit.EgressInfo'' (UpdateStream c)"

definition ListEgress_model ::
  "('w, 'm) client \<Rightarrow> ProtocolModel \<Rightarrow> ('w, ProtocolModel) io" where
  "ListEgress_model c =
     model_method c ''livekit.ListEgressRequest'' ''livekit.ListEgressResponse'' (ListEgress c)"

definition StopEgress_model ::
  "('w, 'm) client \<Rightarrow> ProtocolModel \<Rightarrow> ('w, ProtocolModel) io" where
  "StopEgress_model c =
     model_method c ''livekit.StopEgressRequest'' ''livekit.EgressInfo'' (StopEgress c)"

definition EgressClient_models :: "('w, 'm) model_methods" where
  "EgressClient_models =
     [(''StartEgress'', StartEgress_model),
      (''StartRoomCompositeEgress'', StartRoomCompositeEgress_model),
      (''StartWebEgress'', StartWebEgress_model),
      (''StartParticipantEgress'', StartParticipantEgress_model),
      (''StartTrackCompositeEgress'', StartTrackCompositeEgress_model),
      (''StartTrackEgress'', StartTrackEgress_model),
      (''UpdateLayout'', UpdateLayout_model),
      (''UpdateStream'', UpdateStream_model),
      (''ListEgress'', ListEgress_model),
      (''StopEgress'', StopEgress_model)]"

section \<open>Contract\<close>

text \<open>The contract of the service.\<close>

definition EgressService_rows :: "(string \<times> method_row) list" where
  "EgressService_rows =
     [(''StartEgress'', row ''StartEgress'' ''livekit.StartEgressRequest''
         ''livekit.EgressInfo'' RecordRooms),
      (''StartRoomCompositeEgress'', row ''StartRoomCompositeEgress'' ''livekit.RoomCompositeEgressRequest''
         ''livekit.EgressInfo'' RecordRooms),
      (''StartWebEgress'', row ''StartWebEgress'' ''livekit.WebEgressRequest''
         ''livekit.EgressInfo'' RecordRooms),
      (''StartParticipantEgress'', row ''StartParticipantEgress'' ''livekit.ParticipantEgressRequest''
         ''livekit.EgressInfo'' RecordRooms),
      (''StartTrackCompositeEgress'', row ''StartTrackCompositeEgress'' ''livekit.TrackCompositeEgressRequest''
         ''livekit.EgressInfo'' RecordRooms),
      (''StartTrackEgress'', row ''StartTrackEgress'' ''livekit.TrackEgressRequest''
         ''livekit.EgressInfo'' RecordRooms),
      (''UpdateLayout'', row ''UpdateLayout'' ''livekit.UpdateLayoutRequest''
         ''livekit.EgressInfo'' RecordRooms),
      (''UpdateStream'', row ''UpdateStream'' ''livekit.UpdateStreamRequest''
         ''livekit.EgressInfo'' RecordRooms),
      (''ListEgress'', row ''ListEgress'' ''livekit.ListEgressRequest''
         ''livekit.ListEgressResponse'' RecordRooms),
      (''StopEgress'', row ''StopEgress'' ''livekit.StopEgressRequest''
         ''livekit.EgressInfo'' RecordRooms)]"

text \<open>Every method is a call of its row.\<close>

lemmas egress_method_defs = StartEgress_def StartRoomCompositeEgress_def StartWebEgress_def
  StartParticipantEgress_def StartTrackCompositeEgress_def StartTrackEgress_def UpdateLayout_def
  UpdateStream_def ListEgress_def StopEgress_def EgressService_Call_def
lemmas egress_model_defs = StartEgress_model_def [abs_def] StartRoomCompositeEgress_model_def
  [abs_def] StartWebEgress_model_def [abs_def] StartParticipantEgress_model_def [abs_def]
  StartTrackCompositeEgress_model_def [abs_def] StartTrackEgress_model_def [abs_def]
  UpdateLayout_model_def [abs_def] UpdateStream_model_def [abs_def] ListEgress_model_def [abs_def]
  StopEgress_model_def [abs_def]

interpretation egress: service_class "''Egress''" EgressService_rows EgressClient_models
proof
  show "list_all2 (\<lambda>(name, r) (name', f). name = name' \<and> f = run_row ''Egress'' r)
      EgressService_rows (EgressClient_models :: ('w, 'm) model_methods)"
    unfolding EgressService_rows_def EgressClient_models_def egress_model_defs
    by (simp only: list_all2_Cons list_all2_Nil prod.case simp_thms)
      (intro conjI run_row_eqI;
        simp add: row_call_direct egress_method_defs video_only_def sip_only_def Let_def
          empty_VideoGrant_def)
  show "distinct (map fst EgressService_rows)"
    unfolding EgressService_rows_def by simp
qed

lemmas egress_implemented =
  egress.rows_implemented [unfolded EgressService_rows_def EgressClient_models_def list_all2_Cons list_all2_Nil
    prod.case simp_thms]

end
