(* ===== verification/IngressService.thy ===== *)
theory IngressService
  imports ServiceClient
begin

text \<open>
  \<^verbatim>\<open>src/ingress_client.cpp\<close>: the four methods of \<^verbatim>\<open>IngressClient\<close>, which all ask for the permission
  to administer ingress.
\<close>

section \<open>Methods\<close>

definition IngressService_Call :: "('w, 'm) client \<Rightarrow> string \<Rightarrow> 'm \<Rightarrow> string \<Rightarrow> ('w, 'm) io" where
  "IngressService_Call c method request response =
     (let grant = \<lparr>rg_video = Some (empty_VideoGrant\<lparr>vg_ingress_admin := True\<rparr>), rg_sip = None,
                   rg_agent = None\<rparr>
      in context_call c ''Ingress'' method request response grant)"

definition CreateIngress :: "('w, 'm) client \<Rightarrow> 'm \<Rightarrow> ('w, 'm) io" where
  "CreateIngress c request =
     IngressService_Call c ''CreateIngress'' request ''livekit.IngressInfo''"

definition UpdateIngress :: "('w, 'm) client \<Rightarrow> 'm \<Rightarrow> ('w, 'm) io" where
  "UpdateIngress c request =
     IngressService_Call c ''UpdateIngress'' request ''livekit.IngressInfo''"

definition ListIngress :: "('w, 'm) client \<Rightarrow> 'm \<Rightarrow> ('w, 'm) io" where
  "ListIngress c request =
     IngressService_Call c ''ListIngress'' request ''livekit.ListIngressResponse''"

definition DeleteIngress :: "('w, 'm) client \<Rightarrow> 'm \<Rightarrow> ('w, 'm) io" where
  "DeleteIngress c request =
     IngressService_Call c ''DeleteIngress'' request ''livekit.IngressInfo''"

text \<open>The model overloads, in the order of the macro calls.\<close>

definition CreateIngress_model ::
  "('w, 'm) client \<Rightarrow> ProtocolModel \<Rightarrow> ('w, ProtocolModel) io" where
  "CreateIngress_model c =
     model_method c ''livekit.CreateIngressRequest'' ''livekit.IngressInfo'' (CreateIngress c)"

definition UpdateIngress_model ::
  "('w, 'm) client \<Rightarrow> ProtocolModel \<Rightarrow> ('w, ProtocolModel) io" where
  "UpdateIngress_model c =
     model_method c ''livekit.UpdateIngressRequest'' ''livekit.IngressInfo'' (UpdateIngress c)"

definition ListIngress_model ::
  "('w, 'm) client \<Rightarrow> ProtocolModel \<Rightarrow> ('w, ProtocolModel) io" where
  "ListIngress_model c =
     model_method c ''livekit.ListIngressRequest'' ''livekit.ListIngressResponse'' (ListIngress c)"

definition DeleteIngress_model ::
  "('w, 'm) client \<Rightarrow> ProtocolModel \<Rightarrow> ('w, ProtocolModel) io" where
  "DeleteIngress_model c =
     model_method c ''livekit.DeleteIngressRequest'' ''livekit.IngressInfo'' (DeleteIngress c)"

definition IngressClient_models :: "('w, 'm) model_methods" where
  "IngressClient_models =
     [(''CreateIngress'', CreateIngress_model),
      (''UpdateIngress'', UpdateIngress_model),
      (''ListIngress'', ListIngress_model),
      (''DeleteIngress'', DeleteIngress_model)]"

section \<open>Contract\<close>

text \<open>The contract of the service.\<close>

definition IngressService_rows :: "(string \<times> method_row) list" where
  "IngressService_rows =
     [(''CreateIngress'', row ''CreateIngress'' ''livekit.CreateIngressRequest''
         ''livekit.IngressInfo'' AdministerIngress),
      (''UpdateIngress'', row ''UpdateIngress'' ''livekit.UpdateIngressRequest''
         ''livekit.IngressInfo'' AdministerIngress),
      (''ListIngress'', row ''ListIngress'' ''livekit.ListIngressRequest''
         ''livekit.ListIngressResponse'' AdministerIngress),
      (''DeleteIngress'', row ''DeleteIngress'' ''livekit.DeleteIngressRequest''
         ''livekit.IngressInfo'' AdministerIngress)]"

text \<open>Every method is a call of its row.\<close>

lemmas ingress_method_defs = CreateIngress_def UpdateIngress_def ListIngress_def DeleteIngress_def
  IngressService_Call_def
lemmas ingress_model_defs = CreateIngress_model_def [abs_def] UpdateIngress_model_def [abs_def]
  ListIngress_model_def [abs_def] DeleteIngress_model_def [abs_def]

interpretation ingress: service_class "''Ingress''" IngressService_rows IngressClient_models
proof
  show "list_all2 (\<lambda>(name, r) (name', f). name = name' \<and> f = run_row ''Ingress'' r)
      IngressService_rows (IngressClient_models :: ('w, 'm) model_methods)"
    unfolding IngressService_rows_def IngressClient_models_def ingress_model_defs
    by (simp only: list_all2_Cons list_all2_Nil prod.case simp_thms)
      (intro conjI run_row_eqI;
        simp add: row_call_direct ingress_method_defs video_only_def sip_only_def Let_def
          empty_VideoGrant_def)
  show "distinct (map fst IngressService_rows)"
    unfolding IngressService_rows_def by simp
qed

lemmas ingress_implemented =
  ingress.rows_implemented [unfolded IngressService_rows_def IngressClient_models_def list_all2_Cons list_all2_Nil
    prod.case simp_thms]

end
