(* ===== verification/SipService.thy ===== *)
theory SipService
  imports ServiceClient
begin

text \<open>
  \<^verbatim>\<open>src/sip_client.cpp\<close>: the sixteen methods of \<^verbatim>\<open>SipClient\<close>. Trunks and dispatch rules need the
  SIP administration grant, calls the call grant; transferring a participant of a named room also
  needs the administration of that room.
\<close>

section \<open>Methods\<close>

definition SipService_Call ::
  "('w, 'm) client \<Rightarrow> string \<Rightarrow> 'm \<Rightarrow> string \<Rightarrow> RequestGrant \<Rightarrow> ('w, 'm) io" where
  "SipService_Call c method request response grant =
     context_call c ''SIP'' method request response grant"

definition AdminGrant :: RequestGrant where
  "AdminGrant = \<lparr>rg_video = None, rg_sip = Some \<lparr>sg_admin = True, sg_call = False\<rparr>, rg_agent = None\<rparr>"

definition CallGrant :: "string \<Rightarrow> RequestGrant" where
  "CallGrant room =
     (let grant = \<lparr>rg_video = None, rg_sip = Some \<lparr>sg_admin = False, sg_call = True\<rparr>, rg_agent = None\<rparr>
      in if room \<noteq> []
         then grant\<lparr>rg_video := Some (empty_VideoGrant\<lparr>vg_room_admin := True, vg_room := room\<rparr>)\<rparr>
         else grant)"

definition CreateInboundTrunk :: "('w, 'm) client \<Rightarrow> 'm \<Rightarrow> ('w, 'm) io" where
  "CreateInboundTrunk c request =
     SipService_Call c ''CreateSIPInboundTrunk'' request ''livekit.SIPInboundTrunkInfo''
       AdminGrant"

definition CreateOutboundTrunk :: "('w, 'm) client \<Rightarrow> 'm \<Rightarrow> ('w, 'm) io" where
  "CreateOutboundTrunk c request =
     SipService_Call c ''CreateSIPOutboundTrunk'' request ''livekit.SIPOutboundTrunkInfo''
       AdminGrant"

definition UpdateInboundTrunk :: "('w, 'm) client \<Rightarrow> 'm \<Rightarrow> ('w, 'm) io" where
  "UpdateInboundTrunk c request =
     SipService_Call c ''UpdateSIPInboundTrunk'' request ''livekit.SIPInboundTrunkInfo''
       AdminGrant"

definition UpdateOutboundTrunk :: "('w, 'm) client \<Rightarrow> 'm \<Rightarrow> ('w, 'm) io" where
  "UpdateOutboundTrunk c request =
     SipService_Call c ''UpdateSIPOutboundTrunk'' request ''livekit.SIPOutboundTrunkInfo''
       AdminGrant"

definition GetInboundTrunk :: "('w, 'm) client \<Rightarrow> 'm \<Rightarrow> ('w, 'm) io" where
  "GetInboundTrunk c request =
     SipService_Call c ''GetSIPInboundTrunk'' request ''livekit.GetSIPInboundTrunkResponse''
       AdminGrant"

definition GetOutboundTrunk :: "('w, 'm) client \<Rightarrow> 'm \<Rightarrow> ('w, 'm) io" where
  "GetOutboundTrunk c request =
     SipService_Call c ''GetSIPOutboundTrunk'' request ''livekit.GetSIPOutboundTrunkResponse''
       AdminGrant"

definition ListTrunks :: "('w, 'm) client \<Rightarrow> 'm \<Rightarrow> ('w, 'm) io" where
  "ListTrunks c request =
     SipService_Call c ''ListSIPTrunk'' request ''livekit.ListSIPTrunkResponse'' AdminGrant"

definition ListInboundTrunks :: "('w, 'm) client \<Rightarrow> 'm \<Rightarrow> ('w, 'm) io" where
  "ListInboundTrunks c request =
     SipService_Call c ''ListSIPInboundTrunk'' request ''livekit.ListSIPInboundTrunkResponse''
       AdminGrant"

definition ListOutboundTrunks :: "('w, 'm) client \<Rightarrow> 'm \<Rightarrow> ('w, 'm) io" where
  "ListOutboundTrunks c request =
     SipService_Call c ''ListSIPOutboundTrunk'' request ''livekit.ListSIPOutboundTrunkResponse''
       AdminGrant"

definition DeleteTrunk :: "('w, 'm) client \<Rightarrow> 'm \<Rightarrow> ('w, 'm) io" where
  "DeleteTrunk c request =
     SipService_Call c ''DeleteSIPTrunk'' request ''livekit.SIPTrunkInfo'' AdminGrant"

definition CreateDispatchRule :: "('w, 'm) client \<Rightarrow> 'm \<Rightarrow> ('w, 'm) io" where
  "CreateDispatchRule c request =
     SipService_Call c ''CreateSIPDispatchRule'' request ''livekit.SIPDispatchRuleInfo''
       AdminGrant"

definition UpdateDispatchRule :: "('w, 'm) client \<Rightarrow> 'm \<Rightarrow> ('w, 'm) io" where
  "UpdateDispatchRule c request =
     SipService_Call c ''UpdateSIPDispatchRule'' request ''livekit.SIPDispatchRuleInfo''
       AdminGrant"

definition ListDispatchRules :: "('w, 'm) client \<Rightarrow> 'm \<Rightarrow> ('w, 'm) io" where
  "ListDispatchRules c request =
     SipService_Call c ''ListSIPDispatchRule'' request ''livekit.ListSIPDispatchRuleResponse''
       AdminGrant"

definition DeleteDispatchRule :: "('w, 'm) client \<Rightarrow> 'm \<Rightarrow> ('w, 'm) io" where
  "DeleteDispatchRule c request =
     SipService_Call c ''DeleteSIPDispatchRule'' request ''livekit.SIPDispatchRuleInfo''
       AdminGrant"

definition CreateParticipant :: "('w, 'm) client \<Rightarrow> 'm \<Rightarrow> ('w, 'm) io" where
  "CreateParticipant c request =
     SipService_Call c ''CreateSIPParticipant'' request ''livekit.SIPParticipantInfo''
       (CallGrant [])"

definition TransferParticipant :: "('w, 'm) client \<Rightarrow> 'm \<Rightarrow> ('w, 'm) io" where
  "TransferParticipant c request =
     SipService_Call c ''TransferSIPParticipant'' request ''google.protobuf.Empty''
       (CallGrant (field c ''room_name'' request))"

text \<open>The model overloads, in the order of the macro calls.\<close>

definition CreateInboundTrunk_model ::
  "('w, 'm) client \<Rightarrow> ProtocolModel \<Rightarrow> ('w, ProtocolModel) io" where
  "CreateInboundTrunk_model c =
     model_method c ''livekit.CreateSIPInboundTrunkRequest''
       ''livekit.SIPInboundTrunkInfo'' (CreateInboundTrunk c)"

definition CreateOutboundTrunk_model ::
  "('w, 'm) client \<Rightarrow> ProtocolModel \<Rightarrow> ('w, ProtocolModel) io" where
  "CreateOutboundTrunk_model c =
     model_method c ''livekit.CreateSIPOutboundTrunkRequest''
       ''livekit.SIPOutboundTrunkInfo'' (CreateOutboundTrunk c)"

definition UpdateInboundTrunk_model ::
  "('w, 'm) client \<Rightarrow> ProtocolModel \<Rightarrow> ('w, ProtocolModel) io" where
  "UpdateInboundTrunk_model c =
     model_method c ''livekit.UpdateSIPInboundTrunkRequest''
       ''livekit.SIPInboundTrunkInfo'' (UpdateInboundTrunk c)"

definition UpdateOutboundTrunk_model ::
  "('w, 'm) client \<Rightarrow> ProtocolModel \<Rightarrow> ('w, ProtocolModel) io" where
  "UpdateOutboundTrunk_model c =
     model_method c ''livekit.UpdateSIPOutboundTrunkRequest''
       ''livekit.SIPOutboundTrunkInfo'' (UpdateOutboundTrunk c)"

definition GetInboundTrunk_model ::
  "('w, 'm) client \<Rightarrow> ProtocolModel \<Rightarrow> ('w, ProtocolModel) io" where
  "GetInboundTrunk_model c =
     model_method c ''livekit.GetSIPInboundTrunkRequest''
       ''livekit.GetSIPInboundTrunkResponse'' (GetInboundTrunk c)"

definition GetOutboundTrunk_model ::
  "('w, 'm) client \<Rightarrow> ProtocolModel \<Rightarrow> ('w, ProtocolModel) io" where
  "GetOutboundTrunk_model c =
     model_method c ''livekit.GetSIPOutboundTrunkRequest''
       ''livekit.GetSIPOutboundTrunkResponse'' (GetOutboundTrunk c)"

definition ListTrunks_model ::
  "('w, 'm) client \<Rightarrow> ProtocolModel \<Rightarrow> ('w, ProtocolModel) io" where
  "ListTrunks_model c =
     model_method c ''livekit.ListSIPTrunkRequest''
       ''livekit.ListSIPTrunkResponse'' (ListTrunks c)"

definition ListInboundTrunks_model ::
  "('w, 'm) client \<Rightarrow> ProtocolModel \<Rightarrow> ('w, ProtocolModel) io" where
  "ListInboundTrunks_model c =
     model_method c ''livekit.ListSIPInboundTrunkRequest''
       ''livekit.ListSIPInboundTrunkResponse'' (ListInboundTrunks c)"

definition ListOutboundTrunks_model ::
  "('w, 'm) client \<Rightarrow> ProtocolModel \<Rightarrow> ('w, ProtocolModel) io" where
  "ListOutboundTrunks_model c =
     model_method c ''livekit.ListSIPOutboundTrunkRequest''
       ''livekit.ListSIPOutboundTrunkResponse'' (ListOutboundTrunks c)"

definition DeleteTrunk_model ::
  "('w, 'm) client \<Rightarrow> ProtocolModel \<Rightarrow> ('w, ProtocolModel) io" where
  "DeleteTrunk_model c =
     model_method c ''livekit.DeleteSIPTrunkRequest'' ''livekit.SIPTrunkInfo'' (DeleteTrunk c)"

definition CreateDispatchRule_model ::
  "('w, 'm) client \<Rightarrow> ProtocolModel \<Rightarrow> ('w, ProtocolModel) io" where
  "CreateDispatchRule_model c =
     model_method c ''livekit.CreateSIPDispatchRuleRequest''
       ''livekit.SIPDispatchRuleInfo'' (CreateDispatchRule c)"

definition UpdateDispatchRule_model ::
  "('w, 'm) client \<Rightarrow> ProtocolModel \<Rightarrow> ('w, ProtocolModel) io" where
  "UpdateDispatchRule_model c =
     model_method c ''livekit.UpdateSIPDispatchRuleRequest''
       ''livekit.SIPDispatchRuleInfo'' (UpdateDispatchRule c)"

definition ListDispatchRules_model ::
  "('w, 'm) client \<Rightarrow> ProtocolModel \<Rightarrow> ('w, ProtocolModel) io" where
  "ListDispatchRules_model c =
     model_method c ''livekit.ListSIPDispatchRuleRequest''
       ''livekit.ListSIPDispatchRuleResponse'' (ListDispatchRules c)"

definition DeleteDispatchRule_model ::
  "('w, 'm) client \<Rightarrow> ProtocolModel \<Rightarrow> ('w, ProtocolModel) io" where
  "DeleteDispatchRule_model c =
     model_method c ''livekit.DeleteSIPDispatchRuleRequest''
       ''livekit.SIPDispatchRuleInfo'' (DeleteDispatchRule c)"

definition CreateParticipant_model ::
  "('w, 'm) client \<Rightarrow> ProtocolModel \<Rightarrow> ('w, ProtocolModel) io" where
  "CreateParticipant_model c =
     model_method c ''livekit.CreateSIPParticipantRequest''
       ''livekit.SIPParticipantInfo'' (CreateParticipant c)"

definition TransferParticipant_model ::
  "('w, 'm) client \<Rightarrow> ProtocolModel \<Rightarrow> ('w, ProtocolModel) io" where
  "TransferParticipant_model c =
     model_method c ''livekit.TransferSIPParticipantRequest''
       ''google.protobuf.Empty'' (TransferParticipant c)"

definition SipClient_models :: "('w, 'm) model_methods" where
  "SipClient_models =
     [(''CreateInboundTrunk'', CreateInboundTrunk_model),
      (''CreateOutboundTrunk'', CreateOutboundTrunk_model),
      (''UpdateInboundTrunk'', UpdateInboundTrunk_model),
      (''UpdateOutboundTrunk'', UpdateOutboundTrunk_model),
      (''GetInboundTrunk'', GetInboundTrunk_model),
      (''GetOutboundTrunk'', GetOutboundTrunk_model),
      (''ListTrunks'', ListTrunks_model),
      (''ListInboundTrunks'', ListInboundTrunks_model),
      (''ListOutboundTrunks'', ListOutboundTrunks_model),
      (''DeleteTrunk'', DeleteTrunk_model),
      (''CreateDispatchRule'', CreateDispatchRule_model),
      (''UpdateDispatchRule'', UpdateDispatchRule_model),
      (''ListDispatchRules'', ListDispatchRules_model),
      (''DeleteDispatchRule'', DeleteDispatchRule_model),
      (''CreateParticipant'', CreateParticipant_model),
      (''TransferParticipant'', TransferParticipant_model)]"

section \<open>Contract\<close>

text \<open>The contract of the service.\<close>

definition SipService_rows :: "(string \<times> method_row) list" where
  "SipService_rows =
     [(''CreateInboundTrunk'', row ''CreateSIPInboundTrunk'' ''livekit.CreateSIPInboundTrunkRequest''
         ''livekit.SIPInboundTrunkInfo'' AdministerSip),
      (''CreateOutboundTrunk'', row ''CreateSIPOutboundTrunk'' ''livekit.CreateSIPOutboundTrunkRequest''
         ''livekit.SIPOutboundTrunkInfo'' AdministerSip),
      (''UpdateInboundTrunk'', row ''UpdateSIPInboundTrunk'' ''livekit.UpdateSIPInboundTrunkRequest''
         ''livekit.SIPInboundTrunkInfo'' AdministerSip),
      (''UpdateOutboundTrunk'', row ''UpdateSIPOutboundTrunk'' ''livekit.UpdateSIPOutboundTrunkRequest''
         ''livekit.SIPOutboundTrunkInfo'' AdministerSip),
      (''GetInboundTrunk'', row ''GetSIPInboundTrunk'' ''livekit.GetSIPInboundTrunkRequest''
         ''livekit.GetSIPInboundTrunkResponse'' AdministerSip),
      (''GetOutboundTrunk'', row ''GetSIPOutboundTrunk'' ''livekit.GetSIPOutboundTrunkRequest''
         ''livekit.GetSIPOutboundTrunkResponse'' AdministerSip),
      (''ListTrunks'', row ''ListSIPTrunk'' ''livekit.ListSIPTrunkRequest''
         ''livekit.ListSIPTrunkResponse'' AdministerSip),
      (''ListInboundTrunks'', row ''ListSIPInboundTrunk'' ''livekit.ListSIPInboundTrunkRequest''
         ''livekit.ListSIPInboundTrunkResponse'' AdministerSip),
      (''ListOutboundTrunks'', row ''ListSIPOutboundTrunk'' ''livekit.ListSIPOutboundTrunkRequest''
         ''livekit.ListSIPOutboundTrunkResponse'' AdministerSip),
      (''DeleteTrunk'', row ''DeleteSIPTrunk'' ''livekit.DeleteSIPTrunkRequest''
         ''livekit.SIPTrunkInfo'' AdministerSip),
      (''CreateDispatchRule'', row ''CreateSIPDispatchRule'' ''livekit.CreateSIPDispatchRuleRequest''
         ''livekit.SIPDispatchRuleInfo'' AdministerSip),
      (''UpdateDispatchRule'', row ''UpdateSIPDispatchRule'' ''livekit.UpdateSIPDispatchRuleRequest''
         ''livekit.SIPDispatchRuleInfo'' AdministerSip),
      (''ListDispatchRules'', row ''ListSIPDispatchRule'' ''livekit.ListSIPDispatchRuleRequest''
         ''livekit.ListSIPDispatchRuleResponse'' AdministerSip),
      (''DeleteDispatchRule'', row ''DeleteSIPDispatchRule'' ''livekit.DeleteSIPDispatchRuleRequest''
         ''livekit.SIPDispatchRuleInfo'' AdministerSip),
      (''CreateParticipant'', row ''CreateSIPParticipant'' ''livekit.CreateSIPParticipantRequest''
         ''livekit.SIPParticipantInfo'' PlaceCalls),
      (''TransferParticipant'', row ''TransferSIPParticipant'' ''livekit.TransferSIPParticipantRequest''
         ''google.protobuf.Empty'' (PlaceCallsIn ''room_name''))]"

text \<open>Every method is a call of its row.\<close>

lemmas sip_method_defs = CreateInboundTrunk_def CreateOutboundTrunk_def UpdateInboundTrunk_def
  UpdateOutboundTrunk_def GetInboundTrunk_def GetOutboundTrunk_def ListTrunks_def
  ListInboundTrunks_def ListOutboundTrunks_def DeleteTrunk_def CreateDispatchRule_def
  UpdateDispatchRule_def ListDispatchRules_def DeleteDispatchRule_def CreateParticipant_def
  TransferParticipant_def SipService_Call_def AdminGrant_def CallGrant_def
lemmas sip_model_defs = CreateInboundTrunk_model_def [abs_def] CreateOutboundTrunk_model_def
  [abs_def] UpdateInboundTrunk_model_def [abs_def] UpdateOutboundTrunk_model_def [abs_def]
  GetInboundTrunk_model_def [abs_def] GetOutboundTrunk_model_def [abs_def] ListTrunks_model_def
  [abs_def] ListInboundTrunks_model_def [abs_def] ListOutboundTrunks_model_def [abs_def]
  DeleteTrunk_model_def [abs_def] CreateDispatchRule_model_def [abs_def]
  UpdateDispatchRule_model_def [abs_def] ListDispatchRules_model_def [abs_def]
  DeleteDispatchRule_model_def [abs_def] CreateParticipant_model_def [abs_def]
  TransferParticipant_model_def [abs_def]

interpretation sip: service_class "''SIP''" SipService_rows SipClient_models
proof
  show "list_all2 (\<lambda>(name, r) (name', f). name = name' \<and> f = run_row ''SIP'' r)
      SipService_rows (SipClient_models :: ('w, 'm) model_methods)"
    unfolding SipService_rows_def SipClient_models_def sip_model_defs
    by (simp only: list_all2_Cons list_all2_Nil prod.case simp_thms)
      (intro conjI run_row_eqI;
        simp add: row_call_direct sip_method_defs video_only_def sip_only_def Let_def
          empty_VideoGrant_def)
  show "distinct (map fst SipService_rows)"
    unfolding SipService_rows_def by simp
qed

lemmas sip_implemented =
  sip.rows_implemented [unfolded SipService_rows_def SipClient_models_def list_all2_Cons list_all2_Nil
    prod.case simp_thms]

end
