(* ===== verification/AgentDispatchService.thy ===== *)
theory AgentDispatchService
  imports ServiceClient
begin

text \<open>
  \<^verbatim>\<open>src/agent_dispatch_client.cpp\<close>: the methods of \<^verbatim>\<open>AgentDispatchClient\<close>, and the lookup of a
  single dispatch in the list the service returns. Unlike the grants of the room service, the
  grant administers its room even when the request names none.
\<close>

section \<open>Methods\<close>

definition AgentDispatchService_Call ::
  "('w, 'm) client \<Rightarrow> string \<Rightarrow> 'm \<Rightarrow> string \<Rightarrow> string \<Rightarrow> ('w, 'm) io" where
  "AgentDispatchService_Call c method request response room =
     (let grant = \<lparr>rg_video = Some (empty_VideoGrant\<lparr>vg_room_admin := True, vg_room := room\<rparr>),
                   rg_sip = None, rg_agent = None\<rparr>
      in context_call c ''AgentDispatchService'' method request response grant)"

definition CreateDispatch :: "('w, 'm) client \<Rightarrow> 'm \<Rightarrow> ('w, 'm) io" where
  "CreateDispatch c request =
     AgentDispatchService_Call c ''CreateDispatch'' request ''livekit.AgentDispatch''
       (field c ''room'' request)"

definition DeleteDispatch :: "('w, 'm) client \<Rightarrow> 'm \<Rightarrow> ('w, 'm) io" where
  "DeleteDispatch c request =
     AgentDispatchService_Call c ''DeleteDispatch'' request ''livekit.AgentDispatch''
       (field c ''room'' request)"

definition ListDispatch :: "('w, 'm) client \<Rightarrow> 'm \<Rightarrow> ('w, 'm) io" where
  "ListDispatch c request =
     AgentDispatchService_Call c ''ListDispatch'' request ''livekit.ListAgentDispatchResponse''
       (field c ''room'' request)"

text \<open>The model overloads, in the order of the macro calls.\<close>

definition CreateDispatch_model ::
  "('w, 'm) client \<Rightarrow> ProtocolModel \<Rightarrow> ('w, ProtocolModel) io" where
  "CreateDispatch_model c =
     model_method c ''livekit.CreateAgentDispatchRequest''
       ''livekit.AgentDispatch'' (CreateDispatch c)"

definition DeleteDispatch_model ::
  "('w, 'm) client \<Rightarrow> ProtocolModel \<Rightarrow> ('w, ProtocolModel) io" where
  "DeleteDispatch_model c =
     model_method c ''livekit.DeleteAgentDispatchRequest''
       ''livekit.AgentDispatch'' (DeleteDispatch c)"

definition ListDispatch_model ::
  "('w, 'm) client \<Rightarrow> ProtocolModel \<Rightarrow> ('w, ProtocolModel) io" where
  "ListDispatch_model c =
     model_method c ''livekit.ListAgentDispatchRequest''
       ''livekit.ListAgentDispatchResponse'' (ListDispatch c)"

definition AgentDispatchClient_models :: "('w, 'm) model_methods" where
  "AgentDispatchClient_models =
     [(''CreateDispatch'', CreateDispatch_model),
      (''DeleteDispatch'', DeleteDispatch_model),
      (''ListDispatch'', ListDispatch_model)]"

text \<open>The request both lookups send; \<open>None\<close> is an empty pointer or optional.\<close>

definition dispatch_request :: "('w, 'm) client \<Rightarrow> string \<Rightarrow> string \<Rightarrow> 'm" where
  "dispatch_request c dispatch_id room =
     (let request = pb_empty (cl_protobuf c) ''livekit.ListAgentDispatchRequest'';
          request = pb_set_string (cl_protobuf c) ''dispatch_id'' dispatch_id request
      in pb_set_string (cl_protobuf c) ''room'' room request)"

definition GetDispatch :: "('w, 'm) client \<Rightarrow> string \<Rightarrow> string \<Rightarrow> ('w, 'm option) io" where
  "GetDispatch c dispatch_id room =
     io_bind (ListDispatch c (dispatch_request c dispatch_id room)) (\<lambda>response.
       let dispatches = pb_repeated (cl_protobuf c) ''agent_dispatches'' response
       in if dispatches = [] then io_return None else io_return (Some (dispatches ! 0)))"

definition GetDispatchModel ::
  "('w, 'm) client \<Rightarrow> string \<Rightarrow> string \<Rightarrow> ('w, ProtocolModel option) io" where
  "GetDispatchModel c dispatch_id room =
     io_bind (ListDispatch c (dispatch_request c dispatch_id room)) (\<lambda>response.
       let dispatches = pb_repeated (cl_protobuf c) ''agent_dispatches'' response
       in if dispatches = [] then io_return None
          else io_bind (io_lift (ToModel (cl_protobuf c) ''livekit.AgentDispatch'' (dispatches ! 0)))
                 (\<lambda>model. io_return (Some model)))"

section \<open>Contract\<close>

text \<open>The contract of the service.\<close>

definition AgentDispatchService_rows :: "(string \<times> method_row) list" where
  "AgentDispatchService_rows =
     [(''CreateDispatch'', row ''CreateDispatch'' ''livekit.CreateAgentDispatchRequest''
         ''livekit.AgentDispatch'' (DispatchAgents ''room'')),
      (''DeleteDispatch'', row ''DeleteDispatch'' ''livekit.DeleteAgentDispatchRequest''
         ''livekit.AgentDispatch'' (DispatchAgents ''room'')),
      (''ListDispatch'', row ''ListDispatch'' ''livekit.ListAgentDispatchRequest''
         ''livekit.ListAgentDispatchResponse'' (DispatchAgents ''room''))]"

text \<open>Every method is a call of its row.\<close>

lemmas agent_method_defs = CreateDispatch_def DeleteDispatch_def ListDispatch_def
  AgentDispatchService_Call_def
lemmas agent_model_defs = CreateDispatch_model_def [abs_def] DeleteDispatch_model_def [abs_def]
  ListDispatch_model_def [abs_def]

interpretation agent: service_class "''AgentDispatchService''" AgentDispatchService_rows AgentDispatchClient_models
proof
  show "list_all2 (\<lambda>(name, r) (name', f). name = name' \<and> f = run_row ''AgentDispatchService'' r)
      AgentDispatchService_rows (AgentDispatchClient_models :: ('w, 'm) model_methods)"
    unfolding AgentDispatchService_rows_def AgentDispatchClient_models_def agent_model_defs
    by (simp only: list_all2_Cons list_all2_Nil prod.case simp_thms)
      (intro conjI run_row_eqI;
        simp add: row_call_direct agent_method_defs video_only_def sip_only_def Let_def
          empty_VideoGrant_def)
  show "distinct (map fst AgentDispatchService_rows)"
    unfolding AgentDispatchService_rows_def by simp
qed

lemmas agent_implemented =
  agent.rows_implemented [unfolded AgentDispatchService_rows_def AgentDispatchClient_models_def list_all2_Cons list_all2_Nil
    prod.case simp_thms]

section \<open>Properties\<close>

text \<open>
  The model overload of the lookup is the protobuf overload followed by the codec: the two
  send the same request, agree on whether the dispatch exists, and the first dispatch the service
  lists is the one that is encoded.
\<close>

theorem get_dispatch_overloads_agree:
  "GetDispatchModel c dispatch_id room w =
     (case GetDispatch c dispatch_id room w of
        (Inl f, w') \<Rightarrow> (Inl f, w')
      | (Inr None, w') \<Rightarrow> (Inr None, w')
      | (Inr (Some d), w') \<Rightarrow>
          (and_then (ToModel (cl_protobuf c) ''livekit.AgentDispatch'' d) (\<lambda>model. Inr (Some model)), w'))"
proof (cases "ListDispatch c (dispatch_request c dispatch_id room) w")
  case (Pair r w')
  show ?thesis
  proof (cases r)
    case (Inl f)
    with Pair show ?thesis by (simp add: GetDispatchModel_def GetDispatch_def io_bind_def)
  next
    case (Inr response)
    show ?thesis
    proof (cases "pb_repeated (cl_protobuf c) ''agent_dispatches'' response")
      case Nil
      with Inr Pair show ?thesis
        by (simp add: GetDispatchModel_def GetDispatch_def io_bind_Pair_Inr io_return_def)
    next
      case (Cons d ds)
      with Inr Pair show ?thesis
        by (cases "ToModel (cl_protobuf c) ''livekit.AgentDispatch'' d")
          (simp_all add: GetDispatchModel_def GetDispatch_def io_bind_Pair_Inr io_return_def io_lift_def)
    qed
  qed
qed

end
