(* ===== verification/ConnectorService.thy ===== *)
theory ConnectorService
  imports ServiceClient
begin

text \<open>
  \<^verbatim>\<open>src/connector_client.cpp\<close>: the five methods of \<^verbatim>\<open>ConnectorClient\<close>; the calls that join a room
  name it in their grant.
\<close>

section \<open>Methods\<close>

definition ConnectorService_Call ::
  "('w, 'm) client \<Rightarrow> string \<Rightarrow> 'm \<Rightarrow> string \<Rightarrow> string \<Rightarrow> ('w, 'm) io" where
  "ConnectorService_Call c method request response room =
     (let video = empty_VideoGrant\<lparr>vg_room_create := True, vg_room := room\<rparr>
      in context_call c ''Connector'' method request response
           \<lparr>rg_video = Some video, rg_sip = None, rg_agent = None\<rparr>)"

definition DialWhatsAppCall :: "('w, 'm) client \<Rightarrow> 'm \<Rightarrow> ('w, 'm) io" where
  "DialWhatsAppCall c request =
     ConnectorService_Call c ''DialWhatsAppCall'' request ''livekit.DialWhatsAppCallResponse''
       (field c ''room_name'' request)"

definition DisconnectWhatsAppCall :: "('w, 'm) client \<Rightarrow> 'm \<Rightarrow> ('w, 'm) io" where
  "DisconnectWhatsAppCall c request =
     ConnectorService_Call c ''DisconnectWhatsAppCall'' request ''livekit.DisconnectWhatsAppCallResponse''
       []"

definition ConnectWhatsAppCall :: "('w, 'm) client \<Rightarrow> 'm \<Rightarrow> ('w, 'm) io" where
  "ConnectWhatsAppCall c request =
     ConnectorService_Call c ''ConnectWhatsAppCall'' request ''livekit.ConnectWhatsAppCallResponse''
       []"

definition AcceptWhatsAppCall :: "('w, 'm) client \<Rightarrow> 'm \<Rightarrow> ('w, 'm) io" where
  "AcceptWhatsAppCall c request =
     ConnectorService_Call c ''AcceptWhatsAppCall'' request ''livekit.AcceptWhatsAppCallResponse''
       (field c ''room_name'' request)"

definition ConnectTwilioCall :: "('w, 'm) client \<Rightarrow> 'm \<Rightarrow> ('w, 'm) io" where
  "ConnectTwilioCall c request =
     ConnectorService_Call c ''ConnectTwilioCall'' request ''livekit.ConnectTwilioCallResponse''
       (field c ''room_name'' request)"

text \<open>The model overloads, in the order of the macro calls.\<close>

definition DialWhatsAppCall_model ::
  "('w, 'm) client \<Rightarrow> ProtocolModel \<Rightarrow> ('w, ProtocolModel) io" where
  "DialWhatsAppCall_model c =
     model_method c ''livekit.DialWhatsAppCallRequest''
       ''livekit.DialWhatsAppCallResponse'' (DialWhatsAppCall c)"

definition DisconnectWhatsAppCall_model ::
  "('w, 'm) client \<Rightarrow> ProtocolModel \<Rightarrow> ('w, ProtocolModel) io" where
  "DisconnectWhatsAppCall_model c =
     model_method c ''livekit.DisconnectWhatsAppCallRequest''
       ''livekit.DisconnectWhatsAppCallResponse'' (DisconnectWhatsAppCall c)"

definition ConnectWhatsAppCall_model ::
  "('w, 'm) client \<Rightarrow> ProtocolModel \<Rightarrow> ('w, ProtocolModel) io" where
  "ConnectWhatsAppCall_model c =
     model_method c ''livekit.ConnectWhatsAppCallRequest''
       ''livekit.ConnectWhatsAppCallResponse'' (ConnectWhatsAppCall c)"

definition AcceptWhatsAppCall_model ::
  "('w, 'm) client \<Rightarrow> ProtocolModel \<Rightarrow> ('w, ProtocolModel) io" where
  "AcceptWhatsAppCall_model c =
     model_method c ''livekit.AcceptWhatsAppCallRequest''
       ''livekit.AcceptWhatsAppCallResponse'' (AcceptWhatsAppCall c)"

definition ConnectTwilioCall_model ::
  "('w, 'm) client \<Rightarrow> ProtocolModel \<Rightarrow> ('w, ProtocolModel) io" where
  "ConnectTwilioCall_model c =
     model_method c ''livekit.ConnectTwilioCallRequest''
       ''livekit.ConnectTwilioCallResponse'' (ConnectTwilioCall c)"

definition ConnectorClient_models :: "('w, 'm) model_methods" where
  "ConnectorClient_models =
     [(''DialWhatsAppCall'', DialWhatsAppCall_model),
      (''DisconnectWhatsAppCall'', DisconnectWhatsAppCall_model),
      (''ConnectWhatsAppCall'', ConnectWhatsAppCall_model),
      (''AcceptWhatsAppCall'', AcceptWhatsAppCall_model),
      (''ConnectTwilioCall'', ConnectTwilioCall_model)]"

section \<open>Contract\<close>

text \<open>The contract of the service.\<close>

definition ConnectorService_rows :: "(string \<times> method_row) list" where
  "ConnectorService_rows =
     [(''DialWhatsAppCall'', row ''DialWhatsAppCall'' ''livekit.DialWhatsAppCallRequest''
         ''livekit.DialWhatsAppCallResponse'' (ConnectCallsIn ''room_name'')),
      (''DisconnectWhatsAppCall'', row ''DisconnectWhatsAppCall'' ''livekit.DisconnectWhatsAppCallRequest''
         ''livekit.DisconnectWhatsAppCallResponse'' ConnectCalls),
      (''ConnectWhatsAppCall'', row ''ConnectWhatsAppCall'' ''livekit.ConnectWhatsAppCallRequest''
         ''livekit.ConnectWhatsAppCallResponse'' ConnectCalls),
      (''AcceptWhatsAppCall'', row ''AcceptWhatsAppCall'' ''livekit.AcceptWhatsAppCallRequest''
         ''livekit.AcceptWhatsAppCallResponse'' (ConnectCallsIn ''room_name'')),
      (''ConnectTwilioCall'', row ''ConnectTwilioCall'' ''livekit.ConnectTwilioCallRequest''
         ''livekit.ConnectTwilioCallResponse'' (ConnectCallsIn ''room_name''))]"

text \<open>Every method is a call of its row.\<close>

lemmas connector_method_defs = DialWhatsAppCall_def DisconnectWhatsAppCall_def
  ConnectWhatsAppCall_def AcceptWhatsAppCall_def ConnectTwilioCall_def ConnectorService_Call_def
lemmas connector_model_defs = DialWhatsAppCall_model_def [abs_def]
  DisconnectWhatsAppCall_model_def [abs_def] ConnectWhatsAppCall_model_def [abs_def]
  AcceptWhatsAppCall_model_def [abs_def] ConnectTwilioCall_model_def [abs_def]

interpretation connector: service_class "''Connector''" ConnectorService_rows ConnectorClient_models
proof
  show "list_all2 (\<lambda>(name, r) (name', f). name = name' \<and> f = run_row ''Connector'' r)
      ConnectorService_rows (ConnectorClient_models :: ('w, 'm) model_methods)"
    unfolding ConnectorService_rows_def ConnectorClient_models_def connector_model_defs
    by (simp only: list_all2_Cons list_all2_Nil prod.case simp_thms)
      (intro conjI run_row_eqI;
        simp add: row_call_direct connector_method_defs video_only_def sip_only_def Let_def
          empty_VideoGrant_def)
  show "distinct (map fst ConnectorService_rows)"
    unfolding ConnectorService_rows_def by simp
qed

lemmas connector_implemented =
  connector.rows_implemented [unfolded ConnectorService_rows_def ConnectorClient_models_def list_all2_Cons list_all2_Nil
    prod.case simp_thms]

end
