(* ===== verification/LiveKitApi.thy ===== *)
theory LiveKitApi
  imports RoomService EgressService IngressService SipService AgentDispatchService ConnectorService
begin

text \<open>
  \<^verbatim>\<open>src/livekit_api.cpp\<close> and \<^verbatim>\<open>src/detail/dispatch.inc\<close>: the six clients over one context, and the
  dispatch of operation names to their model overloads, which every binding of the SDK goes
  through. The contract of the dispatch joins the contracts of the six services.
\<close>

section \<open>The clients\<close>

record ('w, 'm) LiveKitApi =
  la_room :: "('w, 'm) client"
  la_egress :: "('w, 'm) client"
  la_ingress :: "('w, 'm) client"
  la_sip :: "('w, 'm) client"
  la_agent_dispatch :: "('w, 'm) client"
  la_connector :: "('w, 'm) client"

text \<open>The member initializers: every client is constructed from the same \<^verbatim>\<open>context_\<close>.\<close>

definition clients_of :: "('w, 'm) client \<Rightarrow> ('w, 'm) LiveKitApi" where
  "clients_of shared =
     \<lparr>la_room = shared, la_egress = shared, la_ingress = shared, la_sip = shared,
      la_agent_dispatch = shared, la_connector = shared\<rparr>"

definition new_LiveKitApi ::
  "'m protobuf \<Rightarrow> 'w platform \<Rightarrow> 'w ApiOptions \<Rightarrow> ('w, ('w, 'm) LiveKitApi) io" where
  "new_LiveKitApi pb pf options =
     io_bind (new_ClientContext pf options) (\<lambda>ctx.
       io_return (clients_of \<lparr>cl_protobuf = pb, cl_platform = pf, cl_context = ctx\<rparr>))"

definition Room :: "('w, 'm) LiveKitApi \<Rightarrow> ('w, 'm) client" where
  "Room api = la_room api"

definition Egress :: "('w, 'm) LiveKitApi \<Rightarrow> ('w, 'm) client" where
  "Egress api = la_egress api"

definition Ingress :: "('w, 'm) LiveKitApi \<Rightarrow> ('w, 'm) client" where
  "Ingress api = la_ingress api"

definition SIP :: "('w, 'm) LiveKitApi \<Rightarrow> ('w, 'm) client" where
  "SIP api = la_sip api"

definition Sip :: "('w, 'm) LiveKitApi \<Rightarrow> ('w, 'm) client" where
  "Sip api = la_sip api"

definition AgentDispatch :: "('w, 'm) LiveKitApi \<Rightarrow> ('w, 'm) client" where
  "AgentDispatch api = la_agent_dispatch api"

definition Connector :: "('w, 'm) LiveKitApi \<Rightarrow> ('w, 'm) client" where
  "Connector api = la_connector api"

lemma clients_of_sel [simp]:
  "Room (clients_of c) = c" "Egress (clients_of c) = c" "Ingress (clients_of c) = c"
  "SIP (clients_of c) = c" "Sip (clients_of c) = c" "AgentDispatch (clients_of c) = c"
  "Connector (clients_of c) = c"
  by (simp_all add: clients_of_def Room_def Egress_def Ingress_def SIP_def Sip_def AgentDispatch_def
      Connector_def)

section \<open>Dispatch\<close>

text \<open>
  The chain of conditionals of \<^verbatim>\<open>dispatch.inc\<close>, in its order: the first entry with the name of the
  operation runs.
\<close>

definition json_of :: "('w, ProtocolModel) io \<Rightarrow> ('w, string) io" where
  "json_of run = io_bind run (\<lambda>model. io_return (Json model))"

type_synonym ('w, 'm) dispatch_entry = "string \<times> (('w, 'm) LiveKitApi \<Rightarrow> string \<Rightarrow> ('w, string) io)"

definition dispatch_room :: "('w, 'm) dispatch_entry list" where
  "dispatch_room =
     [(''Room.CreateRoom'', \<lambda>api request. json_of (CreateRoom_model (Room api) (ProtocolModel request))),
      (''Room.ListRooms'', \<lambda>api request. json_of (ListRooms_model (Room api) (ProtocolModel request))),
      (''Room.DeleteRoom'', \<lambda>api request. json_of (DeleteRoom_model (Room api) (ProtocolModel request))),
      (''Room.ListParticipants'', \<lambda>api request. json_of (ListParticipants_model (Room api) (ProtocolModel request))),
      (''Room.GetParticipant'', \<lambda>api request. json_of (GetParticipant_model (Room api) (ProtocolModel request))),
      (''Room.RemoveParticipant'', \<lambda>api request. json_of (RemoveParticipant_model (Room api) (ProtocolModel request))),
      (''Room.MutePublishedTrack'', \<lambda>api request. json_of (MutePublishedTrack_model (Room api) (ProtocolModel request))),
      (''Room.UpdateParticipant'', \<lambda>api request. json_of (UpdateParticipant_model (Room api) (ProtocolModel request))),
      (''Room.UpdateSubscriptions'', \<lambda>api request. json_of (UpdateSubscriptions_model (Room api) (ProtocolModel request))),
      (''Room.SendData'', \<lambda>api request. json_of (SendData_model (Room api) (ProtocolModel request))),
      (''Room.UpdateRoomMetadata'', \<lambda>api request. json_of (UpdateRoomMetadata_model (Room api) (ProtocolModel request))),
      (''Room.ForwardParticipant'', \<lambda>api request. json_of (ForwardParticipant_model (Room api) (ProtocolModel request))),
      (''Room.MoveParticipant'', \<lambda>api request. json_of (MoveParticipant_model (Room api) (ProtocolModel request))),
      (''Room.PerformRpc'', \<lambda>api request. json_of (PerformRpc_model (Room api) (ProtocolModel request)))]"

definition dispatch_egress :: "('w, 'm) dispatch_entry list" where
  "dispatch_egress =
     [(''Egress.StartEgress'', \<lambda>api request. json_of (StartEgress_model (Egress api) (ProtocolModel request))),
      (''Egress.StartRoomCompositeEgress'', \<lambda>api request. json_of (StartRoomCompositeEgress_model (Egress api) (ProtocolModel request))),
      (''Egress.StartWebEgress'', \<lambda>api request. json_of (StartWebEgress_model (Egress api) (ProtocolModel request))),
      (''Egress.StartParticipantEgress'', \<lambda>api request. json_of (StartParticipantEgress_model (Egress api) (ProtocolModel request))),
      (''Egress.StartTrackCompositeEgress'', \<lambda>api request. json_of (StartTrackCompositeEgress_model (Egress api) (ProtocolModel request))),
      (''Egress.StartTrackEgress'', \<lambda>api request. json_of (StartTrackEgress_model (Egress api) (ProtocolModel request))),
      (''Egress.UpdateLayout'', \<lambda>api request. json_of (UpdateLayout_model (Egress api) (ProtocolModel request))),
      (''Egress.UpdateStream'', \<lambda>api request. json_of (UpdateStream_model (Egress api) (ProtocolModel request))),
      (''Egress.ListEgress'', \<lambda>api request. json_of (ListEgress_model (Egress api) (ProtocolModel request))),
      (''Egress.StopEgress'', \<lambda>api request. json_of (StopEgress_model (Egress api) (ProtocolModel request)))]"

definition dispatch_ingress :: "('w, 'm) dispatch_entry list" where
  "dispatch_ingress =
     [(''Ingress.CreateIngress'', \<lambda>api request. json_of (CreateIngress_model (Ingress api) (ProtocolModel request))),
      (''Ingress.UpdateIngress'', \<lambda>api request. json_of (UpdateIngress_model (Ingress api) (ProtocolModel request))),
      (''Ingress.ListIngress'', \<lambda>api request. json_of (ListIngress_model (Ingress api) (ProtocolModel request))),
      (''Ingress.DeleteIngress'', \<lambda>api request. json_of (DeleteIngress_model (Ingress api) (ProtocolModel request)))]"

definition dispatch_sip :: "('w, 'm) dispatch_entry list" where
  "dispatch_sip =
     [(''Sip.CreateInboundTrunk'', \<lambda>api request. json_of (CreateInboundTrunk_model (Sip api) (ProtocolModel request))),
      (''Sip.CreateOutboundTrunk'', \<lambda>api request. json_of (CreateOutboundTrunk_model (Sip api) (ProtocolModel request))),
      (''Sip.UpdateInboundTrunk'', \<lambda>api request. json_of (UpdateInboundTrunk_model (Sip api) (ProtocolModel request))),
      (''Sip.UpdateOutboundTrunk'', \<lambda>api request. json_of (UpdateOutboundTrunk_model (Sip api) (ProtocolModel request))),
      (''Sip.GetInboundTrunk'', \<lambda>api request. json_of (GetInboundTrunk_model (Sip api) (ProtocolModel request))),
      (''Sip.GetOutboundTrunk'', \<lambda>api request. json_of (GetOutboundTrunk_model (Sip api) (ProtocolModel request))),
      (''Sip.ListTrunks'', \<lambda>api request. json_of (ListTrunks_model (Sip api) (ProtocolModel request))),
      (''Sip.ListInboundTrunks'', \<lambda>api request. json_of (ListInboundTrunks_model (Sip api) (ProtocolModel request))),
      (''Sip.ListOutboundTrunks'', \<lambda>api request. json_of (ListOutboundTrunks_model (Sip api) (ProtocolModel request))),
      (''Sip.DeleteTrunk'', \<lambda>api request. json_of (DeleteTrunk_model (Sip api) (ProtocolModel request))),
      (''Sip.CreateDispatchRule'', \<lambda>api request. json_of (CreateDispatchRule_model (Sip api) (ProtocolModel request))),
      (''Sip.UpdateDispatchRule'', \<lambda>api request. json_of (UpdateDispatchRule_model (Sip api) (ProtocolModel request))),
      (''Sip.ListDispatchRules'', \<lambda>api request. json_of (ListDispatchRules_model (Sip api) (ProtocolModel request))),
      (''Sip.DeleteDispatchRule'', \<lambda>api request. json_of (DeleteDispatchRule_model (Sip api) (ProtocolModel request))),
      (''Sip.CreateParticipant'', \<lambda>api request. json_of (CreateParticipant_model (Sip api) (ProtocolModel request))),
      (''Sip.TransferParticipant'', \<lambda>api request. json_of (TransferParticipant_model (Sip api) (ProtocolModel request)))]"

definition dispatch_agent :: "('w, 'm) dispatch_entry list" where
  "dispatch_agent =
     [(''AgentDispatch.CreateDispatch'', \<lambda>api request. json_of (CreateDispatch_model (AgentDispatch api) (ProtocolModel request))),
      (''AgentDispatch.DeleteDispatch'', \<lambda>api request. json_of (DeleteDispatch_model (AgentDispatch api) (ProtocolModel request))),
      (''AgentDispatch.ListDispatch'', \<lambda>api request. json_of (ListDispatch_model (AgentDispatch api) (ProtocolModel request)))]"

definition dispatch_connector :: "('w, 'm) dispatch_entry list" where
  "dispatch_connector =
     [(''Connector.DialWhatsAppCall'', \<lambda>api request. json_of (DialWhatsAppCall_model (Connector api) (ProtocolModel request))),
      (''Connector.DisconnectWhatsAppCall'', \<lambda>api request. json_of (DisconnectWhatsAppCall_model (Connector api) (ProtocolModel request))),
      (''Connector.ConnectWhatsAppCall'', \<lambda>api request. json_of (ConnectWhatsAppCall_model (Connector api) (ProtocolModel request))),
      (''Connector.AcceptWhatsAppCall'', \<lambda>api request. json_of (AcceptWhatsAppCall_model (Connector api) (ProtocolModel request))),
      (''Connector.ConnectTwilioCall'', \<lambda>api request. json_of (ConnectTwilioCall_model (Connector api) (ProtocolModel request)))]"

definition dispatch_table :: "('w, 'm) dispatch_entry list" where
  "dispatch_table =
     dispatch_room @ dispatch_egress @ dispatch_ingress @ dispatch_sip @ dispatch_agent @ dispatch_connector"

text \<open>\<^verbatim>\<open>Call\<close> of \<^verbatim>\<open>src/c_api.cpp\<close>, around the generated chain.\<close>

definition dispatch_Call ::
  "('w, 'm) LiveKitApi \<Rightarrow> string \<Rightarrow> string \<Rightarrow> ('w, string) io" where
  "dispatch_Call api operation request =
     (case map_of dispatch_table operation of
        Some run \<Rightarrow> run api request
      | None \<Rightarrow> io_lift (throw ec_invalid_argument ''unknown C ABI server operation''))"

section \<open>Contract\<close>

text \<open>The operations of all services: \<open>(operation, wire service, row)\<close>.\<close>

definition contract_of ::
  "string \<Rightarrow> string \<Rightarrow> (string \<times> method_row) list \<Rightarrow> (string \<times> string \<times> method_row) list" where
  "contract_of accessor service rows =
     map (\<lambda>(name, r). (accessor @ ''.'' @ name, service, r)) rows"

definition api_contract :: "(string \<times> string \<times> method_row) list" where
  "api_contract =
     contract_of ''Room'' ''RoomService'' RoomService_rows @
     contract_of ''Egress'' ''Egress'' EgressService_rows @
     contract_of ''Ingress'' ''Ingress'' IngressService_rows @
     contract_of ''Sip'' ''SIP'' SipService_rows @
     contract_of ''AgentDispatch'' ''AgentDispatchService'' AgentDispatchService_rows @
     contract_of ''Connector'' ''Connector'' ConnectorService_rows"

text \<open>A dispatch entry runs its row on the shared context.\<close>

definition serves :: "string \<times> string \<times> method_row \<Rightarrow> ('w, 'm) dispatch_entry \<Rightarrow> bool" where
  "serves c e \<longleftrightarrow>
     fst e = fst c \<and>
     (\<forall>client request. snd e (clients_of client) request =
        json_of (run_row (fst (snd c)) (snd (snd c)) client (ProtocolModel request)))"

lemma serves_Pair [simp]:
  "serves (n, s, r) (n', f) \<longleftrightarrow> n' = n \<and>
     (\<forall>client request. f (clients_of client) request = json_of (run_row s r client (ProtocolModel request)))"
  by (simp add: serves_def)

lemma dispatch_room_serves:
  "list_all2 serves (contract_of ''Room'' ''RoomService'' RoomService_rows) dispatch_room"
  unfolding contract_of_def RoomService_rows_def dispatch_room_def
  by (simp add: room_implemented)

lemma dispatch_egress_serves:
  "list_all2 serves (contract_of ''Egress'' ''Egress'' EgressService_rows) dispatch_egress"
  unfolding contract_of_def EgressService_rows_def dispatch_egress_def
  by (simp add: egress_implemented)

lemma dispatch_ingress_serves:
  "list_all2 serves (contract_of ''Ingress'' ''Ingress'' IngressService_rows) dispatch_ingress"
  unfolding contract_of_def IngressService_rows_def dispatch_ingress_def
  by (simp add: ingress_implemented)

lemma dispatch_sip_serves:
  "list_all2 serves (contract_of ''Sip'' ''SIP'' SipService_rows) dispatch_sip"
  unfolding contract_of_def SipService_rows_def dispatch_sip_def
  by (simp add: sip_implemented)

lemma dispatch_agent_serves:
  "list_all2 serves (contract_of ''AgentDispatch'' ''AgentDispatchService'' AgentDispatchService_rows) dispatch_agent"
  unfolding contract_of_def AgentDispatchService_rows_def dispatch_agent_def
  by (simp add: agent_implemented)

lemma dispatch_connector_serves:
  "list_all2 serves (contract_of ''Connector'' ''Connector'' ConnectorService_rows) dispatch_connector"
  unfolding contract_of_def ConnectorService_rows_def dispatch_connector_def
  by (simp add: connector_implemented)

lemma dispatch_table_serves: "list_all2 serves api_contract dispatch_table"
  unfolding api_contract_def dispatch_table_def
  by (intro list_all2_appendI dispatch_room_serves dispatch_egress_serves dispatch_ingress_serves
      dispatch_sip_serves dispatch_agent_serves dispatch_connector_serves)

lemma dispatch_lookup:
  "rel_option (\<lambda>(s, r) f. \<forall>client request. f (clients_of client) request =
       json_of (run_row s r client (ProtocolModel request)))
     (map_of api_contract operation)
     (map_of (dispatch_table :: ('w, 'm) dispatch_entry list) operation)"
  using dispatch_table_serves by (induction rule: list_all2_induct) auto

text \<open>
  What no token of this API may do: join or publish in a room, hide, record as a participant or
  act as an agent; and room administration names its room, except for agent dispatch, whose
  client asks for it even without a room.
\<close>

definition scoped_video :: "string \<Rightarrow> VideoGrant \<Rightarrow> bool" where
  "scoped_video service g \<longleftrightarrow>
     \<not> vg_room_join g \<and> \<not> vg_hidden g \<and> \<not> vg_recorder g \<and> \<not> vg_agent g \<and>
     vg_can_publish g = None \<and> vg_can_subscribe g = None \<and> vg_can_publish_data g = None \<and>
     vg_can_update_own_metadata g = None \<and> vg_can_publish_sources g = [] \<and>
     \<not> (vg_room_admin g \<and> vg_room g = [] \<and> service \<noteq> ''AgentDispatchService'')"

definition scoped :: "string \<Rightarrow> RequestGrant \<Rightarrow> bool" where
  "scoped service g \<longleftrightarrow>
     (case rg_video g of None \<Rightarrow> True | Some v \<Rightarrow> scoped_video service v) \<and> rg_agent g = None"

lemma policy_scoped:
  "(\<forall>room. p \<noteq> DispatchAgents room) \<Longrightarrow> scoped service (policy_grant get p)"
  "scoped ''AgentDispatchService'' (policy_grant get p)"
  by (cases p; simp add: scoped_def scoped_video_def video_only_def sip_only_def empty_VideoGrant_def)+

lemma contract_scoped:
  "list_all (\<lambda>(n, s, r). s = ''AgentDispatchService'' \<or> (\<forall>room. mr_policy r \<noteq> DispatchAgents room))
     api_contract"
  unfolding api_contract_def contract_of_def RoomService_rows_def EgressService_rows_def
    IngressService_rows_def SipService_rows_def AgentDispatchService_rows_def ConnectorService_rows_def
  by simp

lemma operation_scoped:
  assumes "map_of api_contract operation = Some (s, r)"
  shows "scoped s (policy_grant get (mr_policy r))"
  using map_of_SomeD [OF assms] contract_scoped policy_scoped
  by (fastforce simp: list_all_iff)

lemma dispatch_Call_known:
  assumes "map_of api_contract operation = Some (s, r)"
  shows "dispatch_Call (clients_of (c :: ('w, 'm) client)) operation request = json_of (run_row s r c (ProtocolModel request))"
  using dispatch_lookup [where ?'w = 'w and ?'m = 'm and operation = operation] unfolding assms dispatch_Call_def
  by (auto simp: rel_option_iff split: option.splits)

lemma dispatch_Call_unknown:
  assumes "map_of api_contract operation = None"
  shows "dispatch_Call (clients_of (c :: ('w, 'm) client)) operation request =
    io_lift (throw ec_invalid_argument ''unknown C ABI server operation'')"
  using dispatch_lookup [where ?'w = 'w and ?'m = 'm and operation = operation] unfolding assms dispatch_Call_def
  by (auto simp: rel_option_iff split: option.splits)

lemma dispatch_returned:
  assumes "dispatch_Call (clients_of c) operation request w = (Inr json, w')"
  obtains s r where "map_of api_contract operation = Some (s, r)"
    "fulfilled s r c (ProtocolModel request) w (ProtocolModel json) w'"
proof (cases "map_of api_contract operation")
  case None
  with assms show ?thesis by (simp add: dispatch_Call_unknown)
next
  case (Some sr)
  then obtain s r where sr: "map_of api_contract operation = Some (s, r)" by (cases sr) auto
  with assms obtain model where "run_row s r c (ProtocolModel request) w = (Inr model, w')" "json = Json model"
    by (auto simp: dispatch_Call_known json_of_def)
  with sr that show ?thesis by (auto dest: run_row_fulfilled)
qed

section \<open>Properties\<close>

text \<open>
  C2. The dispatch of the 52 operations implements the contract: an unknown operation is an
  invalid argument and has no effect; a known one returns exactly when the row of its service
  does, and then one authorized request went to the wire method of that row and its parsed
  answer is what is returned.
\<close>

theorem dispatch_implements_contract:
  "case map_of api_contract operation of
     None \<Rightarrow> dispatch_Call (clients_of c) operation request w =
       (throw ec_invalid_argument ''unknown C ABI server operation'', w)
   | Some (service, r) \<Rightarrow>
       (case dispatch_Call (clients_of c) operation request w of
          (Inr json, w') \<Rightarrow> fulfilled service r c (ProtocolModel request) w (ProtocolModel json) w'
        | (Inl f, w') \<Rightarrow> run_row service r c (ProtocolModel request) w = (Inl f, w'))"
proof (cases "map_of api_contract operation")
  case None
  then show ?thesis by (simp add: dispatch_Call_unknown io_lift_def)
next
  case (Some sr)
  then obtain s r where sr: "map_of api_contract operation = Some (s, r)" by (cases sr) auto
  show ?thesis
  proof (cases "dispatch_Call (clients_of c) operation request w")
    case (Pair res w')
    show ?thesis
    proof (cases res)
      case (Inl f)
      with Pair sr have "run_row s r c (ProtocolModel request) w = (Inl f, w')"
        by (auto simp: dispatch_Call_known json_of_def io_bind_def split: prod.splits sum.splits)
      with Inl Pair sr show ?thesis by simp
    next
      case (Inr json)
      with Pair sr show ?thesis using dispatch_returned [of c operation request w json w'] by auto
    qed
  qed
qed


end
