(* ===== verification/CApi.thy ===== *)
theory CApi
  imports LiveKitApi WebhookDispatch
begin

text \<open>
  \<^verbatim>\<open>src/c_api.cpp\<close> with \<^verbatim>\<open>src/detail/grants.inc\<close>: the C ABI every binding of the SDK calls. A JSON
  object names an operation and its options; the answer is a JSON envelope. The transport and the
  key provider of the caller are reached through one callback that exchanges JSON objects.

  A buffer is a string, a null pointer \<open>None\<close>. The arguments of a call are evaluated from left to
  right; where several of them can fail, C++ leaves the order open.
\<close>

section \<open>Reading and building objects\<close>

definition Text :: "string \<Rightarrow> pb_value" where
  "Text t = StringValue t"

definition Has :: "pb_struct \<Rightarrow> string \<Rightarrow> bool" where
  "Has obj name \<longleftrightarrow> map_of obj name \<noteq> None"

definition Field :: "pb_struct \<Rightarrow> string \<Rightarrow> pb_value" where
  "Field obj name = (case map_of obj name of None \<Rightarrow> KindNotSet | Some v \<Rightarrow> v)"

definition RequireKind :: "pb_value \<Rightarrow> kind_case \<Rightarrow> unit result" where
  "RequireKind value kind =
     (if kind_of value \<noteq> kind then throw ec_invalid_argument ''invalid C ABI field type'' else Inr ())"

definition String :: "pb_struct \<Rightarrow> string \<Rightarrow> string result" where
  "String obj name =
     (let value = Field obj name
      in if kind_of value = KIND_NOT_SET then Inr []
         else and_then (RequireKind value kStringValue) (\<lambda>_. Inr (string_value value)))"

definition Boolean :: "pb_struct \<Rightarrow> string \<Rightarrow> bool result" where
  "Boolean obj name =
     (let value = Field obj name
      in if kind_of value = KIND_NOT_SET then Inr False
         else and_then (RequireKind value kBoolValue) (\<lambda>_. Inr (bool_value value)))"

definition Object :: "pb_struct \<Rightarrow> string \<Rightarrow> pb_struct result" where
  "Object obj name =
     (let value = Field obj name
      in and_then (if kind_of value \<noteq> KIND_NOT_SET then RequireKind value kStructValue else Inr ())
           (\<lambda>_. Inr (struct_value value)))"

fun strings_loop :: "pb_value list \<Rightarrow> string list result" where
  "strings_loop [] = Inr []"
| "strings_loop (item # items) =
     and_then (RequireKind item kStringValue) (\<lambda>_.
     and_then (strings_loop items) (\<lambda>rest. Inr (string_value item # rest)))"

definition StringList :: "pb_struct \<Rightarrow> string \<Rightarrow> string list result" where
  "StringList obj name =
     (let value = Field obj name
      in if kind_of value = KIND_NOT_SET then Inr []
         else and_then (RequireKind value kListValue) (\<lambda>_. strings_loop (list_value value)))"

text \<open>\<^verbatim>\<open>std::map::emplace\<close>: a key that is present keeps its value.\<close>

fun emplace :: "string \<Rightarrow> string \<Rightarrow> std_map \<Rightarrow> std_map" where
  "emplace k v [] = [(k, v)]"
| "emplace k v ((k', v') # m) =
     (if k < k' then (k, v) # (k', v') # m
      else if k = k' then (k', v') # m
      else (k', v') # emplace k v m)"

fun map_loop :: "pb_struct \<Rightarrow> std_map \<Rightarrow> std_map result" where
  "map_loop [] m = Inr m"
| "map_loop ((key, value) # members) m =
     and_then (RequireKind value kStringValue) (\<lambda>_. map_loop members (emplace key (string_value value) m))"

definition StringMap :: "pb_struct \<Rightarrow> std_map result" where
  "StringMap obj = map_loop obj []"

text \<open>
  \<^verbatim>\<open>std::stoll\<close>: the value and the number of characters it consumed, or \<open>None\<close> when it throws.
\<close>

fun decimal :: "int \<Rightarrow> string \<Rightarrow> int" where
  "decimal v [] = v"
| "decimal v (c # cs) = decimal (v * 10 + (int (of_char c) - 48)) cs"

definition stoll :: "string \<Rightarrow> (int \<times> nat) option" where
  "stoll s =
     (let rest = dropWhile isspace s;
          signed = (rest \<noteq> [] \<and> (hd rest = CHR ''-'' \<or> hd rest = CHR ''+''));
          digits = takeWhile is_digit (if signed then tl rest else rest);
          magnitude = decimal 0 digits;
          value = (if signed \<and> hd rest = CHR ''-'' then - magnitude else magnitude)
      in if digits = [] \<or> \<not> in_int64 value then None
         else Some (value, length s - length rest + (if signed then 1 else 0) + length digits))"

definition Integer :: "pb_struct \<Rightarrow> string \<Rightarrow> int result" where
  "Integer obj name =
     and_then (String obj name) (\<lambda>s.
       case stoll s of
         Some (result, end_pos) \<Rightarrow>
           (if end_pos = length s then Inr result
            else throw ec_invalid_argument ''invalid integer in C ABI options'')
       | None \<Rightarrow> throw ec_invalid_argument ''invalid integer in C ABI options'')"

definition Parse :: "'m protobuf \<Rightarrow> string \<Rightarrow> pb_struct result" where
  "Parse pb json =
     (case pb_parse_struct pb json of
        None \<Rightarrow> throw ec_invalid_argument ''invalid C ABI JSON''
      | Some obj \<Rightarrow> Inr obj)"

definition Encode :: "'m protobuf \<Rightarrow> pb_struct \<Rightarrow> string result" where
  "Encode pb obj =
     (case pb_print_struct pb obj of
        None \<Rightarrow> throw ec_protocol ''could not encode C ABI result''
      | Some json \<Rightarrow> Inr json)"

definition NewObject :: "(string \<times> string) list \<Rightarrow> pb_struct" where
  "NewObject members = foldl (\<lambda>obj (key, value). put key (Text value) obj) [] members"

definition DecodeBody :: "pb_struct \<Rightarrow> string \<Rightarrow> string result" where
  "DecodeBody obj name =
     and_then (String obj name) (\<lambda>s.
     and_then (Base64UrlDecode s) (\<lambda>bytes. Inr (BytesToString bytes)))"

section \<open>The callback\<close>

type_synonym 'w abi_callback = "string \<Rightarrow> ('w, string) io"

definition Exchange ::
  "'m protobuf \<Rightarrow> 'w abi_callback option \<Rightarrow> pb_struct \<Rightarrow> ('w, pb_struct) io" where
  "Exchange pb callback request =
     (case callback of
        None \<Rightarrow> io_lift (throw ec_invalid_argument ''C ABI callback is required'')
      | Some cb \<Rightarrow>
          io_bind (io_lift (Encode pb request)) (\<lambda>json.
          io_bind (cb json) (\<lambda>response.
          io_lift
            (and_then (Parse pb response) (\<lambda>result.
             and_then (Boolean result ''error'') (\<lambda>failed.
             if failed then throw ec_transport ''C ABI callback failed'' else Inr result))))))"

definition header_value :: "string \<times> string \<Rightarrow> pb_value" where
  "header_value h = ListValue [Text (fst h), Text (snd h)]"

definition transport_data :: "HttpRequest \<Rightarrow> pb_struct" where
  "transport_data request =
     (let members = put ''kind'' (Text ''transport'') [];
          members = put ''url'' (Text (hr_url request)) members;
          members = put ''method'' (Text (hr_method request)) members;
          members = put ''body'' (Text (Base64UrlEncode_str (hr_body request))) members;
          members = put ''timeout_ms'' (Text (to_string (hr_timeout request))) members
      in put ''headers'' (ListValue (map header_value (hr_headers request))) members)"

definition CallbackTransport_Send :: "'m protobuf \<Rightarrow> 'w abi_callback option \<Rightarrow> 'w transport" where
  "CallbackTransport_Send pb callback request =
     io_bind (Exchange pb callback (transport_data request)) (\<lambda>response.
     io_lift
       (and_then (Integer response ''status_code'') (\<lambda>status.
        if status < 100 \<or> status > 599
        then throw ec_transport ''C ABI transport returned invalid HTTP status''
        else and_then (DecodeBody response ''body'') (\<lambda>body.
          Inr \<lparr>rs_status_code = status, rs_headers = [], rs_body = body\<rparr>))))"

definition Options :: "'m protobuf \<Rightarrow> pb_struct \<Rightarrow> 'w abi_callback option \<Rightarrow> 'w ApiOptions result" where
  "Options pb obj callback =
     and_then (String obj ''url'') (\<lambda>url.
     and_then (String obj ''api_key'') (\<lambda>api_key.
     and_then (String obj ''api_secret'') (\<lambda>api_secret.
     and_then (String obj ''access_token'') (\<lambda>access_token.
     and_then (Integer obj ''timeout_ms'') (\<lambda>timeout.
     and_then (Boolean obj ''use_transport'') (\<lambda>use_transport.
     Inr (new_ApiOptions
       \<lparr>ao_url := url, ao_api_key := api_key, ao_api_secret := api_secret,
        ao_access_token := access_token, ao_timeout := timeout,
        ao_transport := if use_transport then Some (CallbackTransport_Send pb callback)
                        else ao_transport new_ApiOptions\<rparr>)))))))"

section \<open>Tokens\<close>

definition read_optional :: "pb_struct \<Rightarrow> string \<Rightarrow> bool option result" where
  "read_optional members name =
     (if Has members name then and_then (Boolean members name) (\<lambda>b. Inr (Some b)) else Inr None)"

definition read_VideoGrant :: "pb_struct \<Rightarrow> VideoGrant result" where
  "read_VideoGrant members =
     and_then (Boolean members ''room_create'') (\<lambda>room_create.
     and_then (Boolean members ''room_list'') (\<lambda>room_list.
     and_then (Boolean members ''room_record'') (\<lambda>room_record.
     and_then (Boolean members ''room_admin'') (\<lambda>room_admin.
     and_then (Boolean members ''room_join'') (\<lambda>room_join.
     and_then (String members ''room'') (\<lambda>room.
     and_then (String members ''destination_room'') (\<lambda>destination_room.
     and_then (Boolean members ''ingress_admin'') (\<lambda>ingress_admin.
     and_then (read_optional members ''can_publish'') (\<lambda>can_publish.
     and_then (read_optional members ''can_subscribe'') (\<lambda>can_subscribe.
     and_then (read_optional members ''can_publish_data'') (\<lambda>can_publish_data.
     and_then (read_optional members ''can_update_own_metadata'') (\<lambda>can_update_own_metadata.
     and_then (StringList members ''can_publish_sources'') (\<lambda>can_publish_sources.
     and_then (Boolean members ''hidden'') (\<lambda>hidden.
     and_then (Boolean members ''recorder'') (\<lambda>recorder.
     and_then (Boolean members ''agent'') (\<lambda>agent.
     Inr \<lparr>vg_room_create = room_create, vg_room_list = room_list, vg_room_record = room_record,
          vg_room_admin = room_admin, vg_room_join = room_join, vg_room = room,
          vg_destination_room = destination_room, vg_ingress_admin = ingress_admin,
          vg_can_publish = can_publish, vg_can_subscribe = can_subscribe,
          vg_can_publish_data = can_publish_data,
          vg_can_update_own_metadata = can_update_own_metadata,
          vg_can_publish_sources = can_publish_sources, vg_hidden = hidden,
          vg_recorder = recorder, vg_agent = agent\<rparr>))))))))))))))))"

text \<open>\<^verbatim>\<open>grants.inc\<close>, a step for each grant.\<close>

definition sign_video :: "pb_struct \<Rightarrow> AccessToken \<Rightarrow> AccessToken result" where
  "sign_video options token =
     (if Has options ''video''
      then and_then (Object options ''video'') (\<lambda>members.
           and_then (read_VideoGrant members) (\<lambda>grant. Inr (SetVideoGrant grant token)))
      else Inr token)"

definition sign_sip :: "pb_struct \<Rightarrow> AccessToken \<Rightarrow> AccessToken result" where
  "sign_sip options token =
     (if Has options ''sip''
      then and_then (Object options ''sip'') (\<lambda>members.
           and_then (Boolean members ''admin'') (\<lambda>admin.
           and_then (Boolean members ''call'') (\<lambda>call.
           Inr (SetSipGrant \<lparr>sg_admin = admin, sg_call = call\<rparr> token))))
      else Inr token)"

definition sign_agent :: "pb_struct \<Rightarrow> AccessToken \<Rightarrow> AccessToken result" where
  "sign_agent options token =
     (if Has options ''agent''
      then and_then (Object options ''agent'') (\<lambda>members.
           and_then (Boolean members ''admin'') (\<lambda>admin.
           and_then (Boolean members ''simulation_admin'') (\<lambda>simulation_admin.
           Inr (SetAgentGrant \<lparr>ag_admin = admin, ag_simulation_admin = simulation_admin\<rparr> token))))
      else Inr token)"

definition Sign :: "crypto_backend \<Rightarrow> int \<Rightarrow> pb_struct \<Rightarrow> string result" where
  "Sign cb ticks options =
     and_then (String options ''api_key'') (\<lambda>api_key.
     and_then (String options ''api_secret'') (\<lambda>api_secret.
     and_then (String options ''identity'') (\<lambda>identity.
     and_then (String options ''name'') (\<lambda>name.
     and_then (String options ''metadata'') (\<lambda>metadata.
     and_then (and_then (Object options ''attributes'') StringMap) (\<lambda>attributes.
     let token = SetAttributes attributes (SetMetadata metadata (SetName name (SetIdentity identity
                   (new_AccessToken api_key api_secret))))
     in and_then (Integer options ''valid_for'') (\<lambda>ttl.
        and_then (Integer options ''now'') (\<lambda>now.
        let max_seconds = trunc_div int64_max ticks
        in if now < 0 \<or> ttl \<le> 0 \<or> ttl > max_seconds \<or> now > max_seconds - ttl
           then throw ec_invalid_argument ''token timestamp or lifetime exceeds native clock range''
           else and_then (SetValidFor ttl token) (\<lambda>token.
                and_then (sign_video options token) (\<lambda>token.
                and_then (sign_sip options token) (\<lambda>token.
                and_then (sign_agent options token) (\<lambda>token.
                and_then (mul64 now ticks) (\<lambda>time_point. ToJwt cb ticks token time_point)))))))))))))"

section \<open>Webhooks\<close>

definition key_request :: "string \<Rightarrow> pb_struct" where
  "key_request key = put ''key'' (Text key) (put ''kind'' (Text ''key'') [])"

definition callback_key_provider :: "'m protobuf \<Rightarrow> 'w abi_callback option \<Rightarrow> 'w key_provider" where
  "callback_key_provider pb callback key =
     io_bind (Exchange pb callback (key_request key)) (\<lambda>response. io_lift (String response ''secret''))"

definition webhook_receiver ::
  "'m protobuf \<Rightarrow> pb_struct \<Rightarrow> 'w abi_callback option \<Rightarrow> 'w WebhookReceiver result" where
  "webhook_receiver pb options callback =
     and_then (Boolean options ''use_key_provider'') (\<lambda>use_key_provider.
     if use_key_provider
     then new_WebhookReceiver (Some (callback_key_provider pb callback)) no_callbacks
     else and_then (Object options ''secrets'') (\<lambda>obj.
          and_then (StringMap obj) (\<lambda>secrets.
          new_WebhookReceiver (Some (map_key_provider secrets)) no_callbacks)))"

definition put_present :: "string \<Rightarrow> 'a option \<Rightarrow> ('a \<Rightarrow> (string \<times> string) list) \<Rightarrow> pb_struct \<Rightarrow> pb_struct" where
  "put_present name value members obj =
     (case value of None \<Rightarrow> obj | Some v \<Rightarrow> put name (StructValue (NewObject (members v))) obj)"

definition event_object :: "WebhookEvent \<Rightarrow> pb_struct" where
  "event_object event =
     (let obj = NewObject [(''event'', ev_event event), (''id'', ev_id event),
                           (''raw_body'', ev_raw_body event)];
          obj = put ''created_at'' (Text (to_string (ev_created_at event))) obj;
          obj = put_present ''room'' (ev_room event)
                  (\<lambda>v. [(''sid'', wr_sid v), (''name'', wr_name v), (''metadata'', wr_metadata v)]) obj;
          obj = put_present ''participant'' (ev_participant event)
                  (\<lambda>v. [(''sid'', wp_sid v), (''identity'', wp_identity v), (''name'', wp_name v),
                        (''metadata'', wp_metadata v)]) obj;
          obj = put_present ''track'' (ev_track event)
                  (\<lambda>v. [(''sid'', wt_sid v), (''name'', wt_name v)]) obj;
          obj = put_present ''egress'' (ev_egress event)
                  (\<lambda>v. [(''egress_id'', we_egress_id v), (''room_id'', we_room_id v),
                        (''room_name'', we_room_name v)]) obj
      in put_present ''ingress'' (ev_ingress event)
           (\<lambda>v. [(''ingress_id'', wi_ingress_id v), (''name'', wi_name v),
                 (''room_name'', wi_room_name v)]) obj)"

definition Receive_abi ::
  "'m protobuf \<Rightarrow> 'w platform \<Rightarrow> pb_struct \<Rightarrow> 'w abi_callback option \<Rightarrow> ('w, pb_value) io" where
  "Receive_abi pb pf options callback =
     io_bind (io_lift (webhook_receiver pb options callback)) (\<lambda>receiver.
     io_bind (io_lift (DecodeBody options ''body'')) (\<lambda>body.
     io_bind (io_lift (String options ''authorization'')) (\<lambda>authorization.
     io_bind (Receive pb pf receiver body authorization) (\<lambda>event.
     io_return (StructValue (event_object event))))))"

section \<open>Invocation\<close>

definition Execute ::
  "'m protobuf \<Rightarrow> 'w platform \<Rightarrow> pb_struct \<Rightarrow> 'w abi_callback option \<Rightarrow> ('w, pb_value) io" where
  "Execute pb pf input callback =
     io_bind (io_lift (String input ''operation'')) (\<lambda>operation.
     io_bind (io_lift (Object input ''options'')) (\<lambda>options.
     if operation = ''token''
     then io_bind (io_lift (Sign (pf_crypto pf) (pf_ticks pf) options)) (\<lambda>jwt. io_return (Text jwt))
     else if operation = ''webhook'' then Receive_abi pb pf options callback
     else
       io_bind (io_lift (Options pb options callback)) (\<lambda>api_options.
       io_bind (new_LiveKitApi pb pf api_options) (\<lambda>api.
       if operation = ''get_dispatch''
       then
         io_bind (io_lift (String input ''dispatch_id'')) (\<lambda>dispatch_id.
         io_bind (io_lift (String input ''room'')) (\<lambda>room.
         io_bind (GetDispatchModel (AgentDispatch api) dispatch_id room) (\<lambda>result.
         io_return (case result of Some model \<Rightarrow> Text (Json model) | None \<Rightarrow> NullValue))))
       else
         io_bind (io_lift (String input ''request'')) (\<lambda>request.
         io_bind (dispatch_Call api operation request) (\<lambda>json. io_return (Text json)))))))"

definition Failure :: "sdk_error \<Rightarrow> pb_struct" where
  "Failure error =
     (let obj = put ''ok'' (BoolValue False) [];
          obj = put ''code'' (NumberValue (real_of_int (error_code_value (err_code error)))) obj;
          obj = put ''http_status'' (NumberValue (real_of_int (err_http_status error))) obj;
          obj = put ''twirp_code'' (Text (err_twirp_code error)) obj
      in put ''message'' (Text (error_what error)) obj)"

text \<open>
  \<open>malloc\<close> says whether the allocation of so many bytes succeeds. \<open>output_length\<close> is the value
  behind the caller's pointer, \<open>None\<close> when the pointer is null.
\<close>

definition Copy ::
  "'m protobuf \<Rightarrow> (nat \<Rightarrow> 'w \<Rightarrow> bool \<times> 'w) \<Rightarrow> pb_struct \<Rightarrow> nat option \<Rightarrow>
     ('w, string option \<times> nat option) io" where
  "Copy pb malloc result output_length =
     io_bind (io_lift (Encode pb result)) (\<lambda>json w.
       case malloc (length json + 1) w of
         (True, w') \<Rightarrow> (Inr (Some (json @ [CHR 0x00]), map_option (\<lambda>_. length json) output_length), w')
       | (False, w') \<Rightarrow> (Inr (None, output_length), w'))"

text \<open>
  The C callback returns a status and its response buffer; the lambda around it checks both.
\<close>

type_synonym 'w lks_callback = "string \<Rightarrow> 'w \<Rightarrow> (int \<times> string option) \<times> 'w"

definition int_max :: nat where
  "int_max = 2147483647"

definition wrap_callback :: "'w lks_callback \<Rightarrow> 'w abi_callback" where
  "wrap_callback cb data w =
     (case cb data w of ((status, response), w') \<Rightarrow>
        (case response of
           Some r \<Rightarrow>
             (if status \<noteq> 0 \<or> length r > int_max
              then throw ec_transport ''C ABI callback failed or returned an invalid buffer''
              else Inr r)
         | None \<Rightarrow> throw ec_transport ''C ABI callback failed or returned an invalid buffer'', w'))"

definition lks_abi_version :: int where
  "lks_abi_version = 1"

text \<open>The inner \<^verbatim>\<open>try\<close> and its handlers: what is answered for an outcome of \<^verbatim>\<open>Execute\<close>.\<close>

fun answer :: "pb_value result \<Rightarrow> pb_struct result" where
  "answer (Inr value) = Inr (put ''ok'' (BoolValue True) (put ''value'' value []))"
| "answer (Inl (Throw e)) = Inr (Failure e)"
| "answer (Inl (StdException what)) = Inr (Failure (Error ec_unknown what))"
| "answer (Inl ForeignException) = Inr (Failure (Error ec_unknown ''unknown native C ABI failure''))"
| "answer (Inl Undefined) = Inl Undefined"

definition execute_input ::
  "'m protobuf \<Rightarrow> 'w platform \<Rightarrow> string option \<Rightarrow> 'w lks_callback option \<Rightarrow> ('w, pb_value) io" where
  "execute_input pb pf input callback =
     (case input of
        None \<Rightarrow> io_lift (throw ec_invalid_argument ''invalid C ABI input buffer'')
      | Some json \<Rightarrow>
          if length json > int_max
          then io_lift (throw ec_invalid_argument ''invalid C ABI input buffer'')
          else io_bind (io_lift (Parse pb json)) (\<lambda>obj.
            Execute pb pf obj (map_option wrap_callback callback)))"

text \<open>
  The result is the output pointer and the final output length. The outer \<^verbatim>\<open>catch\<close> answers a null
  pointer.
\<close>

definition lks_invoke ::
  "'m protobuf \<Rightarrow> 'w platform \<Rightarrow> (nat \<Rightarrow> 'w \<Rightarrow> bool \<times> 'w) \<Rightarrow> string option \<Rightarrow> 'w lks_callback option \<Rightarrow>
     nat option \<Rightarrow> ('w, string option \<times> nat option) io" where
  "lks_invoke pb pf malloc input callback output_length0 w =
     (let output_length = map_option (\<lambda>_. 0) output_length0
      in case execute_input pb pf input callback w of
           (outcome, w') \<Rightarrow>
             (case answer outcome of
                Inl f \<Rightarrow> (Inl f, w')
              | Inr response \<Rightarrow>
                  (case Copy pb malloc response output_length w' of
                     (Inr result, w'') \<Rightarrow> (Inr result, w'')
                   | (Inl Undefined, w'') \<Rightarrow> (Inl Undefined, w'')
                   | (Inl f, w'') \<Rightarrow> (Inr (None, output_length), w''))))"

section \<open>Integers as text\<close>

lemma decimal_append: "decimal v (s @ t) = decimal (decimal v s) t"
  by (induction v s rule: decimal.induct) auto

lemma decimal_show_nat: "decimal 0 (show_nat 10 n) = int n"
proof (induction n rule: less_induct)
  case (less n)
  have d: "int (of_char (digit_char (n mod 10))) - 48 = int (n mod 10)" by (simp add: of_char_digit_char)
  show ?case
  proof (cases "n < 10")
    case True
    then show ?thesis using d by (simp add: show_nat.simps [of 10 n])
  next
    case False
    have "int (n div 10) * 10 + int (n mod 10) = int n"
      by (metis div_mult_mod_eq of_nat_add of_nat_mult of_nat_numeral)
    then show ?thesis using False less.IH [of "n div 10"] d
      by (simp add: show_nat.simps [of 10 n] decimal_append)
  qed
qed

lemma show_nat_digits_only: "takeWhile is_digit (show_nat 10 n) = show_nat 10 n"
  using show_nat_10_digits by (simp add: takeWhile_eq_all_conv)

lemma dropWhile_show_nat: "dropWhile isspace (show_nat 10 n) = show_nat 10 n"
proof -
  have "show_nat 10 n = hd (show_nat 10 n) # tl (show_nat 10 n)" by simp
  then show ?thesis using hd_show_nat_digit(3) [of n] by (metis dropWhile.simps(2))
qed

lemma hd_show_nat_plus: "hd (show_nat 10 n) \<noteq> CHR ''+''"
  using hd_show_nat_digit(1) [of n] by (auto simp: is_digit_def)

lemma isspace_minus: "\<not> isspace (CHR ''-'')"
  by code_simp

lemma stoll_to_string:
  assumes "in_int64 i"
  shows "stoll (to_string i) = Some (i, length (to_string i))"
proof (cases "i < 0")
  case True
  then have s: "to_string i = CHR ''-'' # show_nat 10 (nat (- i))" by (simp add: to_string_def)
  from True assms show ?thesis
    unfolding stoll_def s
    by (simp add: isspace_minus show_nat_digits_only decimal_show_nat Let_def)
next
  case False
  then have s: "to_string i = show_nat 10 (nat i)" by (simp add: to_string_def)
  from False assms show ?thesis
    unfolding stoll_def s dropWhile_show_nat
    by (simp add: show_nat_digits_only decimal_show_nat Let_def hd_show_nat_digit(2) hd_show_nat_plus)
qed

section \<open>Reading what was put\<close>

lemma String_Text: "map_of obj name = Some (Text s) \<Longrightarrow> String obj name = Inr s"
  by (simp add: String_def Field_def RequireKind_def Text_def)

lemma Integer_Text: "map_of obj name = Some (Text (to_string i)) \<Longrightarrow> in_int64 i \<Longrightarrow> Integer obj name = Inr i"
  by (simp add: Integer_def String_Text stoll_to_string)

lemma DecodeBody_Text:
  "map_of obj name = Some (Text (Base64UrlEncode_str s)) \<Longrightarrow> DecodeBody obj name = Inr s"
  by (simp add: DecodeBody_def String_Text Base64UrlEncode_str_def Base64UrlEncode_def url.decode_encode)

section \<open>Failures of readers\<close>

definition argument_error :: "fault \<Rightarrow> bool" where
  "argument_error f \<longleftrightarrow> (\<exists>m. f = Throw (Error ec_invalid_argument m))"

lemma argument_error_throw: "throw ec_invalid_argument m = Inl f \<Longrightarrow> argument_error f"
  by (auto simp: throw_def argument_error_def)

lemma RequireKind_error: "RequireKind v k = Inl f \<Longrightarrow> argument_error f"
  by (auto simp: RequireKind_def dest: argument_error_throw split: if_splits)

lemma reader_errors:
  "String obj n = Inl f \<Longrightarrow> argument_error f" "Boolean obj n = Inl f \<Longrightarrow> argument_error f"
  "Object obj n = Inl f \<Longrightarrow> argument_error f"
  by (auto simp: String_def Boolean_def Object_def Let_def and_then_Inl_iff dest: RequireKind_error
      split: if_splits)

lemma Integer_error: "Integer obj n = Inl f \<Longrightarrow> argument_error f"
  by (auto simp: Integer_def and_then_Inl_iff dest: reader_errors argument_error_throw
      split: option.splits if_splits)

lemma strings_loop_error: "strings_loop items = Inl f \<Longrightarrow> argument_error f"
  by (induction items) (auto simp: and_then_Inl_iff dest: RequireKind_error)

lemma StringList_error: "StringList obj n = Inl f \<Longrightarrow> argument_error f"
  by (auto simp: StringList_def Let_def and_then_Inl_iff dest: RequireKind_error strings_loop_error
      split: if_splits)

lemma map_loop_error: "map_loop obj m = Inl f \<Longrightarrow> argument_error f"
  by (induction obj m rule: map_loop.induct) (auto simp: and_then_Inl_iff dest: RequireKind_error)

lemma StringMap_error: "StringMap obj = Inl f \<Longrightarrow> argument_error f"
  by (simp add: StringMap_def map_loop_error)

lemma read_optional_error: "read_optional obj n = Inl f \<Longrightarrow> argument_error f"
  by (auto simp: read_optional_def and_then_Inl_iff dest: reader_errors split: if_splits)

lemma read_VideoGrant_error: "read_VideoGrant obj = Inl f \<Longrightarrow> argument_error f"
  unfolding read_VideoGrant_def and_then_Inl_iff
  by (elim disjE exE conjE; (drule reader_errors | drule read_optional_error | drule StringList_error)?;
    simp)

lemma sign_grant_errors:
  "sign_video options t = Inl f \<Longrightarrow> argument_error f" "sign_sip options t = Inl f \<Longrightarrow> argument_error f"
  "sign_agent options t = Inl f \<Longrightarrow> argument_error f"
  by (auto simp: sign_video_def sign_sip_def sign_agent_def and_then_Inl_iff
      dest: reader_errors read_VideoGrant_error split: if_splits)

section \<open>Signing\<close>

text \<open>What the options of \<^verbatim>\<open>Sign\<close> say of the three grants; an absent grant is not set.\<close>

definition option_grant ::
  "pb_struct \<Rightarrow> string \<Rightarrow> (pb_struct \<Rightarrow> 'g result) \<Rightarrow> 'g option result" where
  "option_grant options name read =
     (if Has options name
      then and_then (Object options name) (\<lambda>members. and_then (read members) (\<lambda>g. Inr (Some g)))
      else Inr None)"

definition read_SipGrant :: "pb_struct \<Rightarrow> SipGrant result" where
  "read_SipGrant members =
     and_then (Boolean members ''admin'') (\<lambda>admin.
     and_then (Boolean members ''call'') (\<lambda>call. Inr \<lparr>sg_admin = admin, sg_call = call\<rparr>))"

definition read_AgentGrant :: "pb_struct \<Rightarrow> AgentGrant result" where
  "read_AgentGrant members =
     and_then (Boolean members ''admin'') (\<lambda>admin.
     and_then (Boolean members ''simulation_admin'') (\<lambda>simulation_admin.
     Inr \<lparr>ag_admin = admin, ag_simulation_admin = simulation_admin\<rparr>))"

text \<open>The token \<open>t\<close> holds the readings of the options.\<close>

definition describes :: "pb_struct \<Rightarrow> AccessToken \<Rightarrow> bool" where
  "describes options t \<longleftrightarrow>
     String options ''api_key'' = Inr (at_api_key t) \<and>
     String options ''api_secret'' = Inr (at_api_secret t) \<and>
     String options ''identity'' = Inr (at_identity t) \<and>
     String options ''name'' = Inr (at_name t) \<and>
     String options ''metadata'' = Inr (at_metadata t) \<and>
     and_then (Object options ''attributes'') StringMap = Inr (at_attributes t) \<and>
     Integer options ''valid_for'' = Inr (at_valid_for t) \<and>
     option_grant options ''video'' read_VideoGrant = Inr (at_video_grant t) \<and>
     option_grant options ''sip'' read_SipGrant = Inr (at_sip_grant t) \<and>
     option_grant options ''agent'' read_AgentGrant = Inr (at_agent_grant t)"

lemma sign_video_token:
  assumes "sign_video options t = Inr t'" "at_video_grant t = None"
  shows "\<exists>g. option_grant options ''video'' read_VideoGrant = Inr g \<and>
    t' = t\<lparr>at_video_grant := g\<rparr> \<and> (built t \<longrightarrow> built t')"
  using assms
  by (auto simp: sign_video_def option_grant_def SetVideoGrant_def intro: built.video [unfolded SetVideoGrant_def]
      split: if_splits)

lemma sign_sip_token:
  assumes "sign_sip options t = Inr t'" "at_sip_grant t = None"
  shows "\<exists>g. option_grant options ''sip'' read_SipGrant = Inr g \<and>
    t' = t\<lparr>at_sip_grant := g\<rparr> \<and> (built t \<longrightarrow> built t')"
  using assms
  by (auto simp: sign_sip_def option_grant_def read_SipGrant_def SetSipGrant_def intro: built.sip [unfolded SetSipGrant_def]
      split: if_splits)

lemma sign_agent_token:
  assumes "sign_agent options t = Inr t'" "at_agent_grant t = None"
  shows "\<exists>g. option_grant options ''agent'' read_AgentGrant = Inr g \<and>
    t' = t\<lparr>at_agent_grant := g\<rparr> \<and> (built t \<longrightarrow> built t')"
  using assms
  by (auto simp: sign_agent_def option_grant_def read_AgentGrant_def SetAgentGrant_def intro: built.agent [unfolded SetAgentGrant_def]
      split: if_splits)

text \<open>The range check rules out every signed overflow behind it.\<close>

lemma sign_range:
  assumes "0 < ticks" "\<not> (now < 0 \<or> ttl \<le> 0 \<or> ttl > trunc_div int64_max ticks \<or>
    now > trunc_div int64_max ticks - ttl)"
  shows "mul64 now ticks = Inr (now * ticks)" "in_int64 (now + ttl)" "0 \<le> now" "0 < ttl"
proof -
  define M where "M = int64_max div ticks"
  have M: "trunc_div int64_max ticks = M"
    using assms(1) by (simp add: M_def trunc_div_nonneg int64_max_def)
  have "M * ticks \<le> int64_max"
    using assms(1) pos_mod_sign [of ticks int64_max] by (simp add: M_def minus_mod_eq_div_mult [symmetric])
  moreover have "now * ticks \<le> M * ticks" using assms M by (intro mult_right_mono) auto
  moreover have "0 \<le> now * ticks" using assms by simp
  ultimately show "mul64 now ticks = Inr (now * ticks)"
    by (simp add: mul64_def in_int64_def int64_min_def)
  have "M \<le> int64_max"
    unfolding M_def using zdiv_mono2 [of int64_max 1 ticks] assms(1) by (simp add: int64_max_def)
  then show "in_int64 (now + ttl)" using assms M by (auto simp: in_int64_def int64_min_def)
  show "0 \<le> now" "0 < ttl" using assms by auto
qed

lemma ToJwt_in_range:
  assumes "0 < ticks" "in_int64 (now + at_valid_for t)"
  shows "ToJwt cb ticks t (now * ticks) = Inr jwt \<Longrightarrow>
      signed_by cb (at_api_secret t) jwt_header (claims_json t now (now + at_valid_for t)) jwt"
    and "ToJwt cb ticks t (now * ticks) = Inl f \<Longrightarrow> \<exists>m. f = Throw (Error ec_authentication m)"
proof -
  define claims where "claims = claims_json t now (now + at_valid_for t)"
  have run: "ToJwt cb ticks t (now * ticks) =
      (if at_api_key t = [] \<or> at_api_secret t = []
       then throw ec_authentication ''API key and secret are required to sign a token''
       else sign_claims cb (at_api_secret t) claims)"
    using assms by (simp add: ToJwt_def add64_def claims_def)
  then show "ToJwt cb ticks t (now * ticks) = Inr jwt \<Longrightarrow>
      signed_by cb (at_api_secret t) jwt_header (claims_json t now (now + at_valid_for t)) jwt"
    by (auto simp: claims_def dest: sign_claims_signed_by split: if_splits)
  show "ToJwt cb ticks t (now * ticks) = Inl f \<Longrightarrow> \<exists>m. f = Throw (Error ec_authentication m)"
    unfolding run sign_claims_def Let_def
    by (auto simp: and_then_Inl_iff throw_def dest: HmacSha256_error split: if_splits)
qed

lemma if_throw_Inr: "(if g then throw c m else r) = Inr x \<longleftrightarrow> \<not> g \<and> r = Inr x"
  by simp

lemma if_throw_Inl: "(if g then throw c m else r) = Inl f \<longleftrightarrow> g \<and> f = Throw (Error c m) \<or> \<not> g \<and> r = Inl f"
  by (auto simp: throw_def)

lemma Sign_success:
  assumes "0 < ticks" "Sign cb ticks options = Inr jwt"
  shows "\<exists>t now. built t \<and> describes options t \<and> Integer options ''now'' = Inr now \<and> 0 \<le> now \<and>
    signed_by cb (at_api_secret t) jwt_header (claims_json t now (now + at_valid_for t)) jwt"
proof -
  define base where "base = (\<lambda>k s i n m a. SetAttributes a (SetMetadata m (SetName n (SetIdentity i
      (new_AccessToken k s)))))"
  from assms(2) obtain k s i n m obj a ttl now t0 t1 t2 t3 time_point where
    r: "String options ''api_key'' = Inr k" "String options ''api_secret'' = Inr s"
      "String options ''identity'' = Inr i" "String options ''name'' = Inr n"
      "String options ''metadata'' = Inr m" "Object options ''attributes'' = Inr obj" "StringMap obj = Inr a"
      "Integer options ''valid_for'' = Inr ttl" "Integer options ''now'' = Inr now" "\<not> (now < 0 \<or> ttl \<le> 0 \<or> ttl > trunc_div int64_max ticks \<or> now > trunc_div int64_max ticks - ttl)"
      "SetValidFor ttl (SetAttributes a (SetMetadata m (SetName n (SetIdentity i (new_AccessToken k s))))) = Inr t0" "sign_video options t0 = Inr t1"
      "sign_sip options t1 = Inr t2" "sign_agent options t2 = Inr t3" "mul64 now ticks = Inr time_point"
      "ToJwt cb ticks t3 time_point = Inr jwt"
    unfolding Sign_def Let_def
      and_then_Inr_iff if_throw_Inr by (elim exE conjE) (rule that; assumption)
  note range = sign_range [OF assms(1) r(10)]
  have b: "built (base k s i n m a)" unfolding base_def by (intro built.intros)
  have t0: "t0 = (base k s i n m a)\<lparr>at_valid_for := ttl\<rparr>" "built t0"
    using r(11) b unfolding base_def by (auto simp: SetValidFor_def split: if_splits intro: built.lifetime)
  then have "at_video_grant t0 = None" "at_sip_grant t0 = None" "at_agent_grant t0 = None"
    by (simp_all add: base_def setter_defs new_AccessToken_def)
  then obtain g1 g2 g3 where g: "option_grant options ''video'' read_VideoGrant = Inr g1"
      "option_grant options ''sip'' read_SipGrant = Inr g2"
      "option_grant options ''agent'' read_AgentGrant = Inr g3"
    and t3: "t3 = t0\<lparr>at_video_grant := g1, at_sip_grant := g2, at_agent_grant := g3\<rparr>" "built t3"
    using sign_video_token [OF r(12)] sign_sip_token [OF r(13)] sign_agent_token [OF r(14)] t0(2) by auto
  have "describes options t3"
    unfolding describes_def using r g
    by (simp add: t3(1) t0(1) base_def setter_defs new_AccessToken_def)
  moreover have "at_valid_for t3 = ttl" by (simp add: t3(1) t0(1))
  ultimately show ?thesis
    using t3(2) r(9,15,16) range ToJwt_in_range(1) [OF assms(1), of now t3 cb jwt] by auto
qed

lemma argument_errorI [simp]: "argument_error (Throw (Error ec_invalid_argument m))"
  unfolding argument_error_def by blast

lemma Sign_failure:
  assumes "0 < ticks" "Sign cb ticks options = Inl f"
  shows "argument_error f \<or> (\<exists>m. f = Throw (Error ec_authentication m))"
proof -
  have tail: ?thesis
    if "\<not> (now < 0 \<or> ttl \<le> 0 \<or> ttl > trunc_div int64_max ticks \<or> now > trunc_div int64_max ticks - ttl)"
      "SetValidFor ttl token = Inr t0" "sign_video options t0 = Inr t1" "sign_sip options t1 = Inr t2"
      "sign_agent options t2 = Inr t3" "mul64 now ticks = Inl f \<or> (\<exists>x. mul64 now ticks = Inr x \<and> ToJwt cb ticks t3 x = Inl f)"
    for now ttl token t0 t1 t2 t3
  proof -
    have "at_valid_for t3 = ttl"
      using that(2-5)
      by (auto simp: SetValidFor_def sign_video_def sign_sip_def sign_agent_def setter_defs split: if_splits)
    then show ?thesis
      using sign_range [OF assms(1) that(1)] that(6) ToJwt_in_range(2) [OF assms(1), of now t3 cb f] by auto
  qed
  have lifetime: "argument_error f" if "SetValidFor ttl token = Inl f" for ttl token
    using that by (auto simp: SetValidFor_def dest: argument_error_throw split: if_splits)
  from assms(2) show ?thesis
    unfolding Sign_def Let_def and_then_Inl_iff if_throw_Inl
    by (elim disjE exE conjE)
      (((drule reader_errors | drule Integer_error | drule StringMap_error | drule sign_grant_errors |
         drule lifetime); simp) | (rule tail, assumption, assumption, assumption, assumption, assumption, blast) | simp)+
qed


definition sample_options :: pb_struct where
  "sample_options =
     [(''api_key'', Text ''key''), (''api_secret'', Text ''secret''), (''valid_for'', Text ''60''),
      (''now'', Text ''5''), (''video'', StructValue [(''room_join'', BoolValue True)])]"


section \<open>The answer of a call\<close>

text \<open>The error a caller is told about; undefined behaviour tells nothing.\<close>

fun reported_error :: "fault \<Rightarrow> sdk_error option" where
  "reported_error (Throw e) = Some e"
| "reported_error (StdException what) = Some (Error ec_unknown what)"
| "reported_error ForeignException = Some (Error ec_unknown ''unknown native C ABI failure'')"
| "reported_error Undefined = None"

text \<open>What the members of an envelope say, independently of their order.\<close>

definition reports_error :: "sdk_error \<Rightarrow> pb_struct \<Rightarrow> bool" where
  "reports_error e obj \<longleftrightarrow> map_of obj =
     [''ok'' \<mapsto> BoolValue False, ''code'' \<mapsto> NumberValue (real_of_int (error_code_value (err_code e))),
      ''http_status'' \<mapsto> NumberValue (real_of_int (err_http_status e)),
      ''twirp_code'' \<mapsto> StringValue (err_twirp_code e), ''message'' \<mapsto> StringValue (error_what e)]"

definition reports :: "pb_value result \<Rightarrow> pb_struct \<Rightarrow> bool" where
  "reports outcome obj \<longleftrightarrow>
     (case outcome of
        Inr value \<Rightarrow> map_of obj = [''ok'' \<mapsto> BoolValue True, ''value'' \<mapsto> value]
      | Inl f \<Rightarrow> (case reported_error f of None \<Rightarrow> False | Some e \<Rightarrow> reports_error e obj))"

lemma Failure_reports: "reports_error e (Failure e)"
  unfolding Failure_def Let_def reports_error_def map_of_put Text_def by (auto simp: fun_eq_iff)

lemma answer_reports: "answer outcome = Inr obj \<Longrightarrow> reports outcome obj"
  using Failure_reports
  by (cases outcome rule: answer.cases) (auto simp: reports_def fun_eq_iff)

lemma answer_Inl: "answer outcome = Inl f \<longleftrightarrow> outcome = Inl Undefined \<and> f = Undefined"
  by (cases outcome rule: answer.cases) auto

lemma Copy_result:
  "Copy pb malloc obj n w = (Inr (Some output, n'), w') \<Longrightarrow>
     \<exists>json. pb_print_struct pb obj = Some json \<and> output = json @ [CHR 0x00] \<and>
       n' = map_option (\<lambda>_. length json) n"
  "Copy pb malloc obj n w = (Inr (None, n'), w') \<Longrightarrow> n' = n"
  "Copy pb malloc obj n w = (Inl f, w') \<Longrightarrow> f = Throw (Error ec_protocol ''could not encode C ABI result'')"
  by (auto simp: Copy_def Encode_def io_bind_def io_lift_def throw_def split: option.splits prod.splits bool.splits)

text \<open>
  C11. No exception crosses the ABI. Undefined behaviour of the operation apart, every call
  returns; a null pointer comes with length zero; any other pointer holds the NUL-terminated JSON
  of an envelope with its exact length, and the envelope reports the outcome of the operation:
  its value, or the code, status, Twirp code and message of its error, as far as its \<^verbatim>\<open>what()\<close> shows it.
\<close>

theorem invoke_always_answers:
  "case lks_invoke pb pf malloc input callback output_length w of
     (Inl f, w') \<Rightarrow> f = Undefined \<and> fst (execute_input pb pf input callback w) = Inl Undefined
   | (Inr (None, n), w') \<Rightarrow> n = map_option (\<lambda>_. 0) output_length
   | (Inr (Some output, n), w') \<Rightarrow>
       \<exists>json envelope. pb_print_struct pb envelope = Some json \<and> output = json @ [CHR 0x00] \<and>
         n = map_option (\<lambda>_. length json) output_length \<and>
         reports (fst (execute_input pb pf input callback w)) envelope"
proof -
  obtain outcome w1 where e: "execute_input pb pf input callback w = (outcome, w1)" by fastforce
  show ?thesis
  proof (cases "answer outcome")
    case (Inl f)
    then show ?thesis using answer_Inl [of outcome f] by (simp add: lks_invoke_def e Let_def)
  next
    case (Inr obj)
    define n where "n = map_option (\<lambda>_. 0 :: nat) output_length"
    obtain r w2 where c: "Copy pb malloc obj n w1 = (r, w2)" by fastforce
    have run: "lks_invoke pb pf malloc input callback output_length w =
        (case r of Inr result \<Rightarrow> (Inr result, w2) | Inl Undefined \<Rightarrow> (Inl Undefined, w2) | Inl f \<Rightarrow> (Inr (None, n), w2))"
      by (auto simp: lks_invoke_def e Inr c n_def [symmetric] Let_def split: sum.split fault.split)
    show ?thesis
    proof (cases r)
      case (Inl f)
      with Copy_result(3) [OF c [unfolded Inl]] show ?thesis by (simp add: run n_def)
    next
      case r: (Inr result)
      obtain p n' where result: "result = (p, n')" by fastforce
      show ?thesis
        using Copy_result(1,2) c answer_reports [OF Inr]
        by (cases p) (fastforce simp: run r result n_def e option.map_comp comp_def)+
    qed
  qed
qed

end
