(* ===== verification/JsonRuntime.thy ===== *)
theory JsonRuntime
  imports AccessToken Protobuf
begin

text \<open>
  What two sides of an interface rely on when one prints a \<^verbatim>\<open>Struct\<close> as JSON and the other parses
  it: the C ABI and its bindings exchange all their data this way. Field order is lost, and the
  laws speak only of what protobuf promises to carry: strings in UTF-8, and numbers that are
  integers.

  \<open>json_protobuf\<close> is a runtime that satisfies the laws, with a writer built from the escaping of
  the SDK and the reference reader; it models no code of the repository.
\<close>

section \<open>Contracts\<close>

fun utf8 :: "string \<Rightarrow> bool" where
  "utf8 [] \<longleftrightarrow> True"
| "utf8 (c # cs) \<longleftrightarrow>
     (let tail = (\<lambda>x. 128 \<le> (of_char x :: nat) \<and> of_char x < (192 :: nat)); n = (of_char c :: nat)
      in if n < 128 then utf8 cs
         else if 194 \<le> n \<and> n < 224
         then (case cs of c1 # r \<Rightarrow> tail c1 \<and> utf8 r | _ \<Rightarrow> False)
         else if 224 \<le> n \<and> n < 240
         then (case cs of c1 # c2 # r \<Rightarrow>
                 tail c1 \<and> tail c2 \<and> (n = 224 \<longrightarrow> 160 \<le> (of_char c1 :: nat)) \<and>
                 (n = 237 \<longrightarrow> of_char c1 < (160 :: nat)) \<and> utf8 r | _ \<Rightarrow> False)
         else if 240 \<le> n \<and> n < 245
         then (case cs of c1 # c2 # c3 # r \<Rightarrow>
                 tail c1 \<and> tail c2 \<and> tail c3 \<and> (n = 240 \<longrightarrow> 144 \<le> (of_char c1 :: nat)) \<and>
                 (n = 244 \<longrightarrow> of_char c1 < (144 :: nat)) \<and> utf8 r | _ \<Rightarrow> False)
         else False)"

text \<open>
  A value every part of which is set, with numbers that are integers, strings in UTF-8, and the
  distinct keys that the fields of a protobuf map have.
\<close>

fun portable :: "pb_value \<Rightarrow> bool" where
  "portable KindNotSet = False"
| "portable NullValue = True"
| "portable (NumberValue r) = (real_of_int \<lfloor>r\<rfloor> = r)"
| "portable (StringValue s) = utf8 s"
| "portable (BoolValue b) = True"
| "portable (StructValue ms) \<longleftrightarrow> distinct (map fst ms) \<and> list_all (\<lambda>(n, v). utf8 n \<and> portable v) ms"
| "portable (ListValue vs) = list_all portable vs"

text \<open>Equality up to the order of fields, the right side with distinct keys.\<close>

inductive similar :: "pb_value \<Rightarrow> pb_value \<Rightarrow> bool" where
  Null: "similar NullValue NullValue"
| Number: "similar (NumberValue r) (NumberValue r)"
| String: "similar (StringValue s) (StringValue s)"
| Bool: "similar (BoolValue b) (BoolValue b)"
| Struct: "(\<And>n. rel_option similar (map_of ms n) (map_of ms' n)) \<Longrightarrow> distinct (map fst ms') \<Longrightarrow>
    similar (StructValue ms) (StructValue ms')"
| List: "list_all2 similar vs vs' \<Longrightarrow> similar (ListValue vs) (ListValue vs')"

inductive_simps similar_simps [simp]:
  "similar NullValue v" "similar (NumberValue r) v" "similar (StringValue s) v" "similar (BoolValue b) v"
  "similar (StructValue ms) v" "similar (ListValue vs) v"

lemma portable_similar: "portable v \<Longrightarrow> similar v v"
proof (induction v rule: portable.induct)
  case (6 ms)
  have "rel_option similar (map_of ms n) (map_of ms n)" for n
    using 6 by (cases "map_of ms n") (auto simp: list_all_iff dest!: map_of_SomeD)
  with 6 show ?case by simp
qed (auto simp: list_all_iff list_all2_same)

definition similar_structs :: "pb_struct \<Rightarrow> pb_struct \<Rightarrow> bool" where
  "similar_structs s s' \<longleftrightarrow> similar (StructValue s) (StructValue s')"

lemma similar_get:
  assumes "similar_structs s s'"
  shows "map_of s n = Some (StringValue t) \<Longrightarrow> map_of s' n = Some (StringValue t)"
    and "map_of s n = Some (BoolValue b) \<Longrightarrow> map_of s' n = Some (BoolValue b)"
    and "map_of s n = Some (NumberValue r) \<Longrightarrow> map_of s' n = Some (NumberValue r)"
    and "map_of s n = Some NullValue \<Longrightarrow> map_of s' n = Some NullValue"
    and "map_of s n = Some (ListValue vs) \<Longrightarrow> \<exists>vs'. map_of s' n = Some (ListValue vs') \<and> list_all2 similar vs vs'"
    and "map_of s n = Some (StructValue ms) \<Longrightarrow> \<exists>ms'. map_of s' n = Some (StructValue ms') \<and> similar_structs ms ms'"
    and "map_of s n = None \<Longrightarrow> map_of s' n = None"
proof -
  have rel: "rel_option similar (map_of s n) (map_of s' n)" for n
    using assms unfolding similar_structs_def by auto
  show "map_of s n = Some (StringValue t) \<Longrightarrow> map_of s' n = Some (StringValue t)"
    "map_of s n = Some (BoolValue b) \<Longrightarrow> map_of s' n = Some (BoolValue b)"
    "map_of s n = Some (NumberValue r) \<Longrightarrow> map_of s' n = Some (NumberValue r)"
    "map_of s n = Some NullValue \<Longrightarrow> map_of s' n = Some NullValue"
    "map_of s n = Some (ListValue vs) \<Longrightarrow> \<exists>vs'. map_of s' n = Some (ListValue vs') \<and> list_all2 similar vs vs'"
    "map_of s n = Some (StructValue ms) \<Longrightarrow> \<exists>ms'. map_of s' n = Some (StructValue ms') \<and> similar_structs ms ms'"
    "map_of s n = None \<Longrightarrow> map_of s' n = None"
    using rel [of n] by (auto simp: option_rel_Some1 similar_structs_def)
qed

lemma similar_distinct: "similar_structs s s' \<Longrightarrow> distinct (map fst s')"
  by (simp add: similar_structs_def)

locale json_exchange =
  fixes pb :: "'m protobuf"
  assumes exchange:
    "portable (StructValue s) \<Longrightarrow>
     \<exists>doc s'. pb_print_struct pb s = Some doc \<and> pb_parse_struct pb doc = Some s' \<and> similar_structs s s'"

section \<open>A runtime\<close>

fun write_value :: "pb_value \<Rightarrow> string" where
  "write_value KindNotSet = []"
| "write_value NullValue = ''null''"
| "write_value (NumberValue r) = to_string \<lfloor>r\<rfloor>"
| "write_value (StringValue s) = [quote_char] @ EscapeJson s @ [quote_char]"
| "write_value (BoolValue b) = (if b then ''true'' else ''false'')"
| "write_value (StructValue ms) =
     ''{'' @ join (map (\<lambda>(n, v). member (EscapeJson n, write_value v)) ms) @ ''}''"
| "write_value (ListValue vs) = ''['' @ join (map write_value vs) @ '']''"

fun json_of_value :: "pb_value \<Rightarrow> json" where
  "json_of_value KindNotSet = JNull"
| "json_of_value NullValue = JNull"
| "json_of_value (NumberValue r) = JInt \<lfloor>r\<rfloor>"
| "json_of_value (StringValue s) = JString s"
| "json_of_value (BoolValue b) = JBool b"
| "json_of_value (StructValue ms) = JObject (map (\<lambda>(n, v). (n, json_of_value v)) ms)"
| "json_of_value (ListValue vs) = JArray (map json_of_value vs)"

definition json_protobuf :: "string protobuf" where
  "json_protobuf = reader_protobuf
     \<lparr>pb_print_struct := (\<lambda>s. if portable (StructValue s) then Some (write_value (StructValue s)) else None)\<rparr>"

lemma json_value_of_value: "portable v \<Longrightarrow> json_value (json_of_value v) = v"
proof (induction v rule: portable.induct)
  case (6 ms)
  then show ?case by (induction ms) auto
next
  case (7 vs)
  then show ?case by (induction vs) auto
qed auto

lemma denotes_null: "denotes ''null'' JNull"
  by (rule denotes_SucI) (simp_all add: starts_with_def)

lemma denotes_empty_array: "denotes ''[]'' (JArray [])"
  by (rule denotes_SucI) (simp_all add: starts_with_def)

lemma to_string_no_bracket: "\<not> starts_with (to_string i) '']''"
proof (cases "i < 0")
  case False
  then have "to_string i = show_nat 10 (nat i)" by (simp add: to_string_def)
  moreover have "hd (show_nat 10 (nat i)) \<noteq> CHR '']''"
    using bspec [OF show_nat_10_digits hd_in_set [OF show_nat_nonempty], of "nat i"]
    by (auto simp: is_digit_def)
  ultimately show ?thesis by (cases "show_nat 10 (nat i)") (simp_all add: starts_with_def)
qed (simp add: to_string_def starts_with_def)

lemma write_value_no_bracket: "portable v \<Longrightarrow> \<not> starts_with (write_value v) '']''"
  using to_string_no_bracket by (cases v) (auto simp: starts_with_def)

lemma denotes_write_value: "portable v \<Longrightarrow> denotes (write_value v) (json_of_value v)"
proof (induction v rule: portable.induct)
  case (5 b)
  then show ?case using denotes_bool by simp
next
  case (6 ms)
  have "list_all2 (\<lambda>(body, t) (k, v). quoted body k \<and> denotes t v)
      (map (\<lambda>(n, v). (EscapeJson n, write_value v)) ms) (map (\<lambda>(n, v). (n, json_of_value v)) ms)"
    using 6 by (auto simp: list_all2_map1 list_all2_map2 list_all2_same list_all_iff quoted_EscapeJson)
  from denotes_object [OF this] show ?case by (simp add: comp_def case_prod_unfold)
next
  case (7 vs)
  show ?case
  proof (cases "vs = []")
    case False
    with 7 have "denotes (''['' @ join (map write_value vs) @ '']'') (JArray (map json_of_value vs))"
      by (intro denotes_array) (auto simp: list_all2_map1 list_all2_map2 list_all2_same list_all_iff hd_map
          write_value_no_bracket)
    then show ?thesis by simp
  qed (simp add: denotes_empty_array)
qed (simp_all add: denotes_null denotes_int denotes_escaped [simplified])


interpretation json: json_exchange json_protobuf
proof
  fix s
  assume "portable (StructValue s)"
  moreover have "pb_parse_struct json_protobuf (write_value (StructValue s)) = Some s"
    using denotes_json_read [OF denotes_write_value [OF \<open>portable (StructValue s)\<close>]]
      json_value_of_value [OF \<open>portable (StructValue s)\<close>]
    by (simp add: json_protobuf_def reader_protobuf_def)
  ultimately show "\<exists>doc s'. pb_print_struct json_protobuf s = Some doc \<and>
      pb_parse_struct json_protobuf doc = Some s' \<and> similar_structs s s'"
    using portable_similar [of "StructValue s"] by (auto simp: json_protobuf_def similar_structs_def)
qed

interpretation json_complete: json_runtime_complete json_protobuf
proof
  fix doc fs ms n
  assume "pb_parse_struct json_protobuf doc = Some fs" "json_read doc = Some (JObject ms)" "distinct (map fst ms)"
  then show "rel_option value_matches (map_of ms n) (map_of fs n)"
    by (intro reader.parse_sound) (simp_all add: json_protobuf_def)
next
  fix doc ms
  assume "json_read doc = Some (JObject ms)" "distinct (map fst ms)" "flat ms" "ascii doc"
  from reader.parse_flat [OF this] show "\<exists>fs. pb_parse_struct json_protobuf doc = Some fs"
    by (simp add: json_protobuf_def)
qed

end
