(* ===== verification/Jni.thy ===== *)
theory Jni
  imports CApi JsonRuntime
begin

text \<open>
  \<^verbatim>\<open>pkg/java/src/main/cpp/livekit_server_jni.cpp\<close>: the binding for Java over the C ABI.

  The virtual machine is the record \<open>jvm\<close> and a state: the pending exception, the number of local
  frames pushed, and the world. A \<^verbatim>\<open>byte[]\<close> is a byte string, a \<^verbatim>\<open>java.lang.String\<close> a list of UTF-16
  units, a null reference \<open>None\<close>. Local references are not counted. Native code fails with
  \<^verbatim>\<open>PendingException\<close>, which reports the exception that is pending in the virtual machine, or with
  one of the faults of the SDK.
\<close>

section \<open>The virtual machine\<close>

type_synonym jstring = "16 word list"

datatype java_exception =
    LiveKitException jstring int int jstring
  | OtherThrowable

datatype java_fault = PendingException | Native fault

record 'w jvm_state =
  jv_pending :: "java_exception option"
  jv_frames :: nat
  jv_world :: 'w

type_synonym ('w, 'a) jio = "'w jvm_state \<Rightarrow> (java_fault + 'a) \<times> 'w jvm_state"

text \<open>
  \<open>jm_raises\<close>: whether a JNI function raises an exception, by a name for its use;
  \<open>jm_text\<close>, \<open>jm_bytes\<close>: the methods \<^verbatim>\<open>Native.text\<close> and \<^verbatim>\<open>Native.bytes\<close>, which convert with Java's
  UTF-8 codec; \<open>jm_utf_chars\<close>: \<^verbatim>\<open>GetStringUTFChars\<close>. Calls into Java say whether they raise.
\<close>

record 'w jvm =
  jm_raises :: "string \<Rightarrow> 'w \<Rightarrow> bool \<times> 'w"
  jm_text :: "string \<Rightarrow> 'w \<Rightarrow> (jstring \<times> bool) \<times> 'w"
  jm_bytes :: "jstring \<Rightarrow> 'w \<Rightarrow> (string option \<times> bool) \<times> 'w"
  jm_utf_chars :: "jstring \<Rightarrow> 'w \<Rightarrow> (string \<times> bool) \<times> 'w"

text \<open>A Java \<^verbatim>\<open>HttpTransport\<close> returns a response object (status and body), a key provider a string.\<close>

type_synonym 'w java_transport =
  "jstring \<Rightarrow> jstring \<Rightarrow> jstring list \<Rightarrow> string \<Rightarrow> int \<Rightarrow> 'w \<Rightarrow> ((32 word \<times> string option) option \<times> bool) \<times> 'w"

type_synonym 'w java_key_provider = "jstring \<Rightarrow> 'w \<Rightarrow> (jstring option \<times> bool) \<times> 'w"

definition jreturn :: "'a \<Rightarrow> ('w, 'a) jio" where
  "jreturn x s = (Inr x, s)"

definition jlift :: "'a result \<Rightarrow> ('w, 'a) jio" where
  "jlift r s = (case r of Inl f \<Rightarrow> Inl (Native f) | Inr x \<Rightarrow> Inr x, s)"

definition jbind :: "('w, 'a) jio \<Rightarrow> ('a \<Rightarrow> ('w, 'b) jio) \<Rightarrow> ('w, 'b) jio" where
  "jbind m f s = (case m s of (Inl e, s') \<Rightarrow> (Inl e, s') | (Inr x, s') \<Rightarrow> f x s')"

definition Check_env :: "('w, unit) jio" where
  "Check_env s = (case jv_pending s of Some e \<Rightarrow> Inl PendingException | None \<Rightarrow> Inr (), s)"

text \<open>A call that may leave an exception pending, and such a call followed by \<^verbatim>\<open>Check\<close>.\<close>

definition jcall :: "('w \<Rightarrow> ('a \<times> bool) \<times> 'w) \<Rightarrow> ('w, 'a) jio" where
  "jcall f s =
     (case f (jv_world s) of ((x, raised), w) \<Rightarrow>
        (Inr x, s\<lparr>jv_world := w, jv_pending := if raised then Some OtherThrowable else jv_pending s\<rparr>))"

definition jchecked :: "('w \<Rightarrow> ('a \<times> bool) \<times> 'w) \<Rightarrow> ('w, 'a) jio" where
  "jchecked f = jbind (jcall f) (\<lambda>x. jbind Check_env (\<lambda>_. jreturn x))"

definition jni :: "'w jvm \<Rightarrow> string \<Rightarrow> ('w, unit) jio" where
  "jni vm name = jchecked (\<lambda>w. case jm_raises vm name w of (raised, w') \<Rightarrow> (((), raised), w'))"

text \<open>A local frame around a computation, popped by the destructor of \<^verbatim>\<open>Frame\<close>.\<close>

definition with_frame :: "'w jvm \<Rightarrow> ('w, 'a) jio \<Rightarrow> ('w, 'a) jio" where
  "with_frame vm m s =
     (case jm_raises vm ''PushLocalFrame'' (jv_world s) of
        (True, w) \<Rightarrow> (Inl PendingException, s\<lparr>jv_world := w, jv_pending := Some OtherThrowable\<rparr>)
      | (False, w) \<Rightarrow>
          (case m (s\<lparr>jv_world := w, jv_frames := jv_frames s + 1\<rparr>) of
             (r, s') \<Rightarrow> (r, s'\<lparr>jv_frames := jv_frames s' - 1\<rparr>)))"

section \<open>Strings and arrays\<close>

definition jsize_max :: nat where
  "jsize_max = 2147483647"

definition Bytes_in :: "'w jvm \<Rightarrow> string option \<Rightarrow> ('w, string) jio" where
  "Bytes_in vm bytes =
     (case bytes of
        None \<Rightarrow> jlift (throw ec_invalid_argument ''byte array must not be null'')
      | Some b \<Rightarrow>
          if b = [] then jreturn [] else jbind (jni vm ''GetByteArrayRegion'') (\<lambda>_. jreturn b))"

definition Bytes_out :: "'w jvm \<Rightarrow> string \<Rightarrow> ('w, string) jio" where
  "Bytes_out vm doc =
     (if length doc > jsize_max
      then jlift (throw ec_invalid_argument ''native result exceeds Java array size'')
      else
        jbind (jni vm ''NewByteArray'') (\<lambda>_.
        if doc \<noteq> [] then jbind (jni vm ''SetByteArrayRegion'') (\<lambda>_. jreturn doc) else jreturn doc))"

definition Text_jni :: "'w jvm \<Rightarrow> string \<Rightarrow> ('w, jstring) jio" where
  "Text_jni vm doc =
     jbind (Bytes_out vm doc) (\<lambda>bytes.
     jbind (jni vm ''FindClass Native'') (\<lambda>_.
     jbind (jni vm ''GetStaticMethodID text'') (\<lambda>_.
     jchecked (jm_text vm bytes))))"

definition Utf8 :: "'w jvm \<Rightarrow> jstring \<Rightarrow> ('w, string) jio" where
  "Utf8 vm doc =
     jbind (jni vm ''FindClass Native'') (\<lambda>_.
     jbind (jni vm ''GetStaticMethodID bytes'') (\<lambda>_.
     jbind (jchecked (jm_bytes vm doc)) (Bytes_in vm)))"

fun texts_loop :: "'w jvm \<Rightarrow> string list \<Rightarrow> ('w, jstring list) jio" where
  "texts_loop vm [] = jreturn []"
| "texts_loop vm (doc # docs) =
     jbind (Text_jni vm doc) (\<lambda>arg. jbind (texts_loop vm docs) (\<lambda>args. jreturn (arg # args)))"

text \<open>A Java record of strings, with the name of its class.\<close>

type_synonym java_record = "string \<times> jstring list"

definition Record :: "'w jvm \<Rightarrow> string \<Rightarrow> string list \<Rightarrow> ('w, java_record) jio" where
  "Record vm name members =
     jbind (jni vm (''FindClass '' @ name)) (\<lambda>_.
     jbind (texts_loop vm members) (\<lambda>args.
     jbind (jni vm ''GetMethodID <init>'') (\<lambda>_.
     jbind (jni vm ''NewObjectA'') (\<lambda>_. jreturn (name, args)))))"

section \<open>Exceptions\<close>

definition Raise :: "'w jvm \<Rightarrow> sdk_error \<Rightarrow> ('w, unit) jio" where
  "Raise vm error =
     jbind (jni vm ''FindClass LiveKitException'') (\<lambda>_.
     jbind (jni vm ''GetMethodID <init>'') (\<lambda>_.
     jbind (Text_jni vm (error_what error)) (\<lambda>message.
     jbind (Text_jni vm (err_twirp_code error)) (\<lambda>twirp.
     jbind (jni vm ''NewObject'') (\<lambda>_ s.
       (Inr (), s\<lparr>jv_pending :=
          Some (LiveKitException message (error_code_value (err_code error)) (err_http_status error) twirp)\<rparr>))))))"

fun caught_error :: "fault \<Rightarrow> sdk_error" where
  "caught_error (Throw e) = e"
| "caught_error (StdException what) = Error ec_unknown what"
| "caught_error _ = Error ec_unknown ''unknown native failure''"

text \<open>The answer of a native method, a null reference on failure; \<open>Undefined\<close> is not caught.\<close>

definition Guard :: "'w jvm \<Rightarrow> ('w, 'a option) jio \<Rightarrow> 'w jvm_state \<Rightarrow> 'a option result \<times> 'w jvm_state" where
  "Guard vm fn s =
     (case fn s of
        (Inr x, s') \<Rightarrow> (Inr x, s')
      | (Inl PendingException, s') \<Rightarrow> (Inr None, s')
      | (Inl (Native f), s') \<Rightarrow>
          (if f = Undefined then (Inl Undefined, s')
           else (case Raise vm (caught_error f) s' of (_, s'') \<Rightarrow> (Inr None, s''))))"

section \<open>Objects\<close>

definition Parse_jni :: "'m protobuf \<Rightarrow> 'w jvm \<Rightarrow> string option \<Rightarrow> ('w, pb_struct) jio" where
  "Parse_jni pb vm json =
     jbind (Bytes_in vm json) (\<lambda>doc.
     case pb_parse_struct pb doc of
       None \<Rightarrow> jlift (throw ec_invalid_argument ''invalid binding options JSON'')
     | Some obj \<Rightarrow> jreturn obj)"

definition Field_jni :: "pb_struct \<Rightarrow> string \<Rightarrow> pb_value" where
  "Field_jni obj key = (case map_of obj key of None \<Rightarrow> KindNotSet | Some v \<Rightarrow> v)"

definition String_jni :: "pb_struct \<Rightarrow> string \<Rightarrow> string" where
  "String_jni obj key = string_value (Field_jni obj key)"

definition Bool_jni :: "pb_struct \<Rightarrow> string \<Rightarrow> bool" where
  "Bool_jni obj key = bool_value (Field_jni obj key)"

definition TextValue :: "string \<Rightarrow> pb_value" where
  "TextValue doc = StringValue doc"

definition Encode_jni :: "'m protobuf \<Rightarrow> pb_struct \<Rightarrow> string result" where
  "Encode_jni pb v =
     (case pb_print_struct pb v of
        None \<Rightarrow> throw ec_protocol ''could not encode binding JSON''
      | Some json \<Rightarrow> Inr json)"

definition ParseJson :: "'m protobuf \<Rightarrow> string \<Rightarrow> pb_struct result" where
  "ParseJson pb json =
     (case pb_parse_struct pb json of
        None \<Rightarrow> throw ec_protocol ''invalid C ABI response''
      | Some obj \<Rightarrow> Inr obj)"

text \<open>The inner loop of \<^verbatim>\<open>Options\<close>, then the loop over the options; grants are translated one level down.\<close>

fun snake_name :: "string \<Rightarrow> string" where
  "snake_name [] = []"
| "snake_name (ch # key) =
     (let c = (of_char ch :: nat)
      in if 65 \<le> c \<and> c \<le> 90 then CHR ''_'' # char_of (c + 97 - 65) # snake_name key
         else ch # snake_name key)"

definition options_loop :: "(string \<Rightarrow> pb_value \<Rightarrow> pb_value) \<Rightarrow> pb_struct \<Rightarrow> pb_struct" where
  "options_loop target source =
     foldl (\<lambda>result (key, v). put (snake_name key) (target key v) result) [] source"

definition is_grant :: "string \<Rightarrow> bool" where
  "is_grant key \<longleftrightarrow> key = ''video'' \<or> key = ''sip'' \<or> key = ''agent''"

definition Options_jni :: "bool \<Rightarrow> pb_struct \<Rightarrow> pb_struct" where
  "Options_jni grants source =
     options_loop (\<lambda>key v.
       if grants \<and> is_grant key then StructValue (options_loop (\<lambda>_ v. v) (struct_value v)) else v) source"

section \<open>The transport\<close>

fun headers_array :: "'w jvm \<Rightarrow> string list \<Rightarrow> ('w, jstring list) jio" where
  "headers_array vm [] = jreturn []"
| "headers_array vm (doc # docs) =
     jbind (Text_jni vm doc) (\<lambda>item.
     jbind (jni vm ''SetObjectArrayElement'') (\<lambda>_.
     jbind (headers_array vm docs) (\<lambda>items. jreturn (item # items))))"

text \<open>Calling a method on a null reference is undefined.\<close>

definition JavaTransport_Send ::
  "'w jvm \<Rightarrow> 'w java_transport option \<Rightarrow> HttpRequest \<Rightarrow> ('w, HttpResponse) jio" where
  "JavaTransport_Send vm transport request = with_frame vm
     (jbind (jni vm ''FindClass HttpTransport'') (\<lambda>_.
      jbind (jni vm ''GetMethodID send'') (\<lambda>_.
      jbind (jni vm ''FindClass String'') (\<lambda>_.
      if length (hr_headers request) > jsize_max div 2
      then jlift (throw ec_invalid_argument ''too many request headers'')
      else
        jbind (jni vm ''NewObjectArray'') (\<lambda>_.
        jbind (headers_array vm (concat (map (\<lambda>(k, v). [k, v]) (hr_headers request)))) (\<lambda>headers.
        jbind (Text_jni vm (hr_url request)) (\<lambda>url.
        jbind (Text_jni vm (hr_method request)) (\<lambda>rpc.
        jbind (Bytes_out vm (hr_body request)) (\<lambda>body.
        case transport of
          None \<Rightarrow> jlift (Inl Undefined)
        | Some send \<Rightarrow>
            jbind (jchecked (send url rpc headers body (hr_timeout request))) (\<lambda>response.
            case response of
              None \<Rightarrow> jlift (throw ec_transport ''Java transport returned null'')
            | Some (status, response_body) \<Rightarrow>
                jbind (jni vm ''FindClass HttpResponse'') (\<lambda>_.
                jbind (jni vm ''GetMethodID statusCode'') (\<lambda>_.
                jbind (jni vm ''GetMethodID body'') (\<lambda>_.
                jbind (jni vm ''CallIntMethod statusCode'') (\<lambda>_.
                jbind (jni vm ''CallObjectMethod body'') (\<lambda>_.
                jbind (Bytes_in vm response_body) (\<lambda>bytes.
                jreturn \<lparr>rs_status_code = sint status, rs_headers = [], rs_body = bytes\<rparr>))))))))))))))))"

definition ask_key_provider ::
  "'w jvm \<Rightarrow> 'w java_key_provider option \<Rightarrow> string \<Rightarrow> ('w, string) jio" where
  "ask_key_provider vm key_provider key = with_frame vm
     (jbind (jni vm ''FindClass Function'') (\<lambda>_.
      jbind (jni vm ''GetMethodID apply'') (\<lambda>_.
      jbind (Text_jni vm key) (\<lambda>issuer.
      case key_provider of
        None \<Rightarrow> jlift (Inl Undefined)
      | Some apply \<Rightarrow>
          jbind (jchecked (apply issuer)) (\<lambda>secret.
          case secret of None \<Rightarrow> jreturn [] | Some s \<Rightarrow> Utf8 vm s)))))"


section \<open>Callbacks and invocation\<close>

text \<open>
  \<^verbatim>\<open>CallbackContext\<close>: the environment, the answers given so far, and the failure a callback kept.
  It is the world in which the C ABI runs.
\<close>

record 'w CallbackContext =
  cx_env :: "'w jvm_state"
  cx_responses :: "string list"
  cx_failure :: "java_fault option"

text \<open>\<^verbatim>\<open>values(0)\<close> and \<^verbatim>\<open>values(1)\<close> of a list that is too short are undefined.\<close>

fun header_pair :: "pb_value \<Rightarrow> (string \<times> string) result" where
  "header_pair v =
     (case list_value v of
        k # x # _ \<Rightarrow> Inr (string_value k, string_value x)
      | _ \<Rightarrow> Inl Undefined)"

fun header_pairs :: "pb_value list \<Rightarrow> HttpHeaders result" where
  "header_pairs [] = Inr []"
| "header_pairs (v # vs) =
     and_then (header_pair v) (\<lambda>h. and_then (header_pairs vs) (\<lambda>hs. Inr (h # hs)))"

definition stoll_or_throw :: "string \<Rightarrow> int result" where
  "stoll_or_throw s = (case stoll s of Some (i, _) \<Rightarrow> Inr i | None \<Rightarrow> Inl (StdException ''stoll''))"

definition read_request :: "pb_struct \<Rightarrow> HttpRequest result" where
  "read_request input =
     and_then (Base64UrlDecode (String_jni input ''body'')) (\<lambda>body.
     and_then (stoll_or_throw (String_jni input ''timeout_ms'')) (\<lambda>timeout.
     and_then (header_pairs (list_value (Field_jni input ''headers''))) (\<lambda>headers.
     Inr \<lparr>hr_url = String_jni input ''url'', hr_method = String_jni input ''method'', hr_headers = headers,
          hr_body = BytesToString body, hr_timeout = timeout\<rparr>)))"

definition exchange_response ::
  "'m protobuf \<Rightarrow> 'w jvm \<Rightarrow> 'w java_transport option \<Rightarrow> 'w java_key_provider option \<Rightarrow>
     string \<Rightarrow> ('w, string) jio" where
  "exchange_response pb vm transport key_provider json =
     jbind (jlift (ParseJson pb json)) (\<lambda>input.
     jbind
       (if String_jni input ''kind'' = ''transport''
        then
          jbind (jlift (read_request input)) (\<lambda>request.
          jbind (JavaTransport_Send vm transport request) (\<lambda>result.
          jreturn
            (put ''body'' (TextValue (Base64UrlEncode_str (rs_body result)))
               (put ''status_code'' (TextValue (to_string (rs_status_code result))) []))))
        else
          jbind (ask_key_provider vm key_provider (String_jni input ''key'')) (\<lambda>secret.
          jreturn (put ''secret'' (TextValue secret) [])))
     (\<lambda>response. jlift (Encode_jni pb response)))"

definition Exchange_jni ::
  "'m protobuf \<Rightarrow> 'w jvm \<Rightarrow> 'w java_transport option \<Rightarrow> 'w java_key_provider option \<Rightarrow>
     'w CallbackContext lks_callback" where
  "Exchange_jni pb vm transport key_provider json context =
     (case exchange_response pb vm transport key_provider json (cx_env context) of
        (Inr response, env) \<Rightarrow>
          ((0, Some response), context\<lparr>cx_env := env, cx_responses := cx_responses context @ [response]\<rparr>)
      | (Inl f, env) \<Rightarrow> ((1, None), context\<lparr>cx_env := env, cx_failure := Some f\<rparr>))"

text \<open>
  \<^verbatim>\<open>static_cast\<close> from \<^verbatim>\<open>double\<close> to \<^verbatim>\<open>int\<close> truncates and is undefined out of range; from \<^verbatim>\<open>int\<close> to
  \<^verbatim>\<open>ErrorCode\<close> it reduces to a byte. \<^verbatim>\<open>lks_invoke\<close> answers no byte without a name, which is \<open>Undefined\<close>
  here.
\<close>

definition double_to_int :: "real \<Rightarrow> int result" where
  "double_to_int r =
     (let i = (if r < 0 then \<lceil>r\<rceil> else \<lfloor>r\<rfloor>)
      in if - 2147483648 \<le> i \<and> i \<le> 2147483647 then Inr i else Inl Undefined)"

definition error_codes :: "error_code list" where
  "error_codes = [ec_invalid_argument, ec_authentication, ec_transport, ec_http, ec_protocol,
                  ec_unsupported, ec_unknown]"

definition to_error_code :: "int \<Rightarrow> error_code result" where
  "to_error_code i =
     (case find (\<lambda>c. error_code_value c = i mod 256) error_codes of
        Some c \<Rightarrow> Inr c
      | None \<Rightarrow> Inl Undefined)"

fun number_value :: "pb_value \<Rightarrow> real" where
  "number_value (NumberValue r) = r"
| "number_value _ = 0"

definition read_answer :: "pb_struct \<Rightarrow> pb_value result" where
  "read_answer response =
     (if \<not> Bool_jni response ''ok''
      then
        and_then (double_to_int (number_value (Field_jni response ''code''))) (\<lambda>code.
        and_then (to_error_code code) (\<lambda>c.
        and_then (double_to_int (number_value (Field_jni response ''http_status''))) (\<lambda>status.
        Inl (Throw \<lparr>err_code = c, err_what = String_jni response ''message'', err_http_status = status,
                   err_twirp_code = String_jni response ''twirp_code''\<rparr>))))
      else Inr (Field_jni response ''value''))"

definition read_output ::
  "'m protobuf \<Rightarrow> java_fault option \<Rightarrow> string option \<Rightarrow> nat \<Rightarrow> java_fault + pb_value" where
  "read_output pb failure output len =
     (case failure of
        Some f \<Rightarrow> Inl f
      | None \<Rightarrow>
          (case output of
             None \<Rightarrow> Inl (Native (StdException ''std::bad_alloc''))
           | Some buffer \<Rightarrow>
               (case and_then (ParseJson pb (take len buffer)) read_answer of
                  Inl f \<Rightarrow> Inl (Native f)
                | Inr v \<Rightarrow> Inr v)))"

type_synonym 'w allocator = "nat \<Rightarrow> 'w CallbackContext \<Rightarrow> bool \<times> 'w CallbackContext"

text \<open>The native library as a binding sees it, with the objects Java passed for its callbacks.\<close>

record ('w, 'm) binding =
  bi_protobuf :: "'m protobuf"
  bi_platform :: "'w CallbackContext platform"
  bi_malloc :: "'w allocator"
  bi_jvm :: "'w jvm"

definition Invoke ::
  "('w, 'm) binding \<Rightarrow> 'w java_transport option \<Rightarrow> 'w java_key_provider option \<Rightarrow> pb_struct \<Rightarrow>
     ('w, pb_value) jio" where
  "Invoke bi transport key_provider input env =
     (case Encode_jni (bi_protobuf bi) input of
        Inl f \<Rightarrow> (Inl (Native f), env)
      | Inr json \<Rightarrow>
          (case lks_invoke (bi_protobuf bi) (bi_platform bi) (bi_malloc bi) (Some json)
                  (Some (Exchange_jni (bi_protobuf bi) (bi_jvm bi) transport key_provider)) (Some 0)
                  \<lparr>cx_env = env, cx_responses = [], cx_failure = None\<rparr> of
             (Inl f, context) \<Rightarrow> (Inl (Native f), cx_env context)
           | (Inr (output, len), context) \<Rightarrow>
               (read_output (bi_protobuf bi) (cx_failure context) output (case len of None \<Rightarrow> 0 | Some n \<Rightarrow> n),
                cx_env context)))"


definition Input :: "string \<Rightarrow> pb_struct \<Rightarrow> pb_struct" where
  "Input operation options =
     put ''options'' (StructValue options) (put ''operation'' (TextValue operation) [])"

definition put_texts :: "(string \<times> string) list \<Rightarrow> pb_struct \<Rightarrow> pb_struct" where
  "put_texts members obj = foldl (\<lambda>obj (name, value). put name (TextValue value) obj) obj members"

definition Call_jni ::
  "('w, 'm) binding \<Rightarrow> string option \<Rightarrow> 'w java_transport option \<Rightarrow> string \<Rightarrow> (string \<times> string) list \<Rightarrow>
     ('w, pb_value) jio" where
  "Call_jni bi options transport operation members =
     jbind (Parse_jni (bi_protobuf bi) (bi_jvm bi) options) (\<lambda>source.
     let opts = put ''use_transport'' (BoolValue (transport \<noteq> None)) (Options_jni False source)
     in Invoke bi transport None (put_texts members (Input operation opts)))"

section \<open>The native methods\<close>

text \<open>The lambda each method guards, then the method. A C string ends at its first NUL.\<close>

definition call_body ::
  "('w, 'm) binding \<Rightarrow> string option \<Rightarrow> jstring option \<Rightarrow> string option \<Rightarrow> 'w java_transport option \<Rightarrow>
     ('w, string option) jio" where
  "call_body bi options operation request transport =
     (case operation of
        None \<Rightarrow> jlift (throw ec_invalid_argument ''operation must not be null'')
      | Some name \<Rightarrow>
          jbind (jchecked (jm_utf_chars (bi_jvm bi) name)) (\<lambda>chars.
          let op = takeWhile (\<lambda>c. c \<noteq> CHR 0x00) chars
          in jbind (Bytes_in (bi_jvm bi) request) (\<lambda>body.
             jbind (Call_jni bi options transport op [(''request'', body)]) (\<lambda>result.
             jbind (Bytes_out (bi_jvm bi) (string_value result)) (\<lambda>bytes.
             jreturn (Some bytes))))))"

definition Native_call ::
  "('w, 'm) binding \<Rightarrow> string option \<Rightarrow> jstring option \<Rightarrow> string option \<Rightarrow> 'w java_transport option \<Rightarrow>
     'w jvm_state \<Rightarrow> string option result \<times> 'w jvm_state" where
  "Native_call bi options operation request transport =
     Guard (bi_jvm bi) (call_body bi options operation request transport)"

definition dispatch_body ::
  "('w, 'm) binding \<Rightarrow> string option \<Rightarrow> string option \<Rightarrow> string option \<Rightarrow> 'w java_transport option \<Rightarrow>
     ('w, string option) jio" where
  "dispatch_body bi options dispatch_id room transport =
     (jbind (Bytes_in (bi_jvm bi) dispatch_id) (\<lambda>dispatch.
      jbind (Bytes_in (bi_jvm bi) room) (\<lambda>room_name.
      jbind (Call_jni bi options transport ''get_dispatch'' [(''dispatch_id'', dispatch), (''room'', room_name)])
        (\<lambda>result.
      if kind_of result = kNullValue then jreturn None
      else jbind (Bytes_out (bi_jvm bi) (string_value result)) (\<lambda>bytes. jreturn (Some bytes))))))"

definition Native_getDispatch ::
  "('w, 'm) binding \<Rightarrow> string option \<Rightarrow> string option \<Rightarrow> string option \<Rightarrow> 'w java_transport option \<Rightarrow>
     'w jvm_state \<Rightarrow> string option result \<times> 'w jvm_state" where
  "Native_getDispatch bi options dispatch_id room transport =
     Guard (bi_jvm bi) (dispatch_body bi options dispatch_id room transport)"

definition token_body :: "('w, 'm) binding \<Rightarrow> string option \<Rightarrow> int \<Rightarrow> ('w, string option) jio" where
  "token_body bi options now =
     (jbind (Parse_jni (bi_protobuf bi) (bi_jvm bi) options) (\<lambda>source.
      let opts = Options_jni True source;
          opts = (if map_of opts ''valid_for'' = None then put ''valid_for'' (TextValue ''21600'') opts else opts);
          opts = put ''now'' (TextValue (to_string now)) opts
      in jbind (Invoke bi None None (Input ''token'' opts)) (\<lambda>result.
         jbind (Bytes_out (bi_jvm bi) (string_value result)) (\<lambda>bytes. jreturn (Some bytes)))))"

definition Native_token ::
  "('w, 'm) binding \<Rightarrow> string option \<Rightarrow> int \<Rightarrow> 'w jvm_state \<Rightarrow> string option result \<times> 'w jvm_state" where
  "Native_token bi options now = Guard (bi_jvm bi) (token_body bi options now)"

text \<open>A nested object of an event, read when its field is there.\<close>

definition nested :: "pb_struct \<Rightarrow> string \<Rightarrow> ((string \<Rightarrow> string) \<Rightarrow> 'a) \<Rightarrow> 'a option" where
  "nested obj name build =
     (if map_of obj name = None then None
      else Some (build (String_jni (struct_value (Field_jni obj name)))))"

definition read_event :: "pb_struct \<Rightarrow> WebhookEvent result" where
  "read_event obj =
     and_then (stoll_or_throw (String_jni obj ''created_at'')) (\<lambda>created_at.
     Inr \<lparr>ev_event = String_jni obj ''event'', ev_id = String_jni obj ''id'', ev_created_at = created_at,
          ev_room = nested obj ''room'' (\<lambda>get.
            \<lparr>wr_sid = get ''sid'', wr_name = get ''name'', wr_metadata = get ''metadata''\<rparr>),
          ev_participant = nested obj ''participant'' (\<lambda>get.
            \<lparr>wp_sid = get ''sid'', wp_identity = get ''identity'', wp_name = get ''name'',
             wp_metadata = get ''metadata''\<rparr>),
          ev_track = nested obj ''track'' (\<lambda>get. \<lparr>wt_sid = get ''sid'', wt_name = get ''name''\<rparr>),
          ev_egress = nested obj ''egress'' (\<lambda>get.
            \<lparr>we_egress_id = get ''egress_id'', we_room_id = get ''room_id'', we_room_name = get ''room_name''\<rparr>),
          ev_ingress = nested obj ''ingress'' (\<lambda>get.
            \<lparr>wi_ingress_id = get ''ingress_id'', wi_name = get ''name'', wi_room_name = get ''room_name''\<rparr>),
          ev_raw_body = String_jni obj ''raw_body''\<rparr>)"

record java_event =
  je_event :: jstring
  je_id :: jstring
  je_created_at :: int
  je_room :: "java_record option"
  je_participant :: "java_record option"
  je_track :: "java_record option"
  je_egress :: "java_record option"
  je_ingress :: "java_record option"
  je_raw :: jstring

definition optional_record ::
  "'w jvm \<Rightarrow> string \<Rightarrow> 'a option \<Rightarrow> ('a \<Rightarrow> string list) \<Rightarrow> ('w, java_record option) jio" where
  "optional_record vm name v members =
     (case v of
        None \<Rightarrow> jreturn None
      | Some x \<Rightarrow> jbind (Record vm name (members x)) (\<lambda>r. jreturn (Some r)))"

definition make_event :: "'w jvm \<Rightarrow> WebhookEvent \<Rightarrow> ('w, java_event) jio" where
  "make_event vm event =
     jbind (jni vm ''FindClass WebhookEvent'') (\<lambda>_.
     jbind (jni vm ''GetMethodID <init>'') (\<lambda>_.
     jbind (Text_jni vm (ev_event event)) (\<lambda>name.
     jbind (Text_jni vm (ev_id event)) (\<lambda>event_id.
     jbind (Text_jni vm (ev_raw_body event)) (\<lambda>raw.
     jbind (optional_record vm ''WebhookEvent$Room'' (ev_room event)
              (\<lambda>v. [wr_sid v, wr_name v, wr_metadata v])) (\<lambda>room.
     jbind (optional_record vm ''WebhookEvent$Participant'' (ev_participant event)
              (\<lambda>v. [wp_sid v, wp_identity v, wp_name v, wp_metadata v])) (\<lambda>participant.
     jbind (optional_record vm ''WebhookEvent$Track'' (ev_track event)
              (\<lambda>v. [wt_sid v, wt_name v])) (\<lambda>track.
     jbind (optional_record vm ''WebhookEvent$Egress'' (ev_egress event)
              (\<lambda>v. [we_egress_id v, we_room_id v, we_room_name v])) (\<lambda>egress.
     jbind (optional_record vm ''WebhookEvent$Ingress'' (ev_ingress event)
              (\<lambda>v. [wi_ingress_id v, wi_name v, wi_room_name v])) (\<lambda>ingress.
     jbind (jni vm ''NewObject'') (\<lambda>_.
     jreturn \<lparr>je_event = name, je_id = event_id, je_created_at = ev_created_at event, je_room = room,
              je_participant = participant, je_track = track, je_egress = egress, je_ingress = ingress,
              je_raw = raw\<rparr>)))))))))))"

definition webhook_options :: "string \<Rightarrow> string \<Rightarrow> bool \<Rightarrow> pb_struct" where
  "webhook_options body authorization use_key_provider =
     put ''use_key_provider'' (BoolValue use_key_provider)
       (put ''authorization'' (TextValue authorization)
         (put ''body'' (TextValue (Base64UrlEncode_str body)) []))"

definition receive_body ::
  "('w, 'm) binding \<Rightarrow> string option \<Rightarrow> string option \<Rightarrow> string option \<Rightarrow> 'w java_key_provider option \<Rightarrow>
     ('w, java_event option) jio" where
  "receive_body bi secrets body authorization key_provider =
     (jbind (jni (bi_jvm bi) ''EnsureLocalCapacity'') (\<lambda>_.
      jbind (Bytes_in (bi_jvm bi) body) (\<lambda>body_bytes.
      jbind (Bytes_in (bi_jvm bi) authorization) (\<lambda>auth.
      let opts = webhook_options body_bytes auth (key_provider \<noteq> None)
      in jbind (if key_provider = None
                then jbind (Parse_jni (bi_protobuf bi) (bi_jvm bi) secrets) (\<lambda>keys.
                       jreturn (put ''secrets'' (StructValue keys) opts))
                else jreturn opts) (\<lambda>opts.
         jbind (Invoke bi None key_provider (Input ''webhook'' opts)) (\<lambda>value.
         jbind (jlift (read_event (struct_value value))) (\<lambda>event.
         jbind (make_event (bi_jvm bi) event) (\<lambda>result. jreturn (Some result)))))))))"

definition Native_receive ::
  "('w, 'm) binding \<Rightarrow> string option \<Rightarrow> string option \<Rightarrow> string option \<Rightarrow> 'w java_key_provider option \<Rightarrow>
     'w jvm_state \<Rightarrow> java_event option result \<times> 'w jvm_state" where
  "Native_receive bi secrets body authorization key_provider =
     Guard (bi_jvm bi) (receive_body bi secrets body authorization key_provider)"

section \<open>Events\<close>

lemma NewObject_map: "map_of (foldl (\<lambda>obj (k, v). put k (Text v) obj) obj ms) =
    map_of obj ++ map_of (map (\<lambda>(k, v). (k, StringValue v)) (rev ms))"
  by (induction ms arbitrary: obj) (auto simp: Text_def map_add_def fun_eq_iff split: option.split)

lemma NewObject_map_of: "map_of (NewObject ms) = map_of (map (\<lambda>(k, v). (k, StringValue v)) (rev ms))"
  by (simp add: NewObject_def NewObject_map)

lemma put_present_map:
  "map_of (put_present n v f obj) k =
     (if k = n \<and> v \<noteq> None then map_option (\<lambda>x. StructValue (NewObject (f x))) v else map_of obj k)"
  by (cases v) (simp_all add: put_present_def)

lemma option_if_map: "(if v \<noteq> None then map_option f v else None) = map_option f v"
  by (cases v) simp_all

lemma String_jni_similar:
  "similar_structs s s' \<Longrightarrow> map_of s n = Some (StringValue t) \<Longrightarrow> String_jni s' n = t"
  by (simp add: String_jni_def Field_jni_def similar_get(1))

lemma nested_present:
  assumes "similar_structs s s'" "map_of s n = Some (StructValue (NewObject ms))" "distinct (map fst ms)"
  shows "nested s' n build = Some (build (\<lambda>k. String_jni (struct_value (Field_jni s' n)) k)) \<and>
    list_all (\<lambda>(k, v). String_jni (struct_value (Field_jni s' n)) k = v) ms"
proof -
  from similar_get(6) [OF assms(1,2)] obtain ms' where
    m: "map_of s' n = Some (StructValue ms')" "similar_structs (NewObject ms) ms'" by blast
  have "String_jni ms' k = v" if "(k, v) \<in> set ms" for k v
  proof (rule String_jni_similar [OF m(2)])
    have "map_of (map (\<lambda>(k, v). (k, StringValue v)) (rev ms)) k = Some (StringValue v)"
      using that assms(3) by (intro map_of_is_SomeI) (force simp: comp_def case_prod_unfold rev_map [symmetric])+
    then show "map_of (NewObject ms) k = Some (StringValue v)"
      by (simp add: NewObject_def NewObject_map)
  qed
  with m(1) show ?thesis by (auto simp: nested_def Field_jni_def list_all_iff)
qed

lemma nested_absent: "similar_structs s s' \<Longrightarrow> map_of s n = None \<Longrightarrow> nested s' n build = None"
  by (simp add: nested_def similar_get(7))

lemma nested_reads:
  assumes "similar_structs s s'" "map_of s n = map_option (\<lambda>v. StructValue (NewObject (f v))) x"
    and "\<And>v. distinct (map fst (f v))" "\<And>v get. list_all (\<lambda>(k, t). get k = t) (f v) \<Longrightarrow> build get = v"
  shows "nested s' n build = x"
proof (cases x)
  case None
  with assms(1,2) show ?thesis by (simp add: nested_absent)
next
  case (Some v)
  with assms(2) have "map_of s n = Some (StructValue (NewObject (f v)))" by simp
  from nested_present [OF assms(1) this assms(3), of build] assms(4) [of "\<lambda>k. String_jni (struct_value (Field_jni s' n)) k" v]
  show ?thesis by (simp add: Some)
qed

lemma event_object_map:
  "map_of (event_object e) ''event'' = Some (StringValue (ev_event e))"
  "map_of (event_object e) ''id'' = Some (StringValue (ev_id e))"
  "map_of (event_object e) ''raw_body'' = Some (StringValue (ev_raw_body e))"
  "map_of (event_object e) ''created_at'' = Some (StringValue (to_string (ev_created_at e)))"
  "map_of (event_object e) ''room'' = map_option (\<lambda>v. StructValue (NewObject
     [(''sid'', wr_sid v), (''name'', wr_name v), (''metadata'', wr_metadata v)])) (ev_room e)"
  "map_of (event_object e) ''participant'' = map_option (\<lambda>v. StructValue (NewObject
     [(''sid'', wp_sid v), (''identity'', wp_identity v), (''name'', wp_name v), (''metadata'', wp_metadata v)]))
     (ev_participant e)"
  "map_of (event_object e) ''track'' = map_option (\<lambda>v. StructValue (NewObject
     [(''sid'', wt_sid v), (''name'', wt_name v)])) (ev_track e)"
  "map_of (event_object e) ''egress'' = map_option (\<lambda>v. StructValue (NewObject
     [(''egress_id'', we_egress_id v), (''room_id'', we_room_id v), (''room_name'', we_room_name v)])) (ev_egress e)"
  "map_of (event_object e) ''ingress'' = map_option (\<lambda>v. StructValue (NewObject
     [(''ingress_id'', wi_ingress_id v), (''name'', wi_name v), (''room_name'', wi_room_name v)])) (ev_ingress e)"
  unfolding event_object_def Let_def put_present_map map_of_put
  by (simp_all add: NewObject_map_of Text_def option_if_map)

lemma read_event_similar:
  assumes "similar_structs (event_object event) obj" "in_int64 (ev_created_at event)"
  shows "read_event obj = Inr event"
proof -
  note m = event_object_map [of event]
  note got = String_jni_similar [OF assms(1)]
  have "stoll_or_throw (String_jni obj ''created_at'') = Inr (ev_created_at event)"
    using got [OF m(4)] stoll_to_string [OF assms(2)] by (simp add: stoll_or_throw_def)
  moreover note got [OF m(1)] got [OF m(2)] got [OF m(3)]
  moreover have "nested obj ''room'' (\<lambda>get. \<lparr>wr_sid = get ''sid'', wr_name = get ''name'', wr_metadata = get ''metadata''\<rparr>) = ev_room event"
    by (rule nested_reads [OF assms(1) m(5)]) simp_all
  moreover have "nested obj ''participant'' (\<lambda>get. \<lparr>wp_sid = get ''sid'', wp_identity = get ''identity'',
      wp_name = get ''name'', wp_metadata = get ''metadata''\<rparr>) = ev_participant event"
    by (rule nested_reads [OF assms(1) m(6)]) simp_all
  moreover have "nested obj ''track'' (\<lambda>get. \<lparr>wt_sid = get ''sid'', wt_name = get ''name''\<rparr>) = ev_track event"
    by (rule nested_reads [OF assms(1) m(7)]) simp_all
  moreover have "nested obj ''egress'' (\<lambda>get. \<lparr>we_egress_id = get ''egress_id'', we_room_id = get ''room_id'',
      we_room_name = get ''room_name''\<rparr>) = ev_egress event"
    by (rule nested_reads [OF assms(1) m(8)]) simp_all
  moreover have "nested obj ''ingress'' (\<lambda>get. \<lparr>wi_ingress_id = get ''ingress_id'', wi_name = get ''name'',
      wi_room_name = get ''room_name''\<rparr>) = ev_ingress event"
    by (rule nested_reads [OF assms(1) m(9)]) simp_all
  ultimately show ?thesis by (simp add: read_event_def)
qed

text \<open>
  C15. Webhook events reach Java intact: from any object that equals, up to the order of its fields,
  the one the C ABI writes for an event, the binding reads back exactly that event, with the same
  optional parts present and every field in its place.
\<close>

theorem event_roundtrip:
  assumes "similar_structs (event_object event) obj" "in_int64 (ev_created_at event)"
  shows "read_event obj = Inr event"
  using assms by (rule read_event_similar)

definition room_event :: WebhookEvent where
  "room_event =
     \<lparr>ev_event = ''room_started'', ev_id = ''e1'', ev_created_at = 7,
      ev_room = Some \<lparr>wr_sid = ''s'', wr_name = ''n'', wr_metadata = ''m''\<rparr>, ev_participant = None,
      ev_track = None, ev_egress = None, ev_ingress = None, ev_raw_body = ''{}''\<rparr>"

lemma event_roundtrip_witness:
  "similar_structs (event_object room_event) (event_object room_event) \<and>
   read_event (event_object room_event) = Inr room_event"
proof -
  have "portable (StructValue (event_object room_event))" by code_simp
  then have s: "similar_structs (event_object room_event) (event_object room_event)"
    unfolding similar_structs_def by (rule portable_similar)
  have "in_int64 (ev_created_at room_event)" by (simp add: room_event_def in_int64_def int64_min_def int64_max_def)
  from s event_roundtrip [OF s this] show ?thesis by blast
qed

section \<open>Invocation\<close>

lemma to_error_code_value: "to_error_code (error_code_value c) = Inr c"
  by (cases c) (simp_all add: to_error_code_def error_codes_def)

definition in_int32 :: "int \<Rightarrow> bool" where
  "in_int32 i \<longleftrightarrow> - 2147483648 \<le> i \<and> i \<le> 2147483647"

lemma double_to_int_of_int: "in_int32 i \<Longrightarrow> double_to_int (real_of_int i) = Inr i"
  by (auto simp: double_to_int_def in_int32_def)

lemma error_code_value_int32: "in_int32 (error_code_value c)"
  by (cases c) (simp_all add: in_int32_def)

text \<open>What the C ABI can carry: text in UTF-8 and numbers of 32 bits.\<close>

fun portable_outcome :: "pb_value result \<Rightarrow> bool" where
  "portable_outcome (Inr v) \<longleftrightarrow> portable v"
| "portable_outcome (Inl f) \<longleftrightarrow>
     (case reported_error f of
        None \<Rightarrow> False
      | Some e \<Rightarrow> utf8 (error_what e) \<and> utf8 (err_twirp_code e) \<and> in_int32 (err_http_status e))"

text \<open>What the binding makes of an outcome.\<close>

fun carried :: "pb_value result \<Rightarrow> java_fault + pb_value \<Rightarrow> bool" where
  "carried (Inr v) r \<longleftrightarrow> (\<exists>v'. r = Inr v' \<and> similar v v')"
| "carried (Inl f) r \<longleftrightarrow> (\<exists>e. reported_error f = Some e \<and> r = Inl (Native (Throw (shown e))))"

lemma read_answer_error:
  assumes "reports_error e obj" "similar_structs obj obj'" "in_int32 (err_http_status e)"
  shows "read_answer obj' = Inl (Throw (shown e))"
proof -
  note got = similar_get(1-3) [OF assms(2)]
  have m: "map_of obj ''ok'' = Some (BoolValue False)"
    "map_of obj ''code'' = Some (NumberValue (real_of_int (error_code_value (err_code e))))"
    "map_of obj ''http_status'' = Some (NumberValue (real_of_int (err_http_status e)))"
    "map_of obj ''twirp_code'' = Some (StringValue (err_twirp_code e))"
    "map_of obj ''message'' = Some (StringValue (error_what e))"
    using assms(1) by (simp_all add: reports_error_def)
  from got(2) [OF m(1)] got(3) [OF m(2)] got(3) [OF m(3)] got(1) [OF m(4)] got(1) [OF m(5)] show ?thesis
    by (simp add: read_answer_def Bool_jni_def String_jni_def Field_jni_def double_to_int_of_int
        error_code_value_int32 to_error_code_value assms(3) shown_def)
qed

lemma read_answer_value:
  assumes "map_of obj = [''ok'' \<mapsto> BoolValue True, ''value'' \<mapsto> v]" "similar_structs obj obj'" 
  shows "\<exists>v'. read_answer obj' = Inr v' \<and> similar v v'"
proof -
  have "rel_option similar (map_of obj ''value'') (map_of obj' ''value'')"
    using assms(2) unfolding similar_structs_def by auto
  then obtain v' where "map_of obj' ''value'' = Some v'" "similar v v'"
    using assms(1) by (auto simp: option_rel_Some1)
  moreover have "map_of obj' ''ok'' = Some (BoolValue True)"
    using similar_get(2) [OF assms(2)] assms(1) by simp
  ultimately show ?thesis by (simp add: read_answer_def Bool_jni_def Field_jni_def)
qed

lemma answer_portable:
  assumes "answer outcome = Inr obj" "portable_outcome outcome"
  shows "portable (StructValue obj)"
proof -
  have ascii: "utf8 ''ok''" "utf8 ''value''" "utf8 ''code''" "utf8 ''http_status''" "utf8 ''twirp_code''" "utf8 ''message''"
    by code_simp+
  with assms show ?thesis
    by (cases outcome rule: answer.cases) (auto simp: Failure_def Text_def Let_def)
qed

lemma answer_total: "portable_outcome outcome \<Longrightarrow> \<exists>obj. answer outcome = Inr obj"
  by (cases outcome rule: answer.cases) auto


lemma lks_invoke_output:
  assumes "json_exchange pb" "malloc = (\<lambda>n c. (True, c))"
    and "execute_input pb pf input callback w = (outcome, w')" "portable_outcome outcome"
  shows "\<exists>doc obj obj'. answer outcome = Inr obj \<and> similar_structs obj obj' \<and>
    pb_parse_struct pb doc = Some obj' \<and>
    lks_invoke pb pf malloc input callback (Some n) w = (Inr (Some (doc @ [CHR 0x00]), Some (length doc)), w')"
proof -
  obtain obj where obj: "answer outcome = Inr obj" using answer_total [OF assms(4)] by blast
  from json_exchange.exchange [OF assms(1) answer_portable [OF obj assms(4)]] obtain doc obj' where
    d: "pb_print_struct pb obj = Some doc" "pb_parse_struct pb doc = Some obj'" "similar_structs obj obj'" by blast
  have "lks_invoke pb pf malloc input callback (Some n) w = (Inr (Some (doc @ [CHR 0x00]), Some (length doc)), w')"
    using assms(2,3) obj d(1) by (simp add: lks_invoke_def Copy_def Encode_def)
  with obj d show ?thesis by blast
qed

lemma Invoke_outcome:
  assumes "json_exchange (bi_protobuf bi)" and "bi_malloc bi = (\<lambda>n c. (True, c))"
    and "pb_print_struct (bi_protobuf bi) input = Some json"
    and "execute_input (bi_protobuf bi) (bi_platform bi) (Some json)
        (Some (Exchange_jni (bi_protobuf bi) (bi_jvm bi) transport key_provider))
        \<lparr>cx_env = env, cx_responses = [], cx_failure = None\<rparr> = (outcome, context)"
    and "portable_outcome outcome"
  shows "\<exists>r. Invoke bi transport key_provider input env = (r, cx_env context) \<and>
    (case cx_failure context of Some f \<Rightarrow> r = Inl f | None \<Rightarrow> carried outcome r)"
proof -
  from lks_invoke_output [OF assms(1,2,4,5), of 0] obtain doc obj obj' where
    o: "answer outcome = Inr obj" "similar_structs obj obj'" "pb_parse_struct (bi_protobuf bi) doc = Some obj'" and
    run: "lks_invoke (bi_protobuf bi) (bi_platform bi) (bi_malloc bi) (Some json)
        (Some (Exchange_jni (bi_protobuf bi) (bi_jvm bi) transport key_provider)) (Some 0)
        \<lparr>cx_env = env, cx_responses = [], cx_failure = None\<rparr> =
      (Inr (Some (doc @ [CHR 0x00]), Some (length doc)), context)" by blast
  have i: "Invoke bi transport key_provider input env =
      (read_output (bi_protobuf bi) (cx_failure context) (Some (doc @ [CHR 0x00])) (length doc), cx_env context)"
    by (simp add: Invoke_def Encode_jni_def assms(3) run)
  show ?thesis
  proof (cases "cx_failure context")
    case None
    from answer_reports [OF o(1)] have "carried outcome (read_output (bi_protobuf bi) None (Some (doc @ [CHR 0x00])) (length doc))"
    proof (cases outcome)
      case (Inl f)
      with assms(5) obtain e where e: "reported_error f = Some e" "in_int32 (err_http_status e)"
        by (auto split: option.splits)
      with Inl answer_reports [OF o(1)] have "reports_error e obj" by (simp add: reports_def)
      from read_answer_error [OF this o(2) e(2)] Inl e(1) o(3) show ?thesis
        by (simp add: read_output_def ParseJson_def)
    next
      case (Inr v)
      with answer_reports [OF o(1)] have "map_of obj = [''ok'' \<mapsto> BoolValue True, ''value'' \<mapsto> v]"
        by (simp add: reports_def)
      from read_answer_value [OF this o(2)] Inr o(3) show ?thesis
        by (auto simp: read_output_def ParseJson_def)
    qed
    with i None show ?thesis by simp
  qed (simp add: i read_output_def)
qed


lemma json_protobuf_parse:
  assumes "portable (StructValue s)"
  shows "pb_parse_struct json_protobuf (write_value (StructValue s)) = Some s"
  using denotes_json_read [OF denotes_write_value [OF assms]] json_value_of_value [OF assms]
  by (simp add: json_protobuf_def reader_protobuf_def)

lemma json_protobuf_print:
  "pb_print_struct json_protobuf s = Some json \<Longrightarrow> json = write_value (StructValue s)"
  unfolding json_protobuf_def by (simp del: write_value.simps portable.simps split: if_splits)

definition quiet_platform :: "'w platform" where
  "quiet_platform =
     \<lparr>pf_windows = False, pf_getenv = (\<lambda>_. None), pf_random_device = io_return (),
      pf_random = io_return 0, pf_gen_random = (\<lambda>n w. ((True, \<lambda>_. 0), w)), pf_now = (\<lambda>w. (0, w)), pf_ticks = 1,
      pf_default_transport = io_lift (throw ec_transport ''none''), pf_crypto = zero_backend\<rparr>"

definition quiet_jvm :: "'w jvm" where
  "quiet_jvm =
     \<lparr>jm_raises = (\<lambda>name w. (False, w)), jm_text = (\<lambda>s w. ((map of_char s, False), w)),
      jm_bytes = (\<lambda>s w. ((Some [], False), w)), jm_utf_chars = (\<lambda>s w. (([], False), w))\<rparr>"

definition quiet_binding :: "(unit, string) binding" where
  "quiet_binding =
     \<lparr>bi_protobuf = json_protobuf, bi_platform = quiet_platform, bi_malloc = (\<lambda>n c. (True, c)),
      bi_jvm = quiet_jvm\<rparr>"

definition quiet_env :: "unit jvm_state" where
  "quiet_env = \<lparr>jv_pending = None, jv_frames = 0, jv_world = ()\<rparr>"


section \<open>Requests\<close>

lemma utf8_ascii: "list_all (\<lambda>c. (of_char c :: nat) < 128) s \<Longrightarrow> utf8 s"
  by (induction s) (simp_all add: Let_def)

lemma Base64_all:
  assumes "\<And>i. i < 64 \<Longrightarrow> P (alphabet ! i)" "P (CHR ''='')"
  shows "list_all P (Base64 bs alphabet padding)"
  using assms by (induction bs rule: triple_induct) (auto simp: Let_def)

lemma url_alphabet_ascii: "list_all (\<lambda>i. (of_char (url_alphabet ! i) :: nat) < 128) [0..<64]"
  by code_simp

lemma utf8_Base64Url [simp]: "utf8 (Base64UrlEncode_str s)"
  unfolding Base64UrlEncode_str_def Base64UrlEncode_def
  by (intro utf8_ascii Base64_all) (use url_alphabet_ascii in \<open>auto simp: list_all_iff\<close>)

lemma utf8_to_string [simp]: "utf8 (to_string i)"
proof (rule utf8_ascii)
  show "list_all (\<lambda>c. (of_char c :: nat) < 128) (to_string i)"
    using show_nat_10_digits [of "nat i"] show_nat_10_digits [of "nat (- i)"]
    by (force simp: to_string_def list_all_iff is_digit_def)
qed

definition portable_request :: "HttpRequest \<Rightarrow> bool" where
  "portable_request q \<longleftrightarrow> utf8 (hr_url q) \<and> utf8 (hr_method q) \<and>
     list_all (\<lambda>(k, v). utf8 k \<and> utf8 v) (hr_headers q) \<and> in_int64 (hr_timeout q)"

lemma transport_data_map:
  "map_of (transport_data q) ''kind'' = Some (StringValue ''transport'')"
  "map_of (transport_data q) ''url'' = Some (StringValue (hr_url q))"
  "map_of (transport_data q) ''method'' = Some (StringValue (hr_method q))"
  "map_of (transport_data q) ''body'' = Some (StringValue (Base64UrlEncode_str (hr_body q)))"
  "map_of (transport_data q) ''timeout_ms'' = Some (StringValue (to_string (hr_timeout q)))"
  "map_of (transport_data q) ''headers'' = Some (ListValue (map header_value (hr_headers q)))"
  by (simp_all add: transport_data_def Let_def Text_def)

lemma transport_data_portable:
  assumes "portable_request q"
  shows "portable (StructValue (transport_data q))"
proof -
  have names: "utf8 ''kind''" "utf8 ''transport''" "utf8 ''url''" "utf8 ''method''" "utf8 ''body''"
    "utf8 ''timeout_ms''" "utf8 ''headers''"
    by code_simp+
  with assms show ?thesis
    by (auto simp: transport_data_def Let_def Text_def portable_request_def header_value_def list_all_iff)
qed

lemma header_pairs_similar:
  "list_all2 similar (map header_value hs) vs \<Longrightarrow> header_pairs vs = Inr hs"
proof (induction hs arbitrary: vs)
  case (Cons h hs)
  then obtain v vs' where v: "vs = v # vs'" "similar (header_value h) v" "list_all2 similar (map header_value hs) vs'"
    by (auto simp: list_all2_Cons1)
  from v(2) have "v = ListValue [StringValue (fst h), StringValue (snd h)]"
    by (auto simp: header_value_def Text_def list_all2_Cons1)
  with v(1) Cons.IH [OF v(3)] show ?case by simp
qed simp

lemma read_request_similar:
  assumes "similar_structs (transport_data q) input" "in_int64 (hr_timeout q)"
  shows "read_request input = Inr q" "String_jni input ''kind'' = ''transport''"
proof -
  note m = transport_data_map [of q]
  note got = String_jni_similar [OF assms(1)]
  obtain vs where "map_of input ''headers'' = Some (ListValue vs)" "list_all2 similar (map header_value (hr_headers q)) vs"
    using similar_get(5) [OF assms(1) m(6)] by blast
  then have "header_pairs (list_value (Field_jni input ''headers'')) = Inr (hr_headers q)"
    by (simp add: Field_jni_def header_pairs_similar)
  then show "read_request input = Inr q"
    using stoll_to_string [OF assms(2)]
    by (simp add: read_request_def got [OF m(2)] got [OF m(3)] got [OF m(4)] got [OF m(5)] stoll_or_throw_def
        Base64UrlEncode_str_def Base64UrlEncode_def url.decode_encode)
  show "String_jni input ''kind'' = ''transport''" by (rule got [OF m(1)])
qed

lemma jbind_Inr:
  "jbind m f s = (Inr y, s'') \<longleftrightarrow> (\<exists>x s'. m s = (Inr x, s') \<and> f x s' = (Inr y, s''))"
  by (auto simp: jbind_def split: prod.splits sum.splits)

definition java_response :: "HttpResponse \<Rightarrow> bool" where
  "java_response response \<longleftrightarrow>
     (\<exists>status body. response = \<lparr>rs_status_code = sint (status :: 32 word), rs_headers = [], rs_body = body\<rparr>)"

definition yields :: "('a \<Rightarrow> bool) \<Rightarrow> ('w, 'a) jio \<Rightarrow> bool" where
  "yields P m \<longleftrightarrow> (\<forall>s x s'. m s = (Inr x, s') \<longrightarrow> P x)"

lemma yields_intros:
  "(\<And>x. yields P (f x)) \<Longrightarrow> yields P (jbind m f)" "P x \<Longrightarrow> yields P (jreturn x)"
  "yields P (jlift (throw c t))" "yields P (jlift (Inl f'))" "yields P m' \<Longrightarrow> yields P (with_frame vm m')"
  by (fastforce simp: yields_def jbind_Inr jreturn_def jlift_def throw_def with_frame_def split: prod.splits bool.splits)+

lemma yields_splits:
  "yields P m \<Longrightarrow> yields P m' \<Longrightarrow> yields P (if c then m else m')"
  "yields P m \<Longrightarrow> (\<And>x. yields P (f x)) \<Longrightarrow> yields P (case v of None \<Rightarrow> m | Some x \<Rightarrow> f x)"
  "(\<And>a b. yields P (g a b)) \<Longrightarrow> yields P (case p of (a, b) \<Rightarrow> g a b)"
  by (simp_all split: option.split prod.split)

lemma java_responseI: "java_response \<lparr>rs_status_code = sint (status :: 32 word), rs_headers = [], rs_body = body\<rparr>"
  unfolding java_response_def by blast

lemma JavaTransport_yields: "yields java_response (JavaTransport_Send vm transport q)"
  unfolding JavaTransport_Send_def by (intro yields_intros yields_splits java_responseI)

lemma JavaTransport_response:
  assumes "JavaTransport_Send vm transport q s = (Inr response, s')"
  shows "in_int64 (rs_status_code response)"
    "response = \<lparr>rs_status_code = rs_status_code response, rs_headers = [], rs_body = rs_body response\<rparr>"
proof -
  from JavaTransport_yields [of vm transport q] assms obtain status :: "32 word" and body where
    r: "response = \<lparr>rs_status_code = sint status, rs_headers = [], rs_body = body\<rparr>"
    unfolding yields_def java_response_def by blast
  have "- (2 ^ 31) \<le> sint status" "sint status < 2 ^ 31"
    using sint_greater_eq [of status] sint_less [of status] by simp_all
  then show "in_int64 (rs_status_code response)" by (simp add: r in_int64_def int64_min_def int64_max_def)
  show "response = \<lparr>rs_status_code = rs_status_code response, rs_headers = [], rs_body = rs_body response\<rparr>"
    by (simp add: r)
qed

text \<open>The object Java's answer is sent back as, and how the C side reads it.\<close>

definition response_object :: "HttpResponse \<Rightarrow> pb_struct" where
  "response_object response =
     put ''body'' (TextValue (Base64UrlEncode_str (rs_body response)))
       (put ''status_code'' (TextValue (to_string (rs_status_code response))) [])"

lemma response_object_portable:
  "portable (StructValue (response_object response))"
proof -
  have "utf8 ''body''" "utf8 ''status_code''" by code_simp+
  then show ?thesis by (simp add: response_object_def TextValue_def)
qed

lemma read_response_object:
  assumes "similar_structs (response_object response) obj" "in_int64 (rs_status_code response)"
  shows "Boolean obj ''error'' = Inr False" "Integer obj ''status_code'' = Inr (rs_status_code response)"
    "DecodeBody obj ''body'' = Inr (rs_body response)"
proof -
  have "map_of (response_object response) ''error'' = None" by (simp add: response_object_def)
  from similar_get(7) [OF assms(1) this] show "Boolean obj ''error'' = Inr False"
    by (simp add: Boolean_def Field_def)
  have "map_of obj ''status_code'' = Some (StringValue (to_string (rs_status_code response)))"
    by (rule similar_get(1) [OF assms(1)]) (simp add: response_object_def TextValue_def)
  then show "Integer obj ''status_code'' = Inr (rs_status_code response)"
    by (intro Integer_Text) (simp_all add: Text_def assms(2))
  have "map_of obj ''body'' = Some (StringValue (Base64UrlEncode_str (rs_body response)))"
    by (rule similar_get(1) [OF assms(1)]) (simp add: response_object_def TextValue_def)
  then show "DecodeBody obj ''body'' = Inr (rs_body response)"
    by (intro DecodeBody_Text) (simp add: Text_def)
qed


definition sample_java_transport :: "unit java_transport" where
  "sample_java_transport url rpc headers body timeout w = ((Some (200, Some ''hi''), False), w)"


section \<open>Option names\<close>

lemma snake_name_inject:
  "CHR ''_'' \<notin> set k \<Longrightarrow> CHR ''_'' \<notin> set k' \<Longrightarrow> snake_name k = snake_name k' \<Longrightarrow> k = k'"
proof (induction k arbitrary: k')
  case Nil
  then show ?case by (cases k') (auto simp: Let_def split: if_splits)
next
  case (Cons c k)
  then obtain c' r where k': "k' = c' # r" by (cases k') (auto simp: Let_def split: if_splits)
  define up where "up = (\<lambda>c. 65 \<le> (of_char c :: nat) \<and> of_char c \<le> (90 :: nat))"
  have split: "snake_name (d # s) = (if up d then [CHR ''_'', char_of (of_char d + 32 :: nat)] else [d]) @ snake_name s" for d s
    by (simp add: up_def Let_def)
  have "up c = up c'"
    using Cons.prems unfolding k' split by (auto split: if_splits)
  moreover have "c = c'" if "up c" "up c'"
  proof -
    from Cons.prems(3) that have "char_of (of_char c + 32 :: nat) = (char_of (of_char c' + 32 :: nat) :: char)"
      unfolding k' split by simp
    then have "(of_char c + 32 :: nat) mod 256 = (of_char c' + 32) mod 256"
      by (metis of_char_of)
    with that have "(of_char c :: nat) = of_char c'" by (simp add: up_def)
    then show ?thesis by simp
  qed
  moreover have "c = c'" if "\<not> up c" "\<not> up c'" using Cons.prems(3) that unfolding k' split by simp
  ultimately have c: "c = c'" by blast
  with Cons.prems(3) have "snake_name k = snake_name r" unfolding k' split by (auto split: if_splits)
  with Cons.IH [of r] Cons.prems(1,2) c k' show ?case by simp
qed

lemma options_loop_map:
  "map_of (options_loop f source) n = map_of (rev (map (\<lambda>(k, v). (snake_name k, f k v)) source)) n"
proof -
  have "map_of (foldl (\<lambda>result (key, v). put (snake_name key) (f key v) result) acc source) n =
      (case map_of (rev (map (\<lambda>(k, v). (snake_name k, f k v)) source)) n of None \<Rightarrow> map_of acc n | Some v \<Rightarrow> Some v)"
    for acc
    by (induction source arbitrary: acc) (auto split: option.split)
  then show ?thesis by (simp add: options_loop_def split: option.split)
qed

definition camel :: "string \<Rightarrow> bool" where
  "camel k \<longleftrightarrow> CHR ''_'' \<notin> set k"

lemma options_loop_get:
  assumes "distinct (map fst source)" "list_all camel (map fst source)" "camel key"
  shows "map_of (options_loop f source) (snake_name key) = map_option (f key) (map_of source key)"
proof (cases "map_of source key")
  case None
  then have "snake_name key \<notin> snake_name ` fst ` set source"
    using assms(2,3) snake_name_inject [of key] by (auto simp: camel_def list_all_iff map_of_eq_None_iff image_iff)
  then have "map_of (rev (map (\<lambda>(k, v). (snake_name k, f k v)) source)) (snake_name key) = None"
    by (auto simp: map_of_eq_None_iff image_iff case_prod_unfold)
  with None show ?thesis by (simp add: options_loop_map)
next
  case (Some v)
  have "inj_on snake_name (set (map fst source))"
    using assms(2) snake_name_inject by (auto simp: inj_on_def list_all_iff camel_def)
  then have "distinct (map snake_name (map fst source))" using assms(1) by (auto simp: distinct_map intro: comp_inj_on)
  then have "distinct (map fst (rev (map (\<lambda>(k, v). (snake_name k, f k v)) source)))"
    by (simp add: rev_map [symmetric] comp_def case_prod_unfold)
  moreover have "(snake_name key, f key v) \<in> set (rev (map (\<lambda>(k, v). (snake_name k, f k v)) source))"
    using map_of_SomeD [OF Some] by force
  ultimately show ?thesis using Some by (simp add: options_loop_map)
qed

text \<open>
  C38. Options of Java are translated faithfully: when no name holds an underscore, as Java names do
  not, distinct options keep distinct names, and the option a Java name stands for is found under
  its translated name with its own value, in which only the members of a grant are renamed, by the
  same rule; a name Java did not give is not found.
\<close>

theorem options_are_translated:
  assumes "distinct (map fst source)" "list_all camel (map fst source)" "camel key"
  shows "map_of (Options_jni grants source) (snake_name key) =
    map_option (\<lambda>v. if grants \<and> is_grant key then StructValue (options_loop (\<lambda>_ v. v) (struct_value v)) else v)
      (map_of source key)"
  unfolding Options_jni_def by (rule options_loop_get [OF assms])

lemma options_are_translated_witness:
  "map_of (Options_jni True [(''apiKey'', Text ''k''), (''video'', StructValue [(''roomJoin'', BoolValue True)])])
     (snake_name ''video'') = Some (StructValue [(''room_join'', BoolValue True)]) \<and>
   map_of (Options_jni True [(''apiKey'', Text ''k''), (''video'', StructValue [(''roomJoin'', BoolValue True)])])
     (snake_name ''apiKey'') = Some (Text ''k'')"
proof -
  define source where "source = [(''apiKey'', Text ''k''), (''video'', StructValue [(''roomJoin'', BoolValue True)])]"
  have s: "distinct (map fst source)" "list_all camel (map fst source)" "camel ''video''" "camel ''apiKey''"
    by (simp_all add: source_def camel_def)
  have "snake_name ''roomJoin'' = ''room_join''" by code_simp
  then show ?thesis
    unfolding source_def [symmetric] options_are_translated [OF s(1,2,3)] options_are_translated [OF s(1,2,4)]
    by (simp add: source_def is_grant_def options_loop_def)
qed

end
