(* ===== verification/Preservation.thy ===== *)
theory Preservation
  imports CApi
begin

text \<open>
  What a call of the C ABI leaves alone. A property of the world that the platform, the allocator
  and the callback keep is kept by \<^verbatim>\<open>lks_invoke\<close>, whatever operation it runs: the library reaches the
  world through nothing else. A binding uses this for the state of its language's runtime, which
  only its own callbacks may touch.
\<close>

named_theorems keeps_intros \<open>rules that decompose a computation that keeps a property\<close>

definition keeps :: "('w \<Rightarrow> bool) \<Rightarrow> ('w, 'a) io \<Rightarrow> bool" where
  "keeps I m \<longleftrightarrow> (\<forall>w. I w \<longrightarrow> I (snd (m w)))"

lemma keepsI: "(\<And>w. I w \<Longrightarrow> I (snd (m w))) \<Longrightarrow> keeps I m"
  by (simp add: keeps_def)

lemma keepsD: "keeps I m \<Longrightarrow> I w \<Longrightarrow> I (snd (m w))"
  by (simp add: keeps_def)

lemma keeps_return [keeps_intros]: "keeps I (io_return x)"
  by (simp add: keeps_def io_return_def)

lemma keeps_lift [keeps_intros]: "keeps I (io_lift r)"
  by (simp add: keeps_def io_lift_def)

lemma keeps_bind [keeps_intros]: "keeps I m \<Longrightarrow> (\<And>x. keeps I (f x)) \<Longrightarrow> keeps I (io_bind m f)"
  by (fastforce simp: keeps_def io_bind_def split: prod.split sum.split)

lemma keeps_splits [keeps_intros]:
  "keeps I m \<Longrightarrow> keeps I m' \<Longrightarrow> keeps I (if c then m else m')"
  "keeps I m \<Longrightarrow> (\<And>x. keeps I (f x)) \<Longrightarrow> keeps I (case v of None \<Rightarrow> m | Some x \<Rightarrow> f x)"
  "(\<And>a b. keeps I (g a b)) \<Longrightarrow> keeps I (case p of (a, b) \<Rightarrow> g a b)"
  by (simp_all split: option.split prod.split)

text \<open>A value that comes out of a computation may matter to what follows.\<close>

lemma keeps_bind_value:
  assumes "keeps I m" "\<And>w x w'. m w = (Inr x, w') \<Longrightarrow> P x" "\<And>x. P x \<Longrightarrow> keeps I (f x)"
  shows "keeps I (io_bind m f)"
proof (rule keepsI)
  fix w
  assume "I w"
  with assms(1) have "I (snd (m w))" by (rule keepsD)
  then show "I (snd (io_bind m f w))"
    using keepsD [OF assms(3) [OF assms(2)]] by (fastforce simp: io_bind_def split: prod.split sum.split)
qed

lemma keeps_lift_value:
  "(\<And>x. r = Inr x \<Longrightarrow> keeps I (f x)) \<Longrightarrow> keeps I (io_bind (io_lift r) f)"
  by (cases r) (simp_all add: keeps_lift)

section \<open>Platforms\<close>

definition transport_keeps :: "('w \<Rightarrow> bool) \<Rightarrow> 'w transport \<Rightarrow> bool" where
  "transport_keeps I send \<longleftrightarrow> (\<forall>request. keeps I (send request))"

definition platform_keeps :: "('w \<Rightarrow> bool) \<Rightarrow> 'w platform \<Rightarrow> bool" where
  "platform_keeps I pf \<longleftrightarrow>
     keeps I (pf_random_device pf) \<and> keeps I (pf_random pf) \<and>
     (\<forall>n w. I w \<longrightarrow> I (snd (pf_gen_random pf n w))) \<and> (\<forall>w. I w \<longrightarrow> I (snd (pf_now pf w))) \<and>
     keeps I (pf_default_transport pf) \<and>
     (\<forall>w send w'. pf_default_transport pf w = (Inr send, w') \<longrightarrow> transport_keeps I send)"

lemma platform_keepsD:
  assumes "platform_keeps I pf"
  shows "keeps I (pf_random_device pf)" "keeps I (pf_random pf)" "keeps I (pf_default_transport pf)"
    "keeps I (io_now pf)"
    "pf_default_transport pf w = (Inr send, w') \<Longrightarrow> transport_keeps I send"
proof -
  have "keeps I (io_now pf) \<longleftrightarrow> (\<forall>w. I w \<longrightarrow> I (snd (pf_now pf w)))"
    by (simp add: keeps_def io_now_def split_beta)
  with assms show "keeps I (pf_random_device pf)" "keeps I (pf_random pf)" "keeps I (pf_default_transport pf)"
    "keeps I (io_now pf)" "pf_default_transport pf w = (Inr send, w') \<Longrightarrow> transport_keeps I send"
    unfolding platform_keeps_def by blast+
qed

lemma keeps_draw_bytes:
  assumes "platform_keeps I pf"
  shows "keeps I (draw_bytes pf n)"
  by (induction n) (auto intro!: keeps_intros platform_keepsD [OF assms])

lemma keeps_random_bytes:
  assumes "platform_keeps I pf"
  shows "keeps I (random_bytes pf n)"
proof (cases "pf_windows pf")
  case True
  with assms show ?thesis
    by (simp add: random_bytes_def platform_keeps_def keeps_def split_beta)
next
  case False
  then show ?thesis
    by (auto simp: random_bytes_def intro!: keeps_intros platform_keepsD [OF assms] keeps_draw_bytes [OF assms])
qed

section \<open>Calls of the services\<close>

lemma keeps_RequestId: "platform_keeps I pf \<Longrightarrow> keeps I (RequestId pf)"
  unfolding RequestId_def by (intro keeps_intros keeps_random_bytes)

lemma keeps_TokenFor: "platform_keeps I pf \<Longrightarrow> keeps I (TokenFor pf ctx grant)"
  unfolding TokenFor_def by (intro keeps_intros platform_keepsD(4))

lemma keeps_Call:
  assumes "platform_keeps I pf" "transport_keeps I (cc_transport ctx)"
  shows "keeps I (Call pb pf ctx service rpc request response grant)"
  using assms(2) unfolding Call_def transport_keeps_def
  by (intro keeps_intros keeps_TokenFor keeps_RequestId assms(1)) blast

definition client_keeps :: "('w \<Rightarrow> bool) \<Rightarrow> ('w, 'm) client \<Rightarrow> bool" where
  "client_keeps I c \<longleftrightarrow> platform_keeps I (cl_platform c) \<and> transport_keeps I (cc_transport (cl_context c))"

lemma keeps_context_call: "client_keeps I c \<Longrightarrow> keeps I (context_call c service rpc request response grant)"
  unfolding context_call_def client_keeps_def by (intro keeps_Call) auto

lemma keeps_run_row:
  assumes "client_keeps I c"
  shows "keeps I (run_row service r c model)"
proof -
  have "keeps I (complete r c m)" for m
    using assms unfolding complete_def client_keeps_def by (intro keeps_intros keeps_random_bytes) auto
  then show ?thesis
    unfolding run_row_def model_method_def row_call_def
    by (intro keeps_intros keeps_context_call assms) auto
qed

lemma keeps_dispatch_Call:
  assumes "client_keeps I c"
  shows "keeps I (dispatch_Call (clients_of c) operation request)"
proof (cases "map_of api_contract operation")
  case None
  then show ?thesis by (simp add: dispatch_Call_unknown keeps_lift)
next
  case (Some sr)
  then obtain s r where "map_of api_contract operation = Some (s, r)" by (cases sr) auto
  then show ?thesis
    using assms by (auto simp: dispatch_Call_known json_of_def intro!: keeps_intros keeps_run_row)
qed

lemma keeps_GetDispatchModel:
  assumes "client_keeps I c"
  shows "keeps I (GetDispatchModel c dispatch_id room)"
  unfolding GetDispatchModel_def ListDispatch_def AgentDispatchService_Call_def Let_def
  by (intro keeps_intros keeps_context_call assms)

text \<open>The client a call of the API builds keeps what its transport keeps.\<close>

definition options_keep :: "('w \<Rightarrow> bool) \<Rightarrow> 'w ApiOptions \<Rightarrow> bool" where
  "options_keep I options \<longleftrightarrow> (case ao_transport options of None \<Rightarrow> True | Some send \<Rightarrow> transport_keeps I send)"

lemma keeps_new_ClientContext:
  assumes "platform_keeps I pf"
  shows "keeps I (new_ClientContext pf options)"
  unfolding new_ClientContext_def Let_def
  by (intro keeps_intros platform_keepsD(3) assms)

lemma new_ClientContext_transport:
  assumes "new_ClientContext pf options w = (Inr ctx, w')" "platform_keeps I pf" "options_keep I options"
  shows "transport_keeps I (cc_transport ctx)"
proof -
  from assms(1) obtain w0 where
    "(case ao_transport options of None \<Rightarrow> pf_default_transport pf | Some t \<Rightarrow> io_return t) w0 =
       (Inr (cc_transport ctx), w')"
    unfolding new_ClientContext_def Let_def
    by (auto split: if_splits prod.splits)
  with assms(2,3) show ?thesis
    by (auto simp: options_keep_def split: option.splits intro: platform_keepsD(5))
qed

lemma keeps_new_LiveKitApi:
  assumes "platform_keeps I pf" "options_keep I options"
    and "\<And>c. client_keeps I c \<Longrightarrow> keeps I (f (clients_of c))"
  shows "keeps I (io_bind (new_LiveKitApi pb pf options) f)"
  unfolding new_LiveKitApi_def io_bind_assoc io_bind_return
  by (rule keeps_bind_value [where P = "\<lambda>ctx. transport_keeps I (cc_transport ctx)"])
    (use assms in \<open>auto simp: client_keeps_def intro: keeps_new_ClientContext new_ClientContext_transport\<close>)

section \<open>Webhooks\<close>

lemma keeps_Receive:
  assumes "platform_keeps I pf" "\<And>key. keeps I (wr_key_provider r key)"
  shows "keeps I (Receive pb pf r body authorization)"
  unfolding Receive_def ReceiveAt_def Let_def
  by (intro keeps_intros platform_keepsD(4) assms)

section \<open>The ABI\<close>

definition callback_keeps :: "('w \<Rightarrow> bool) \<Rightarrow> 'w lks_callback \<Rightarrow> bool" where
  "callback_keeps I cb \<longleftrightarrow> (\<forall>json w. I w \<longrightarrow> I (snd (cb json w)))"

lemma keeps_wrap_callback: "callback_keeps I cb \<Longrightarrow> keeps I (wrap_callback cb json)"
  by (auto simp: callback_keeps_def keeps_def wrap_callback_def split_beta)

lemma keeps_Exchange:
  assumes "\<And>cb. callback = Some cb \<Longrightarrow> callback_keeps I cb"
  shows "keeps I (Exchange pb (map_option wrap_callback callback) request)"
  using assms
  by (cases callback) (auto simp: Exchange_def intro!: keeps_intros keeps_wrap_callback)

lemma keeps_CallbackTransport:
  assumes "\<And>cb. callback = Some cb \<Longrightarrow> callback_keeps I cb"
  shows "transport_keeps I (CallbackTransport_Send pb (map_option wrap_callback callback))"
  unfolding transport_keeps_def CallbackTransport_Send_def
  by (intro allI keeps_intros keeps_Exchange assms)

lemma Options_keep:
  assumes "Options pb obj (map_option wrap_callback callback) = Inr options"
    "\<And>cb. callback = Some cb \<Longrightarrow> callback_keeps I cb"
  shows "options_keep I options"
proof -
  from assms(1) have "ao_transport options = None \<or>
      ao_transport options = Some (CallbackTransport_Send pb (map_option wrap_callback callback))"
    by (auto simp: Options_def and_then_Inr_iff new_ApiOptions_def)
  with keeps_CallbackTransport [OF assms(2)] show ?thesis by (auto simp: options_keep_def)
qed

lemma webhook_receiver_keeps:
  assumes "webhook_receiver pb options (map_option wrap_callback callback) = Inr r"
    "\<And>cb. callback = Some cb \<Longrightarrow> callback_keeps I cb"
  shows "keeps I (wr_key_provider r key)"
proof -
  from assms(1) have "wr_key_provider r = callback_key_provider pb (map_option wrap_callback callback) \<or>
      (\<exists>secrets. wr_key_provider r = map_key_provider secrets)"
    by (auto simp: webhook_receiver_def new_WebhookReceiver_def and_then_Inr_iff split: if_splits)
  with keeps_Exchange [OF assms(2)] show ?thesis
    by (auto simp: callback_key_provider_def map_key_provider_def intro!: keeps_intros)
qed

lemma keeps_Receive_abi:
  assumes "platform_keeps I pf" "\<And>cb. callback = Some cb \<Longrightarrow> callback_keeps I cb"
  shows "keeps I (Receive_abi pb pf options (map_option wrap_callback callback))"
  unfolding Receive_abi_def
  by (intro keeps_lift_value keeps_bind keeps_return keeps_Receive assms(1) webhook_receiver_keeps [OF _ assms(2)])

lemma keeps_Execute:
  assumes "platform_keeps I pf" "\<And>cb. callback = Some cb \<Longrightarrow> callback_keeps I cb"
  shows "keeps I (Execute pb pf input (map_option wrap_callback callback))"
  unfolding Execute_def
  by (intro keeps_lift_value keeps_splits keeps_bind keeps_return keeps_lift keeps_Receive_abi
      keeps_new_LiveKitApi Options_keep keeps_dispatch_Call assms) 
    (auto intro!: keeps_intros keeps_GetDispatchModel)

lemma keeps_lks_invoke:
  assumes "platform_keeps I pf" "\<And>cb. callback = Some cb \<Longrightarrow> callback_keeps I cb"
    and "\<And>n w. I w \<Longrightarrow> I (snd (malloc n w))"
  shows "keeps I (lks_invoke pb pf malloc input callback output_length)"
proof (rule keepsI)
  fix w
  assume "I w"
  have "keeps I (execute_input pb pf input callback)"
    unfolding execute_input_def by (intro keeps_intros keeps_Execute assms(1,2))
  then have 1: "I (snd (execute_input pb pf input callback w))" using \<open>I w\<close> by (rule keepsD)
  have "keeps I (Copy pb malloc result len)" for result len
    unfolding Copy_def
    by (intro keeps_intros keepsI) (use assms(3) in \<open>auto split: prod.split bool.split dest!: sndI\<close>)
  then have 2: "I v \<Longrightarrow> I (snd (Copy pb malloc result len v))" for result len v by (rule keepsD)
  obtain outcome v where e: "execute_input pb pf input callback w = (outcome, v)" by (rule prod.exhaust)
  show "I (snd (lks_invoke pb pf malloc input callback output_length w))"
  proof (cases "answer outcome")
    case (Inr response)
    obtain r v' where c: "Copy pb malloc response (map_option (\<lambda>_. 0) output_length) v = (r, v')" by (rule prod.exhaust)
    with 2 [of v response "map_option (\<lambda>_. 0) output_length"] 1 e have "I v'" by simp
    with e c Inr show ?thesis by (simp add: lks_invoke_def Let_def split: sum.split fault.split)
  qed (use 1 e in \<open>simp add: lks_invoke_def Let_def\<close>)
qed

end
