(* ===== verification/JniDiscipline.thy ===== *)
theory JniDiscipline
  imports Jni Preservation
begin

text \<open>
  How native code leaves the virtual machine: the local frames it pushed are popped, and Java sees
  a failure as a pending exception. The discipline is shown for each function of the binding, and
  through the C ABI by what the library leaves alone.
\<close>

section \<open>Native computations\<close>

text \<open>
  A disciplined computation pops the frames it pushes, never clears an exception, reports
  \<^verbatim>\<open>PendingException\<close> only when one is pending, and does not return with a new one.
\<close>

named_theorems disciplined_intros \<open>rules that decompose a disciplined computation\<close>

definition throwing :: "'w jvm_state \<Rightarrow> bool" where
  "throwing s \<longleftrightarrow> jv_pending s \<noteq> None"

definition orderly :: "'w jvm_state \<Rightarrow> (java_fault + 'a) \<Rightarrow> 'w jvm_state \<Rightarrow> bool" where
  "orderly s r s' \<longleftrightarrow>
     jv_frames s' = jv_frames s \<and> (throwing s \<longrightarrow> throwing s') \<and>
     (r = Inl PendingException \<longrightarrow> throwing s') \<and> (\<not> isl r \<longrightarrow> throwing s' = throwing s)"

definition disciplined :: "('w, 'a) jio \<Rightarrow> bool" where
  "disciplined m \<longleftrightarrow> (\<forall>s r s'. m s = (r, s') \<longrightarrow> orderly s r s')"

lemma throwing_update [simp]:
  "throwing (s\<lparr>jv_world := w\<rparr>) = throwing s" "throwing (s\<lparr>jv_frames := n\<rparr>) = throwing s"
  "throwing (s\<lparr>jv_pending := p\<rparr>) \<longleftrightarrow> p \<noteq> None"
  by (simp_all add: throwing_def)

lemma Check_env_throwing: "Check_env s = (if throwing s then Inl PendingException else Inr (), s)"
  by (cases "jv_pending s") (simp_all add: Check_env_def throwing_def)

lemma disciplinedI: "(\<And>s r s'. m s = (r, s') \<Longrightarrow> orderly s r s') \<Longrightarrow> disciplined m"
  by (simp add: disciplined_def)

lemma disciplinedD: "disciplined m \<Longrightarrow> m s = (r, s') \<Longrightarrow> orderly s r s'"
  by (simp add: disciplined_def)

lemma orderly_refl [simp]: "orderly s (Inr x) s" "orderly s (Inl (Native f)) s"
  by (simp_all add: orderly_def)

lemma orderly_trans: "orderly s (Inr x) s' \<Longrightarrow> orderly s' r s'' \<Longrightarrow> orderly s r s''"
  unfolding orderly_def by simp

lemma orderly_fault: "orderly s (Inl f :: java_fault + 'a) s' \<Longrightarrow> orderly s (Inl f :: java_fault + 'b) s'"
  unfolding orderly_def by simp

lemma disciplined_return [disciplined_intros]: "disciplined (jreturn x)"
  by (auto simp: disciplined_def jreturn_def)

lemma disciplined_lift [disciplined_intros]: "disciplined (jlift r)"
  by (auto simp: disciplined_def jlift_def split: sum.split)

lemma disciplined_bind [disciplined_intros]:
  assumes "disciplined m" "\<And>x. disciplined (f x)"
  shows "disciplined (jbind m f)"
proof (rule disciplinedI)
  fix s r s'
  assume "jbind m f s = (r, s')"
  moreover obtain r0 s0 where m: "m s = (r0, s0)" by (rule prod.exhaust)
  ultimately show "orderly s r s'"
    using disciplinedD [OF assms(1) m] disciplinedD [OF assms(2)]
    by (cases r0) (auto simp: jbind_def intro: orderly_trans orderly_fault)
qed

lemma disciplined_checked [disciplined_intros]: "disciplined (jchecked f)"
  by (auto simp: disciplined_def orderly_def jchecked_def jcall_def jbind_def Check_env_throwing jreturn_def
      split: prod.splits if_splits) (auto simp: throwing_def)

lemma disciplined_jni [disciplined_intros]: "disciplined (jni vm name)"
  unfolding jni_def by (rule disciplined_checked)

lemma disciplined_frame [disciplined_intros]:
  assumes "disciplined m"
  shows "disciplined (with_frame vm m)"
proof (rule disciplinedI)
  fix s r s'
  assume run: "with_frame vm m s = (r, s')"
  obtain raised w where p: "jm_raises vm ''PushLocalFrame'' (jv_world s) = (raised, w)" by (rule prod.exhaust)
  show "orderly s r s'"
  proof (cases raised)
    case True
    with run p show ?thesis by (auto simp: with_frame_def orderly_def)
  next
    case False
    obtain r0 s0 where m: "m (s\<lparr>jv_world := w, jv_frames := jv_frames s + 1\<rparr>) = (r0, s0)" by (rule prod.exhaust)
    from disciplinedD [OF assms m] run p m False show ?thesis
      by (auto simp: with_frame_def orderly_def)
  qed
qed

lemma disciplined_splits [disciplined_intros]:
  "disciplined m \<Longrightarrow> disciplined m' \<Longrightarrow> disciplined (if c then m else m')"
  "disciplined m \<Longrightarrow> (\<And>x. disciplined (f x)) \<Longrightarrow> disciplined (case v of None \<Rightarrow> m | Some x \<Rightarrow> f x)"
  "(\<And>a b. disciplined (g a b)) \<Longrightarrow> disciplined (case p of (a, b) \<Rightarrow> g a b)"
  by (simp_all split: option.split prod.split)

lemma disciplined_Bytes [disciplined_intros]: "disciplined (Bytes_in vm b)" "disciplined (Bytes_out vm doc)"
  unfolding Bytes_in_def Bytes_out_def by (intro disciplined_intros)+

lemma disciplined_strings [disciplined_intros]: "disciplined (Text_jni vm doc)" "disciplined (Utf8 vm str)"
  unfolding Text_jni_def Utf8_def by (intro disciplined_intros)+

lemma disciplined_arrays [disciplined_intros]: "disciplined (texts_loop vm docs)" "disciplined (headers_array vm docs)"
  by (induction docs) (simp_all, (intro disciplined_intros | assumption)+)

lemma disciplined_Record [disciplined_intros]: "disciplined (Record vm name members)"
  unfolding Record_def by (intro disciplined_intros)

lemma disciplined_transport [disciplined_intros]: "disciplined (JavaTransport_Send vm transport request)"
  unfolding JavaTransport_Send_def by (intro disciplined_intros)

lemma disciplined_key_provider [disciplined_intros]: "disciplined (ask_key_provider vm provider key)"
  unfolding ask_key_provider_def by (intro disciplined_intros)

lemma disciplined_exchange: "disciplined (exchange_response pb vm transport provider json)"
  unfolding exchange_response_def by (intro disciplined_intros)

lemma disciplined_Parse [disciplined_intros]: "disciplined (Parse_jni pb vm json)"
  unfolding Parse_jni_def by (intro disciplined_intros)

lemma disciplined_make_event [disciplined_intros]: "disciplined (make_event vm event)"
  unfolding make_event_def optional_record_def by (intro disciplined_intros)

section \<open>Through the C ABI\<close>

text \<open>
  What a binding's callbacks change and the rest of the library must not: the pending exception,
  the frames, the failure kept.
\<close>

definition java_view :: "'w CallbackContext \<Rightarrow> java_exception option \<times> nat \<times> java_fault option" where
  "java_view context = (jv_pending (cx_env context), jv_frames (cx_env context), cx_failure context)"

definition leaves_java :: "('w, 'm) binding \<Rightarrow> bool" where
  "leaves_java bi \<longleftrightarrow>
     (\<forall>J. platform_keeps (\<lambda>context. J (java_view context)) (bi_platform bi)) \<and>
     (\<forall>n context. java_view (snd (bi_malloc bi n context)) = java_view context)"

definition consistent :: "'w jvm_state \<Rightarrow> java_exception option \<times> nat \<times> java_fault option \<Rightarrow> bool" where
  "consistent s = (\<lambda>(pending, frames, failure).
     frames = jv_frames s \<and> (throwing s \<longrightarrow> pending \<noteq> None) \<and>
     (failure = Some PendingException \<longrightarrow> pending \<noteq> None) \<and>
     (pending \<noteq> None \<longrightarrow> throwing s \<or> failure \<noteq> None))"

lemma consistent_view:
  "consistent s (java_view context) \<longleftrightarrow>
     jv_frames (cx_env context) = jv_frames s \<and> (throwing s \<longrightarrow> throwing (cx_env context)) \<and>
     (cx_failure context = Some PendingException \<longrightarrow> throwing (cx_env context)) \<and>
     (throwing (cx_env context) \<longrightarrow> throwing s \<or> cx_failure context \<noteq> None)"
  by (simp add: consistent_def java_view_def throwing_def)

lemma Exchange_keeps:
  fixes vm :: "'w jvm" and s :: "'w jvm_state"
  shows "callback_keeps (\<lambda>context. consistent s (java_view context)) (Exchange_jni pb vm transport provider)"
  unfolding callback_keeps_def
proof (intro allI impI)
  fix json and cx :: "'w CallbackContext"
  assume before: "consistent s (java_view cx)"
  obtain r env where e: "exchange_response pb vm transport provider json (cx_env cx) = (r, env)"
    by (rule prod.exhaust)
  from disciplinedD [OF disciplined_exchange e] before
  show "consistent s (java_view (snd (Exchange_jni pb vm transport provider json cx)))"
    by (auto simp: Exchange_jni_def e consistent_view orderly_def split: sum.splits)
qed

lemma disciplined_Invoke:
  assumes "leaves_java bi"
  shows "disciplined (Invoke bi transport provider input)"
proof (rule disciplinedI)
  fix s r s'
  assume run: "Invoke bi transport provider input s = (r, s')"
  show "orderly s r s'"
  proof (cases "Encode_jni (bi_protobuf bi) input")
    case (Inl f)
    with run show ?thesis by (auto simp: Invoke_def)
  next
    case (Inr json)
    define start where "start = \<lparr>cx_env = s, cx_responses = [], cx_failure = None\<rparr>"
    define inv where "inv = (\<lambda>context :: 'a CallbackContext. consistent s (java_view context))"
    have "keeps inv (lks_invoke (bi_protobuf bi) (bi_platform bi) (bi_malloc bi) (Some json)
        (Some (Exchange_jni (bi_protobuf bi) (bi_jvm bi) transport provider)) (Some 0))"
      unfolding inv_def using assms Exchange_keeps
      by (intro keeps_lks_invoke) (auto simp: leaves_java_def)
    moreover have "inv start" by (auto simp: inv_def start_def consistent_view)
    moreover obtain out cx where i: "lks_invoke (bi_protobuf bi) (bi_platform bi) (bi_malloc bi) (Some json)
        (Some (Exchange_jni (bi_protobuf bi) (bi_jvm bi) transport provider)) (Some 0) start = (out, cx)"
      by (rule prod.exhaust)
    ultimately have "consistent s (java_view cx)"
      unfolding inv_def by (auto dest: keepsD)
    with run Inr i show ?thesis
      by (auto simp: Invoke_def start_def [symmetric] consistent_view orderly_def read_output_def
          split: sum.splits option.splits)
  qed
qed

section \<open>The native methods\<close>

lemma disciplined_bodies:
  assumes "leaves_java bi"
  shows "disciplined (call_body bi options operation request transport)"
    "disciplined (dispatch_body bi options dispatch_id room transport)"
    "disciplined (token_body bi options now)"
    "disciplined (receive_body bi secrets body authorization provider)"
  unfolding call_body_def dispatch_body_def token_body_def receive_body_def Call_jni_def Let_def
  by (intro disciplined_intros disciplined_Invoke assms)+

definition reportable :: "sdk_error \<Rightarrow> bool" where
  "reportable e \<longleftrightarrow> length (error_what e) \<le> jsize_max \<and> length (err_twirp_code e) \<le> jsize_max"

lemma jbind_Native:
  "jbind m g s = (Inl (Native f), s'') \<longleftrightarrow>
     m s = (Inl (Native f), s'') \<or> (\<exists>x s'. m s = (Inr x, s') \<and> g x s' = (Inl (Native f), s''))"
  by (auto simp: jbind_def split: prod.splits sum.splits)

lemma jchecked_Native: "jchecked g s \<noteq> (Inl (Native f), s')" "jni vm name s \<noteq> (Inl (Native f), s')"
  by (auto simp: jni_def jchecked_def jbind_Native jcall_def Check_env_def jreturn_def split: prod.splits option.splits)

lemma Text_fails: "Text_jni vm doc s = (Inl (Native f), s') \<Longrightarrow> length doc > jsize_max"
  by (auto simp: Text_jni_def Bytes_out_def jbind_Native jchecked_Native jreturn_def jlift_def split: if_splits)

text \<open>\<^verbatim>\<open>Raise\<close> leaves an exception pending, unless a text does not fit a Java array.\<close>

definition raising :: "('w, 'a) jio \<Rightarrow> bool" where
  "raising m \<longleftrightarrow>
     (\<forall>s r s'. m s = (r, s') \<longrightarrow> jv_frames s' = jv_frames s \<and> (throwing s' \<or> (\<exists>f. r = Inl (Native f))))"

lemma raising_bind:
  assumes "disciplined m" "\<And>x. raising (f x)"
  shows "raising (jbind m f)"
  unfolding raising_def
proof (intro allI impI)
  fix s r s'
  assume run: "jbind m f s = (r, s')"
  obtain r0 s0 where m: "m s = (r0, s0)" by (rule prod.exhaust)
  note o = disciplinedD [OF assms(1) m]
  show "jv_frames s' = jv_frames s \<and> (throwing s' \<or> (\<exists>f. r = Inl (Native f)))"
  proof (cases r0)
    case (Inl e)
    with run m o show ?thesis by (cases e) (auto simp: jbind_def orderly_def)
  next
    case (Inr x)
    with run m have "f x s0 = (r, s')" by (simp add: jbind_def)
    with assms(2) [of x] o show ?thesis by (simp add: raising_def orderly_def)
  qed
qed

lemma Raise_raising: "raising (Raise vm error)"
  unfolding Raise_def
  by (intro raising_bind disciplined_jni disciplined_strings) (simp add: raising_def)

lemma Raise_throws:
  assumes "Raise vm error s = (r, s')" "reportable error"
  shows "throwing s'" "jv_frames s' = jv_frames s"
proof -
  have "r \<noteq> Inl (Native f)" for f
    using assms by (auto simp: Raise_def jbind_Native jchecked_Native reportable_def dest!: Text_fails)
  with Raise_raising [of vm error] assms(1) show "throwing s'" "jv_frames s' = jv_frames s"
    unfolding raising_def by blast+
qed

text \<open>
  What Java can tell from the answer of a method: an object and no exception, or a null reference
  and an exception.
\<close>

definition settled :: "'w jvm_state \<Rightarrow> 'a option result \<times> 'w jvm_state \<Rightarrow> bool" where
  "settled s = (\<lambda>(r, s').
     jv_frames s' = jv_frames s \<and>
     (case r of Inr (Some x) \<Rightarrow> jv_pending s' = None | Inr None \<Rightarrow> jv_pending s' \<noteq> None | Inl f \<Rightarrow> f = Undefined))"

text \<open>A failure whose message is longer than a Java array cannot be raised.\<close>

definition oversized :: "(java_fault + 'a) \<times> 'w jvm_state \<Rightarrow> bool" where
  "oversized run \<longleftrightarrow> (\<exists>f. fst run = Inl (Native f) \<and> \<not> reportable (caught_error f))"

lemma Guard_settled:
  assumes "disciplined fn" "jv_pending s = None" "\<not> oversized (fn s)" "fst (fn s) \<noteq> Inr None"
  shows "settled s (Guard vm fn s)"
proof -
  obtain r s' where fn: "fn s = (r, s')" by (rule prod.exhaust)
  note o = disciplinedD [OF assms(1) fn]
  show ?thesis
  proof (cases r)
    case (Inl e)
    show ?thesis
    proof (cases e)
      case PendingException
      with Inl fn o show ?thesis by (simp add: Guard_def settled_def orderly_def throwing_def)
    next
      case (Native f)
      obtain r0 s0 where raise: "Raise vm (caught_error f) s' = (r0, s0)" by (rule prod.exhaust)
      have "reportable (caught_error f)" using assms(3) fn Inl Native by (simp add: oversized_def)
      from Raise_throws [OF raise this] o fn Inl Native raise show ?thesis
        by (simp add: Guard_def settled_def orderly_def throwing_def)
    qed
  next
    case (Inr v)
    with assms(4) fn obtain x where "v = Some x" by (cases v) auto
    with Inr fn o assms(2) show ?thesis by (simp add: Guard_def settled_def orderly_def throwing_def)
  qed
qed

lemma bodies_yield:
  "yields (\<lambda>x. x \<noteq> None) (call_body bi options operation request transport)"
  "yields (\<lambda>x. x \<noteq> None) (token_body bi options now)"
  "yields (\<lambda>x. x \<noteq> None) (receive_body bi secrets body authorization provider)"
  unfolding call_body_def token_body_def receive_body_def Let_def
  by (intro yields_intros yields_splits option.distinct(2))+

lemma yields_not: "yields P m \<Longrightarrow> \<not> P x \<Longrightarrow> fst (m s) \<noteq> Inr x"
  unfolding yields_def by (metis prod.exhaust_sel)


lemma quiet_leaves_java: "leaves_java quiet_binding"
proof -
  have "platform_keeps I (quiet_platform :: unit CallbackContext platform)" for I
    by (simp add: platform_keeps_def quiet_platform_def keeps_return keeps_lift)
  then show ?thesis by (simp add: leaves_java_def quiet_binding_def)
qed


end
