(* ===== verification/JavaWebhooks.thy ===== *)
theory JavaWebhooks
  imports JniDiscipline
begin

text \<open>
  A webhook through the Java binding, from the bytes Java passes to the event it gets: the options
  cross the C ABI, the receiver of the library decides, and its event or error crosses back.
\<close>

section \<open>The key map\<close>

definition texts :: "pb_struct \<Rightarrow> bool" where
  "texts obj \<longleftrightarrow> list_all (\<lambda>(k, v). kind_of v = kStringValue) obj"

definition secrets_of :: "pb_struct \<Rightarrow> (string \<times> string) list" where
  "secrets_of keys = map (\<lambda>(k, v). (k, string_value v)) keys"

lemma emplace_map: "k \<notin> fst ` set m \<Longrightarrow> map_of (emplace k v m) = (map_of m)(k \<mapsto> v)"
  by (induction k v m rule: emplace.induct) (auto simp: fun_eq_iff)

lemma emplace_keys: "fst ` set (emplace k v m) = insert k (fst ` set m)"
  by (induction k v m rule: emplace.induct) auto

lemma map_loop_texts:
  assumes "texts obj" "distinct (map fst obj)" "fst ` set obj \<inter> fst ` set m = {}"
  shows "\<exists>m'. map_loop obj m = Inr m' \<and> map_of m' = map_of m ++ map_of (secrets_of obj)"
  using assms
proof (induction obj m rule: map_loop.induct)
  case (2 key v members m)
  have "texts members" "distinct (map fst members)"
    "fst ` set members \<inter> fst ` set (emplace key (string_value v) m) = {}"
    using 2(2-4) by (auto simp: texts_def emplace_keys)
  from 2(1) [OF this] obtain m' where m: "map_loop members (emplace key (string_value v) m) = Inr m'"
    "map_of m' = map_of (emplace key (string_value v) m) ++ map_of (secrets_of members)" by blast
  have "key \<notin> dom (map_of (secrets_of members))" 
    using 2(3) by (auto simp: secrets_of_def dom_map_of_conv_image_fst image_iff)
  moreover have "map_of (emplace key (string_value v) m) = (map_of m)(key \<mapsto> string_value v)"
    using 2(4) by (intro emplace_map) auto
  ultimately have "map_of m' = map_of m ++ map_of (secrets_of ((key, v) # members))"
    by (simp add: m(2) map_add_upd_left secrets_of_def)
  moreover have "map_loop ((key, v) # members) m = Inr m'"
    using 2(2) m(1) by (auto simp: texts_def RequireKind_def)
  ultimately show ?case by blast
qed (simp add: secrets_of_def)

lemma StringMap_texts:
  assumes "texts obj" "distinct (map fst obj)"
  obtains m where "StringMap obj = Inr m" "map_of m = map_of (secrets_of obj)"
  using map_loop_texts [OF assms, of "[]"] by (auto simp: StringMap_def)

lemma secrets_of_map: "map_of (secrets_of keys) k = map_option string_value (map_of keys k)"
  by (simp add: secrets_of_def map_of_map_snd)

lemma similar_texts:
  assumes "similar_structs keys keys'" "texts keys"
  shows "texts keys'" "map_of (secrets_of keys') = map_of (secrets_of keys)"
proof -
  have rel: "rel_option similar (map_of keys k) (map_of keys' k)" for k
    using assms(1) unfolding similar_structs_def by auto
  have get: "map_of keys' k = Some v \<Longrightarrow> \<exists>t. v = StringValue t \<and> map_of keys k = Some (StringValue t)" for k v
    using rel [of k] assms(2)
    by (fastforce simp: option_rel_Some2 texts_def list_all_iff dest: map_of_SomeD)
  then show "texts keys'"
    using similar_distinct [OF assms(1)] by (fastforce simp: texts_def list_all_iff)
  have "map_of (secrets_of keys') k = map_of (secrets_of keys) k" for k
    using get rel [of k] by (cases "map_of keys' k") (auto simp: secrets_of_map option_rel_Some2 dest!: get)
  then show "map_of (secrets_of keys') = map_of (secrets_of keys)" by (rule ext)
qed

lemma map_key_provider_cong: "map_of m = map_of m' \<Longrightarrow> map_key_provider m = map_key_provider m'"
  by (simp add: map_key_provider_def [abs_def] fun_eq_iff)

section \<open>The options\<close>

text \<open>What Java's options and arguments ask the ABI for, and what the ABI makes of them.\<close>

definition webhook_input :: "pb_struct \<Rightarrow> string \<Rightarrow> string \<Rightarrow> pb_struct" where
  "webhook_input keys body authorization =
     Input ''webhook'' (put ''secrets'' (StructValue keys) (webhook_options body authorization False))"

definition key_receiver :: "(string \<times> string) list \<Rightarrow> 'w WebhookReceiver" where
  "key_receiver secrets = \<lparr>wr_key_provider = map_key_provider secrets, wr_callbacks = no_callbacks\<rparr>"

lemma webhook_input_portable:
  assumes "portable (StructValue keys)" "utf8 authorization"
  shows "portable (StructValue (webhook_input keys body authorization))"
proof -
  have "utf8 ''operation''" "utf8 ''options''" "utf8 ''webhook''" "utf8 ''secrets''" "utf8 ''use_key_provider''"
    "utf8 ''authorization''" "utf8 ''body''" by code_simp+
  with assms show ?thesis by (simp add: webhook_input_def Input_def webhook_options_def TextValue_def)
qed

lemma webhook_options_map:
  fixes keys body authorization
  defines "opts \<equiv> put ''secrets'' (StructValue keys) (webhook_options body authorization False)"
  shows "map_of opts ''secrets'' = Some (StructValue keys)"
    "map_of opts ''authorization'' = Some (StringValue authorization)"
    "map_of opts ''use_key_provider'' = Some (BoolValue False)"
    "map_of opts ''body'' = Some (StringValue (Base64UrlEncode_str body))"
  by (simp_all add: opts_def webhook_options_def TextValue_def)

lemma Execute_webhook:
  fixes pf :: "'w platform"
  assumes "similar_structs (webhook_input keys body authorization) input" "texts keys"
  shows "Execute pb pf input callback =
    io_bind (Receive pb pf (key_receiver (secrets_of keys)) body authorization)
      (\<lambda>event. io_return (StructValue (event_object event)))"
proof -
  have "map_of (webhook_input keys body authorization) ''operation'' = Some (StringValue ''webhook'')"
    by (simp add: webhook_input_def Input_def TextValue_def)
  from similar_get(1) [OF assms(1) this] have op: "String input ''operation'' = Inr ''webhook''"
    by (simp add: String_Text [unfolded Text_def])
  have "map_of (webhook_input keys body authorization) ''options'' =
      Some (StructValue (put ''secrets'' (StructValue keys) (webhook_options body authorization False)))"
    by (simp add: webhook_input_def Input_def)
  from similar_get(6) [OF assms(1) this] obtain opts where
    o: "map_of input ''options'' = Some (StructValue opts)"
      "similar_structs (put ''secrets'' (StructValue keys) (webhook_options body authorization False)) opts" by blast
  note got = webhook_options_map [of keys body authorization]
  from similar_get(6) [OF o(2) got(1)] obtain keys' where
    k: "map_of opts ''secrets'' = Some (StructValue keys')" "similar_structs keys keys'" by blast
  from similar_texts [OF k(2) assms(2)] similar_distinct [OF k(2)] obtain m where
    m: "StringMap keys' = Inr m" "map_of m = map_of (secrets_of keys)"
    by (metis StringMap_texts)
  have "webhook_receiver pb opts callback = Inr (key_receiver m :: 'w WebhookReceiver)"
    using similar_get(2) [OF o(2) got(3)] k(1) m(1)
    by (simp add: webhook_receiver_def Boolean_def Object_def Field_def RequireKind_def new_WebhookReceiver_def
        key_receiver_def)
  moreover have "key_receiver m = (key_receiver (secrets_of keys) :: 'w WebhookReceiver)"
    by (simp add: key_receiver_def map_key_provider_cong [OF m(2)])
  moreover have "DecodeBody opts ''body'' = Inr body"
    by (rule DecodeBody_Text) (simp add: Text_def similar_get(1) [OF o(2) got(4)])
  moreover have "String opts ''authorization'' = Inr authorization"
    by (rule String_Text) (simp add: Text_def similar_get(1) [OF o(2) got(2)])
  ultimately show ?thesis
    using op o(1) by (simp add: Execute_def Receive_abi_def Object_def Field_def RequireKind_def)
qed

section \<open>Through the binding\<close>

text \<open>A virtual machine in which no JNI function fails, whatever the methods of Java do.\<close>

definition calm :: "'w jvm \<Rightarrow> bool" where
  "calm vm \<longleftrightarrow> (\<forall>name w. jm_raises vm name w = (False, w))"

lemma calm_jni: "calm vm \<Longrightarrow> jv_pending s = None \<Longrightarrow> jni vm name s = (Inr (), s)"
  by (simp add: calm_def jni_def jchecked_def jcall_def jbind_def Check_env_def jreturn_def)

lemma calm_Bytes_in: "calm vm \<Longrightarrow> jv_pending s = None \<Longrightarrow> Bytes_in vm (Some b) s = (Inr b, s)"
  by (simp add: Bytes_in_def jreturn_def jbind_def calm_jni)

lemma calm_Parse:
  "calm vm \<Longrightarrow> jv_pending s = None \<Longrightarrow> pb_parse_struct pb json = Some keys \<Longrightarrow>
   Parse_jni pb vm (Some json) s = (Inr keys, s)"
  by (simp add: Parse_jni_def jbind_def calm_Bytes_in jreturn_def)

text \<open>What Java gets for a decision of the receiver.\<close>

definition deliver :: "'w jvm \<Rightarrow> WebhookEvent result \<Rightarrow> 'w jvm_state \<Rightarrow> java_event option result \<times> 'w jvm_state" where
  "deliver vm decision =
     Guard vm
       (case decision of
          Inl f \<Rightarrow> jlift (Inl (Throw (shown (the (reported_error f)))))
        | Inr event \<Rightarrow> jbind (make_event vm event) (\<lambda>e. jreturn (Some e)))"

definition portable_decision :: "WebhookEvent result \<Rightarrow> bool" where
  "portable_decision decision \<longleftrightarrow>
     (case decision of
        Inr event \<Rightarrow> portable (StructValue (event_object event)) \<and> in_int64 (ev_created_at event)
      | Inl f \<Rightarrow> portable_outcome (Inl f))"

lemma Guard_cong: "fn s = fn' s' \<Longrightarrow> Guard vm fn s = Guard vm fn' s'"
  by (simp add: Guard_def)

end
