(* ===== verification/Ruby.thy ===== *)
theory Ruby
  imports CApi
begin

text \<open>
  \<^verbatim>\<open>pkg/ruby/src/livekit_server_ruby.cpp\<close>: the symbols that existing Ruby gems load, over the C ABI. A
  Ruby callback answers a C string or a null pointer, or throws; the bridge measures the string and
  turns the other two into a failed callback.
\<close>

section \<open>The bridge\<close>

text \<open>A buffer of Ruby, read as C strings are read: up to its first NUL.\<close>

type_synonym 'w ruby_callback = "string \<Rightarrow> ('w, string option) io"

definition strlen :: "string \<Rightarrow> nat" where
  "strlen s = length (takeWhile (\<lambda>c. c \<noteq> CHR 0x00) s)"

definition Exchange_ruby :: "'w ruby_callback \<Rightarrow> 'w lks_callback" where
  "Exchange_ruby callback input w =
     (case callback input w of
        (Inl f, w') \<Rightarrow> ((1, None), w')
      | (Inr None, w') \<Rightarrow> ((1, None), w')
      | (Inr (Some output), w') \<Rightarrow> ((0, Some (take (strlen output) output)), w'))"

definition lks_ruby_abi_version :: int where
  "lks_ruby_abi_version = lks_abi_version"

definition lks_ruby_invoke ::
  "'m protobuf \<Rightarrow> 'w platform \<Rightarrow> (nat \<Rightarrow> 'w \<Rightarrow> bool \<times> 'w) \<Rightarrow> string option \<Rightarrow> 'w ruby_callback option \<Rightarrow>
     ('w, string option) io" where
  "lks_ruby_invoke pb pf malloc input callback =
     io_bind (lks_invoke pb pf malloc input (map_option Exchange_ruby callback) None)
       (\<lambda>(output, len). io_return output)"

section \<open>Facts\<close>

lemma take_strlen: "take (strlen s) s = takeWhile (\<lambda>c. c \<noteq> CHR 0x00) s"
  by (metis strlen_def takeWhile_eq_take)

lemma length_takeWhile_strlen: "length (takeWhile (\<lambda>c. c \<noteq> CHR 0x00) s) = strlen s"
  by (simp add: strlen_def)

text \<open>What the C ABI makes of a Ruby callback: its text, or one failure for everything else.\<close>

lemma ruby_callback_outcome:
  "wrap_callback (Exchange_ruby callback) json w =
     (case callback json w of
        (Inr (Some output), w') \<Rightarrow>
          (if strlen output > int_max
           then throw ec_transport ''C ABI callback failed or returned an invalid buffer''
           else Inr (takeWhile (\<lambda>c. c \<noteq> CHR 0x00) output), w')
      | (_, w') \<Rightarrow> (throw ec_transport ''C ABI callback failed or returned an invalid buffer'', w'))"
  by (auto simp: wrap_callback_def Exchange_ruby_def take_strlen length_takeWhile_strlen split: prod.split sum.split option.split)

text \<open>The terminator the ABI appends is where Ruby stops reading, since the JSON holds no NUL.\<close>

lemma Copy_terminated:
  assumes "Copy pb malloc obj len w = (Inr (Some output, len'), w')"
    "\<And>json. pb_print_struct pb obj = Some json \<Longrightarrow> CHR 0x00 \<notin> set json"
  shows "pb_print_struct pb obj = Some (takeWhile (\<lambda>c. c \<noteq> CHR 0x00) output)"
proof (cases "pb_print_struct pb obj")
  case None
  with assms(1) show ?thesis by (simp add: Copy_def Encode_def throw_def)
next
  case (Some json)
  with assms(1) have "output = json @ [CHR 0x00]"
    by (auto simp: Copy_def Encode_def split: prod.splits bool.splits)
  moreover have "takeWhile (\<lambda>c. c \<noteq> CHR 0x00) (json @ [CHR 0x00]) = json"
    using assms(2) [OF Some] by (simp add: takeWhile_append)
  ultimately show ?thesis using Some by simp
qed

text \<open>Every answer Ruby reads is the whole JSON text of an envelope.\<close>

lemma ruby_reads_the_answer:
  assumes "lks_ruby_invoke pb pf malloc input callback w = (Inr (Some output), w')"
    "\<And>obj json. pb_print_struct pb obj = Some json \<Longrightarrow> CHR 0x00 \<notin> set json"
  obtains outcome w0 obj where
    "execute_input pb pf input (map_option Exchange_ruby callback) w = (outcome, w0)"
    "answer outcome = Inr obj" "pb_print_struct pb obj = Some (takeWhile (\<lambda>c. c \<noteq> CHR 0x00) output)"
proof -
  obtain outcome w0 where e: "execute_input pb pf input (map_option Exchange_ruby callback) w = (outcome, w0)"
    by (rule prod.exhaust)
  from assms(1) obtain len where
    run: "lks_invoke pb pf malloc input (map_option Exchange_ruby callback) None w = (Inr (Some output, len), w')"
    by (auto simp: lks_ruby_invoke_def)
  then obtain obj where obj: "answer outcome = Inr obj"
    by (cases "answer outcome") (simp_all add: lks_invoke_def e)
  obtain r v where c: "Copy pb malloc obj None w0 = (r, v)" by (rule prod.exhaust)
  from run obj e c have "r = Inr (Some output, len)"
    by (auto simp: lks_invoke_def split: sum.splits fault.splits)
  with c have "Copy pb malloc obj None w0 = (Inr (Some output, len), v)" by simp
  then have "pb_print_struct pb obj = Some (takeWhile (\<lambda>c. c \<noteq> CHR 0x00) output)"
    by (rule Copy_terminated) (rule assms(2))
  with e obj that show thesis by blast
qed

end
