(* ===== verification/Models.thy ===== *)
theory Models
  imports LiveKitApi
begin

text \<open>
  \<^verbatim>\<open>include/livekit/server/model/models.h\<close> and \<^verbatim>\<open>include/livekit/server/protocol_fwd.h\<close>: the types of
  the public interface. The first header declares a tag and a model for every message of the
  protocol, the second declares the generated classes the protobuf overloads mention. A method of a
  client needs the model and the class of its request and of its response.
\<close>

section \<open>Declarations\<close>

text \<open>The tags, the models (each an instance of \<^verbatim>\<open>ProtocolModel\<close> at its own tag), and the classes.\<close>

definition model_tags :: "string list" where
  "model_tags =
     [''Empty'', ''CreateRoomRequest'', ''Room'', ''ListRoomsRequest'', ''ListRoomsResponse'',
      ''DeleteRoomRequest'', ''DeleteRoomResponse'', ''ListParticipantsRequest'',
      ''ListParticipantsResponse'', ''RoomParticipantIdentity'', ''ParticipantInfo'',
      ''RemoveParticipantResponse'', ''MuteRoomTrackRequest'', ''MuteRoomTrackResponse'',
      ''UpdateParticipantRequest'', ''UpdateSubscriptionsRequest'', ''UpdateSubscriptionsResponse'',
      ''SendDataRequest'', ''SendDataResponse'', ''UpdateRoomMetadataRequest'',
      ''ForwardParticipantRequest'', ''ForwardParticipantResponse'', ''MoveParticipantRequest'',
      ''MoveParticipantResponse'', ''PerformRpcRequest'', ''PerformRpcResponse'', ''StartEgressRequest'',
      ''EgressInfo'', ''RoomCompositeEgressRequest'', ''WebEgressRequest'', ''ParticipantEgressRequest'',
      ''TrackCompositeEgressRequest'', ''TrackEgressRequest'', ''UpdateLayoutRequest'',
      ''UpdateStreamRequest'', ''ListEgressRequest'', ''ListEgressResponse'', ''StopEgressRequest'',
      ''CreateIngressRequest'', ''IngressInfo'', ''UpdateIngressRequest'', ''ListIngressRequest'',
      ''ListIngressResponse'', ''DeleteIngressRequest'', ''CreateSIPInboundTrunkRequest'',
      ''SIPInboundTrunkInfo'', ''CreateSIPOutboundTrunkRequest'', ''SIPOutboundTrunkInfo'',
      ''UpdateSIPInboundTrunkRequest'', ''UpdateSIPOutboundTrunkRequest'', ''GetSIPInboundTrunkRequest'',
      ''GetSIPInboundTrunkResponse'', ''GetSIPOutboundTrunkRequest'', ''GetSIPOutboundTrunkResponse'',
      ''ListSIPTrunkRequest'', ''ListSIPTrunkResponse'', ''ListSIPInboundTrunkRequest'',
      ''ListSIPInboundTrunkResponse'', ''ListSIPOutboundTrunkRequest'', ''ListSIPOutboundTrunkResponse'',
      ''DeleteSIPTrunkRequest'', ''SIPTrunkInfo'', ''CreateSIPDispatchRuleRequest'',
      ''SIPDispatchRuleInfo'', ''UpdateSIPDispatchRuleRequest'', ''ListSIPDispatchRuleRequest'',
      ''ListSIPDispatchRuleResponse'', ''DeleteSIPDispatchRuleRequest'', ''CreateSIPParticipantRequest'',
      ''SIPParticipantInfo'', ''TransferSIPParticipantRequest'', ''CreateAgentDispatchRequest'',
      ''AgentDispatch'', ''DeleteAgentDispatchRequest'', ''ListAgentDispatchRequest'',
      ''ListAgentDispatchResponse'', ''DialWhatsAppCallRequest'', ''DialWhatsAppCallResponse'',
      ''DisconnectWhatsAppCallRequest'', ''DisconnectWhatsAppCallResponse'', ''ConnectWhatsAppCallRequest'',
      ''ConnectWhatsAppCallResponse'', ''AcceptWhatsAppCallRequest'', ''AcceptWhatsAppCallResponse'',
      ''ConnectTwilioCallRequest'', ''ConnectTwilioCallResponse'']"

definition models :: "string list" where
  "models =
     [''Empty'', ''CreateRoomRequest'', ''Room'', ''ListRoomsRequest'', ''ListRoomsResponse'',
      ''DeleteRoomRequest'', ''DeleteRoomResponse'', ''ListParticipantsRequest'',
      ''ListParticipantsResponse'', ''RoomParticipantIdentity'', ''ParticipantInfo'',
      ''RemoveParticipantResponse'', ''MuteRoomTrackRequest'', ''MuteRoomTrackResponse'',
      ''UpdateParticipantRequest'', ''UpdateSubscriptionsRequest'', ''UpdateSubscriptionsResponse'',
      ''SendDataRequest'', ''SendDataResponse'', ''UpdateRoomMetadataRequest'',
      ''ForwardParticipantRequest'', ''ForwardParticipantResponse'', ''MoveParticipantRequest'',
      ''MoveParticipantResponse'', ''PerformRpcRequest'', ''PerformRpcResponse'', ''StartEgressRequest'',
      ''EgressInfo'', ''RoomCompositeEgressRequest'', ''WebEgressRequest'', ''ParticipantEgressRequest'',
      ''TrackCompositeEgressRequest'', ''TrackEgressRequest'', ''UpdateLayoutRequest'',
      ''UpdateStreamRequest'', ''ListEgressRequest'', ''ListEgressResponse'', ''StopEgressRequest'',
      ''CreateIngressRequest'', ''IngressInfo'', ''UpdateIngressRequest'', ''ListIngressRequest'',
      ''ListIngressResponse'', ''DeleteIngressRequest'', ''CreateSIPInboundTrunkRequest'',
      ''SIPInboundTrunkInfo'', ''CreateSIPOutboundTrunkRequest'', ''SIPOutboundTrunkInfo'',
      ''UpdateSIPInboundTrunkRequest'', ''UpdateSIPOutboundTrunkRequest'', ''GetSIPInboundTrunkRequest'',
      ''GetSIPInboundTrunkResponse'', ''GetSIPOutboundTrunkRequest'', ''GetSIPOutboundTrunkResponse'',
      ''ListSIPTrunkRequest'', ''ListSIPTrunkResponse'', ''ListSIPInboundTrunkRequest'',
      ''ListSIPInboundTrunkResponse'', ''ListSIPOutboundTrunkRequest'', ''ListSIPOutboundTrunkResponse'',
      ''DeleteSIPTrunkRequest'', ''SIPTrunkInfo'', ''CreateSIPDispatchRuleRequest'',
      ''SIPDispatchRuleInfo'', ''UpdateSIPDispatchRuleRequest'', ''ListSIPDispatchRuleRequest'',
      ''ListSIPDispatchRuleResponse'', ''DeleteSIPDispatchRuleRequest'', ''CreateSIPParticipantRequest'',
      ''SIPParticipantInfo'', ''TransferSIPParticipantRequest'', ''CreateAgentDispatchRequest'',
      ''AgentDispatch'', ''DeleteAgentDispatchRequest'', ''ListAgentDispatchRequest'',
      ''ListAgentDispatchResponse'', ''DialWhatsAppCallRequest'', ''DialWhatsAppCallResponse'',
      ''DisconnectWhatsAppCallRequest'', ''DisconnectWhatsAppCallResponse'', ''ConnectWhatsAppCallRequest'',
      ''ConnectWhatsAppCallResponse'', ''AcceptWhatsAppCallRequest'', ''AcceptWhatsAppCallResponse'',
      ''ConnectTwilioCallRequest'', ''ConnectTwilioCallResponse'']"

definition livekit_classes :: "string list" where
  "livekit_classes =
     [''AcceptWhatsAppCallRequest'', ''AcceptWhatsAppCallResponse'', ''AgentDispatch'',
      ''ConnectTwilioCallRequest'', ''ConnectTwilioCallResponse'', ''ConnectWhatsAppCallRequest'',
      ''ConnectWhatsAppCallResponse'', ''CreateAgentDispatchRequest'', ''CreateIngressRequest'',
      ''CreateRoomRequest'', ''CreateSIPDispatchRuleRequest'', ''CreateSIPInboundTrunkRequest'',
      ''CreateSIPOutboundTrunkRequest'', ''CreateSIPParticipantRequest'', ''DeleteAgentDispatchRequest'',
      ''DeleteIngressRequest'', ''DeleteRoomRequest'', ''DeleteRoomResponse'',
      ''DeleteSIPDispatchRuleRequest'', ''DeleteSIPTrunkRequest'', ''DialWhatsAppCallRequest'',
      ''DialWhatsAppCallResponse'', ''DisconnectWhatsAppCallRequest'', ''DisconnectWhatsAppCallResponse'',
      ''EgressInfo'', ''ForwardParticipantRequest'', ''ForwardParticipantResponse'',
      ''GetSIPInboundTrunkRequest'', ''GetSIPInboundTrunkResponse'', ''GetSIPOutboundTrunkRequest'',
      ''GetSIPOutboundTrunkResponse'', ''IngressInfo'', ''ListAgentDispatchRequest'',
      ''ListAgentDispatchResponse'', ''ListEgressRequest'', ''ListEgressResponse'', ''ListIngressRequest'',
      ''ListIngressResponse'', ''ListParticipantsRequest'', ''ListParticipantsResponse'',
      ''ListRoomsRequest'', ''ListRoomsResponse'', ''ListSIPDispatchRuleRequest'',
      ''ListSIPDispatchRuleResponse'', ''ListSIPInboundTrunkRequest'', ''ListSIPInboundTrunkResponse'',
      ''ListSIPOutboundTrunkRequest'', ''ListSIPOutboundTrunkResponse'', ''ListSIPTrunkRequest'',
      ''ListSIPTrunkResponse'', ''MoveParticipantRequest'', ''MoveParticipantResponse'',
      ''MuteRoomTrackRequest'', ''MuteRoomTrackResponse'', ''ParticipantEgressRequest'',
      ''ParticipantInfo'', ''PerformRpcRequest'', ''PerformRpcResponse'', ''RemoveParticipantResponse'',
      ''Room'', ''RoomCompositeEgressRequest'', ''RoomParticipantIdentity'', ''SendDataRequest'',
      ''SendDataResponse'', ''SIPDispatchRuleInfo'', ''SIPInboundTrunkInfo'', ''SIPOutboundTrunkInfo'',
      ''SIPParticipantInfo'', ''SIPTrunkInfo'', ''StartEgressRequest'', ''StopEgressRequest'',
      ''TrackCompositeEgressRequest'', ''TrackEgressRequest'', ''TransferSIPParticipantRequest'',
      ''UpdateIngressRequest'', ''UpdateLayoutRequest'', ''UpdateParticipantRequest'',
      ''UpdateRoomMetadataRequest'', ''UpdateSIPDispatchRuleRequest'', ''UpdateSIPInboundTrunkRequest'',
      ''UpdateSIPOutboundTrunkRequest'', ''UpdateStreamRequest'', ''UpdateSubscriptionsRequest'',
      ''UpdateSubscriptionsResponse'', ''WebEgressRequest'']"

definition google_classes :: "string list" where
  "google_classes = [''Empty'']"

text \<open>The full names, as a descriptor of the class answers them.\<close>

definition declared_classes :: "string list" where
  "declared_classes =
     map (\<lambda>name. ''google.protobuf.'' @ name) google_classes @ map (\<lambda>name. ''livekit.'' @ name) livekit_classes"

definition model_class :: "string \<Rightarrow> string" where
  "model_class name = (if name = ''Empty'' then ''google.protobuf.'' else ''livekit.'') @ name"

text \<open>The message types of the API: those of the requests and the responses of its operations.\<close>

definition contract_types :: "string list" where
  "contract_types = concat (map (\<lambda>(operation, service, r). [mr_request r, mr_response r]) api_contract)"

lemma tags_are_models: "model_tags = models"
  by (simp add: models_def model_tags_def)

lemma distinct_models: "distinct models"
  by code_simp

lemma distinct_classes: "distinct declared_classes"
  by code_simp

lemma models_classes: "set (map model_class models) = set declared_classes"
  by (simp add: models_def declared_classes_def livekit_classes_def google_classes_def model_class_def insert_commute)

lemma contract_classes: "set contract_types = set declared_classes"
  by (simp add: contract_types_def api_contract_def contract_of_def RoomService_rows_def EgressService_rows_def
      IngressService_rows_def SipService_rows_def AgentDispatchService_rows_def ConnectorService_rows_def
      declared_classes_def livekit_classes_def google_classes_def insert_commute)

text \<open>
  The declared types fit the API. Every model has a tag of its own, so models of different
  messages are different types; the models are, one for one, the protobuf classes that are declared;
  and the requests and responses of the 52 operations use exactly those messages: no operation needs
  a type that is not declared, and no declared type is unused.
\<close>

theorem declared_types_fit_the_api:
  "model_tags = models \<and> distinct models \<and> distinct declared_classes \<and>
   set (map model_class models) = set declared_classes \<and> set contract_types = set declared_classes"
  by (intro conjI tags_are_models distinct_models distinct_classes models_classes contract_classes)

end
