(* ===== verification/Interfaces.thy ===== *)
theory Interfaces
  imports Models Jni
begin

text \<open>
  The declarations of the public interface against what is implemented: the overloads of the six client
  classes (\<^verbatim>\<open>include/livekit/server/*_client.h\<close>) and the error codes of the C header
  (\<^verbatim>\<open>include/livekit/server/c_api.h\<close>). Each class declares every method twice, for models and, where the
  protobuf adapter is enabled, for protobuf messages.
\<close>

section \<open>Overloads\<close>

text \<open>
  Name, result type and parameter types, the types as they are spelled, with a dot for \<^verbatim>\<open>::\<close> and without
  \<^verbatim>\<open>const\<close> and reference.
\<close>

type_synonym signature = "string \<times> string \<times> string list"

definition RoomServiceClient_model_overloads :: "signature list" where
  "RoomServiceClient_model_overloads =
     [(''CreateRoom'', ''model.Room'', [''model.CreateRoomRequest'']),
      (''ListRoomsModel'', ''model.ListRoomsResponse'', []),
      (''ListRooms'', ''model.ListRoomsResponse'', [''model.ListRoomsRequest'']),
      (''DeleteRoom'', ''model.DeleteRoomResponse'', [''model.DeleteRoomRequest'']),
      (''ListParticipants'', ''model.ListParticipantsResponse'',
         [''model.ListParticipantsRequest'']),
      (''GetParticipant'', ''model.ParticipantInfo'', [''model.RoomParticipantIdentity'']),
      (''RemoveParticipant'', ''model.RemoveParticipantResponse'',
         [''model.RoomParticipantIdentity'']),
      (''MutePublishedTrack'', ''model.MuteRoomTrackResponse'',
         [''model.MuteRoomTrackRequest'']),
      (''UpdateParticipant'', ''model.ParticipantInfo'', [''model.UpdateParticipantRequest'']),
      (''UpdateSubscriptions'', ''model.UpdateSubscriptionsResponse'',
         [''model.UpdateSubscriptionsRequest'']),
      (''SendData'', ''model.SendDataResponse'', [''model.SendDataRequest'']),
      (''UpdateRoomMetadata'', ''model.Room'', [''model.UpdateRoomMetadataRequest'']),
      (''ForwardParticipant'', ''model.ForwardParticipantResponse'',
         [''model.ForwardParticipantRequest'']),
      (''MoveParticipant'', ''model.MoveParticipantResponse'',
         [''model.MoveParticipantRequest'']),
      (''PerformRpc'', ''model.PerformRpcResponse'', [''model.PerformRpcRequest''])]"

definition RoomServiceClient_protobuf_overloads :: "signature list" where
  "RoomServiceClient_protobuf_overloads =
     [(''CreateRoom'', ''livekit.Room'', [''livekit.CreateRoomRequest'']),
      (''ListRooms'', ''livekit.ListRoomsResponse'', []),
      (''ListRooms'', ''livekit.ListRoomsResponse'', [''livekit.ListRoomsRequest'']),
      (''DeleteRoom'', ''livekit.DeleteRoomResponse'', [''livekit.DeleteRoomRequest'']),
      (''ListParticipants'', ''livekit.ListParticipantsResponse'',
         [''livekit.ListParticipantsRequest'']),
      (''GetParticipant'', ''livekit.ParticipantInfo'', [''livekit.RoomParticipantIdentity'']),
      (''RemoveParticipant'', ''livekit.RemoveParticipantResponse'',
         [''livekit.RoomParticipantIdentity'']),
      (''MutePublishedTrack'', ''livekit.MuteRoomTrackResponse'',
         [''livekit.MuteRoomTrackRequest'']),
      (''UpdateParticipant'', ''livekit.ParticipantInfo'',
         [''livekit.UpdateParticipantRequest'']),
      (''UpdateSubscriptions'', ''livekit.UpdateSubscriptionsResponse'',
         [''livekit.UpdateSubscriptionsRequest'']),
      (''SendData'', ''livekit.SendDataResponse'', [''livekit.SendDataRequest'']),
      (''UpdateRoomMetadata'', ''livekit.Room'', [''livekit.UpdateRoomMetadataRequest'']),
      (''ForwardParticipant'', ''livekit.ForwardParticipantResponse'',
         [''livekit.ForwardParticipantRequest'']),
      (''MoveParticipant'', ''livekit.MoveParticipantResponse'',
         [''livekit.MoveParticipantRequest'']),
      (''PerformRpc'', ''livekit.PerformRpcResponse'', [''livekit.PerformRpcRequest''])]"

definition EgressClient_model_overloads :: "signature list" where
  "EgressClient_model_overloads =
     [(''StartEgress'', ''model.EgressInfo'', [''model.StartEgressRequest'']),
      (''StartRoomCompositeEgress'', ''model.EgressInfo'',
         [''model.RoomCompositeEgressRequest'']),
      (''StartWebEgress'', ''model.EgressInfo'', [''model.WebEgressRequest'']),
      (''StartParticipantEgress'', ''model.EgressInfo'', [''model.ParticipantEgressRequest'']),
      (''StartTrackCompositeEgress'', ''model.EgressInfo'',
         [''model.TrackCompositeEgressRequest'']),
      (''StartTrackEgress'', ''model.EgressInfo'', [''model.TrackEgressRequest'']),
      (''UpdateLayout'', ''model.EgressInfo'', [''model.UpdateLayoutRequest'']),
      (''UpdateStream'', ''model.EgressInfo'', [''model.UpdateStreamRequest'']),
      (''ListEgress'', ''model.ListEgressResponse'', [''model.ListEgressRequest'']),
      (''StopEgress'', ''model.EgressInfo'', [''model.StopEgressRequest''])]"

definition EgressClient_protobuf_overloads :: "signature list" where
  "EgressClient_protobuf_overloads =
     [(''StartEgress'', ''livekit.EgressInfo'', [''livekit.StartEgressRequest'']),
      (''StartRoomCompositeEgress'', ''livekit.EgressInfo'',
         [''livekit.RoomCompositeEgressRequest'']),
      (''StartWebEgress'', ''livekit.EgressInfo'', [''livekit.WebEgressRequest'']),
      (''StartParticipantEgress'', ''livekit.EgressInfo'',
         [''livekit.ParticipantEgressRequest'']),
      (''StartTrackCompositeEgress'', ''livekit.EgressInfo'',
         [''livekit.TrackCompositeEgressRequest'']),
      (''StartTrackEgress'', ''livekit.EgressInfo'', [''livekit.TrackEgressRequest'']),
      (''UpdateLayout'', ''livekit.EgressInfo'', [''livekit.UpdateLayoutRequest'']),
      (''UpdateStream'', ''livekit.EgressInfo'', [''livekit.UpdateStreamRequest'']),
      (''ListEgress'', ''livekit.ListEgressResponse'', [''livekit.ListEgressRequest'']),
      (''StopEgress'', ''livekit.EgressInfo'', [''livekit.StopEgressRequest''])]"

definition IngressClient_model_overloads :: "signature list" where
  "IngressClient_model_overloads =
     [(''CreateIngress'', ''model.IngressInfo'', [''model.CreateIngressRequest'']),
      (''UpdateIngress'', ''model.IngressInfo'', [''model.UpdateIngressRequest'']),
      (''ListIngress'', ''model.ListIngressResponse'', [''model.ListIngressRequest'']),
      (''DeleteIngress'', ''model.IngressInfo'', [''model.DeleteIngressRequest''])]"

definition IngressClient_protobuf_overloads :: "signature list" where
  "IngressClient_protobuf_overloads =
     [(''CreateIngress'', ''livekit.IngressInfo'', [''livekit.CreateIngressRequest'']),
      (''UpdateIngress'', ''livekit.IngressInfo'', [''livekit.UpdateIngressRequest'']),
      (''ListIngress'', ''livekit.ListIngressResponse'', [''livekit.ListIngressRequest'']),
      (''DeleteIngress'', ''livekit.IngressInfo'', [''livekit.DeleteIngressRequest''])]"

definition SipClient_model_overloads :: "signature list" where
  "SipClient_model_overloads =
     [(''CreateInboundTrunk'', ''model.SIPInboundTrunkInfo'',
         [''model.CreateSIPInboundTrunkRequest'']),
      (''CreateOutboundTrunk'', ''model.SIPOutboundTrunkInfo'',
         [''model.CreateSIPOutboundTrunkRequest'']),
      (''UpdateInboundTrunk'', ''model.SIPInboundTrunkInfo'',
         [''model.UpdateSIPInboundTrunkRequest'']),
      (''UpdateOutboundTrunk'', ''model.SIPOutboundTrunkInfo'',
         [''model.UpdateSIPOutboundTrunkRequest'']),
      (''GetInboundTrunk'', ''model.GetSIPInboundTrunkResponse'',
         [''model.GetSIPInboundTrunkRequest'']),
      (''GetOutboundTrunk'', ''model.GetSIPOutboundTrunkResponse'',
         [''model.GetSIPOutboundTrunkRequest'']),
      (''ListTrunks'', ''model.ListSIPTrunkResponse'', [''model.ListSIPTrunkRequest'']),
      (''ListInboundTrunks'', ''model.ListSIPInboundTrunkResponse'',
         [''model.ListSIPInboundTrunkRequest'']),
      (''ListOutboundTrunks'', ''model.ListSIPOutboundTrunkResponse'',
         [''model.ListSIPOutboundTrunkRequest'']),
      (''DeleteTrunk'', ''model.SIPTrunkInfo'', [''model.DeleteSIPTrunkRequest'']),
      (''CreateDispatchRule'', ''model.SIPDispatchRuleInfo'',
         [''model.CreateSIPDispatchRuleRequest'']),
      (''UpdateDispatchRule'', ''model.SIPDispatchRuleInfo'',
         [''model.UpdateSIPDispatchRuleRequest'']),
      (''ListDispatchRules'', ''model.ListSIPDispatchRuleResponse'',
         [''model.ListSIPDispatchRuleRequest'']),
      (''DeleteDispatchRule'', ''model.SIPDispatchRuleInfo'',
         [''model.DeleteSIPDispatchRuleRequest'']),
      (''CreateParticipant'', ''model.SIPParticipantInfo'',
         [''model.CreateSIPParticipantRequest'']),
      (''TransferParticipant'', ''model.Empty'', [''model.TransferSIPParticipantRequest''])]"

definition SipClient_protobuf_overloads :: "signature list" where
  "SipClient_protobuf_overloads =
     [(''CreateInboundTrunk'', ''livekit.SIPInboundTrunkInfo'',
         [''livekit.CreateSIPInboundTrunkRequest'']),
      (''CreateOutboundTrunk'', ''livekit.SIPOutboundTrunkInfo'',
         [''livekit.CreateSIPOutboundTrunkRequest'']),
      (''UpdateInboundTrunk'', ''livekit.SIPInboundTrunkInfo'',
         [''livekit.UpdateSIPInboundTrunkRequest'']),
      (''UpdateOutboundTrunk'', ''livekit.SIPOutboundTrunkInfo'',
         [''livekit.UpdateSIPOutboundTrunkRequest'']),
      (''GetInboundTrunk'', ''livekit.GetSIPInboundTrunkResponse'',
         [''livekit.GetSIPInboundTrunkRequest'']),
      (''GetOutboundTrunk'', ''livekit.GetSIPOutboundTrunkResponse'',
         [''livekit.GetSIPOutboundTrunkRequest'']),
      (''ListTrunks'', ''livekit.ListSIPTrunkResponse'', [''livekit.ListSIPTrunkRequest'']),
      (''ListInboundTrunks'', ''livekit.ListSIPInboundTrunkResponse'',
         [''livekit.ListSIPInboundTrunkRequest'']),
      (''ListOutboundTrunks'', ''livekit.ListSIPOutboundTrunkResponse'',
         [''livekit.ListSIPOutboundTrunkRequest'']),
      (''DeleteTrunk'', ''livekit.SIPTrunkInfo'', [''livekit.DeleteSIPTrunkRequest'']),
      (''CreateDispatchRule'', ''livekit.SIPDispatchRuleInfo'',
         [''livekit.CreateSIPDispatchRuleRequest'']),
      (''UpdateDispatchRule'', ''livekit.SIPDispatchRuleInfo'',
         [''livekit.UpdateSIPDispatchRuleRequest'']),
      (''ListDispatchRules'', ''livekit.ListSIPDispatchRuleResponse'',
         [''livekit.ListSIPDispatchRuleRequest'']),
      (''DeleteDispatchRule'', ''livekit.SIPDispatchRuleInfo'',
         [''livekit.DeleteSIPDispatchRuleRequest'']),
      (''CreateParticipant'', ''livekit.SIPParticipantInfo'',
         [''livekit.CreateSIPParticipantRequest'']),
      (''TransferParticipant'', ''google.protobuf.Empty'',
         [''livekit.TransferSIPParticipantRequest''])]"

definition AgentDispatchClient_model_overloads :: "signature list" where
  "AgentDispatchClient_model_overloads =
     [(''CreateDispatch'', ''model.AgentDispatch'', [''model.CreateAgentDispatchRequest'']),
      (''DeleteDispatch'', ''model.AgentDispatch'', [''model.DeleteAgentDispatchRequest'']),
      (''ListDispatch'', ''model.ListAgentDispatchResponse'',
         [''model.ListAgentDispatchRequest'']),
      (''GetDispatchModel'', ''std.optional<model.AgentDispatch>'',
         [''std.string'', ''std.string''])]"

definition AgentDispatchClient_protobuf_overloads :: "signature list" where
  "AgentDispatchClient_protobuf_overloads =
     [(''CreateDispatch'', ''livekit.AgentDispatch'', [''livekit.CreateAgentDispatchRequest'']),
      (''DeleteDispatch'', ''livekit.AgentDispatch'', [''livekit.DeleteAgentDispatchRequest'']),
      (''ListDispatch'', ''livekit.ListAgentDispatchResponse'',
         [''livekit.ListAgentDispatchRequest'']),
      (''GetDispatch'', ''std.shared_ptr<livekit.AgentDispatch>'',
         [''std.string'', ''std.string''])]"

definition ConnectorClient_model_overloads :: "signature list" where
  "ConnectorClient_model_overloads =
     [(''DialWhatsAppCall'', ''model.DialWhatsAppCallResponse'',
         [''model.DialWhatsAppCallRequest'']),
      (''DisconnectWhatsAppCall'', ''model.DisconnectWhatsAppCallResponse'',
         [''model.DisconnectWhatsAppCallRequest'']),
      (''ConnectWhatsAppCall'', ''model.ConnectWhatsAppCallResponse'',
         [''model.ConnectWhatsAppCallRequest'']),
      (''AcceptWhatsAppCall'', ''model.AcceptWhatsAppCallResponse'',
         [''model.AcceptWhatsAppCallRequest'']),
      (''ConnectTwilioCall'', ''model.ConnectTwilioCallResponse'',
         [''model.ConnectTwilioCallRequest''])]"

definition ConnectorClient_protobuf_overloads :: "signature list" where
  "ConnectorClient_protobuf_overloads =
     [(''DialWhatsAppCall'', ''livekit.DialWhatsAppCallResponse'',
         [''livekit.DialWhatsAppCallRequest'']),
      (''DisconnectWhatsAppCall'', ''livekit.DisconnectWhatsAppCallResponse'',
         [''livekit.DisconnectWhatsAppCallRequest'']),
      (''ConnectWhatsAppCall'', ''livekit.ConnectWhatsAppCallResponse'',
         [''livekit.ConnectWhatsAppCallRequest'']),
      (''AcceptWhatsAppCall'', ''livekit.AcceptWhatsAppCallResponse'',
         [''livekit.AcceptWhatsAppCallRequest'']),
      (''ConnectTwilioCall'', ''livekit.ConnectTwilioCallResponse'',
         [''livekit.ConnectTwilioCallRequest''])]"

section \<open>Error codes of the C interface\<close>

definition lks_error_code :: "(string \<times> int) list" where
  "lks_error_code =
     [(''LKS_INVALID_ARGUMENT'', 0), (''LKS_AUTHENTICATION'', 1), (''LKS_TRANSPORT'', 2), (''LKS_HTTP'', 3),
      (''LKS_PROTOCOL'', 4), (''LKS_UNSUPPORTED'', 5), (''LKS_UNKNOWN'', 255)]"

section \<open>Agreement\<close>

text \<open>The overloads for a message, and the message a model stands for.\<close>

definition for_message :: "signature list \<Rightarrow> signature list" where
  "for_message overloads = filter (\<lambda>(name, result_type, parameters). length parameters = 1) overloads"

definition message_type :: "string \<Rightarrow> string" where
  "message_type model = model_class (drop (length ''model.'') model)"

text \<open>What the table of a class says of its overloads.\<close>

definition row_signatures :: "(string \<times> method_row) list \<Rightarrow> signature list" where
  "row_signatures rows = map (\<lambda>(name, r). (name, mr_response r, [mr_request r])) rows"

definition overloads_agree :: "(string \<times> method_row) list \<Rightarrow> signature list \<Rightarrow> signature list \<Rightarrow> bool" where
  "overloads_agree rows declared adapters \<longleftrightarrow>
     for_message adapters = row_signatures rows \<and>
     map (\<lambda>(name, result_type, parameters). (name, message_type result_type, map message_type parameters))
       (for_message declared) = row_signatures rows"

lemma RoomService_overloads:
  "overloads_agree RoomService_rows RoomServiceClient_model_overloads RoomServiceClient_protobuf_overloads"
  by code_simp

lemma Egress_overloads:
  "overloads_agree EgressService_rows EgressClient_model_overloads EgressClient_protobuf_overloads"
  by code_simp

lemma Ingress_overloads:
  "overloads_agree IngressService_rows IngressClient_model_overloads IngressClient_protobuf_overloads"
  by code_simp

lemma Sip_overloads:
  "overloads_agree SipService_rows SipClient_model_overloads SipClient_protobuf_overloads"
  by code_simp

lemma AgentDispatch_overloads:
  "overloads_agree AgentDispatchService_rows AgentDispatchClient_model_overloads AgentDispatchClient_protobuf_overloads"
  by code_simp

lemma Connector_overloads:
  "overloads_agree ConnectorService_rows ConnectorClient_model_overloads ConnectorClient_protobuf_overloads"
  by code_simp


end
