(* ===== verification/CurlTransport.thy ===== *)
theory CurlTransport
  imports Transport
begin

text \<open>
  \<^verbatim>\<open>src/detail/curl_transport.cpp\<close>: the transport over libcurl.

  libcurl is the record \<open>libcurl\<close>. Its easy handle is a state of its own beside the world: the
  list of the options in force, which \<^verbatim>\<open>curl_easy_setopt\<close> extends and \<^verbatim>\<open>curl_easy_reset\<close> empties. A
  transfer is a strategy (\<open>interaction\<close>): libcurl hands data to one of the two callbacks, sees the
  number the callback returns, and goes on as it likes until it ends with a code. The mutex
  serializes \<^verbatim>\<open>Send\<close>, which calls no code of the application, so one call is one function.

  \<open>size_t\<close> and \<^verbatim>\<open>curl_off_t\<close> have 64 bits; the width of \<^verbatim>\<open>long\<close> is that of the platform.
\<close>

section \<open>libcurl\<close>

datatype curl_callback = BodyCallback | HeaderCallback

datatype curl_option =
    Url string
  | Protocols_str string
  | Followlocation int
  | Nosignal int
  | Timeout_ms int
  | Ssl_verifypeer int
  | Ssl_verifyhost int
  | Httpheader "string list"
  | Postfields string
  | Postfieldsize_large int
  | Customrequest string
  | Writefunction curl_callback
  | Writedata
  | Headerfunction curl_callback
  | Headerdata

text \<open>Data is given with its element size and count, as the callbacks receive it.\<close>

datatype 'w interaction =
    Finished int 'w
  | Deliver curl_callback string nat nat "nat \<Rightarrow> 'w interaction"

text \<open>
  \<open>cu_alloc n\<close> says whether a buffer of \<open>n\<close> bytes can be allocated; an empty \<open>slist\<close> is the null
  pointer. \<open>cu_getinfo\<close> returns a code and the response code.
\<close>

record 'w libcurl =
  cu_global_init :: "'w \<Rightarrow> int \<times> 'w"
  cu_easy_init :: "'w \<Rightarrow> bool \<times> 'w"
  cu_easy_reset :: "'w \<Rightarrow> 'w"
  cu_easy_setopt :: "curl_option \<Rightarrow> 'w \<Rightarrow> int \<times> 'w"
  cu_easy_perform :: "curl_option list \<Rightarrow> 'w \<Rightarrow> 'w interaction"
  cu_easy_getinfo :: "'w \<Rightarrow> (int \<times> int) \<times> 'w"
  cu_easy_strerror :: "int \<Rightarrow> string"
  cu_slist_append :: "string list \<Rightarrow> string \<Rightarrow> 'w \<Rightarrow> bool \<times> 'w"
  cu_slist_free_all :: "string list \<Rightarrow> 'w \<Rightarrow> 'w"
  cu_alloc :: "nat \<Rightarrow> bool"
  cu_long_max :: int

definition size_max :: nat where
  "size_max = 18446744073709551615"

definition curl_off_max :: nat where
  "curl_off_max = 9223372036854775807"

text \<open>\<^verbatim>\<open>c_str()\<close> as a C function reads it.\<close>

definition c_str :: "string \<Rightarrow> string" where
  "c_str s = takeWhile (\<lambda>c. c \<noteq> CHR 0x00) s"

text \<open>\<^verbatim>\<open>static_cast<int>\<close> of a wider integer.\<close>

definition to_int :: "int \<Rightarrow> int" where
  "to_int i = sint (word_of_int i :: 32 word)"

definition Check :: "'w libcurl \<Rightarrow> int \<Rightarrow> unit result" where
  "Check lib code = (if code \<noteq> 0 then throw ec_transport (cu_easy_strerror lib code) else Inr ())"

section \<open>The callbacks\<close>

record ResponseState =
  cs_response :: HttpResponse
  cs_failure :: "fault option"

definition new_ResponseState :: ResponseState where
  "new_ResponseState =
     \<lparr>cs_response = \<lparr>rs_status_code = 0, rs_headers = [], rs_body = []\<rparr>, cs_failure = None\<rparr>"

definition bad_alloc :: fault where
  "bad_alloc = StdException ''std::bad_alloc''"

definition Body :: "(nat \<Rightarrow> bool) \<Rightarrow> string \<Rightarrow> nat \<Rightarrow> nat \<Rightarrow> ResponseState \<Rightarrow> nat \<times> ResponseState" where
  "Body alloc data item_size count state =
     (if item_size \<noteq> 0 \<and> count > size_max div item_size then (0, state)
      else
        let body = rs_body (cs_response state) @ take (item_size * count) data
        in if alloc (length body)
           then (item_size * count, state\<lparr>cs_response := (cs_response state)\<lparr>rs_body := body\<rparr>\<rparr>)
           else (0, state\<lparr>cs_failure := Some bad_alloc\<rparr>))"

text \<open>\<^verbatim>\<open>find_first_not_of\<close> and \<^verbatim>\<open>find_last_not_of\<close>, each followed by \<^verbatim>\<open>substr\<close>.\<close>

definition trim_left :: "char list \<Rightarrow> string \<Rightarrow> string" where
  "trim_left chars s = dropWhile (\<lambda>c. c \<in> set chars) s"

definition trim_right :: "char list \<Rightarrow> string \<Rightarrow> string" where
  "trim_right chars s = rev (dropWhile (\<lambda>c. c \<in> set chars) (rev s))"

definition blanks :: "char list" where
  "blanks = [CHR '' '', CHR 0x09]"

definition line_blanks :: "char list" where
  "line_blanks = [CHR '' '', CHR 0x09, CHR 0x0D, CHR 0x0A]"

definition Header :: "(nat \<Rightarrow> bool) \<Rightarrow> string \<Rightarrow> nat \<Rightarrow> nat \<Rightarrow> ResponseState \<Rightarrow> nat \<times> ResponseState" where
  "Header alloc data item_size count state =
     (if item_size \<noteq> 0 \<and> count > size_max div item_size then (0, state)
      else
        let len = item_size * count;
            line = take len data;
            response = cs_response state;
            response = (if starts_with line ''HTTP/'' then response\<lparr>rs_headers := []\<rparr> else response)
        in case find_str '':'' line 0 of
             None \<Rightarrow> (len, state\<lparr>cs_response := response\<rparr>)
           | Some colon \<Rightarrow>
               let v = trim_right line_blanks (trim_left blanks (drop (colon + 1) line))
               in if alloc (colon + length v)
                  then (len, state\<lparr>cs_response := response\<lparr>rs_headers :=
                          rs_headers response @ [(take colon line, v)]\<rparr>\<rparr>)
                  else (0, state\<lparr>cs_response := response, cs_failure := Some bad_alloc\<rparr>))"

text \<open>\<^verbatim>\<open>curl_easy_perform\<close> calling back.\<close>

definition invoke_callback ::
  "(nat \<Rightarrow> bool) \<Rightarrow> curl_callback \<Rightarrow> string \<Rightarrow> nat \<Rightarrow> nat \<Rightarrow> ResponseState \<Rightarrow> nat \<times> ResponseState" where
  "invoke_callback alloc cb = (case cb of BodyCallback \<Rightarrow> Body alloc | HeaderCallback \<Rightarrow> Header alloc)"

primrec run_transfer ::
  "(nat \<Rightarrow> bool) \<Rightarrow> 'w interaction \<Rightarrow> ResponseState \<Rightarrow> (int \<times> ResponseState) \<times> 'w" where
  "run_transfer alloc (Finished code w) state = ((code, state), w)"
| "run_transfer alloc (Deliver cb data item_size count continue) state =
     (case invoke_callback alloc cb data item_size count state of
        (n, state') \<Rightarrow> run_transfer alloc (continue n) state')"

section \<open>The transport\<close>

definition token_punctuation :: string where
  "token_punctuation = ''!#$%&'' @ [CHR 0x27] @ ''*+-.^_`|~''"

definition Token :: "string \<Rightarrow> bool" where
  "Token value \<longleftrightarrow>
     value \<noteq> [] \<and>
     list_all (\<lambda>ch. let c = (of_char ch :: nat) in
         (c \<ge> 97 \<and> c \<le> 122) \<or> (c \<ge> 65 \<and> c \<le> 90) \<or> (c \<ge> 48 \<and> c \<le> 57) \<or>
         ch \<in> set token_punctuation) value"

text \<open>
  The state of a transport: the options in force on its handle, and the world. The static
  \<^verbatim>\<open>CurlRuntime\<close> is initialized by the first constructor that gets through it.
\<close>

type_synonym 'w curl_state = "curl_option list \<times> 'w"

definition new_CurlTransport ::
  "'w libcurl \<Rightarrow> bool \<times> 'w \<Rightarrow> curl_option list result \<times> (bool \<times> 'w)" where
  "new_CurlTransport lib s =
     (case s of (initialized, w) \<Rightarrow>
        (case (if initialized then (0, w) else cu_global_init lib w) of (code, w1) \<Rightarrow>
           if code \<noteq> 0 then (throw ec_transport ''could not initialize libcurl'', (False, w1))
           else
             (case cu_easy_init lib w1 of (created, w2) \<Rightarrow>
                (if created then Inr [] else throw ec_transport ''could not create libcurl handle'',
                 (True, w2)))))"

definition valid_request :: "HttpRequest \<Rightarrow> bool" where
  "valid_request request \<longleftrightarrow>
     \<not> (CHR 0x00 \<in> set (hr_url request) \<or>
        \<not> (starts_with (hr_url request) ''http://'' \<or> starts_with (hr_url request) ''https://'') \<or>
        \<not> Token (hr_method request) \<or> hr_timeout request \<le> 0 \<or>
        length (hr_body request) > curl_off_max)"

definition header_line :: "string \<times> string \<Rightarrow> string" where
  "header_line h = fst h @ (if snd h = [] then '';'' else '': '' @ snd h)"

definition valid_header :: "string \<times> string \<Rightarrow> bool" where
  "valid_header h \<longleftrightarrow>
     \<not> (\<not> Token (fst h) \<or> CHR 0x0D \<in> set (snd h) \<or> CHR 0x0A \<in> set (snd h) \<or> CHR 0x00 \<in> set (snd h))"

text \<open>The owner of the list frees it, on exceptions too.\<close>

definition free_list :: "'w libcurl \<Rightarrow> string list \<Rightarrow> 'w \<Rightarrow> 'w" where
  "free_list lib headers w = (if headers = [] then w else cu_slist_free_all lib headers w)"

fun headers_loop :: "'w libcurl \<Rightarrow> HttpHeaders \<Rightarrow> string list \<Rightarrow> ('w, string list) io" where
  "headers_loop lib [] headers w = (Inr headers, w)"
| "headers_loop lib (h # hs) headers w =
     (if \<not> valid_header h
      then (throw ec_invalid_argument ''invalid HTTP header'', free_list lib headers w)
      else
        (case cu_slist_append lib headers (c_str (header_line h)) w of
           (True, w') \<Rightarrow> headers_loop lib hs (headers @ [c_str (header_line h)]) w'
         | (False, w') \<Rightarrow> (Inl bad_alloc, free_list lib headers w')))"

definition request_options :: "'w libcurl \<Rightarrow> HttpRequest \<Rightarrow> string list \<Rightarrow> curl_option list" where
  "request_options lib request headers =
     [Url (c_str (hr_url request)),
      Protocols_str ''http,https'',
      Followlocation 0,
      Nosignal 1,
      Timeout_ms (min (hr_timeout request) (cu_long_max lib)),
      Ssl_verifypeer 1,
      Ssl_verifyhost 2,
      Httpheader headers,
      Postfields (hr_body request),
      Postfieldsize_large (int (length (hr_body request))),
      Customrequest (c_str (hr_method request)),
      Writefunction BodyCallback,
      Writedata,
      Headerfunction HeaderCallback,
      Headerdata]"

definition reset_handle :: "'w libcurl \<Rightarrow> 'w curl_state \<Rightarrow> 'w curl_state" where
  "reset_handle lib s = ([], cu_easy_reset lib (snd s))"

fun setopts :: "'w libcurl \<Rightarrow> curl_option list \<Rightarrow> ('w curl_state, unit) io" where
  "setopts lib [] s = (Inr (), s)"
| "setopts lib (opt # opts) s =
     (case cu_easy_setopt lib opt (snd s) of (code, w) \<Rightarrow>
        (case Check lib code of
           Inl e \<Rightarrow> (Inl e, (fst s, w))
         | Inr _ \<Rightarrow> setopts lib opts (fst s @ [opt], w)))"

definition perform :: "'w libcurl \<Rightarrow> ('w curl_state, HttpResponse) io" where
  "perform lib s =
     (case run_transfer (cu_alloc lib) (cu_easy_perform lib (fst s) (snd s)) new_ResponseState of
        ((code, state), w) \<Rightarrow>
          (case cs_failure state of
             Some f \<Rightarrow> (Inl f, (fst s, w))
           | None \<Rightarrow>
               (case Check lib code of
                  Inl e \<Rightarrow> (Inl e, (fst s, w))
                | Inr _ \<Rightarrow>
                    (case cu_easy_getinfo lib w of ((code', status), w') \<Rightarrow>
                       (case Check lib code' of
                          Inl e \<Rightarrow> (Inl e, (fst s, w'))
                        | Inr _ \<Rightarrow> (Inr ((cs_response state)\<lparr>rs_status_code := to_int status\<rparr>), (fst s, w')))))))"

text \<open>What happens under the lock; the guard object resets the handle on every way out.\<close>

definition locked_send ::
  "'w libcurl \<Rightarrow> HttpRequest \<Rightarrow> string list \<Rightarrow> ('w curl_state, HttpResponse) io" where
  "locked_send lib request headers s =
     (case io_bind (setopts lib (request_options lib request headers)) (\<lambda>_. perform lib)
             (reset_handle lib s) of
        (outcome, s') \<Rightarrow> (outcome, reset_handle lib s'))"

definition CurlTransport_Send :: "'w libcurl \<Rightarrow> 'w curl_state transport" where
  "CurlTransport_Send lib request s =
     (if \<not> valid_request request
      then (throw ec_invalid_argument ''invalid HTTP request URL, method, timeout or body size'', s)
      else
        (case headers_loop lib (hr_headers request) [] (snd s) of
           (Inl e, w) \<Rightarrow> (Inl e, (fst s, w))
         | (Inr headers, w) \<Rightarrow>
             (case locked_send lib request headers (fst s, w) of
                (outcome, s') \<Rightarrow> (outcome, (fst s', free_list lib headers (snd s'))))))"

section \<open>What a transfer leaves\<close>

text \<open>The deliveries whose size the callbacks accept, in order.\<close>

primrec accepted ::
  "(nat \<Rightarrow> bool) \<Rightarrow> 'w interaction \<Rightarrow> ResponseState \<Rightarrow> (curl_callback \<times> string) list" where
  "accepted alloc (Finished code w) state = []"
| "accepted alloc (Deliver cb data item_size count continue) state =
     (case invoke_callback alloc cb data item_size count state of
        (n, state') \<Rightarrow>
          (if item_size \<noteq> 0 \<and> count > size_max div item_size then []
           else [(cb, take (item_size * count) data)]) @ accepted alloc (continue n) state')"

definition chunks :: "curl_callback \<Rightarrow> (curl_callback \<times> string) list \<Rightarrow> string list" where
  "chunks cb ds = map snd (filter (\<lambda>d. fst d = cb) ds)"

text \<open>A header line: the name before the first colon and the value without surrounding blanks.\<close>

definition parse_header :: "string \<Rightarrow> (string \<times> string) option" where
  "parse_header line =
     (if CHR '':'' \<in> set line
      then Some (takeWhile (\<lambda>c. c \<noteq> CHR '':'') line,
                 trim_right line_blanks (trim_left blanks (tl (dropWhile (\<lambda>c. c \<noteq> CHR '':'') line))))
      else None)"

text \<open>The lines from the last status line on.\<close>

fun last_response :: "string list \<Rightarrow> string list" where
  "last_response [] = []"
| "last_response (line # lines) =
     (if list_ex (\<lambda>l. starts_with l ''HTTP/'') lines then last_response lines else line # lines)"

definition response_headers :: "string list \<Rightarrow> HttpHeaders" where
  "response_headers lines = List.map_filter parse_header (last_response lines)"

lemma last_response_snoc:
  "last_response (lines @ [line]) =
     (if starts_with line ''HTTP/'' then [line] else last_response lines @ [line])"
  by (induction lines) auto

lemma find_colon:
  "find_str [c] s k = (if c \<in> set s then Some (k + length (takeWhile (\<lambda>x. x \<noteq> c) s)) else None)"
  by (induction "[c]" s k rule: find_str.induct) auto

lemma split_at_first:
  "c \<in> set s \<Longrightarrow> take (length (takeWhile (\<lambda>x. x \<noteq> c) s)) s = takeWhile (\<lambda>x. x \<noteq> c) s \<and>
     drop (length (takeWhile (\<lambda>x. x \<noteq> c) s) + 1) s = tl (dropWhile (\<lambda>x. x \<noteq> c) s)"
  by (induction s) auto

text \<open>The state agrees with the deliveries accepted so far, unless a callback failed.\<close>

definition agrees :: "(curl_callback \<times> string) list \<Rightarrow> ResponseState \<Rightarrow> bool" where
  "agrees ds state \<longleftrightarrow>
     (case cs_failure state of
        Some f \<Rightarrow> f = bad_alloc
      | None \<Rightarrow> cs_response state =
          \<lparr>rs_status_code = 0, rs_headers = response_headers (chunks HeaderCallback ds),
           rs_body = concat (chunks BodyCallback ds)\<rparr>)"

lemma chunks_snoc: "chunks cb (ds @ [(cb', d)]) = chunks cb ds @ (if cb' = cb then [d] else [])"
  by (simp add: chunks_def)

lemma Body_agrees:
  assumes "agrees ds state" "Body alloc data item_size count state = (n, state')"
    "\<not> (item_size \<noteq> 0 \<and> count > size_max div item_size)"
  shows "agrees (ds @ [(BodyCallback, take (item_size * count) data)]) state'"
  using assms by (auto simp: Body_def agrees_def chunks_snoc Let_def split: if_splits option.splits)

lemma Header_run:
  assumes "\<not> (item_size \<noteq> 0 \<and> count > size_max div item_size)"
  shows "Header alloc data item_size count state =
    (let line = take (item_size * count) data; response = cs_response state;
         response = (if starts_with line ''HTTP/'' then response\<lparr>rs_headers := []\<rparr> else response)
     in case parse_header line of
          None \<Rightarrow> (item_size * count, state\<lparr>cs_response := response\<rparr>)
        | Some h \<Rightarrow>
            if alloc (length (fst h) + length (snd h))
            then (item_size * count, state\<lparr>cs_response := response\<lparr>rs_headers := rs_headers response @ [h]\<rparr>\<rparr>)
            else (0, state\<lparr>cs_response := response, cs_failure := Some bad_alloc\<rparr>))"
  using assms split_at_first [of "CHR '':''" "take (item_size * count) data"]
  by (auto simp: Header_def Let_def find_colon parse_header_def)

lemma Header_agrees:
  assumes "agrees ds state" "Header alloc data item_size count state = (n, state')"
    "\<not> (item_size \<noteq> 0 \<and> count > size_max div item_size)"
  shows "agrees (ds @ [(HeaderCallback, take (item_size * count) data)]) state'"
  using assms(1,2) unfolding Header_run [OF assms(3)]
  by (auto simp: agrees_def chunks_snoc Let_def response_headers_def last_response_snoc
      map_filter_def split: if_splits option.splits)

lemma callback_rejects:
  "item_size \<noteq> 0 \<and> count > size_max div item_size \<Longrightarrow>
     invoke_callback alloc cb data item_size count state = (0, state)"
  by (cases cb) (simp_all add: invoke_callback_def Body_def Header_def)

lemma run_transfer_agrees:
  assumes "agrees ds state" "run_transfer alloc t state = ((code, state'), w)"
  shows "agrees (ds @ accepted alloc t state) state'"
  using assms
proof (induction t arbitrary: ds state)
  case (Deliver cb data item_size count continue)
  obtain n s1 where c: "invoke_callback alloc cb data item_size count state = (n, s1)" by fastforce
  with Deliver.prems(2) have r: "run_transfer alloc (continue n) s1 = ((code, state'), w)" by simp
  show ?case
  proof (cases "item_size \<noteq> 0 \<and> count > size_max div item_size")
    case True
    then have "s1 = state" using c by (simp add: callback_rejects)
    then show ?thesis using Deliver.IH [OF _ Deliver.prems(1)] r c True by simp
  next
    case False
    then have "agrees (ds @ [(cb, take (item_size * count) data)]) s1"
      using c Deliver.prems(1)
      by (cases cb) (auto simp: invoke_callback_def intro: Body_agrees Header_agrees)
    from Deliver.IH [OF _ this r] False c show ?thesis by auto
  qed
qed simp

lemma new_agrees: "agrees [] new_ResponseState"
  by (simp add: agrees_def new_ResponseState_def chunks_def response_headers_def map_filter_def)

text \<open>
  C27. What a transfer leaves, however libcurl calls back: unless a callback failed to allocate, the
  body is the concatenation of the body data it accepted, and the headers are those of the last
  response only (lines from the last status line on), each split at its first colon and its value
  stripped of blanks and line ends. Data whose announced size overflows is never accepted.
\<close>

theorem transfer_collects_the_response:
  "case run_transfer alloc t new_ResponseState of
     ((code, state), w) \<Rightarrow>
       (case cs_failure state of
          Some f \<Rightarrow> f = bad_alloc
        | None \<Rightarrow>
            rs_body (cs_response state) = concat (chunks BodyCallback (accepted alloc t new_ResponseState)) \<and>
            rs_headers (cs_response state) =
              response_headers (chunks HeaderCallback (accepted alloc t new_ResponseState)))"
proof -
  obtain code state w where r: "run_transfer alloc t new_ResponseState = ((code, state), w)"
    by (metis surj_pair)
  from run_transfer_agrees [OF new_agrees r] show ?thesis
    by (simp add: r agrees_def split: option.splits)
qed

section \<open>What is sent\<close>

lemma c_str_id: "CHR 0x00 \<notin> set s \<Longrightarrow> c_str s = s"
  by (auto simp: c_str_def takeWhile_eq_all_conv)

definition single_line :: "string \<Rightarrow> bool" where
  "single_line s \<longleftrightarrow> CHR 0x0D \<notin> set s \<and> CHR 0x0A \<notin> set s \<and> CHR 0x00 \<notin> set s"

lemma Token_single_line: "Token s \<Longrightarrow> single_line s"
  by (auto simp: Token_def single_line_def list_all_iff token_punctuation_def)

lemma header_line_single: "valid_header h \<Longrightarrow> single_line (header_line h)"
  using Token_single_line [of "fst h"] by (auto simp: valid_header_def header_line_def single_line_def)

lemma headers_loop_Inr:
  "headers_loop lib hs headers w = (Inr headers', w') \<Longrightarrow>
     list_all valid_header hs \<and> headers' = headers @ map header_line hs"
proof (induction hs arbitrary: headers w)
  case (Cons h hs)
  then have v: "valid_header h" by (auto split: if_splits)
  then have "c_str (header_line h) = header_line h"
    using header_line_single [of h] by (simp add: c_str_id single_line_def)
  with Cons.prems v obtain w1 where "headers_loop lib hs (headers @ [header_line h]) w1 = (Inr headers', w')"
    by (auto split: prod.splits bool.splits)
  from Cons.IH [OF this] v show ?case by simp
qed simp

lemma headers_loop_Inl:
  "headers_loop lib hs headers w = (Inl f, w') \<Longrightarrow>
     f = bad_alloc \<or> f = Throw (Error ec_invalid_argument ''invalid HTTP header'') \<and> \<not> list_all valid_header hs"
  by (induction lib hs headers w rule: headers_loop.induct)
    (auto simp: throw_def split: if_splits prod.splits bool.splits)

text \<open>The options a transfer runs under: those of the request and the fixed ones.\<close>

definition in_force :: "'w libcurl \<Rightarrow> HttpRequest \<Rightarrow> curl_option list" where
  "in_force lib request =
     [Url (hr_url request), Protocols_str ''http,https'', Followlocation 0, Nosignal 1,
      Timeout_ms (min (hr_timeout request) (cu_long_max lib)), Ssl_verifypeer 1, Ssl_verifyhost 2,
      Httpheader (map header_line (hr_headers request)), Postfields (hr_body request),
      Postfieldsize_large (int (length (hr_body request))), Customrequest (hr_method request),
      Writefunction BodyCallback, Writedata, Headerfunction HeaderCallback, Headerdata]"

lemma request_options_in_force:
  "valid_request request \<Longrightarrow> request_options lib request (map header_line (hr_headers request)) = in_force lib request"
  using Token_single_line [of "hr_method request"]
  by (simp add: request_options_def in_force_def valid_request_def c_str_id single_line_def)

lemma setopts_Inr: "setopts lib opts s = (Inr u, s') \<Longrightarrow> fst s' = fst s @ opts"
  by (induction lib opts s rule: setopts.induct) (auto split: prod.splits sum.splits)

definition answered :: "'w libcurl \<Rightarrow> curl_option list \<Rightarrow> 'w \<Rightarrow> HttpResponse \<Rightarrow> bool" where
  "answered lib opts w response \<longleftrightarrow>
     (case run_transfer (cu_alloc lib) (cu_easy_perform lib opts w) new_ResponseState of
        ((code, state), w1) \<Rightarrow>
          code = 0 \<and> cs_failure state = None \<and>
          (\<exists>status. fst (cu_easy_getinfo lib w1) = (0, status) \<and>
             response = (cs_response state)\<lparr>rs_status_code := to_int status\<rparr>))"

lemma Check_Inr: "Check lib code = Inr u \<longleftrightarrow> code = 0"
  by (auto simp: Check_def)

lemma perform_Inr: "perform lib s = (Inr response, s') \<Longrightarrow> answered lib (fst s) (snd s) response"
  by (auto simp: perform_def answered_def Check_Inr split: prod.splits option.splits sum.splits)

text \<open>The failures of a transfer: what libcurl reports, or an allocation.\<close>

definition transport_fault :: "fault \<Rightarrow> bool" where
  "transport_fault f \<longleftrightarrow> f = bad_alloc \<or> (\<exists>m. f = Throw (Error ec_transport m))"

lemma Check_fault: "Check lib code = Inl f \<Longrightarrow> transport_fault f"
  by (auto simp: Check_def throw_def transport_fault_def split: if_splits)

lemma setopts_fault: "setopts lib opts s = (Inl f, s') \<Longrightarrow> transport_fault f"
  by (induction lib opts s rule: setopts.induct) (auto split: prod.splits sum.splits dest: Check_fault)

lemma run_transfer_failure:
  "run_transfer alloc t new_ResponseState = ((code, state), w) \<Longrightarrow> cs_failure state = Some f \<Longrightarrow> f = bad_alloc"
  using run_transfer_agrees [OF new_agrees] by (fastforce simp: agrees_def)

lemma perform_fault: "perform lib s = (Inl f, s') \<Longrightarrow> transport_fault f"
  by (auto simp: perform_def split: prod.splits option.splits sum.splits
      dest: Check_fault run_transfer_failure) (auto simp: transport_fault_def dest: run_transfer_failure)

lemma locked_send_fault:
  assumes "locked_send lib request headers s = (Inl f, s')"
  shows "transport_fault f"
proof -
  from assms obtain s1 where
    "io_bind (setopts lib (request_options lib request headers)) (\<lambda>_. perform lib) (reset_handle lib s) = (Inl f, s1)"
    by (auto simp: locked_send_def split: prod.splits)
  then show ?thesis by (auto simp: io_bind_def split: prod.splits sum.splits dest: setopts_fault perform_fault)
qed

lemma locked_send_result:
  "locked_send lib request headers s = (outcome, s') \<Longrightarrow> fst s' = [] \<and>
     (case outcome of Inr response \<Rightarrow> \<exists>w. answered lib (request_options lib request headers) w response
      | Inl f \<Rightarrow> transport_fault f)"
proof -
  assume a: "locked_send lib request headers s = (outcome, s')"
  obtain r s1 where r: "io_bind (setopts lib (request_options lib request headers)) (\<lambda>_. perform lib)
      (reset_handle lib s) = (r, s1)" by (rule prod.exhaust)
  have o: "outcome = r" "fst s' = []"
    using a [unfolded locked_send_def r prod.case] by (auto simp: reset_handle_def)
  have "\<exists>w. answered lib (request_options lib request headers) w response" if "outcome = Inr response" for response
  proof -
    from r [unfolded o(1) [symmetric] that] obtain u s2 where
      s: "setopts lib (request_options lib request headers) (reset_handle lib s) = (Inr u, s2)" and
      p: "perform lib s2 = (Inr response, s1)"
      by (rule io_bind_InrE)
    from setopts_Inr [OF s] perform_Inr [OF p] show ?thesis
      unfolding reset_handle_def fst_conv append_Nil by metis
  qed
  then show ?thesis using o(2) locked_send_fault [of lib request headers s _ s'] a by (auto split: sum.split)
qed

lemma CurlTransport_Send_result:
  "case CurlTransport_Send lib request (opts, w) of
     (outcome, (opts', w')) \<Rightarrow>
       (if \<not> valid_request request
        then outcome = throw ec_invalid_argument ''invalid HTTP request URL, method, timeout or body size'' \<and>
          opts' = opts \<and> w' = w
        else if \<not> list_all valid_header (hr_headers request)
        then opts' = opts \<and> (outcome = throw ec_invalid_argument ''invalid HTTP header'' \<or> outcome = Inl bad_alloc)
        else (opts' = opts \<and> outcome = Inl bad_alloc) \<or>
          opts' = [] \<and>
          (case outcome of
             Inl f \<Rightarrow> transport_fault f
           | Inr response \<Rightarrow>
               list_all single_line (map header_line (hr_headers request)) \<and>
               (\<exists>w1. answered lib (in_force lib request) w1 response)))"
proof (cases "valid_request request")
  case v: True
  obtain r w1 where h: "headers_loop lib (hr_headers request) [] w = (r, w1)" by fastforce
  show ?thesis
  proof (cases r)
    case (Inl f)
    with v h headers_loop_Inl [OF h [unfolded Inl]] show ?thesis
      by (auto simp: CurlTransport_Send_def throw_def)
  next
    case (Inr headers)
    with headers_loop_Inr [OF h [unfolded Inr]]
    have hs: "list_all valid_header (hr_headers request)" "headers = map header_line (hr_headers request)"
      by simp_all
    then have "list_all single_line (map header_line (hr_headers request))"
      by (auto simp: list_all_iff intro: header_line_single)
    moreover obtain outcome opts' w' where l: "locked_send lib request headers (opts, w1) = (outcome, opts', w')"
      by (metis prod_cases3)
    moreover have "CurlTransport_Send lib request (opts, w) = (outcome, opts', free_list lib headers w')"
      using v h Inr l by (simp add: CurlTransport_Send_def)
    moreover have "opts' = []" and
      "case outcome of Inr response \<Rightarrow> \<exists>w. answered lib (in_force lib request) w response | Inl f \<Rightarrow> transport_fault f"
      using locked_send_result [OF l] unfolding hs(2) request_options_in_force [OF v, of lib] by simp_all
    ultimately show ?thesis using v hs(1) by (cases outcome) simp_all
  qed
qed (simp add: CurlTransport_Send_def)

text \<open>
  C19. Sending through libcurl. An invalid URL, method, timeout or body size is rejected before
  libcurl is used at all, an invalid header before the handle is; a response means that a transfer
  ran to the end under exactly the options of the request, with redirects off and peer and host
  verified, and that every header was one line; any other failure is an error of libcurl, reported as
  a transport error, or a failed allocation; and whatever the outcome, no option stays in force
  on the handle that was not there before, so nothing the request lent it outlives the call.
\<close>

theorem curl_send_exact:
  "case CurlTransport_Send lib request (opts, w) of
     (outcome, (opts', w')) \<Rightarrow>
       (if \<not> valid_request request
        then outcome = throw ec_invalid_argument ''invalid HTTP request URL, method, timeout or body size'' \<and>
          opts' = opts \<and> w' = w
        else if \<not> list_all valid_header (hr_headers request)
        then opts' = opts \<and> (outcome = throw ec_invalid_argument ''invalid HTTP header'' \<or> outcome = Inl bad_alloc)
        else (opts' = opts \<and> outcome = Inl bad_alloc) \<or>
          opts' = [] \<and>
          (case outcome of
             Inl f \<Rightarrow> transport_fault f
           | Inr response \<Rightarrow>
               list_all single_line (map header_line (hr_headers request)) \<and>
               (\<exists>w1. answered lib (in_force lib request) w1 response)))"
  by (rule CurlTransport_Send_result)

end
