(* ===== verification/CurlConcurrency.thy ===== *)
theory CurlConcurrency
  imports CurlTransport
begin

text \<open>
  Concurrent calls of \<^verbatim>\<open>CurlTransport::Send\<close> (\<^verbatim>\<open>src/detail/curl_transport.cpp\<close>) on one transport: a step
  relation over any number of threads that share the easy handle behind its mutex, one libcurl call
  at a step. The world may change between any two steps, so nothing is assumed of the rest of the
  program, nor of the order in which threads run.
\<close>

section \<open>Steps\<close>

text \<open>
  Where a thread is: outside, at the lock with its request checked and its header list built, inside
  before the first reset, setting options (those left), before the second reset, before unlocking.
\<close>

datatype send_pc =
    S_idle
  | S_waiting HttpRequest "string list"
  | S_entered HttpRequest "string list"
  | S_setting HttpRequest "string list" "curl_option list"
  | S_leaving HttpRequest "string list" "HttpResponse result"
  | S_unlocking HttpRequest "string list" "HttpResponse result"

text \<open>
  \<open>hs_transfers\<close> records the options under which each transfer ran, \<open>hs_returned\<close> what calls returned.
\<close>

record 'w handle_state =
  hs_options :: "curl_option list"
  hs_world :: 'w
  hs_lock :: "nat option"
  hs_pc :: "nat \<Rightarrow> send_pc"
  hs_transfers :: "(HttpRequest \<times> curl_option list) list"
  hs_returned :: "(nat \<times> HttpRequest \<times> HttpResponse result) list"

definition handle_start :: "'w \<Rightarrow> 'w handle_state" where
  "handle_start w =
     \<lparr>hs_options = [], hs_world = w, hs_lock = None, hs_pc = (\<lambda>_. S_idle), hs_transfers = [], hs_returned = []\<rparr>"

definition step_to :: "nat \<Rightarrow> send_pc \<Rightarrow> 'w \<Rightarrow> 'w handle_state \<Rightarrow> 'w handle_state" where
  "step_to i p w s = s\<lparr>hs_pc := (hs_pc s)(i := p), hs_world := w\<rparr>"

inductive send_step :: "'w libcurl \<Rightarrow> nat \<Rightarrow> 'w handle_state \<Rightarrow> 'w handle_state \<Rightarrow> bool" for lib where
  refuse_request: "hs_pc s i = S_idle \<Longrightarrow> \<not> valid_request request \<Longrightarrow>
    r = throw ec_invalid_argument ''invalid HTTP request URL, method, timeout or body size'' \<Longrightarrow>
    send_step lib i s (s\<lparr>hs_returned := hs_returned s @ [(i, request, r)]\<rparr>)"
| refuse_header: "hs_pc s i = S_idle \<Longrightarrow> valid_request request \<Longrightarrow>
    headers_loop lib (hr_headers request) [] (hs_world s) = (Inl f, w) \<Longrightarrow>
    send_step lib i s (s\<lparr>hs_world := w, hs_returned := hs_returned s @ [(i, request, Inl f)]\<rparr>)"
| prepare: "hs_pc s i = S_idle \<Longrightarrow> valid_request request \<Longrightarrow>
    headers_loop lib (hr_headers request) [] (hs_world s) = (Inr headers, w) \<Longrightarrow>
    send_step lib i s (step_to i (S_waiting request headers) w s)"
| acquire: "hs_pc s i = S_waiting request headers \<Longrightarrow> hs_lock s = None \<Longrightarrow>
    send_step lib i s (step_to i (S_entered request headers) (hs_world s) (s\<lparr>hs_lock := Some i\<rparr>))"
| reset_first: "hs_pc s i = S_entered request headers \<Longrightarrow>
    send_step lib i s
      (step_to i (S_setting request headers (request_options lib request headers)) (cu_easy_reset lib (hs_world s))
        (s\<lparr>hs_options := []\<rparr>))"
| set_option: "hs_pc s i = S_setting request headers (opt # opts) \<Longrightarrow>
    cu_easy_setopt lib opt (hs_world s) = (code, w) \<Longrightarrow> Check lib code = Inr u \<Longrightarrow>
    send_step lib i s
      (step_to i (S_setting request headers opts) w (s\<lparr>hs_options := hs_options s @ [opt]\<rparr>))"
| set_option_fails: "hs_pc s i = S_setting request headers (opt # opts) \<Longrightarrow>
    cu_easy_setopt lib opt (hs_world s) = (code, w) \<Longrightarrow> Check lib code = Inl f \<Longrightarrow>
    send_step lib i s (step_to i (S_leaving request headers (Inl f)) w s)"
| transfer: "hs_pc s i = S_setting request headers [] \<Longrightarrow>
    perform lib (hs_options s, hs_world s) = (r, (opts, w)) \<Longrightarrow>
    send_step lib i s
      (step_to i (S_leaving request headers r) w
        (s\<lparr>hs_options := opts, hs_transfers := hs_transfers s @ [(request, hs_options s)]\<rparr>))"
| reset_last: "hs_pc s i = S_leaving request headers r \<Longrightarrow>
    send_step lib i s
      (step_to i (S_unlocking request headers r) (cu_easy_reset lib (hs_world s)) (s\<lparr>hs_options := []\<rparr>))"
| release: "hs_pc s i = S_unlocking request headers r \<Longrightarrow>
    send_step lib i s
      (step_to i S_idle (free_list lib headers (hs_world s))
        (s\<lparr>hs_lock := None, hs_returned := hs_returned s @ [(i, request, r)]\<rparr>))"
| other_code: "send_step lib i s (s\<lparr>hs_world := w\<rparr>)"

inductive send_run :: "'w libcurl \<Rightarrow> 'w \<Rightarrow> 'w handle_state \<Rightarrow> bool" for lib w where
  send_start: "send_run lib w (handle_start w)"
| send_next: "send_run lib w s \<Longrightarrow> send_step lib i s s' \<Longrightarrow> send_run lib w s'"

section \<open>The invariant\<close>

fun inside :: "send_pc \<Rightarrow> bool" where
  "inside S_idle = False"
| "inside (S_waiting request headers) = False"
| "inside _ = True"

definition checked :: "HttpRequest \<Rightarrow> string list \<Rightarrow> bool" where
  "checked request headers \<longleftrightarrow>
     valid_request request \<and> list_all valid_header (hr_headers request) \<and> headers = map header_line (hr_headers request)"

text \<open>What a single call may answer.\<close>

definition sound_result :: "'w libcurl \<Rightarrow> HttpRequest \<Rightarrow> HttpResponse result \<Rightarrow> bool" where
  "sound_result lib request r \<longleftrightarrow>
     (case r of Inr response \<Rightarrow> \<exists>w. answered lib (in_force lib request) w response
      | Inl f \<Rightarrow>
          if \<not> valid_request request
          then f = Throw (Error ec_invalid_argument ''invalid HTTP request URL, method, timeout or body size'')
          else if \<not> list_all valid_header (hr_headers request)
          then f = Throw (Error ec_invalid_argument ''invalid HTTP header'') \<or> f = bad_alloc
          else transport_fault f)"

lemma sound_fault: "checked request headers \<Longrightarrow> transport_fault f \<Longrightarrow> sound_result lib request (Inl f)"
  by (simp add: checked_def sound_result_def)

text \<open>What holds of a thread when the options in force are \<open>opts\<close>.\<close>

fun pc_sound :: "'w libcurl \<Rightarrow> curl_option list \<Rightarrow> send_pc \<Rightarrow> bool" where
  "pc_sound lib opts S_idle \<longleftrightarrow> True"
| "pc_sound lib opts (S_waiting request headers) \<longleftrightarrow> checked request headers"
| "pc_sound lib opts (S_entered request headers) \<longleftrightarrow> checked request headers"
| "pc_sound lib opts (S_setting request headers left) \<longleftrightarrow>
     checked request headers \<and> opts @ left = in_force lib request"
| "pc_sound lib opts (S_leaving request headers r) \<longleftrightarrow> sound_result lib request r"
| "pc_sound lib opts (S_unlocking request headers r) \<longleftrightarrow> sound_result lib request r \<and> opts = []"

definition separate :: "'w libcurl \<Rightarrow> 'w handle_state \<Rightarrow> bool" where
  "separate lib s \<longleftrightarrow>
     (\<forall>i. inside (hs_pc s i) \<longleftrightarrow> hs_lock s = Some i) \<and>
     (hs_lock s = None \<longrightarrow> hs_options s = []) \<and>
     (\<forall>i. pc_sound lib (hs_options s) (hs_pc s i)) \<and>
     list_all (\<lambda>(request, opts). opts = in_force lib request) (hs_transfers s) \<and>
     list_all (\<lambda>(i, request, r). sound_result lib request r) (hs_returned s)"

lemma step_to_sel [simp]:
  "hs_pc (step_to i p w s) = (hs_pc s)(i := p)" "hs_world (step_to i p w s) = w"
  "hs_options (step_to i p w s) = hs_options s" "hs_lock (step_to i p w s) = hs_lock s"
  "hs_transfers (step_to i p w s) = hs_transfers s" "hs_returned (step_to i p w s) = hs_returned s"
  by (simp_all add: step_to_def)

lemma pc_sound_outside: "\<not> inside p \<Longrightarrow> pc_sound lib opts p \<Longrightarrow> pc_sound lib opts' p"
  by (cases p) simp_all

text \<open>A step of thread \<open>i\<close>: the others are outside, or the options stay.\<close>

lemma separate_move:
  assumes "separate lib s"
    and "hs_pc s' = (hs_pc s)(i := p)" "pc_sound lib (hs_options s') p"
    and "inside p \<longleftrightarrow> hs_lock s' = Some i" "hs_lock s' = None \<or> hs_lock s' = Some i \<or> hs_lock s' = hs_lock s"
    and "hs_lock s = Some i \<or> hs_lock s = None \<or> hs_lock s' = hs_lock s \<and> hs_options s' = hs_options s"
    and "hs_lock s' = None \<Longrightarrow> hs_options s' = []"
    and "list_all (\<lambda>(request, opts). opts = in_force lib request) (hs_transfers s')"
    and "list_all (\<lambda>(i, request, r). sound_result lib request r) (hs_returned s')"
  shows "separate lib s'"
proof -
  have lock: "inside (hs_pc s j) \<longleftrightarrow> hs_lock s = Some j" for j using assms(1) by (simp add: separate_def)
  have sound: "pc_sound lib (hs_options s) (hs_pc s j)" for j using assms(1) by (simp add: separate_def)
  have "inside (hs_pc s' j) \<longleftrightarrow> hs_lock s' = Some j" for j
    using lock [of j] assms(2,4,5,6) by (cases "j = i") auto
  moreover have "pc_sound lib (hs_options s') (hs_pc s' j)" for j
  proof (cases "j = i")
    case False
    show ?thesis
    proof (cases "hs_options s' = hs_options s")
      case True
      with sound [of j] False show ?thesis by (simp add: assms(2))
    next
      case changed: False
      with False lock [of j] assms(6) have "\<not> inside (hs_pc s j)" by auto
      from pc_sound_outside [OF this sound [of j]] False show ?thesis by (simp add: assms(2))
    qed
  qed (use assms(2,3) in simp)
  ultimately show ?thesis using assms(7,8,9) by (simp add: separate_def)
qed

lemma separate_step:
  assumes "send_step lib i s s'" "separate lib s"
  shows "separate lib s'"
proof -
  have lock: "inside (hs_pc s i) \<longleftrightarrow> hs_lock s = Some i" and sound: "pc_sound lib (hs_options s) (hs_pc s i)"
    and logs: "list_all (\<lambda>(request, opts). opts = in_force lib request) (hs_transfers s)"
      "list_all (\<lambda>(i, request, r). sound_result lib request r) (hs_returned s)"
    and free: "hs_lock s = None \<longrightarrow> hs_options s = []"
    using assms(2) by (simp_all add: separate_def)
  from assms(1) show ?thesis
  proof (cases rule: send_step.cases)
    case (refuse_request request r)
    with assms(2) show ?thesis by (simp add: separate_def sound_result_def throw_def)
  next
    case (refuse_header request f w)
    then have "sound_result lib request (Inl f)"
      using headers_loop_Inl [OF refuse_header(4)] by (auto simp: sound_result_def transport_fault_def)
    with refuse_header assms(2) show ?thesis by (simp add: separate_def)
  next
    case (prepare request headers w)
    with headers_loop_Inr [OF prepare(4)] lock logs free show ?thesis
      by (intro separate_move [OF assms(2), where i = i and p = "S_waiting request headers"]) (auto simp: checked_def)
  next
    case (acquire request headers)
    with lock sound logs show ?thesis
      by (intro separate_move [OF assms(2), where i = i and p = "S_entered request headers"]) auto
  next
    case (reset_first request headers)
    have "request_options lib request headers = in_force lib request"
      using sound by (simp add: reset_first checked_def request_options_in_force)
    with reset_first lock sound logs show ?thesis
      by (intro separate_move [OF assms(2), where i = i and
            p = "S_setting request headers (request_options lib request headers)"]) auto
  next
    case (set_option request headers opt opts code w u)
    with lock sound logs show ?thesis
      by (intro separate_move [OF assms(2), where i = i and p = "S_setting request headers opts"]) auto
  next
    case (set_option_fails request headers opt opts code w f)
    have "sound_result lib request (Inl f)"
      using sound Check_fault [OF set_option_fails(4)] by (auto simp: set_option_fails intro: sound_fault)
    with set_option_fails lock sound logs show ?thesis
      by (intro separate_move [OF assms(2), where i = i and p = "S_leaving request headers (Inl f)"]) auto
  next
    case (transfer request headers r opts w)
    have o: "hs_options s = in_force lib request" using sound by (simp add: transfer)
    have "sound_result lib request r"
    proof (cases r)
      case (Inl f)
      with transfer(3) have "transport_fault f" using perform_fault by metis
      with Inl sound show ?thesis by (auto simp: transfer intro: sound_fault)
    next
      case (Inr response)
      with transfer(3) perform_Inr show ?thesis by (fastforce simp: sound_result_def o)
    qed
    with transfer o lock logs show ?thesis
      by (intro separate_move [OF assms(2), where i = i and p = "S_leaving request headers r"]) auto
  next
    case (reset_last request headers r)
    with lock sound logs show ?thesis
      by (intro separate_move [OF assms(2), where i = i and p = "S_unlocking request headers r"]) auto
  next
    case (release request headers r)
    with lock sound logs show ?thesis
      by (intro separate_move [OF assms(2), where i = i and p = S_idle]) auto
  next
    case (other_code w)
    with assms(2) show ?thesis by (simp add: separate_def)
  qed
qed

lemma send_run_separate: "send_run lib w s \<Longrightarrow> separate lib s"
proof (induction rule: send_run.induct)
  case send_start
  show ?case by (simp add: separate_def handle_start_def)
qed (rule separate_step)

section \<open>Properties\<close>

text \<open>
  C21. Calls on one transport do not mix. However any number of threads interleave, at most one is
  between lock and unlock; every transfer runs under exactly the options of its own request, never
  those of another call; a call that sets options has set a part of its own and nothing else is in
  force; when nobody holds the lock no option is in force, so nothing a request lent the handle is
  left; and every call answers what it answers alone.
\<close>

theorem concurrent_sends_do_not_mix:
  assumes "send_run lib w s"
  shows "(\<forall>i j. inside (hs_pc s i) \<longrightarrow> inside (hs_pc s j) \<longrightarrow> i = j) \<and>
    list_all (\<lambda>(request, opts). opts = in_force lib request) (hs_transfers s) \<and>
    (\<forall>i request headers left. hs_pc s i = S_setting request headers left \<longrightarrow>
       hs_options s @ left = in_force lib request) \<and>
    (hs_lock s = None \<longrightarrow> hs_options s = []) \<and>
    list_all (\<lambda>(i, request, r). sound_result lib request r) (hs_returned s)"
proof -
  have inv: "separate lib s" by (rule send_run_separate [OF assms])
  then have "pc_sound lib (hs_options s) (hs_pc s i)" for i by (simp add: separate_def)
  then have "hs_options s @ left = in_force lib request" if "hs_pc s i = S_setting request headers left"
    for i request headers left
    using that by (metis pc_sound.simps(4))
  with inv show ?thesis by (simp add: separate_def)
qed

text \<open>A libcurl on which everything succeeds, and two threads that send one after the other.\<close>

definition easy_curl :: "unit libcurl" where
  "easy_curl =
     \<lparr>cu_global_init = (\<lambda>w. (0, w)), cu_easy_init = (\<lambda>w. (True, w)), cu_easy_reset = (\<lambda>w. w),
      cu_easy_setopt = (\<lambda>opt w. (0, w)), cu_easy_perform = (\<lambda>opts w. Finished 0 w),
      cu_easy_getinfo = (\<lambda>w. ((0, 200), w)), cu_easy_strerror = (\<lambda>code. []),
      cu_slist_append = (\<lambda>headers line w. (True, w)), cu_slist_free_all = (\<lambda>headers w. w),
      cu_alloc = (\<lambda>n. True), cu_long_max = 2147483647\<rparr>"

definition get_request :: "string \<Rightarrow> HttpRequest" where
  "get_request url = \<lparr>hr_url = url, hr_method = ''GET'', hr_headers = [], hr_body = [], hr_timeout = 1\<rparr>"

lemma set_all_options:
  assumes "send_run easy_curl () s" "hs_pc s i = S_setting request headers opts"
  shows "send_run easy_curl ()
    (step_to i (S_setting request headers []) () (s\<lparr>hs_options := hs_options s @ opts\<rparr>))"
  using assms
proof (induction opts arbitrary: s)
  case Nil
  have "step_to i (S_setting request headers []) () s = s" using Nil.prems(2) by (simp add: step_to_def fun_upd_idem)
  with Nil.prems(1) show ?case by simp
next
  case (Cons opt opts)
  let ?s = "step_to i (S_setting request headers opts) () (s\<lparr>hs_options := hs_options s @ [opt]\<rparr>)"
  have "send_step easy_curl i s ?s"
    by (rule set_option [OF Cons.prems(2)]) (simp_all add: easy_curl_def Check_def)
  with Cons.prems(1) have "send_run easy_curl () ?s" by (rule send_next)
  from Cons.IH [OF this] show ?case by (simp add: step_to_def)
qed

text \<open>One call of thread \<open>i\<close>, from the outside with the lock free to the outside again.\<close>

lemma run_one_call:
  assumes "send_run easy_curl () s" "hs_pc s i = S_idle" "hs_lock s = None" "valid_request request" "hr_headers request = []"
  shows "\<exists>s'. send_run easy_curl () s' \<and> hs_pc s' = hs_pc s \<and> hs_lock s' = None \<and>
    hs_transfers s' = hs_transfers s @ [(request, request_options easy_curl request [])] \<and>
    hs_returned s' = hs_returned s @ [(i, request, Inr \<lparr>rs_status_code = 200, rs_headers = [], rs_body = []\<rparr>)]"
proof -
  define response where "response = \<lparr>rs_status_code = 200, rs_headers = [], rs_body = []\<rparr>"
  define opts where "opts = request_options easy_curl request []"
  define s1 where "s1 = step_to i (S_waiting request []) () s"
  define s2 where "s2 = step_to i (S_entered request []) () (s1\<lparr>hs_lock := Some i\<rparr>)"
  define s3 where "s3 = step_to i (S_setting request [] opts) () (s2\<lparr>hs_options := []\<rparr>)"
  define s4 where "s4 = step_to i (S_setting request [] []) () (s3\<lparr>hs_options := hs_options s3 @ opts\<rparr>)"
  define s5 where "s5 = step_to i (S_leaving request [] (Inr response)) ()
    (s4\<lparr>hs_options := opts, hs_transfers := hs_transfers s4 @ [(request, hs_options s4)]\<rparr>)"
  define s6 where "s6 = step_to i (S_unlocking request [] (Inr response)) () (s5\<lparr>hs_options := []\<rparr>)"
  define s7 where "s7 = step_to i S_idle ()
    (s6\<lparr>hs_lock := None, hs_returned := hs_returned s6 @ [(i, request, Inr response)]\<rparr>)"
  have "send_step easy_curl i s s1"
    unfolding s1_def by (rule prepare) (use assms in simp_all)
  moreover have "send_step easy_curl i s1 s2"
    using acquire [of s1 i request "[]" easy_curl] assms(3) by (simp add: s1_def s2_def)
  moreover have "send_step easy_curl i s2 s3"
    using reset_first [of s2 i request "[]" easy_curl] by (simp add: s2_def s3_def opts_def easy_curl_def)
  ultimately have "send_run easy_curl () s3" using assms(1) by (meson send_next)
  moreover have "hs_pc s3 i = S_setting request [] opts" by (simp add: s3_def)
  ultimately have "send_run easy_curl () s4" unfolding s4_def by (rule set_all_options)
  moreover have "send_step easy_curl i s4 s5"
    using transfer [of s4 i request "[]" easy_curl "Inr response" opts "()"]
    by (simp add: s4_def s5_def s3_def perform_def easy_curl_def new_ResponseState_def Check_def to_int_def response_def)
  moreover have "send_step easy_curl i s5 s6"
    using reset_last [of s5 i request "[]" "Inr response" easy_curl] by (simp add: s5_def s6_def)
  moreover have "send_step easy_curl i s6 s7"
    using release [of s6 i request "[]" "Inr response" easy_curl] by (simp add: s6_def s7_def)
  ultimately have "send_run easy_curl () s7" by (meson send_next)
  moreover have "hs_pc s7 = hs_pc s"
    using assms(2) by (simp add: s7_def s6_def s5_def s4_def s3_def s2_def s1_def fun_eq_iff)
  moreover have "hs_transfers s7 = hs_transfers s @ [(request, opts)]"
    "hs_returned s7 = hs_returned s @ [(i, request, Inr response)]" "hs_lock s7 = None"
    by (simp_all add: s7_def s6_def s5_def s4_def s3_def s2_def s1_def)
  ultimately show ?thesis unfolding opts_def response_def by blast
qed

lemma concurrent_sends_do_not_mix_witness:
  "\<exists>s. send_run easy_curl () s \<and> map fst (hs_returned s) = [0, 1] \<and>
     map snd (hs_transfers s) = [in_force easy_curl (get_request ''http://a''), in_force easy_curl (get_request ''https://b'')]"
proof -
  define a where "a = get_request ''http://a''"
  define b where "b = get_request ''https://b''"
  have "Token ''GET''" by code_simp
  then have valid: "valid_request a" "valid_request b"
    by (simp_all add: valid_request_def a_def b_def get_request_def starts_with_def)
  have bare: "hr_headers a = []" "hr_headers b = []" by (simp_all add: a_def b_def get_request_def)
  have start: "hs_pc (handle_start ()) i = S_idle" "hs_lock (handle_start ()) = None"
    "hs_transfers (handle_start ()) = []" "hs_returned (handle_start ()) = []" for i
    by (simp_all add: handle_start_def)
  from run_one_call [OF send_start start(1) start(2) valid(1) bare(1), of 0] obtain s1 where s1:
    "send_run easy_curl () s1" "hs_pc s1 = hs_pc (handle_start ())" "hs_lock s1 = None"
    "map fst (hs_transfers s1) = [a]" "map fst (hs_returned s1) = [0]"
    unfolding start(3,4) by fastforce
  have "hs_pc s1 1 = S_idle" using s1(2) start(1) by simp
  from run_one_call [OF s1(1) this s1(3) valid(2) bare(2)] s1(4,5) obtain s2 where s2:
    "send_run easy_curl () s2" "map fst (hs_transfers s2) = [a, b]" "map fst (hs_returned s2) = [0, 1]"
    by fastforce
  have "list_all (\<lambda>(request, opts). opts = in_force easy_curl request) (hs_transfers s2)"
    using concurrent_sends_do_not_mix [OF s2(1)] by blast
  then have "map snd (hs_transfers s2) = map (in_force easy_curl) (map fst (hs_transfers s2))"
    by (auto simp: list_all_iff)
  with s2 show ?thesis unfolding a_def b_def by auto
qed

end
