(* ===== verification/CurlCalls.thy ===== *)
theory CurlCalls
  imports ClientContext CurlTransport
begin

text \<open>
  API calls over libcurl: \<^verbatim>\<open>ClientContext::Call\<close> (\<^verbatim>\<open>src/detail/client_context.cpp\<close>) with the transport of
  \<^verbatim>\<open>src/detail/curl_transport.cpp\<close>, on which the handle and the world are one state. Shown: which
  transfer a call performs, and when the transport refuses the request the context built.
\<close>

section \<open>The requests of a context\<close>

definition call_url :: "'w ClientContext \<Rightarrow> string \<Rightarrow> string \<Rightarrow> string" where
  "call_url ctx service rpc = cc_url ctx @ ''/twirp/livekit.'' @ service @ ''/'' @ rpc"

definition call_request ::
  "'w ClientContext \<Rightarrow> string \<Rightarrow> string \<Rightarrow> string \<Rightarrow> string \<Rightarrow> string \<Rightarrow> HttpRequest" where
  "call_request ctx service rpc token request_id body =
     \<lparr>hr_url = call_url ctx service rpc, hr_method = ''POST'', hr_headers = call_headers token request_id,
      hr_body = body, hr_timeout = cc_timeout ctx\<rparr>"

text \<open>The URLs libcurl gets: unlike in the constructor of the context, the case of the scheme matters.\<close>

definition curl_url :: "string \<Rightarrow> bool" where
  "curl_url url \<longleftrightarrow> (starts_with url ''http://'' \<or> starts_with url ''https://'') \<and> CHR 0x00 \<notin> set url"

definition call_options ::
  "'w libcurl \<Rightarrow> 'x ClientContext \<Rightarrow> string \<Rightarrow> string \<Rightarrow> string \<Rightarrow> string \<Rightarrow> string \<Rightarrow> curl_option list" where
  "call_options lib ctx service rpc token request_id body =
     [Url (call_url ctx service rpc), Protocols_str ''http,https'', Followlocation 0, Nosignal 1,
      Timeout_ms (min (cc_timeout ctx) (cu_long_max lib)), Ssl_verifypeer 1, Ssl_verifyhost 2,
      Httpheader
        [''Content-Type: application/protobuf'', ''Accept: application/protobuf'',
         ''Authorization: Bearer '' @ token, ''X-Livekit-Request-Id: '' @ request_id,
         ''User-Agent: livekit-server-cpp/0.1''],
      Postfields body, Postfieldsize_large (int (length body)), Customrequest ''POST'',
      Writefunction BodyCallback, Writedata, Headerfunction HeaderCallback, Headerdata]"

lemma uuid4_char_line: "uuid4_char t c \<Longrightarrow> t \<in> set ''xy-4'' \<Longrightarrow> c \<notin> {CHR 0x0D, CHR 0x0A, CHR 0x00}"
  by (auto simp: uuid4_char_def is_hex_def)

lemma list_all2_pair: "list_all2 P ts s \<Longrightarrow> c \<in> set s \<Longrightarrow> \<exists>t \<in> set ts. P t c"
  by (induction rule: list_all2_induct) auto

lemma uuid4_line:
  assumes "is_uuid4 s"
  shows "single_line s \<and> s \<noteq> []"
proof -
  have t: "list_all (\<lambda>t. t \<in> set ''xy-4'') ''xxxxxxxx-xxxx-4xxx-yxxx-xxxxxxxxxxxx''" by code_simp
  have "c \<notin> {CHR 0x0D, CHR 0x0A, CHR 0x00}" if "c \<in> set s" for c
    using list_all2_pair [OF assms [unfolded is_uuid4_def] that]
  proof (rule bexE)
    fix t assume "t \<in> set ''xxxxxxxx-xxxx-4xxx-yxxx-xxxxxxxxxxxx''" "uuid4_char t c"
    from uuid4_char_line [OF this(2) bspec [OF t [unfolded list_all_iff] this(1)]]
    show "c \<notin> {CHR 0x0D, CHR 0x0A, CHR 0x00}" .
  qed
  moreover have "s \<noteq> []" using list_all2_lengthD [OF assms [unfolded is_uuid4_def]] by auto
  ultimately show ?thesis by (auto simp: single_line_def)
qed

lemma header_names:
  "Token ''Content-Type'' \<and> Token ''Accept'' \<and> Token ''Authorization'' \<and> Token ''X-Livekit-Request-Id'' \<and>
   Token ''User-Agent'' \<and> Token ''POST''"
  by code_simp

lemma single_line_append: "single_line (s @ t) \<longleftrightarrow> single_line s \<and> single_line t"
  by (auto simp: single_line_def)

lemma valid_header_line: "valid_header (n, v) \<longleftrightarrow> Token n \<and> single_line v"
  by (auto simp: valid_header_def single_line_def)

lemma header_values:
  "single_line ''application/protobuf'' \<and> single_line ''Bearer '' \<and> single_line ''livekit-server-cpp/0.1''"
  by code_simp

lemma call_headers_valid:
  "is_uuid4 request_id \<Longrightarrow> list_all valid_header (call_headers token request_id) \<longleftrightarrow> single_line token"
  using header_names header_values uuid4_line [of request_id] single_line_append [of "''Bearer ''" token]
  by (simp add: call_headers_def valid_header_line)

lemma call_request_valid:
  "valid_request (call_request ctx service rpc token request_id body) \<longleftrightarrow>
     curl_url (call_url ctx service rpc) \<and> 0 < cc_timeout ctx \<and> length body \<le> curl_off_max"
  using header_names by (auto simp: valid_request_def call_request_def curl_url_def not_le)

lemma call_in_force:
  "is_uuid4 request_id \<Longrightarrow> in_force lib (call_request ctx service rpc token request_id body) =
     call_options lib ctx service rpc token request_id body"
  using uuid4_line [of request_id]
  by (simp add: in_force_def call_request_def call_options_def call_headers_def header_line_def)

lemma signed_single_line:
  assumes "signed_by cb secret header claims jwt"
  shows "single_line jwt"
proof -
  have "list_all (\<lambda>c. c \<notin> {CHR 0x0D, CHR 0x0A, CHR 0x00}) (CHR ''.'' # url_alphabet)" by code_simp
  then have "\<forall>c \<in> set (CHR ''.'' # url_alphabet). c \<notin> {CHR 0x0D, CHR 0x0A, CHR 0x00}"
    by (simp only: list_all_iff)
  moreover have "set jwt \<subseteq> set (CHR ''.'' # url_alphabet)" using assms by (simp add: signed_by_def)
  ultimately show ?thesis by (auto simp: single_line_def)
qed

text \<open>Only a token of the caller can break a header.\<close>

lemma authorizes_line:
  "authorizes pf ctx grant now token \<Longrightarrow> \<not> single_line token \<Longrightarrow> token = cc_access_token ctx"
  using signed_single_line by (fastforce simp: authorizes_def split: if_splits)

section \<open>What the transport does with them\<close>

lemma Send_call:
  assumes "is_uuid4 request_id"
    and "CurlTransport_Send lib (call_request ctx service rpc token request_id body) s = (r, s')"
  defines "sendable \<equiv> curl_url (call_url ctx service rpc) \<and> 0 < cc_timeout ctx \<and> length body \<le> curl_off_max"
  shows "case r of
      Inr response \<Rightarrow>
        fst s' = [] \<and> sendable \<and> single_line token \<and>
        (\<exists>w1. answered lib (call_options lib ctx service rpc token request_id body) w1 response)
    | Inl f \<Rightarrow>
        if \<not> sendable
        then f = Throw (Error ec_invalid_argument ''invalid HTTP request URL, method, timeout or body size'')
        else if \<not> single_line token
        then f = Throw (Error ec_invalid_argument ''invalid HTTP header'') \<or> f = bad_alloc
        else transport_fault f"
proof -
  have v: "valid_request (call_request ctx service rpc token request_id body) \<longleftrightarrow> sendable"
    by (simp add: call_request_valid sendable_def)
  have h: "list_all valid_header (hr_headers (call_request ctx service rpc token request_id body)) \<longleftrightarrow> single_line token"
    using call_headers_valid [OF assms(1)] by (simp add: call_request_def)
  show ?thesis
    using CurlTransport_Send_result [where lib = lib and
      request = "call_request ctx service rpc token request_id body" and opts = "fst s" and w = "snd s"]
      assms(2) unfolding v h call_in_force [OF assms(1)]
    by (cases r) (auto simp: throw_def transport_fault_def split: if_splits prod.splits)
qed

text \<open>A context accepts a scheme in upper case, with which no call of it is ever sent.\<close>

lemma upper_case_scheme_refused:
  "NormalizeUrl ''HTTPS://h'' = Inr ''HTTPS://h''" "cc_url ctx = ''HTTPS://h'' \<Longrightarrow> \<not> curl_url (call_url ctx service rpc)"
proof -
  show "NormalizeUrl ''HTTPS://h'' = Inr ''HTTPS://h''" by code_simp
  show "\<not> curl_url (call_url ctx service rpc)" if "cc_url ctx = ''HTTPS://h''"
    by (simp add: that curl_url_def call_url_def starts_with_def)
qed

text \<open>How a call fails once its request is built: refused, failed on the way, or answered with a failure.\<close>

definition failed_call ::
  "'m protobuf \<Rightarrow> 'w libcurl \<Rightarrow> 'x ClientContext \<Rightarrow> string \<Rightarrow> string \<Rightarrow> string \<Rightarrow> string \<Rightarrow> string \<Rightarrow> string \<Rightarrow>
     fault \<Rightarrow> bool" where
  "failed_call pb lib ctx service rpc ty token request_id body f \<longleftrightarrow>
     (if \<not> (curl_url (call_url ctx service rpc) \<and> 0 < cc_timeout ctx \<and> length body \<le> curl_off_max)
      then f = Throw (Error ec_invalid_argument ''invalid HTTP request URL, method, timeout or body size'')
      else if \<not> single_line token
      then token = cc_access_token ctx \<and>
        (f = Throw (Error ec_invalid_argument ''invalid HTTP header'') \<or> f = bad_alloc)
      else transport_fault f \<or>
        (\<exists>w response. answered lib (call_options lib ctx service rpc token request_id body) w response \<and>
           read_response pb ty response = Inl f))"

section \<open>Properties\<close>

text \<open>
  C20. An API call over libcurl, on every path. A message is returned only after libcurl ended one
  transfer under exactly the options listed: \<^verbatim>\<open>POST\<close> to the URL of the method, with certificate and
  host verified and redirects off, the five headers with the authorization, the serialized message
  and the configured timeout. A request fails before that only when the URL has not the scheme
  \<^verbatim>\<open>http\<close> or \<^verbatim>\<open>https\<close> in lower case, or has a NUL, the timeout is not positive or the body too long; or
  when the access token the caller configured has a line break. A token the SDK signs never does.
\<close>

theorem calls_over_libcurl:
  "case Call pb pf (ctx\<lparr>cc_transport := CurlTransport_Send lib\<rparr>) service rpc request (Some ty) grant s of
     (Inr message, s') \<Rightarrow>
       fst s' = [] \<and>
       (\<exists>token request_id body w1 response.
          authorizes pf ctx grant (fst (pf_now pf s)) token \<and> single_line token \<and> is_uuid4 request_id \<and>
          pb_serialize pb request = Some body \<and> curl_url (call_url ctx service rpc) \<and>
          answered lib (call_options lib ctx service rpc token request_id body) w1 response \<and>
          success response \<and> pb_parse pb ty (rs_body response) = Some message)
   | (Inl f, s') \<Rightarrow>
       fst (TokenFor pf ctx grant s) = Inl f \<or> (\<exists>s1. fst (RequestId pf s1) = Inl f) \<or>
       pb_serialize pb request = None \<and> f = Throw (Error ec_protocol ''failed to serialize protobuf request'') \<or>
       (\<exists>token request_id body.
          authorizes pf ctx grant (fst (pf_now pf s)) token \<and> is_uuid4 request_id \<and>
          pb_serialize pb request = Some body \<and>
          failed_call pb lib ctx service rpc ty token request_id body f)"
proof -
  define ctx' where "ctx' = ctx\<lparr>cc_transport := CurlTransport_Send lib\<rparr>"
  have same: "authorizes pf ctx' = authorizes pf ctx" "TokenFor pf ctx' = TokenFor pf ctx"
    by (simp_all add: ctx'_def authorizes_def TokenFor_def granted_token_def fun_eq_iff)
  show ?thesis
  proof (rule Call_run [of pb pf ctx' service rpc request ty grant s])
    fix f s'
    assume "Call pb pf ctx' service rpc request (Some ty) grant s = (Inl f, s')"
      and "fst (TokenFor pf ctx' grant s) = Inl f \<or> (\<exists>w1. fst (RequestId pf w1) = Inl f) \<or>
        pb_serialize pb request = None \<and> f = Throw (Error ec_protocol ''failed to serialize protobuf request'')"
    then show ?thesis unfolding ctx'_def [symmetric] same by auto
  next
    fix r s'
    assume sent: "sent pb pf ctx' service rpc request grant s r s'"
      and run: "Call pb pf ctx' service rpc request (Some ty) grant s = (and_then r (read_response pb ty), s')"
    from sent obtain token request_id body s1 where
      a: "authorizes pf ctx grant (fst (pf_now pf s)) token" "is_uuid4 request_id" "pb_serialize pb request = Some body" and
      send: "CurlTransport_Send lib (call_request ctx service rpc token request_id body) s1 = (r, s')"
      unfolding sent_def same by (auto simp: ctx'_def call_request_def call_headers_def call_url_def)
    show ?thesis
    proof (cases r)
      case (Inl f)
      with Send_call [OF a(2) send] authorizes_line [OF a(1)] a show ?thesis
        by (simp add: ctx'_def [symmetric] run) (auto simp: failed_call_def split: if_splits)
    next
      case (Inr response)
      with Send_call [OF a(2) send] obtain w1 where
        w: "fst s' = []" "curl_url (call_url ctx service rpc)" "0 < cc_timeout ctx" "length body \<le> curl_off_max"
          "single_line token" "answered lib (call_options lib ctx service rpc token request_id body) w1 response" by auto
      show ?thesis
      proof (cases "read_response pb ty response")
        case (Inl f)
        with w have "failed_call pb lib ctx service rpc ty token request_id body f"
          unfolding failed_call_def by auto
        with Inl Inr a show ?thesis by (simp add: ctx'_def [symmetric] run) blast
      next
        case m: (Inr message)
        then have "success response" "pb_parse pb ty (rs_body response) = Some message"
          by (auto simp: read_response_def success_def split: if_splits option.splits)
        with m Inr a w show ?thesis by (simp add: ctx'_def [symmetric] run) blast
      qed
    qed
  qed
qed

end
