(* ===== verification/WinHttpTransport.thy ===== *)
theory WinHttpTransport
  imports CurlTransport "HOL-Library.Multiset"
begin

text \<open>
  \<^verbatim>\<open>src/http_transport.cpp\<close>: the transport over WinHTTP, and the choice of the default transport.

  WinHTTP is the record \<open>winhttp\<close>; its functions say whether they succeed. Handles are numbered in
  the order in which they are created, so a handle is never reused; \<open>ws_closed\<close> lists the calls
  of \<^verbatim>\<open>WinHttpCloseHandle\<close>, and \<open>ws_connected\<close> the endpoint each connection handle was opened for.
  The loop that reads the body ends only when the server does, so it is a partial function and
  \<open>None\<close> means that \<^verbatim>\<open>Send\<close> does not return. A \<^verbatim>\<open>DWORD\<close> is taken modulo \<open>2\<^sup>3\<^sup>2\<close> where the code casts.
\<close>

section \<open>WinHTTP\<close>

type_synonym wstring = "16 word list"

datatype url_scheme = INTERNET_SCHEME_HTTP | INTERNET_SCHEME_HTTPS | other_scheme

record URL_COMPONENTS =
  uc_scheme :: url_scheme
  uc_host :: wstring
  uc_port :: nat
  uc_path :: wstring
  uc_extra :: wstring

text \<open>
  \<open>wh_multi_byte_to_wide s n\<close> is the conversion of \<open>s\<close> when its length is passed as \<open>n\<close>, empty on
  failure. \<open>wh_read_data\<close> returns the bytes it wrote to the buffer.
\<close>

record 'w winhttp =
  wh_multi_byte_to_wide :: "string \<Rightarrow> int \<Rightarrow> wstring"
  wh_get_last_error :: "'w \<Rightarrow> nat"
  wh_open :: "'w \<Rightarrow> bool \<times> 'w"
  wh_crack_url :: "wstring \<Rightarrow> nat \<Rightarrow> 'w \<Rightarrow> URL_COMPONENTS option \<times> 'w"
  wh_connect :: "nat \<Rightarrow> wstring \<Rightarrow> nat \<Rightarrow> 'w \<Rightarrow> bool \<times> 'w"
  wh_open_request :: "nat \<Rightarrow> wstring \<Rightarrow> wstring \<Rightarrow> bool \<Rightarrow> 'w \<Rightarrow> bool \<times> 'w"
  wh_set_timeouts :: "nat \<Rightarrow> int \<Rightarrow> 'w \<Rightarrow> bool \<times> 'w"
  wh_send_request :: "nat \<Rightarrow> wstring \<Rightarrow> nat \<Rightarrow> string option \<Rightarrow> nat \<Rightarrow> 'w \<Rightarrow> bool \<times> 'w"
  wh_receive_response :: "nat \<Rightarrow> 'w \<Rightarrow> bool \<times> 'w"
  wh_query_status :: "nat \<Rightarrow> 'w \<Rightarrow> nat option \<times> 'w"
  wh_query_data_available :: "nat \<Rightarrow> 'w \<Rightarrow> nat option \<times> 'w"
  wh_read_data :: "nat \<Rightarrow> nat \<Rightarrow> 'w \<Rightarrow> string option \<times> 'w"
  wh_close_handle :: "nat \<Rightarrow> 'w \<Rightarrow> 'w"

record 'w winhttp_state =
  ws_next :: nat
  ws_closed :: "nat list"
  ws_connected :: "(nat \<times> wstring \<times> nat) list"
  ws_session :: nat
  ws_connections :: "(wstring \<times> nat) list"
  ws_world :: 'w

definition wide :: "string \<Rightarrow> wstring" where
  "wide s = map of_char s"

text \<open>\<^verbatim>\<open>c_str()\<close> of a wide string, as a C function reads it.\<close>

definition c_wstr :: "wstring \<Rightarrow> wstring" where
  "c_wstr s = takeWhile (\<lambda>c. c \<noteq> 0) s"

definition dword :: "nat \<Rightarrow> nat" where
  "dword n = n mod 4294967296"

definition Utf8ToWide :: "'w winhttp \<Rightarrow> string \<Rightarrow> wstring result" where
  "Utf8ToWide lib value =
     (if value = [] then Inr []
      else let result = wh_multi_byte_to_wide lib value (to_int (int (length value)))
           in if result = [] then throw ec_invalid_argument ''HTTP value is not valid UTF-8'' else Inr result)"

definition WindowsMessage :: "'w winhttp \<Rightarrow> string \<Rightarrow> 'w \<Rightarrow> string" where
  "WindowsMessage lib operation w =
     operation @ '' failed with Windows error '' @ to_string (int (wh_get_last_error lib w))"

text \<open>A call of the library on the world of the state, and one that creates a handle.\<close>

definition call_library :: "('w \<Rightarrow> 'a \<times> 'w) \<Rightarrow> 'w winhttp_state \<Rightarrow> 'a \<times> 'w winhttp_state" where
  "call_library f s = (case f (ws_world s) of (x, w) \<Rightarrow> (x, s\<lparr>ws_world := w\<rparr>))"

definition new_handle ::
  "('w \<Rightarrow> bool \<times> 'w) \<Rightarrow> 'w winhttp_state \<Rightarrow> nat option \<times> 'w winhttp_state" where
  "new_handle f s =
     (case call_library f s of
        (True, s') \<Rightarrow> (Some (ws_next s'), s'\<lparr>ws_next := ws_next s' + 1\<rparr>)
      | (False, s') \<Rightarrow> (None, s'))"

definition close_handle :: "'w winhttp \<Rightarrow> nat \<Rightarrow> 'w winhttp_state \<Rightarrow> 'w winhttp_state" where
  "close_handle lib h s =
     s\<lparr>ws_closed := ws_closed s @ [h], ws_world := wh_close_handle lib h (ws_world s)\<rparr>"

text \<open>A call that must succeed.\<close>

definition require ::
  "'w winhttp \<Rightarrow> string \<Rightarrow> ('w \<Rightarrow> bool \<times> 'w) \<Rightarrow> ('w winhttp_state, unit) io" where
  "require lib operation f s =
     (case call_library f s of
        (True, s') \<Rightarrow> (Inr (), s')
      | (False, s') \<Rightarrow> (throw ec_transport (WindowsMessage lib operation (ws_world s')), s'))"

section \<open>The transport\<close>

definition new_WinHttpTransport :: "'w winhttp \<Rightarrow> 'w \<Rightarrow> 'w winhttp_state result \<times> 'w" where
  "new_WinHttpTransport lib w =
     (case wh_open lib w of
        (True, w') \<Rightarrow>
          (Inr \<lparr>ws_next = 1, ws_closed = [], ws_connected = [], ws_session = 0, ws_connections = [],
                ws_world = w'\<rparr>, w')
      | (False, w') \<Rightarrow> (throw ec_transport (WindowsMessage lib ''WinHttpOpen'' w'), w'))"

definition connection_key :: "wstring \<Rightarrow> nat \<Rightarrow> wstring" where
  "connection_key host port = host @ wide '':'' @ wide (to_string (int port))"

definition Connection :: "'w winhttp \<Rightarrow> wstring \<Rightarrow> nat \<Rightarrow> ('w winhttp_state, nat) io" where
  "Connection lib host port s =
     (let key = connection_key host port
      in case map_of (ws_connections s) key of
           Some existing \<Rightarrow> (Inr existing, s)
         | None \<Rightarrow>
             (case new_handle (wh_connect lib (ws_session s) (c_wstr host) port) s of
                (None, s') \<Rightarrow> (throw ec_transport (WindowsMessage lib ''WinHttpConnect'' (ws_world s')), s')
              | (Some connection, s') \<Rightarrow>
                  (Inr connection,
                   s'\<lparr>ws_connections := insort_key fst (key, connection) (ws_connections s'),
                      ws_connected := (connection, host, port) # ws_connected s'\<rparr>)))"

definition narrow_headers :: "HttpHeaders \<Rightarrow> string" where
  "narrow_headers headers = concat (map (\<lambda>(name, value). name @ '': '' @ value @ [CHR 0x0D, CHR 0x0A]) headers)"

definition request_path :: "URL_COMPONENTS \<Rightarrow> wstring" where
  "request_path components =
     (let path = uc_path components @ uc_extra components in if path = [] then wide ''/'' else path)"

text \<open>The loop that reads the body; \<open>None\<close> when it never ends.\<close>

partial_function (option) read_loop ::
  "'w winhttp \<Rightarrow> nat \<Rightarrow> string \<Rightarrow> 'w winhttp_state \<Rightarrow> (string result \<times> 'w winhttp_state) option" where
  "read_loop lib h body s =
     (case call_library (wh_query_data_available lib h) s of
        (None, s1) \<Rightarrow>
          Some (throw ec_transport (WindowsMessage lib ''WinHttpQueryDataAvailable'' (ws_world s1)), s1)
      | (Some available, s1) \<Rightarrow>
          (if available = 0 then Some (Inr body, s1)
           else
             (case call_library (wh_read_data lib h available) s1 of
                (None, s2) \<Rightarrow>
                  Some (throw ec_transport (WindowsMessage lib ''WinHttpReadData'' (ws_world s2)), s2)
              | (Some received, s2) \<Rightarrow> read_loop lib h (body @ received) s2)))"

text \<open>From the request handle to the status.\<close>

definition exchange_request ::
  "'w winhttp \<Rightarrow> HttpRequest \<Rightarrow> nat \<Rightarrow> ('w winhttp_state, int) io" where
  "exchange_request lib request h =
     (let timeout = to_int (min (hr_timeout request) (2147483647 :: int));
          body = (if hr_body request = [] then None else Some (hr_body request))
      in io_bind (require lib ''WinHttpSetTimeouts'' (wh_set_timeouts lib h timeout)) (\<lambda>_.
         io_bind (io_lift (Utf8ToWide lib (narrow_headers (hr_headers request)))) (\<lambda>headers.
         io_bind (require lib ''WinHTTP request''
             (wh_send_request lib h (c_wstr headers) (dword (length headers)) body
               (dword (length (hr_body request))))) (\<lambda>_.
         io_bind (require lib ''WinHTTP request'' (wh_receive_response lib h)) (\<lambda>_ s.
           case call_library (wh_query_status lib h) s of
             (None, s') \<Rightarrow> (throw ec_transport (WindowsMessage lib ''WinHttpQueryHeaders'' (ws_world s')), s')
           | (Some status, s') \<Rightarrow> (Inr (to_int (int status)), s'))))))"

text \<open>From the URL to the connection.\<close>

definition locate ::
  "'w winhttp \<Rightarrow> HttpRequest \<Rightarrow> ('w winhttp_state, nat \<times> URL_COMPONENTS) io" where
  "locate lib request =
     io_bind (io_lift (Utf8ToWide lib (hr_url request))) (\<lambda>url s.
       case call_library (wh_crack_url lib url (dword (length url))) s of
         (None, s') \<Rightarrow> (throw ec_invalid_argument (WindowsMessage lib ''WinHttpCrackUrl'' (ws_world s')), s')
       | (Some components, s') \<Rightarrow>
           (if uc_scheme components \<noteq> INTERNET_SCHEME_HTTP \<and> uc_scheme components \<noteq> INTERNET_SCHEME_HTTPS
            then (throw ec_invalid_argument ''HTTP transport requires an HTTP(S) URL'', s')
            else io_bind (Connection lib (uc_host components) (uc_port components))
                   (\<lambda>connection. io_return (connection, components)) s'))"

definition open_request ::
  "'w winhttp \<Rightarrow> HttpRequest \<Rightarrow> ('w winhttp_state, nat) io" where
  "open_request lib request =
     io_bind (locate lib request) (\<lambda>(connection, components).
     io_bind (io_lift (Utf8ToWide lib (hr_method request))) (\<lambda>rpc s.
       case new_handle (wh_open_request lib connection (c_wstr rpc) (c_wstr (request_path components))
                (uc_scheme components = INTERNET_SCHEME_HTTPS)) s of
         (None, s') \<Rightarrow> (throw ec_transport (WindowsMessage lib ''WinHttpOpenRequest'' (ws_world s')), s')
       | (Some h, s') \<Rightarrow> (Inr h, s')))"

text \<open>The request handle is closed on every way out of the scope that owns it.\<close>

definition WinHttpTransport_Send ::
  "'w winhttp \<Rightarrow> HttpRequest \<Rightarrow> 'w winhttp_state \<Rightarrow> (HttpResponse result \<times> 'w winhttp_state) option" where
  "WinHttpTransport_Send lib request s =
     (case open_request lib request s of
        (Inl e, s1) \<Rightarrow> Some (Inl e, s1)
      | (Inr h, s1) \<Rightarrow>
          (case exchange_request lib request h s1 of
             (Inl e, s2) \<Rightarrow> Some (Inl e, close_handle lib h s2)
           | (Inr status, s2) \<Rightarrow>
               (case read_loop lib h [] s2 of
                  None \<Rightarrow> None
                | Some (outcome, s3) \<Rightarrow>
                    Some (and_then outcome (\<lambda>body.
                            Inr \<lparr>rs_status_code = status, rs_headers = [], rs_body = body\<rparr>),
                          close_handle lib h s3))))"

text \<open>The destructor: the connections in the order of the map, then the session.\<close>

definition destroy_WinHttpTransport :: "'w winhttp \<Rightarrow> 'w winhttp_state \<Rightarrow> 'w winhttp_state" where
  "destroy_WinHttpTransport lib s =
     close_handle lib (ws_session s) (fold (close_handle lib) (map snd (ws_connections s)) s)"

section \<open>The default transport\<close>

text \<open>Which class \<^verbatim>\<open>CreateDefaultHttpTransport\<close> constructs.\<close>

datatype transport_class = WinHttp | Curl

definition CreateDefaultHttpTransport :: "bool \<Rightarrow> bool \<Rightarrow> transport_class" where
  "CreateDefaultHttpTransport on_windows use_curl =
     (if on_windows \<and> \<not> use_curl then WinHttp else Curl)"

section \<open>Handles\<close>

text \<open>
  Every handle the transport has created is closed or owned: by the transport (the session and the
  cached connections) or by the scopes listed in \<open>held\<close>, each exactly once.
\<close>

definition owned :: "'w winhttp_state \<Rightarrow> nat list" where
  "owned s = ws_session s # map snd (ws_connections s)"

definition balanced :: "nat list \<Rightarrow> 'w winhttp_state \<Rightarrow> bool" where
  "balanced held s \<longleftrightarrow> mset (ws_closed s @ owned s @ held) = mset [0..<ws_next s]"

text \<open>A connection is cached under the key of the endpoint it was opened for.\<close>

definition keyed :: "'w winhttp_state \<Rightarrow> bool" where
  "keyed s \<longleftrightarrow>
     list_all (\<lambda>(key, h). \<exists>host port. key = connection_key host port \<and> (h, host, port) \<in> set (ws_connected s))
       (ws_connections s)"

text \<open>Most operations change the world only.\<close>

definition same_handles :: "'w winhttp_state \<Rightarrow> 'w winhttp_state \<Rightarrow> bool" where
  "same_handles s s' \<longleftrightarrow> s' = s\<lparr>ws_world := ws_world s'\<rparr>"

lemma same_handles_refl [simp, intro]: "same_handles s s"
  by (simp add: same_handles_def)

lemma same_handles_trans [trans]: "same_handles s s' \<Longrightarrow> same_handles s' s'' \<Longrightarrow> same_handles s s''"
  unfolding same_handles_def by (metis winhttp_state.surjective winhttp_state.update_convs(6))

lemma same_handles_invs:
  assumes "same_handles s s'"
  shows "balanced held s' = balanced held s" "keyed s' = keyed s" "ws_connections s' = ws_connections s"
    "ws_connected s' = ws_connected s" "ws_closed s' = ws_closed s"
proof -
  obtain w where "s' = s\<lparr>ws_world := w\<rparr>" using assms unfolding same_handles_def by blast
  then show "balanced held s' = balanced held s" "keyed s' = keyed s" "ws_connections s' = ws_connections s"
    "ws_connected s' = ws_connected s" "ws_closed s' = ws_closed s"
    by (simp_all add: balanced_def keyed_def owned_def)
qed

lemma call_library_same: "call_library f s = (x, s') \<Longrightarrow> same_handles s s'"
  by (auto simp: call_library_def same_handles_def split: prod.splits)

definition world_only :: "('w winhttp_state, 'a) io \<Rightarrow> bool" where
  "world_only m \<longleftrightarrow> (\<forall>s. same_handles s (snd (m s)))"

lemma world_onlyD: "world_only m \<Longrightarrow> m s = (r, s') \<Longrightarrow> same_handles s s'"
  unfolding world_only_def by (metis snd_conv)

lemma world_only_bind [intro]:
  assumes "world_only m" "\<And>x. world_only (f x)"
  shows "world_only (io_bind m f)"
  unfolding world_only_def
proof
  fix s
  obtain x s1 where m: "m s = (x, s1)" by (rule prod.exhaust)
  have "same_handles s s1" by (rule world_onlyD [OF assms(1) m])
  moreover have "same_handles s1 (snd (f y s1))" for y using assms(2) by (simp add: world_only_def)
  ultimately show "same_handles s (snd (io_bind m f s))"
    using m by (auto simp: io_bind_def intro: same_handles_trans split: sum.split)
qed

lemma world_only_lift [intro]: "world_only (io_lift r)"
  by (simp add: world_only_def io_lift_def)

lemma world_only_require [intro]: "world_only (require lib operation f)"
  using call_library_same by (auto simp: world_only_def require_def split: prod.split bool.split)

lemma world_only_query:
  "world_only (\<lambda>s. case call_library f s of (None, s') \<Rightarrow> (throw c (m s'), s') | (Some x, s') \<Rightarrow> (Inr (g x), s'))"
  using call_library_same by (auto simp: world_only_def split: prod.split option.split)

lemma world_only_exchange: "world_only (exchange_request lib request h)"
  unfolding exchange_request_def Let_def
  by (intro world_only_bind world_only_require world_only_lift world_only_query)

lemma read_loop_same: "read_loop lib h body s = Some y \<Longrightarrow> same_handles s (snd y)"
proof (erule read_loop.raw_induct [rotated])
  fix loop :: "'w winhttp \<Rightarrow> nat \<Rightarrow> string \<Rightarrow> 'w winhttp_state \<Rightarrow> (string result \<times> 'w winhttp_state) option"
  fix lib h body s y
  assume IH: "\<And>lib h body s y. loop lib h body s = Some y \<Longrightarrow> same_handles s (snd y)"
  assume run: "(case call_library (wh_query_data_available lib h) s of
      (None, s1) \<Rightarrow> Some (throw ec_transport (WindowsMessage lib ''WinHttpQueryDataAvailable'' (ws_world s1)), s1)
    | (Some available, s1) \<Rightarrow>
        if available = 0 then Some (Inr body, s1)
        else case call_library (wh_read_data lib h available) s1 of
          (None, s2) \<Rightarrow> Some (throw ec_transport (WindowsMessage lib ''WinHttpReadData'' (ws_world s2)), s2)
        | (Some received, s2) \<Rightarrow> loop lib h (body @ received) s2) = Some y"
  obtain available s1 where q: "call_library (wh_query_data_available lib h) s = (available, s1)"
    by (rule prod.exhaust)
  note s1 = call_library_same [OF q]
  show "same_handles s (snd y)"
  proof (cases "available = None \<or> available = Some 0")
    case True
    with run q s1 show ?thesis by auto
  next
    case False
    then obtain n where n: "available = Some n" "n \<noteq> 0" by auto
    obtain received s2 where r: "call_library (wh_read_data lib h n) s1 = (received, s2)"
      by (rule prod.exhaust)
    note s2 = same_handles_trans [OF s1 call_library_same [OF r]]
    show ?thesis
    proof (cases received)
      case None
      with run q n r s2 show ?thesis by auto
    next
      case (Some d)
      with run q n r have "loop lib h (body @ d) s2 = Some y" by simp
      then show ?thesis by (blast intro: same_handles_trans [OF s2] IH)
    qed
  qed
qed

declare mset_upt [simp del]

lemma new_handle_balanced:
  assumes "new_handle f s = (r, s')" "balanced held s"
  shows "balanced (case r of None \<Rightarrow> held | Some h \<Rightarrow> h # held) s'"
proof -
  obtain ok s1 where c: "call_library f s = (ok, s1)" by (rule prod.exhaust)
  with assms(2) have "balanced held s1" using same_handles_invs(1) [OF call_library_same [OF c]] by simp
  with assms(1) c show ?thesis
    by (cases ok) (auto simp: new_handle_def balanced_def owned_def add_mset_commute)
qed

lemma new_handle_other:
  assumes "new_handle f s = (r, s')"
  shows "ws_connections s' = ws_connections s" "ws_connected s' = ws_connected s" "keyed s' = keyed s"
  using assms by (auto simp: new_handle_def call_library_def keyed_def split: prod.splits bool.splits)

lemma close_handle_balanced: "balanced (h # held) s \<Longrightarrow> balanced held (close_handle lib h s)"
  by (simp add: balanced_def close_handle_def owned_def add_mset_commute)

lemma close_handle_keyed [simp]: "keyed (close_handle lib h s) = keyed s"
  by (simp add: keyed_def close_handle_def)


lemma Connection_balanced:
  assumes "Connection lib host port s = (r, s')" "balanced [] s"
  shows "balanced [] s'"
proof (cases "map_of (ws_connections s) (connection_key host port)")
  case None
  obtain c s1 where n: "new_handle (wh_connect lib (ws_session s) (c_wstr host) port) s = (c, s1)"
    by (rule prod.exhaust)
  from new_handle_balanced [OF n assms(2)] assms(1) None n show ?thesis
    by (cases c) (auto simp: Connection_def Let_def balanced_def owned_def mset_insort add_mset_commute)
qed (use assms in \<open>simp add: Connection_def\<close>)

lemma Connection_keyed:
  assumes "Connection lib host port s = (r, s')" "keyed s"
  shows "keyed s'"
proof (cases "map_of (ws_connections s) (connection_key host port)")
  case None
  obtain c s1 where n: "new_handle (wh_connect lib (ws_session s) (c_wstr host) port) s = (c, s1)"
    by (rule prod.exhaust)
  note s1 = new_handle_other [OF n]
  show ?thesis
  proof (cases c)
    case c: (Some h)
    with assms None n s1 show ?thesis
      by (fastforce simp: Connection_def keyed_def list_all_iff set_insort_key)
  qed (use assms None n s1 in \<open>simp add: Connection_def\<close>)
qed (use assms in \<open>simp add: Connection_def\<close>)


lemma locate_invs:
  assumes "locate lib request s = (r, s')" "balanced [] s" "keyed s"
  shows "balanced [] s' \<and> keyed s'"
proof (cases "Utf8ToWide lib (hr_url request)")
  case (Inl e)
  with assms show ?thesis by (auto simp: locate_def)
next
  case (Inr url)
  obtain c s1 where k: "call_library (wh_crack_url lib url (dword (length url))) s = (c, s1)"
    by (rule prod.exhaust)
  note s1 = same_handles_invs(1,2) [OF call_library_same [OF k]]
  show ?thesis
  proof (cases c)
    case None
    with assms Inr k s1 show ?thesis by (auto simp: locate_def)
  next
    case (Some components)
    obtain r1 s2 where n: "Connection lib (uc_host components) (uc_port components) s1 = (r1, s2)"
      by (rule prod.exhaust)
    with s1 assms(2,3) have "balanced [] s2" "keyed s2"
      by (auto intro: Connection_balanced Connection_keyed)
    with assms Inr k s1 Some n show ?thesis
      by (cases r1) (auto simp: locate_def io_bind_def io_return_def split: if_splits)
  qed
qed

lemma open_request_invs:
  assumes "open_request lib request s = (r, s')" "balanced [] s" "keyed s"
  shows "balanced (case r of Inl e \<Rightarrow> [] | Inr h \<Rightarrow> [h]) s' \<and> keyed s'"
proof -
  obtain l s1 where l: "locate lib request s = (l, s1)" by (rule prod.exhaust)
  from locate_invs [OF l assms(2,3)] have s1: "balanced [] s1" "keyed s1" by simp_all
  show ?thesis
  proof (cases l)
    case (Inl e)
    with assms(1) l s1 show ?thesis by (auto simp: open_request_def io_bind_def)
  next
    case (Inr p)
    obtain connection components where p: "p = (connection, components)" by (rule prod.exhaust)
    show ?thesis
    proof (cases "Utf8ToWide lib (hr_method request)")
      case e: (Inl e)
      with assms(1) l Inr p s1 show ?thesis by (auto simp: open_request_def io_bind_def io_lift_def)
    next
      case rpc: (Inr rpc)
      obtain h s2 where h: "new_handle (wh_open_request lib connection (c_wstr rpc) (c_wstr (request_path components))
          (uc_scheme components = INTERNET_SCHEME_HTTPS)) s1 = (h, s2)" by (rule prod.exhaust)
      with assms(1) l Inr p rpc new_handle_balanced [OF h s1(1)] new_handle_other(3) [OF h] s1(2)
      show ?thesis
        by (cases h) (auto simp: open_request_def io_bind_def io_lift_def throw_def)
    qed
  qed
qed

lemma Send_invs:
  assumes "WinHttpTransport_Send lib request s = Some (outcome, s')" "balanced [] s" "keyed s"
  shows "balanced [] s' \<and> keyed s'"
proof -
  obtain r s1 where o: "open_request lib request s = (r, s1)" by (rule prod.exhaust)
  note s1 = open_request_invs [OF o assms(2,3)]
  show ?thesis
  proof (cases r)
    case (Inl e)
    with assms(1) o s1 show ?thesis by (simp add: WinHttpTransport_Send_def)
  next
    case (Inr h)
    obtain x s2 where x: "exchange_request lib request h s1 = (x, s2)" by (rule prod.exhaust)
    note s2 = same_handles_invs(1,2) [OF world_onlyD [OF world_only_exchange x]]
    show ?thesis
    proof (cases x)
      case x': (Inl e)
      with assms(1) o Inr x s1 s2 show ?thesis
        by (auto simp: WinHttpTransport_Send_def intro: close_handle_balanced)
    next
      case x': (Inr status)
      with assms(1) o Inr x obtain y s3 where
        l: "read_loop lib h [] s2 = Some (y, s3)" and s': "s' = close_handle lib h s3"
        by (auto simp: WinHttpTransport_Send_def split: option.splits)
      from Inr s1 s2 same_handles_invs(1,2) [OF read_loop_same [OF l]] show ?thesis
        by (simp add: s' close_handle_balanced)
    qed
  qed
qed

text \<open>Every state of a transport in use.\<close>

inductive in_use :: "'w winhttp \<Rightarrow> 'w winhttp_state \<Rightarrow> bool" for lib where
  constructed: "new_WinHttpTransport lib w = (Inr s, w') \<Longrightarrow> in_use lib s"
| sent: "in_use lib s \<Longrightarrow> WinHttpTransport_Send lib request s = Some (outcome, s') \<Longrightarrow> in_use lib s'"

lemma in_use_invs: "in_use lib s \<Longrightarrow> balanced [] s \<and> keyed s"
proof (induction rule: in_use.induct)
  case (constructed w s w')
  then have "ws_next s = 1" "ws_closed s = []" "ws_session s = 0" "ws_connections s = []"
    by (auto simp: new_WinHttpTransport_def split: prod.splits bool.splits)
  then show ?case by (simp add: balanced_def keyed_def owned_def)
qed (blast dest: Send_invs)

lemma fold_close: "ws_closed (fold (close_handle lib) hs s) = ws_closed s @ hs"
  "ws_next (fold (close_handle lib) hs s) = ws_next s"
  by (induction hs arbitrary: s) (simp_all add: close_handle_def)

lemma mset_upt_distinct: "mset xs = mset [0..<n] \<Longrightarrow> distinct xs \<and> set xs = {0..<n}"
  by (metis distinct_upt mset_eq_imp_distinct_iff mset_eq_setD set_upt)

text \<open>
  C22. Handles of WinHTTP. However a transport has been used, and whatever failed on the way: its
  session and its cached connections are distinct handles that are still open and no other handle
  is, in particular no request handle; and destroying it closes each handle it ever created
  exactly once.
\<close>

theorem handles_are_closed_once:
  assumes "in_use lib s"
  shows "distinct (owned s) \<and> set (owned s) = {0..<ws_next s} - set (ws_closed s) \<and>
    distinct (ws_closed (destroy_WinHttpTransport lib s)) \<and>
    set (ws_closed (destroy_WinHttpTransport lib s)) = {0..<ws_next s}"
proof -
  from in_use_invs [OF assms] have b: "mset (ws_closed s @ owned s) = mset [0..<ws_next s]"
    by (simp add: balanced_def)
  have "mset (ws_closed (destroy_WinHttpTransport lib s)) = mset [0..<ws_next s]"
    unfolding b [symmetric]
    by (simp add: destroy_WinHttpTransport_def close_handle_def [of lib "ws_session s"] fold_close owned_def)
  from mset_upt_distinct [OF b] mset_upt_distinct [OF this] show ?thesis by auto
qed

section \<open>The cache of connections\<close>

lemma digit_char_inject:
  assumes "d < 10" "e < 10" "digit_char d = digit_char e"
  shows "d = e"
proof -
  have "of_char (digit_char k) = 48 + k" if "k < 10" for k :: nat
    using that by (simp add: of_char_digit_char)
  with assms show ?thesis by (metis add_left_cancel)
qed

lemma show_nat_inject: "show_nat 10 n = show_nat 10 m \<Longrightarrow> n = m"
proof (induction n arbitrary: m rule: less_induct)
  case (less n)
  have snoc: "show_nat 10 k = (if k < 10 then [] else show_nat 10 (k div 10)) @ [digit_char (k mod 10)]" for k
    by (simp add: show_nat.simps [of 10 k])
  from less.prems have "digit_char (n mod 10) = digit_char (m mod 10)" and
    init: "(if n < 10 then [] else show_nat 10 (n div 10)) = (if m < 10 then [] else show_nat 10 (m div 10))"
    unfolding snoc [of n] snoc [of m] by (simp_all del: show_nat.simps)
  then have "n mod 10 = m mod 10" by (auto intro: digit_char_inject)
  moreover have "n div 10 = m div 10"
    using init less.IH [of "n div 10" "m div 10"] show_nat_nonempty [THEN not_sym]
    by (simp split: if_splits)
  ultimately show ?case by (metis div_mult_mod_eq)
qed

lemma wide_char_inject: "(of_char c :: 16 word) = of_char d \<longleftrightarrow> c = d"
proof -
  have "unat (of_char c :: 16 word) = of_char c" for c
  proof -
    have "(of_char c :: 16 word) = word_of_nat (of_char c)" by (simp add: of_nat_of_char)
    moreover have "of_char c < (2 :: nat) ^ 16" by (rule less_trans [OF nat_of_char_less_256]) simp
    ultimately show ?thesis by (simp add: unat_of_nat)
  qed
  then show ?thesis by (metis of_char_eq_iff)
qed

lemma wide_inject: "wide s = wide t \<longleftrightarrow> s = t"
  unfolding wide_def by (rule inj_map_eq_map) (auto intro: injI simp: wide_char_inject)

lemma wide_colon: "(of_char c :: 16 word) = 58 \<longleftrightarrow> c = CHR '':''"
  using wide_char_inject [of c "CHR '':''"] by simp

lemma wide_inject_Nil: "wide s = [] \<longleftrightarrow> s = []"
  by (simp add: wide_def)

lemma port_digits: "58 \<notin> set (rev (wide (to_string (int port))))"
  using show_nat_10_digits [of port] by (auto simp: wide_def to_string_def wide_colon is_digit_def)

lemma split_at_separator:
  "c \<notin> set xs \<Longrightarrow> c \<notin> set xs' \<Longrightarrow> xs @ c # ys = xs' @ c # ys' \<Longrightarrow> xs = xs' \<and> ys = ys'"
  by (induction xs arbitrary: xs') (auto simp: Cons_eq_append_conv append_eq_Cons_conv)

lemma connection_key_inject:
  assumes "connection_key host port = connection_key host' port'"
  shows "host = host' \<and> port = port'"
proof -
  have "rev (wide (to_string (int port))) @ 58 # rev host = rev (wide (to_string (int port'))) @ 58 # rev host'"
    using arg_cong [OF assms, of rev] by (simp add: connection_key_def wide_def)
  from split_at_separator [OF port_digits port_digits this] show ?thesis
    by (auto simp: wide_inject to_string_def dest: show_nat_inject)
qed

lemma map_of_insort_key: "map_of xs k = None \<Longrightarrow> map_of (insort_key fst (k, v) xs) k = Some v"
  by (induction xs) auto



section \<open>Reading the body\<close>

text \<open>A server that sends the chunks \<open>ds\<close> and ends, and one that never ends.\<close>

inductive serves :: "'w winhttp \<Rightarrow> nat \<Rightarrow> 'w winhttp_state \<Rightarrow> string list \<Rightarrow> 'w winhttp_state \<Rightarrow> bool"
  for lib h where
  ended: "call_library (wh_query_data_available lib h) s = (Some 0, s') \<Longrightarrow> serves lib h s [] s'"
| chunk: "call_library (wh_query_data_available lib h) s = (Some n, s1) \<Longrightarrow> n \<noteq> 0 \<Longrightarrow>
     call_library (wh_read_data lib h n) s1 = (Some d, s2) \<Longrightarrow> serves lib h s2 ds s' \<Longrightarrow>
     serves lib h s (d # ds) s'"

coinductive endless :: "'w winhttp \<Rightarrow> nat \<Rightarrow> 'w winhttp_state \<Rightarrow> bool" for lib h where
  more: "call_library (wh_query_data_available lib h) s = (Some n, s1) \<Longrightarrow> n \<noteq> 0 \<Longrightarrow>
     call_library (wh_read_data lib h n) s1 = (Some d, s2) \<Longrightarrow> endless lib h s2 \<Longrightarrow> endless lib h s"

inductive_cases endlessE: "endless lib h s"

lemma read_loop_serves:
  "serves lib h s ds s' \<Longrightarrow> read_loop lib h body s = Some (Inr (body @ concat ds), s')"
proof (induction arbitrary: body rule: serves.induct)
  case (ended s s')
  then show ?case by (subst read_loop.simps) simp
next
  case (chunk s n s1 d s2 ds s')
  then show ?case by (subst read_loop.simps) simp
qed

definition read_outcome ::
  "'w winhttp \<Rightarrow> nat \<Rightarrow> string \<Rightarrow> 'w winhttp_state \<Rightarrow> string result \<times> 'w winhttp_state \<Rightarrow> bool" where
  "read_outcome lib h body s y \<longleftrightarrow> \<not> endless lib h s \<and>
     (case y of (Inr text, s') \<Rightarrow> \<exists>ds. serves lib h s ds s' \<and> text = body @ concat ds
      | (Inl f, s') \<Rightarrow> True)"

lemma read_loop_outcome: "read_loop lib h body s = Some y \<Longrightarrow> read_outcome lib h body s y"
proof (erule read_loop.raw_induct [rotated])
  fix loop :: "'w winhttp \<Rightarrow> nat \<Rightarrow> string \<Rightarrow> 'w winhttp_state \<Rightarrow> (string result \<times> 'w winhttp_state) option"
  fix lib h body s y
  assume IH: "\<And>lib h body s y. loop lib h body s = Some y \<Longrightarrow> read_outcome lib h body s y"
  assume run: "(case call_library (wh_query_data_available lib h) s of
      (None, s1) \<Rightarrow> Some (throw ec_transport (WindowsMessage lib ''WinHttpQueryDataAvailable'' (ws_world s1)), s1)
    | (Some available, s1) \<Rightarrow>
        if available = 0 then Some (Inr body, s1)
        else case call_library (wh_read_data lib h available) s1 of
          (None, s2) \<Rightarrow> Some (throw ec_transport (WindowsMessage lib ''WinHttpReadData'' (ws_world s2)), s2)
        | (Some received, s2) \<Rightarrow> loop lib h (body @ received) s2) = Some y"
  obtain available s1 where q: "call_library (wh_query_data_available lib h) s = (available, s1)"
    by (rule prod.exhaust)
  show "read_outcome lib h body s y"
  proof (cases "available = None \<or> available = Some 0")
    case True
    then have n: "\<not> endless lib h s" using q by (auto elim: endlessE)
    from True consider (failed) "available = None" | (over) "available = Some 0" by blast
    then show ?thesis
    proof cases
      case failed
      with run q n show ?thesis by (auto simp: read_outcome_def throw_def)
    next
      case over
      with q have "serves lib h s [] s1" by (simp add: ended)
      then have "\<exists>ds. serves lib h s ds s1 \<and> body = body @ concat ds"
        by (metis append_Nil2 concat.simps(1))
      moreover have y: "y = (Inr body, s1)" using run q over by simp
      ultimately show ?thesis using n unfolding read_outcome_def y prod.case sum.case by blast
    qed
  next
    case False
    then obtain n where n: "available = Some n" "n \<noteq> 0" by auto
    obtain received s2 where r: "call_library (wh_read_data lib h n) s1 = (received, s2)"
      by (rule prod.exhaust)
    show ?thesis
    proof (cases received)
      case None
      with run q n r show ?thesis by (auto simp: read_outcome_def throw_def elim: endlessE)
    next
      case (Some d)
      with run q n r have "read_outcome lib h (body @ d) s2 y" by (auto intro: IH)
      moreover have "endless lib h s2" if "endless lib h s"
        using that q n r Some by (auto elim: endlessE)
      moreover have "serves lib h s (d # ds) s'" if "serves lib h s2 ds s'" for ds s'
        using that q n r Some by (auto intro: chunk)
      moreover have "(body @ d) @ concat ds = body @ concat (d # ds)" for ds by simp
      moreover obtain outcome s' where y: "y = (outcome, s')" by (rule prod.exhaust)
      ultimately show ?thesis
        by (cases outcome) (simp_all only: read_outcome_def y prod.case sum.case, blast, metis)
    qed
  qed
qed

lemma read_loop_None: "read_loop lib h body s = None \<Longrightarrow> endless lib h s"
proof (coinduction arbitrary: body s)
  case (endless body s)
  then have run: "(case call_library (wh_query_data_available lib h) s of
      (None, s1) \<Rightarrow> Some (throw ec_transport (WindowsMessage lib ''WinHttpQueryDataAvailable'' (ws_world s1)), s1)
    | (Some available, s1) \<Rightarrow>
        if available = 0 then Some (Inr body, s1)
        else case call_library (wh_read_data lib h available) s1 of
          (None, s2) \<Rightarrow> Some (throw ec_transport (WindowsMessage lib ''WinHttpReadData'' (ws_world s2)), s2)
        | (Some received, s2) \<Rightarrow> read_loop lib h (body @ received) s2) = None"
    by (subst (asm) read_loop.simps)
  obtain available s1 where q: "call_library (wh_query_data_available lib h) s = (available, s1)"
    by (rule prod.exhaust)
  with run obtain n where n: "available = Some n" "n \<noteq> 0" by (auto split: option.splits if_splits)
  obtain received s2 where r: "call_library (wh_read_data lib h n) s1 = (received, s2)"
    by (rule prod.exhaust)
  with run q n obtain d where "received = Some d" "read_loop lib h (body @ d) s2 = None"
    by (auto split: option.splits)
  with q n r show ?case by blast
qed

text \<open>
  C26. The loop that reads a response body returns exactly when the server stops sending: it runs
  forever on an endless stream and on no other; and it returns a body exactly when the server sent
  chunks and ended without an error, the body being their concatenation.
\<close>

theorem read_loop_returns_iff_the_body_ends:
  "(read_loop lib h [] s = None \<longleftrightarrow> endless lib h s) \<and>
   (read_loop lib h [] s = Some (Inr body, s') \<longleftrightarrow> (\<exists>ds. serves lib h s ds s' \<and> body = concat ds))"
proof
  show "read_loop lib h [] s = None \<longleftrightarrow> endless lib h s"
  proof (cases "read_loop lib h [] s")
    case None
    with read_loop_None [OF None] show ?thesis by simp
  next
    case (Some y)
    with read_loop_outcome [OF Some] show ?thesis by (simp add: read_outcome_def)
  qed
  show "read_loop lib h [] s = Some (Inr body, s') \<longleftrightarrow> (\<exists>ds. serves lib h s ds s' \<and> body = concat ds)"
    using read_loop_outcome [of lib h "[]" s "(Inr body, s')"] read_loop_serves [of lib h s _ s' "[]"]
    by (auto simp: read_outcome_def)
qed


section \<open>Witnesses\<close>

text \<open>A library that always succeeds and whose world is the number of bytes a server still sends.\<close>

definition sample_winhttp :: "nat winhttp" where
  "sample_winhttp =
     \<lparr>wh_multi_byte_to_wide = (\<lambda>s n. wide s), wh_get_last_error = (\<lambda>w. 0), wh_open = (\<lambda>w. (True, w)),
      wh_crack_url = (\<lambda>url n w.
        (Some \<lparr>uc_scheme = INTERNET_SCHEME_HTTPS, uc_host = wide ''h'', uc_port = 443, uc_path = [], uc_extra = []\<rparr>, w)),
      wh_connect = (\<lambda>session host port w. (True, w)), wh_open_request = (\<lambda>h rpc path secure w. (True, w)),
      wh_set_timeouts = (\<lambda>h t w. (True, w)), wh_send_request = (\<lambda>h hs n body m w. (True, w)),
      wh_receive_response = (\<lambda>h w. (True, w)), wh_query_status = (\<lambda>h w. (Some 200, w)),
      wh_query_data_available = (\<lambda>h w. (Some w, w)),
      wh_read_data = (\<lambda>h n w. (Some [CHR ''x''], w - 1)), wh_close_handle = (\<lambda>h w. w)\<rparr>"

lemma sample_winhttp_sel [simp]:
  "wh_multi_byte_to_wide sample_winhttp = (\<lambda>s n. wide s)" "wh_open sample_winhttp = (\<lambda>w. (True, w))"
  "wh_crack_url sample_winhttp = (\<lambda>url n w.
     (Some \<lparr>uc_scheme = INTERNET_SCHEME_HTTPS, uc_host = wide ''h'', uc_port = 443, uc_path = [], uc_extra = []\<rparr>, w))"
  "wh_connect sample_winhttp = (\<lambda>session host port w. (True, w))"
  "wh_open_request sample_winhttp = (\<lambda>h rpc path secure w. (True, w))"
  "wh_set_timeouts sample_winhttp = (\<lambda>h t w. (True, w))"
  "wh_send_request sample_winhttp = (\<lambda>h hs n body m w. (True, w))"
  "wh_receive_response sample_winhttp = (\<lambda>h w. (True, w))"
  "wh_query_status sample_winhttp = (\<lambda>h w. (Some 200, w))"
  "wh_query_data_available sample_winhttp = (\<lambda>h w. (Some w, w))"
  "wh_read_data sample_winhttp = (\<lambda>h n w. (Some [CHR ''x''], w - 1))"
  "wh_close_handle sample_winhttp = (\<lambda>h w. w)"
  by (simp_all add: sample_winhttp_def)

definition used_state :: "nat winhttp_state" where
  "used_state =
     \<lparr>ws_next = 3, ws_closed = [2], ws_connected = [(1, wide ''h'', 443)], ws_session = 0,
      ws_connections = [(connection_key (wide ''h'') 443, 1)], ws_world = 0\<rparr>"

lemma in_use_sample: "in_use sample_winhttp used_state"
proof (rule in_use.sent)
  show "in_use sample_winhttp
      \<lparr>ws_next = 1, ws_closed = [], ws_connected = [], ws_session = 0, ws_connections = [], ws_world = 2\<rparr>"
    by (rule in_use.constructed [of _ 2]) (simp add: new_WinHttpTransport_def)
  have "read_loop sample_winhttp h [] s = Some (Inr ''xx'', s\<lparr>ws_world := 0\<rparr>)" if "ws_world s = 2" for s h
    using that by (simp add: read_loop.simps call_library_def)
  then show "WinHttpTransport_Send sample_winhttp new_HttpRequest
      \<lparr>ws_next = 1, ws_closed = [], ws_connected = [], ws_session = 0, ws_connections = [], ws_world = 2\<rparr> =
    Some (Inr \<lparr>rs_status_code = 200, rs_headers = [], rs_body = ''xx''\<rparr>, used_state)"
    by (simp add: WinHttpTransport_Send_def open_request_def locate_def Utf8ToWide_def
        call_library_def new_handle_def require_def Connection_def exchange_request_def io_bind_def io_lift_def
        io_return_def new_HttpRequest_def close_handle_def used_state_def to_int_def wide_inject_Nil)
qed


lemma handles_are_closed_once_witness:
  "distinct (owned used_state) \<and> set (owned used_state) = {0..<3} - {2} \<and>
    distinct (ws_closed (destroy_WinHttpTransport sample_winhttp used_state)) \<and>
    set (ws_closed (destroy_WinHttpTransport sample_winhttp used_state)) = {0..<3}"
  using handles_are_closed_once [OF in_use_sample] by (simp add: used_state_def)


text \<open>
  Unlike the libcurl transport, this one does not validate the headers of a request: a value with a
  line break is another header to the server.
\<close>

lemma headers_are_ambiguous:
  "narrow_headers [(n, v @ [CHR 0x0D, CHR 0x0A] @ n' @ '': '' @ v')] = narrow_headers [(n, v), (n', v')]"
  by (simp add: narrow_headers_def)

end
