(* ===== verification/ConnectionCache.thy ===== *)
theory ConnectionCache
  imports WinHttpTransport
begin

text \<open>
  The connection cache of \<^verbatim>\<open>WinHttpTransport\<close> (\<^verbatim>\<open>src/http_transport.cpp\<close>) under concurrent calls of
  \<^verbatim>\<open>Send\<close>: a step relation over any number of activations of \<^verbatim>\<open>Connection\<close>, with the mutex, and with
  the other calls of the library, which run outside it. The assignment of \<^verbatim>\<open>emplace\<close> takes two steps,
  and a search between them would be corrupted.

  The specification is the sequential function \<open>Connection\<close>: every run is equivalent to one in which
  the calls happen one after the other.
\<close>

section \<open>Concurrent calls\<close>

datatype connection_pc =
    C_idle
  | C_locked wstring nat
  | C_corrupt
  | C_missing wstring nat
  | C_connected wstring nat nat
  | C_writing wstring nat nat
  | C_leaving wstring nat "nat result"

text \<open>
  \<open>ca_log\<close> records when each call takes effect, and the other uses of the library; \<open>ca_returned\<close> what
  the calls returned.
\<close>

datatype cache_event =
    Called nat wstring nat "nat result"
  | Elsewhere

record 'w cache_state =
  ca_transport :: "'w winhttp_state"
  ca_torn :: bool
  ca_lock :: "nat option"
  ca_pc :: "nat \<Rightarrow> connection_pc"
  ca_log :: "cache_event list"
  ca_returned :: "(nat \<times> wstring \<times> nat \<times> nat result) list"

definition cache_start :: "'w winhttp_state \<Rightarrow> 'w cache_state" where
  "cache_start t =
     \<lparr>ca_transport = t, ca_torn = False, ca_lock = None, ca_pc = (\<lambda>_. C_idle), ca_log = [], ca_returned = []\<rparr>"

definition move_to :: "nat \<Rightarrow> connection_pc \<Rightarrow> 'w cache_state \<Rightarrow> 'w cache_state" where
  "move_to i p s = s\<lparr>ca_pc := (ca_pc s)(i := p)\<rparr>"

definition effect :: "cache_event \<Rightarrow> 'w winhttp_state \<Rightarrow> 'w cache_state \<Rightarrow> 'w cache_state" where
  "effect e t s = s\<lparr>ca_log := ca_log s @ [e], ca_transport := t\<rparr>"

text \<open>What the rest of \<^verbatim>\<open>Send\<close> may change: it creates and closes handles, but not connections.\<close>

definition outside :: "'w winhttp_state \<Rightarrow> 'w winhttp_state \<Rightarrow> bool" where
  "outside t t' \<longleftrightarrow>
     ws_connections t' = ws_connections t \<and> ws_connected t' = ws_connected t \<and> ws_session t' = ws_session t"

inductive cache_step :: "'w winhttp \<Rightarrow> nat \<Rightarrow> 'w cache_state \<Rightarrow> 'w cache_state \<Rightarrow> bool" for lib where
  lock: "ca_pc s i = C_idle \<Longrightarrow> ca_lock s = None \<Longrightarrow>
    cache_step lib i s (move_to i (C_locked host port) (s\<lparr>ca_lock := Some i\<rparr>))"
| search_torn: "ca_pc s i = C_locked host port \<Longrightarrow> ca_torn s \<Longrightarrow> cache_step lib i s (move_to i C_corrupt s)"
| found: "ca_pc s i = C_locked host port \<Longrightarrow> \<not> ca_torn s \<Longrightarrow>
    map_of (ws_connections (ca_transport s)) (connection_key host port) = Some existing \<Longrightarrow>
    cache_step lib i s
      (move_to i (C_leaving host port (Inr existing)) (effect (Called i host port (Inr existing)) (ca_transport s) s))"
| missing: "ca_pc s i = C_locked host port \<Longrightarrow> \<not> ca_torn s \<Longrightarrow>
    map_of (ws_connections (ca_transport s)) (connection_key host port) = None \<Longrightarrow>
    cache_step lib i s (move_to i (C_missing host port) s)"
| connect_fails: "ca_pc s i = C_missing host port \<Longrightarrow>
    new_handle (wh_connect lib (ws_session (ca_transport s)) (c_wstr host) port) (ca_transport s) = (None, t) \<Longrightarrow>
    r = throw ec_transport (WindowsMessage lib ''WinHttpConnect'' (ws_world t)) \<Longrightarrow>
    cache_step lib i s (move_to i (C_leaving host port r) (effect (Called i host port r) t s))"
| connect: "ca_pc s i = C_missing host port \<Longrightarrow>
    new_handle (wh_connect lib (ws_session (ca_transport s)) (c_wstr host) port) (ca_transport s) =
      (Some connection, t) \<Longrightarrow>
    cache_step lib i s
      (move_to i (C_connected host port connection)
        (effect (Called i host port (Inr connection))
          (t\<lparr>ws_connected := (connection, host, port) # ws_connected t\<rparr>) s))"
| emplace_begin: "ca_pc s i = C_connected host port connection \<Longrightarrow>
    cache_step lib i s (move_to i (C_writing host port connection) (s\<lparr>ca_torn := True\<rparr>))"
| emplace_end: "ca_pc s i = C_writing host port connection \<Longrightarrow>
    cache_step lib i s
      (move_to i (C_leaving host port (Inr connection))
        (s\<lparr>ca_torn := False,
           ca_transport := (ca_transport s)\<lparr>ws_connections :=
             insort_key fst (connection_key host port, connection) (ws_connections (ca_transport s))\<rparr>\<rparr>))"
| unlock: "ca_pc s i = C_leaving host port r \<Longrightarrow>
    cache_step lib i s
      (move_to i C_idle (s\<lparr>ca_lock := None, ca_returned := ca_returned s @ [(i, host, port, r)]\<rparr>))"
| elsewhere: "outside (ca_transport s) t \<Longrightarrow> cache_step lib i s (effect Elsewhere t s)"

inductive_cases cache_stepE: "cache_step lib i s s'"

inductive cache_run :: "'w winhttp \<Rightarrow> 'w winhttp_state \<Rightarrow> 'w cache_state \<Rightarrow> bool" for lib t where
  run_start: "cache_run lib t (cache_start t)"
| run_step: "cache_run lib t s \<Longrightarrow> cache_step lib i s s' \<Longrightarrow> cache_run lib t s'"

section \<open>One after the other\<close>

text \<open>\<open>replay\<close>: the events of a log as calls of the sequential function.\<close>

inductive replay :: "'w winhttp \<Rightarrow> 'w winhttp_state \<Rightarrow> cache_event list \<Rightarrow> 'w winhttp_state \<Rightarrow> bool" for lib t where
  replay_start: "replay lib t [] t"
| replay_call: "replay lib t es t1 \<Longrightarrow> Connection lib host port t1 = (r, t2) \<Longrightarrow>
    replay lib t (es @ [Called i host port r]) t2"
| replay_elsewhere: "replay lib t es t1 \<Longrightarrow> outside t1 t2 \<Longrightarrow> replay lib t (es @ [Elsewhere]) t2"

text \<open>The connection an activation has made but not yet entered, and the state with it entered.\<close>

fun entering :: "connection_pc \<Rightarrow> 'w winhttp_state \<Rightarrow> 'w winhttp_state" where
  "entering (C_connected host port c) t =
     t\<lparr>ws_connections := insort_key fst (connection_key host port, c) (ws_connections t)\<rparr>"
| "entering (C_writing host port c) t =
     t\<lparr>ws_connections := insort_key fst (connection_key host port, c) (ws_connections t)\<rparr>"
| "entering _ t = t"

definition settled_transport :: "'w cache_state \<Rightarrow> 'w winhttp_state" where
  "settled_transport s =
     (case ca_lock s of None \<Rightarrow> ca_transport s | Some i \<Rightarrow> entering (ca_pc s i) (ca_transport s))"

fun holding :: "connection_pc \<Rightarrow> bool" where
  "holding C_idle = False"
| "holding _ = True"

fun emplacing :: "connection_pc \<Rightarrow> bool" where
  "emplacing (C_writing host port c) = True"
| "emplacing _ = False"

text \<open>The calls of one activation in a log, those that returned, and the one that has yet to.\<close>

definition calls_of :: "nat \<Rightarrow> cache_event list \<Rightarrow> (wstring \<times> nat \<times> nat result) list" where
  "calls_of i es = concat (map (\<lambda>e. case e of
       Called j host port r \<Rightarrow> if j = i then [(host, port, r)] else []
     | Elsewhere \<Rightarrow> []) es)"

definition returned_of :: "nat \<Rightarrow> (nat \<times> wstring \<times> nat \<times> nat result) list \<Rightarrow> (wstring \<times> nat \<times> nat result) list" where
  "returned_of i returned = map snd (filter (\<lambda>e. fst e = i) returned)"

fun unreturned :: "connection_pc \<Rightarrow> (wstring \<times> nat \<times> nat result) list" where
  "unreturned (C_connected host port c) = [(host, port, Inr c)]"
| "unreturned (C_writing host port c) = [(host, port, Inr c)]"
| "unreturned (C_leaving host port r) = [(host, port, r)]"
| "unreturned _ = []"

lemma calls_of_simps [simp]:
  "calls_of i [] = []" "calls_of i (es @ [Elsewhere]) = calls_of i es"
  "calls_of i (es @ [Called j host port r]) = calls_of i es @ (if j = i then [(host, port, r)] else [])"
  by (simp_all add: calls_of_def)

lemma returned_of_simps [simp]:
  "returned_of i [] = []"
  "returned_of i (rs @ [(j, host, port, r)]) = returned_of i rs @ (if j = i then [(host, port, r)] else [])"
  by (simp_all add: returned_of_def)

lemma move_to_sel [simp]:
  "ca_pc (move_to i p s) = (ca_pc s)(i := p)" "ca_lock (move_to i p s) = ca_lock s" "ca_torn (move_to i p s) = ca_torn s"
  "ca_transport (move_to i p s) = ca_transport s" "ca_log (move_to i p s) = ca_log s" "ca_returned (move_to i p s) = ca_returned s"
  by (simp_all add: move_to_def)

lemma effect_sel [simp]:
  "ca_pc (effect e t s) = ca_pc s" "ca_lock (effect e t s) = ca_lock s" "ca_torn (effect e t s) = ca_torn s"
  "ca_transport (effect e t s) = t" "ca_log (effect e t s) = ca_log s @ [e]" "ca_returned (effect e t s) = ca_returned s"
  by (simp_all add: effect_def)

section \<open>The invariant\<close>

fun missing_key :: "connection_pc \<Rightarrow> 'w winhttp_state \<Rightarrow> bool" where
  "missing_key (C_missing host port) t \<longleftrightarrow> map_of (ws_connections t) (connection_key host port) = None"
| "missing_key C_corrupt t \<longleftrightarrow> False"
| "missing_key _ t \<longleftrightarrow> True"

definition orderly_cache :: "'w winhttp \<Rightarrow> 'w winhttp_state \<Rightarrow> 'w cache_state \<Rightarrow> bool" where
  "orderly_cache lib t s \<longleftrightarrow>
     (\<forall>i. holding (ca_pc s i) \<longleftrightarrow> ca_lock s = Some i) \<and>
     (ca_torn s \<longleftrightarrow> (\<exists>i. emplacing (ca_pc s i))) \<and>
     (\<forall>i. missing_key (ca_pc s i) (ca_transport s)) \<and>
     (\<forall>i. calls_of i (ca_log s) = returned_of i (ca_returned s) @ unreturned (ca_pc s i)) \<and>
     replay lib t (ca_log s) (settled_transport s)"

lemma orderly_start: "orderly_cache lib t (cache_start t)"
  by (simp add: orderly_cache_def cache_start_def settled_transport_def replay_start)

lemma idle_simps: "\<not> holding p \<longleftrightarrow> p = C_idle"
  by (cases p) auto

lemma orderly_holder:
  assumes "orderly_cache lib t s" "holding (ca_pc s i)"
  shows "ca_lock s = Some i" "ca_pc s j = (if j = i then ca_pc s i else C_idle)"
    "ca_torn s \<longleftrightarrow> emplacing (ca_pc s i)" "settled_transport s = entering (ca_pc s i) (ca_transport s)"
proof -
  have lock: "holding (ca_pc s j) \<longleftrightarrow> ca_lock s = Some j" for j using assms(1) by (simp add: orderly_cache_def)
  then show l: "ca_lock s = Some i" using assms(2) by blast
  show pc: "ca_pc s j = (if j = i then ca_pc s i else C_idle)" for j
    using lock [of j] l idle_simps [of "ca_pc s j"] by auto
  have "(\<exists>j. emplacing (ca_pc s j)) \<longleftrightarrow> emplacing (ca_pc s i)"
    by (metis pc emplacing.simps(2))
  then show "ca_torn s \<longleftrightarrow> emplacing (ca_pc s i)" using assms(1) by (simp add: orderly_cache_def)
  show "settled_transport s = entering (ca_pc s i) (ca_transport s)" by (simp add: settled_transport_def l)
qed

text \<open>A step of the activation that holds the lock and keeps it.\<close>

lemma orderly_move:
  assumes "orderly_cache lib t s" "holding (ca_pc s i)" "holding p"
    and "ca_pc s' = (ca_pc s)(i := p)" "ca_lock s' = ca_lock s" "ca_returned s' = ca_returned s"
    and "ca_torn s' \<longleftrightarrow> emplacing p" "missing_key p (ca_transport s')"
    and "\<And>j. calls_of j (ca_log s') = calls_of j (ca_log s) @ (if j = i then extra else [])"
    and "unreturned p = unreturned (ca_pc s i) @ extra"
    and "replay lib t (ca_log s') (entering p (ca_transport s'))"
  shows "orderly_cache lib t s'"
proof -
  note h = orderly_holder [OF assms(1,2)]
  have pc: "ca_pc s' j = (if j = i then p else C_idle)" for j
    using h(2) [of j] by (simp add: assms(4))
  have "holding (ca_pc s' j) \<longleftrightarrow> ca_lock s' = Some j" for j
    using h(1) assms(3,5) by (simp add: pc)
  moreover have "ca_torn s' \<longleftrightarrow> (\<exists>j. emplacing (ca_pc s' j))" using assms(7) by (auto simp: pc)
  moreover have "missing_key (ca_pc s' j) (ca_transport s')" for j using assms(8) by (simp add: pc)
  moreover have "calls_of j (ca_log s') = returned_of j (ca_returned s') @ unreturned (ca_pc s' j)" for j
  proof -
    have "calls_of j (ca_log s) = returned_of j (ca_returned s) @ unreturned (ca_pc s j)"
      using assms(1) by (simp add: orderly_cache_def)
    then show ?thesis using h(2) [of j] assms(10) by (simp add: assms(6,9) pc)
  qed
  moreover have "settled_transport s' = entering p (ca_transport s')"
    using h(1) by (simp add: settled_transport_def assms(5) pc)
  ultimately show ?thesis using assms(11) by (simp add: orderly_cache_def)
qed

lemma outside_entering: "outside t t' \<Longrightarrow> outside (entering p t) (entering p t')"
  by (cases p) (simp_all add: outside_def)

lemma outside_missing: "outside t t' \<Longrightarrow> missing_key p t' = missing_key p t"
  by (cases p) (simp_all add: outside_def)

lemma orderly_outside:
  assumes "orderly_cache lib t s" "outside (ca_transport s) t'"
  shows "orderly_cache lib t (effect Elsewhere t' s)"
proof -
  have "outside (settled_transport s) (settled_transport (effect Elsewhere t' s))"
    using assms(2) by (simp add: settled_transport_def outside_entering split: option.split)
  then show ?thesis
    using assms(1) outside_missing [OF assms(2)] by (auto simp: orderly_cache_def intro: replay_elsewhere)
qed

lemma orderly_free:
  assumes "orderly_cache lib t s" "ca_lock s = None"
  shows "ca_pc s i = C_idle" "\<not> ca_torn s" "settled_transport s = ca_transport s"
proof -
  have "\<not> holding (ca_pc s j)" for j using assms by (simp add: orderly_cache_def)
  then have pc: "ca_pc s j = C_idle" for j using idle_simps by blast
  then show "ca_pc s i = C_idle" .
  show "\<not> ca_torn s" using assms(1) by (simp add: orderly_cache_def pc)
  show "settled_transport s = ca_transport s" by (simp add: settled_transport_def assms(2))
qed

lemma orderly_lock:
  assumes "orderly_cache lib t s" "ca_lock s = None"
  shows "orderly_cache lib t (move_to i (C_locked host port) (s\<lparr>ca_lock := Some i\<rparr>))"
proof -
  note free = orderly_free [OF assms]
  have "replay lib t (ca_log s) (ca_transport s)"
    "\<And>j. calls_of j (ca_log s) = returned_of j (ca_returned s) @ unreturned (ca_pc s j)"
    using assms free(3) by (simp_all add: orderly_cache_def)
  then show ?thesis using free(1,2) by (auto simp: orderly_cache_def settled_transport_def)
qed

lemma orderly_unlock:
  assumes "orderly_cache lib t s" "ca_pc s i = C_leaving host port r"
  shows "orderly_cache lib t (move_to i C_idle (s\<lparr>ca_lock := None, ca_returned := ca_returned s @ [(i, host, port, r)]\<rparr>))"
proof -
  have "holding (ca_pc s i)" by (simp add: assms(2))
  note h = orderly_holder [OF assms(1) this]
  have pc: "ca_pc s j = (if j = i then C_leaving host port r else C_idle)" for j using h(2) [of j] assms(2) by simp
  have "replay lib t (ca_log s) (ca_transport s)"
    "\<And>j. calls_of j (ca_log s) = returned_of j (ca_returned s) @ unreturned (ca_pc s j)"
    using assms h(4) by (simp_all add: orderly_cache_def)
  then show ?thesis using h(3) by (auto simp: orderly_cache_def settled_transport_def pc)
qed

lemma orderly_step:
  assumes "cache_step lib i s s'" "orderly_cache lib t s"
  shows "orderly_cache lib t s'"
proof -
  have missing: "missing_key (ca_pc s i) (ca_transport s)" using assms(2) by (simp add: orderly_cache_def)
  have es: "replay lib t (ca_log s) (settled_transport s)" using assms(2) by (simp add: orderly_cache_def)
  note holder = orderly_holder [OF assms(2), of i]
  from assms(1) show ?thesis
  proof (cases rule: cache_step.cases)
    case (lock host port)
    with orderly_lock [OF assms(2)] show ?thesis by simp
  next
    case (search_torn host port)
    with holder(3) show ?thesis by simp
  next
    case (found host port existing)
    then have "Connection lib host port (ca_transport s) = (Inr existing, ca_transport s)"
      by (simp add: Connection_def)
    with found es holder(3,4) have "replay lib t (ca_log s') (ca_transport s')"
      by (simp add: replay_call)
    with found holder(3,4) show ?thesis
      by (intro orderly_move [OF assms(2), where i = i and p = "C_leaving host port (Inr existing)"
            and extra = "[(host, port, Inr existing)]"]) auto
  next
    case (missing host port)
    with es holder(3,4) show ?thesis
      by (intro orderly_move [OF assms(2), where i = i and p = "C_missing host port" and extra = "[]"]) auto
  next
    case (connect_fails host port t' r)
    then have "Connection lib host port (ca_transport s) = (r, t')"
      using \<open>missing_key (ca_pc s i) (ca_transport s)\<close> by (simp add: Connection_def)
    with connect_fails es holder(3,4) have "replay lib t (ca_log s') (ca_transport s')"
      by (simp add: replay_call)
    with connect_fails holder(3,4) show ?thesis
      by (intro orderly_move [OF assms(2), where i = i and p = "C_leaving host port r"
            and extra = "[(host, port, r)]"]) auto
  next
    case (connect host port c t')
    let ?t = "t'\<lparr>ws_connected := (c, host, port) # ws_connected t'\<rparr>"
    have "Connection lib host port (ca_transport s) = (Inr c, entering (C_connected host port c) ?t)"
      using connect \<open>missing_key (ca_pc s i) (ca_transport s)\<close> by (simp add: Connection_def)
    with connect es holder(3,4) have "replay lib t (ca_log s') (entering (C_connected host port c) (ca_transport s'))"
      by (simp add: replay_call del: entering.simps(1))
    with connect holder(3,4) show ?thesis
      by (intro orderly_move [OF assms(2), where i = i and p = "C_connected host port c"
            and extra = "[(host, port, Inr c)]"]) auto
  next
    case (emplace_begin host port c)
    with es holder(3,4) show ?thesis
      by (intro orderly_move [OF assms(2), where i = i and p = "C_writing host port c" and extra = "[]"]) auto
  next
    case (emplace_end host port c)
    with es holder(3,4) show ?thesis
      by (intro orderly_move [OF assms(2), where i = i and p = "C_leaving host port (Inr c)" and extra = "[]"]) auto
  next
    case (unlock host port r)
    with orderly_unlock [OF assms(2)] show ?thesis by simp
  next
    case (elsewhere t')
    with orderly_outside [OF assms(2)] show ?thesis by simp
  qed
qed

lemma cache_run_orderly: "cache_run lib t s \<Longrightarrow> orderly_cache lib t s"
  by (induction rule: cache_run.induct) (auto intro: orderly_start orderly_step)

section \<open>Handles\<close>

text \<open>An entry of the cache stays as it is, so every later call for the endpoint returns it.\<close>

lemma map_of_insort_key_upd:
  "map_of xs k = None \<Longrightarrow> map_of (insort_key fst (k, v) xs) k' = (if k' = k then Some v else map_of xs k')"
  by (induction xs) (auto split: if_splits)

lemma Connection_entry:
  assumes "Connection lib host port s = (r, s')"
  shows "r = Inr c \<Longrightarrow> map_of (ws_connections s') (connection_key host port) = Some c"
    "map_of (ws_connections s) k = Some c' \<Longrightarrow> map_of (ws_connections s') k = Some c'"
proof -
  obtain h s1 where n: "new_handle (wh_connect lib (ws_session s) (c_wstr host) port) s = (h, s1)" by (rule prod.exhaust)
  have "(r = Inr c \<longrightarrow> map_of (ws_connections s') (connection_key host port) = Some c) \<and>
      (map_of (ws_connections s) k = Some c' \<longrightarrow> map_of (ws_connections s') k = Some c')"
  proof (cases "map_of (ws_connections s) (connection_key host port)")
    case None
    with assms n new_handle_other(1) [OF n] show ?thesis
      by (cases h) (auto simp: Connection_def throw_def map_of_insort_key_upd)
  qed (use assms in \<open>auto simp: Connection_def\<close>)
  then show "r = Inr c \<Longrightarrow> map_of (ws_connections s') (connection_key host port) = Some c"
    "map_of (ws_connections s) k = Some c' \<Longrightarrow> map_of (ws_connections s') k = Some c'" by blast+
qed

lemma replay_entry:
  "replay lib t es s \<Longrightarrow> Called i host port (Inr c) \<in> set es \<Longrightarrow>
     map_of (ws_connections s) (connection_key host port) = Some c"
proof (induction rule: replay.induct)
  case (replay_call es t1 host' port' r t2 j)
  then show ?case using Connection_entry [OF replay_call(2)] by auto
next
  case (replay_elsewhere es t1 t2)
  then show ?case by (simp add: outside_def)
qed simp

lemma calls_of_set: "(host, port, r) \<in> set (calls_of i es) \<longleftrightarrow> Called i host port r \<in> set es"
  by (induction es) (auto simp: calls_of_def split: cache_event.splits)

text \<open>
  C24. The connection cache is linearizable: however any number of calls interleave with each other
  and with the rest of \<^verbatim>\<open>Send\<close>, there is one order of all the calls, which for each activation is the
  order of its own, such that running the sequential function in that order yields every result
  and the cache. No search reads the map while it is written, and calls for the same host and port
  return the same connection.
\<close>

theorem connection_cache_is_linearizable:
  assumes "cache_run lib t s"
  shows "replay lib t (ca_log s) (settled_transport s) \<and>
    (\<forall>i. calls_of i (ca_log s) = returned_of i (ca_returned s) @ unreturned (ca_pc s i) \<and> ca_pc s i \<noteq> C_corrupt) \<and>
    (\<forall>i j host port c c'. (i, host, port, Inr c) \<in> set (ca_returned s) \<longrightarrow>
       (j, host, port, Inr c') \<in> set (ca_returned s) \<longrightarrow> c = c')"
proof -
  have inv: "orderly_cache lib t s" by (rule cache_run_orderly [OF assms])
  have entry: "map_of (ws_connections (settled_transport s)) (connection_key host port) = Some c"
    if "(i, host, port, Inr c) \<in> set (ca_returned s)" for i host port c
  proof -
    from that have "(host, port, Inr c) \<in> set (returned_of i (ca_returned s))" by (force simp: returned_of_def)
    then have "(host, port, Inr c) \<in> set (calls_of i (ca_log s))" using inv by (simp add: orderly_cache_def)
    then have "Called i host port (Inr c) \<in> set (ca_log s)" by (simp add: calls_of_set)
    then show ?thesis using inv
      by (intro replay_entry [where lib = lib and t = t]) (simp_all add: orderly_cache_def)
  qed
  have "ca_pc s i \<noteq> C_corrupt" for i
  proof
    assume "ca_pc s i = C_corrupt"
    moreover have "missing_key (ca_pc s i) (ca_transport s)" using inv by (simp add: orderly_cache_def)
    ultimately show False by simp
  qed
  with inv entry show ?thesis unfolding orderly_cache_def by (metis option.inject)
qed

text \<open>Two calls for one endpoint: the first makes the connection, the second finds it.\<close>

definition fresh_transport :: "nat winhttp_state" where
  "fresh_transport =
     \<lparr>ws_next = 1, ws_closed = [], ws_connected = [], ws_session = 0, ws_connections = [], ws_world = 0\<rparr>"

lemma connection_cache_is_linearizable_witness:
  "\<exists>s. cache_run sample_winhttp fresh_transport s \<and>
     ca_returned s = [(0, wide ''h'', 80, Inr 1), (1, wide ''h'', 80, Inr 1)] \<and>
     replay sample_winhttp fresh_transport
       [Called 0 (wide ''h'') 80 (Inr 1), Called 1 (wide ''h'') 80 (Inr 1)] (ca_transport s)"
proof -
  define h where "h = wide ''h''"
  define key where "key = connection_key h 80"
  define s0 where "s0 = cache_start fresh_transport"
  define s1 where "s1 = move_to 0 (C_locked h 80) (s0\<lparr>ca_lock := Some 0\<rparr>)"
  define s2 where "s2 = move_to 0 (C_missing h 80) s1"
  define s3 where "s3 = move_to 0 (C_connected h 80 1) (effect (Called 0 h 80 (Inr 1))
    (fresh_transport\<lparr>ws_next := 2, ws_connected := [(1, h, 80)]\<rparr>) s2)"
  define s4 where "s4 = move_to 0 (C_writing h 80 1) (s3\<lparr>ca_torn := True\<rparr>)"
  define s5 where "s5 = move_to 0 (C_leaving h 80 (Inr 1)) (s4\<lparr>ca_torn := False,
    ca_transport := (ca_transport s4)\<lparr>ws_connections := insort_key fst (key, 1) (ws_connections (ca_transport s4))\<rparr>\<rparr>)"
  define s6 where "s6 = move_to 0 C_idle (s5\<lparr>ca_lock := None, ca_returned := ca_returned s5 @ [(0, h, 80, Inr 1)]\<rparr>)"
  define s7 where "s7 = move_to 1 (C_locked h 80) (s6\<lparr>ca_lock := Some 1\<rparr>)"
  define s8 where "s8 = move_to 1 (C_leaving h 80 (Inr 1)) (effect (Called 1 h 80 (Inr 1)) (ca_transport s7) s7)"
  define s9 where "s9 = move_to 1 C_idle (s8\<lparr>ca_lock := None, ca_returned := ca_returned s8 @ [(1, h, 80, Inr 1)]\<rparr>)"
  note states = s0_def s1_def s2_def s3_def s4_def s5_def s6_def s7_def s8_def s9_def cache_start_def
    fresh_transport_def key_def
  have "cache_run sample_winhttp fresh_transport s0" unfolding s0_def by (rule run_start)
  moreover have "cache_step sample_winhttp 0 s0 s1" unfolding s1_def by (rule lock) (simp_all add: states)
  moreover have "cache_step sample_winhttp 0 s1 s2" unfolding s2_def by (rule missing) (simp_all add: states)
  moreover have "cache_step sample_winhttp 0 s2 s3"
    using connect [of s2 0 h 80 sample_winhttp 1 "fresh_transport\<lparr>ws_next := 2\<rparr>"]
    by (simp add: states new_handle_def call_library_def)
  moreover have "cache_step sample_winhttp 0 s3 s4" unfolding s4_def by (rule emplace_begin) (simp add: states)
  moreover have "cache_step sample_winhttp 0 s4 s5" unfolding s5_def key_def by (rule emplace_end) (simp add: states)
  moreover have "cache_step sample_winhttp 0 s5 s6" unfolding s6_def by (rule unlock) (simp add: states)
  moreover have "cache_step sample_winhttp 1 s6 s7" unfolding s7_def by (rule lock) (simp_all add: states)
  moreover have "cache_step sample_winhttp 1 s7 s8" unfolding s8_def by (rule found) (simp_all add: states)
  moreover have "cache_step sample_winhttp 1 s8 s9" unfolding s9_def by (rule unlock) (simp add: states)
  ultimately have run: "cache_run sample_winhttp fresh_transport s9" by (meson run_step)
  have "ca_log s9 = [Called 0 h 80 (Inr 1), Called 1 h 80 (Inr 1)]"
    "ca_returned s9 = [(0, h, 80, Inr 1), (1, h, 80, Inr 1)]" "settled_transport s9 = ca_transport s9"
    by (simp_all add: states settled_transport_def)
  with connection_cache_is_linearizable [OF run] run show ?thesis unfolding h_def by auto
qed

end
