(* ===== verification/WinHttpCalls.thy ===== *)
theory WinHttpCalls
  imports CurlCalls ConnectionCache
begin

text \<open>
  API calls over WinHTTP: the header block that \<^verbatim>\<open>WinHttpTransport::Send\<close> (\<^verbatim>\<open>src/http_transport.cpp\<close>)
  writes for a request, against a reference reader that splits it into lines and fields. Unlike the
  libcurl transport, this one does not validate headers.
\<close>

section \<open>A reference reader\<close>

text \<open>The text up to the first occurrence of the two characters, and what follows it.\<close>

primrec split_pair :: "char \<Rightarrow> char \<Rightarrow> string \<Rightarrow> (string \<times> string) option" where
  "split_pair a b [] = None"
| "split_pair a b (c # s) =
     (if c = a \<and> s \<noteq> [] \<and> hd s = b then Some ([], tl s)
      else map_option (\<lambda>(u, r). (c # u, r)) (split_pair a b s))"

fun has_pair :: "char \<Rightarrow> char \<Rightarrow> string \<Rightarrow> bool" where
  "has_pair a b (c # d # s) \<longleftrightarrow> c = a \<and> d = b \<or> has_pair a b (d # s)"
| "has_pair a b _ \<longleftrightarrow> False"

lemma has_pair_Cons: "has_pair a b (c # s) \<longleftrightarrow> c = a \<and> s \<noteq> [] \<and> hd s = b \<or> has_pair a b s"
  by (cases s) auto

lemma split_pair_append:
  "a \<noteq> b \<Longrightarrow> \<not> has_pair a b u \<Longrightarrow> split_pair a b (u @ a # b # r) = Some (u, r)"
  by (induction u) (auto simp: has_pair_Cons hd_append)

lemma split_pair_None: "split_pair a b s = None \<longleftrightarrow> \<not> has_pair a b s"
  by (induction s) (auto simp: has_pair_Cons)

lemma split_pair_SomeD:
  "split_pair a b s = Some (u, r) \<Longrightarrow> s = u @ a # b # r \<and> \<not> has_pair a b u"
proof (induction s arbitrary: u)
  case (Cons c s)
  show ?case
  proof (cases "c = a \<and> s \<noteq> [] \<and> hd s = b")
    case True
    with Cons.prems show ?thesis by (cases s) auto
  next
    case False
    with Cons.prems obtain u' where u: "u = c # u'" "split_pair a b s = Some (u', r)" by auto
    from Cons.IH [OF this(2)] False show ?thesis by (cases u') (auto simp: u(1) has_pair_Cons)
  qed
qed simp

lemma has_pair_append: "has_pair a b (u @ a # b # r)"
  by (induction u) (auto simp: has_pair_Cons)

definition read_field :: "string \<Rightarrow> (string \<times> string) option" where
  "read_field line = split_pair (CHR '':'') (CHR '' '') line"

function read_block :: "string \<Rightarrow> HttpHeaders option" where
  "read_block s =
     (if s = [] then Some []
      else case split_pair (CHR 0x0D) (CHR 0x0A) s of
        None \<Rightarrow> None
      | Some (line, rest) \<Rightarrow>
          (case (read_field line, read_block rest) of
             (Some h, Some hs) \<Rightarrow> Some (h # hs)
           | _ \<Rightarrow> None))"
  by auto
termination
  by (relation "measure length") (auto dest!: split_pair_SomeD)

declare read_block.simps [simp del]

lemma read_block_Nil [simp]: "read_block [] = Some []"
  by (simp add: read_block.simps)

section \<open>What is read back\<close>

text \<open>A header that is one line and one field.\<close>

definition clean_header :: "string \<times> string \<Rightarrow> bool" where
  "clean_header h \<longleftrightarrow>
     \<not> has_pair (CHR 0x0D) (CHR 0x0A) (fst h @ '': '' @ snd h) \<and> \<not> has_pair (CHR '':'') (CHR '' '') (fst h)"

lemma read_field_clean:
  "read_field (n @ '': '' @ v) = Some (n, v) \<longleftrightarrow> \<not> has_pair (CHR '':'') (CHR '' '') n"
  using split_pair_append [of "CHR '':''" "CHR '' ''" n v] split_pair_SomeD [of "CHR '':''" "CHR '' ''" _ n v]
  by (auto simp: read_field_def)

lemma read_block_Cons:
  "read_block (narrow_headers (h # hs)) = Some (h # hs) \<longleftrightarrow> clean_header h \<and> read_block (narrow_headers hs) = Some hs"
proof -
  obtain n v where h: "h = (n, v)" by (rule prod.exhaust)
  define line where "line = n @ '': '' @ v"
  have block: "narrow_headers (h # hs) = line @ CHR 0x0D # CHR 0x0A # narrow_headers hs"
    by (simp add: narrow_headers_def h line_def)
  show ?thesis
  proof (cases "has_pair (CHR 0x0D) (CHR 0x0A) line")
    case False
    have "split_pair (CHR 0x0D) (CHR 0x0A) (narrow_headers (h # hs)) = Some (line, narrow_headers hs)"
      unfolding block by (rule split_pair_append) (use False in simp_all)
    then have "read_block (narrow_headers (h # hs)) = Some (h # hs) \<longleftrightarrow>
        read_field line = Some h \<and> read_block (narrow_headers hs) = Some hs"
      by (subst read_block.simps) (auto simp: block split: option.splits)
    then show ?thesis using False read_field_clean [of n v] by (simp add: h line_def clean_header_def)
  next
    case True
    obtain l r where s: "split_pair (CHR 0x0D) (CHR 0x0A) (narrow_headers (h # hs)) = Some (l, r)"
      using split_pair_None [of "CHR 0x0D" "CHR 0x0A" "narrow_headers (h # hs)"] has_pair_append
      by (fastforce simp: block)
    have "read_field l \<noteq> Some h"
    proof
      assume "read_field l = Some h"
      then have "l = line" using split_pair_SomeD by (fastforce simp: read_field_def h line_def)
      with split_pair_SomeD [OF s] True show False by simp
    qed
    then have "read_block (narrow_headers (h # hs)) \<noteq> Some (h # hs)"
      by (subst read_block.simps) (auto simp: s split: option.splits)
    with True show ?thesis by (simp add: clean_header_def h line_def)
  qed
qed

lemma read_block_iff: "read_block (narrow_headers hs) = Some hs \<longleftrightarrow> list_all clean_header hs"
  by (induction hs) (simp_all add: read_block_Cons, simp add: narrow_headers_def)

text \<open>In the headers of a call, only the token can hold a line break.\<close>

lemma has_pair_single_line: "single_line s \<Longrightarrow> \<not> has_pair (CHR 0x0D) (CHR 0x0A) s"
  by (induction s) (auto simp: single_line_def has_pair_Cons)

lemma has_pair_prefix: "single_line u \<Longrightarrow> has_pair (CHR 0x0D) (CHR 0x0A) (u @ s) \<longleftrightarrow> has_pair (CHR 0x0D) (CHR 0x0A) s"
  by (induction u) (auto simp: single_line_def has_pair_Cons)

lemma clean_header_value:
  "single_line n \<Longrightarrow> \<not> has_pair (CHR '':'') (CHR '' '') n \<Longrightarrow>
     clean_header (n, v) \<longleftrightarrow> \<not> has_pair (CHR 0x0D) (CHR 0x0A) v"
  using has_pair_prefix [of "n @ '': ''" v] by (simp add: clean_header_def single_line_append) (simp add: single_line_def)

lemma clean_names:
  "\<not> has_pair (CHR '':'') (CHR '' '') ''Content-Type'' \<and> \<not> has_pair (CHR '':'') (CHR '' '') ''Accept'' \<and>
   \<not> has_pair (CHR '':'') (CHR '' '') ''Authorization'' \<and>
   \<not> has_pair (CHR '':'') (CHR '' '') ''X-Livekit-Request-Id'' \<and> \<not> has_pair (CHR '':'') (CHR '' '') ''User-Agent''"
  by code_simp

lemma clean_call_headers:
  assumes "is_uuid4 request_id"
  shows "list_all clean_header (call_headers token request_id) \<longleftrightarrow> \<not> has_pair (CHR 0x0D) (CHR 0x0A) token"
proof -
  have names: "single_line ''Content-Type''" "single_line ''Accept''" "single_line ''Authorization''"
    "single_line ''X-Livekit-Request-Id''" "single_line ''User-Agent''"
    using header_names Token_single_line by blast+
  have values_clean: "\<not> has_pair (CHR 0x0D) (CHR 0x0A) ''application/protobuf''"
    "\<not> has_pair (CHR 0x0D) (CHR 0x0A) ''livekit-server-cpp/0.1''" "\<not> has_pair (CHR 0x0D) (CHR 0x0A) request_id"
    using header_values uuid4_line [OF assms] has_pair_single_line by blast+
  have bearer: "has_pair (CHR 0x0D) (CHR 0x0A) (''Bearer '' @ token) \<longleftrightarrow> has_pair (CHR 0x0D) (CHR 0x0A) token"
    using header_values has_pair_prefix by blast
  show ?thesis
    unfolding call_headers_def list.pred_inject
    using names clean_names values_clean bearer by (simp only: clean_header_value simp_thms list.pred_inject)
qed

section \<open>Properties\<close>


end
