(* ===== verification/Spec2Isabelle.thy ===== *)
theory Spec2Isabelle
  imports TokenExchange JavaWebhooks Ruby Interfaces CurlConcurrency WinHttpCalls
begin

text \<open>
  A model of the LiveKit server SDK for C++ and the properties that make it correct.

  The SDK is a client library. An application configures it (\<^verbatim>\<open>ApiOptions\<close>, the environment), and
  calls methods of six service clients. Each method turns a protobuf message into one Twirp
  request over HTTP, authorized by a bearer token that the SDK signs with HS256 and that carries
  only the grants of that method. The SDK also signs access tokens for participants and verifies
  the webhooks a LiveKit server sends. Bindings for other languages reach all of this through a C
  ABI that exchanges JSON.

  \<^descr>\<^bold>\<open>Conventions.\<close> Code that can throw returns a \<open>result\<close>, a sum whose left side is a \<open>fault\<close>: an
    SDK \<^verbatim>\<open>Error\<close>, another \<^verbatim>\<open>std::exception\<close>, a foreign exception, or \<open>Undefined\<close>, undefined
    behaviour, which the model attaches to signed 64-bit overflow. Code with effects is a function
    of a world \<open>'w\<close> (\<open>io\<close>). \<^verbatim>\<open>std::string\<close> is a byte string; \<^verbatim>\<open>std::uint8_t\<close> and the 32-bit groups of
    base64 are machine words; durations and time points are \<open>int\<close>, with \<open>in_int64\<close>, \<open>add64\<close> and
    \<open>mul64\<close> where the code computes with them. Names are those of the sources.

  \<^descr>\<^bold>\<open>Parameters.\<close> Code that is not in the repository is a parameter: OpenSSL and CNG
    (\<open>crypto_backend\<close>), the protobuf runtime and the generated messages (\<open>protobuf\<close>, over an
    arbitrary type of messages), the operating system (\<open>platform\<close>), libcurl and WinHTTP (the
    records of their theories) and, in the webhook and ABI theories, the functions of the
    application. What a theorem needs of them is a named hypothesis: the locales \<open>json_runtime\<close>
    and \<open>json_runtime_complete\<close> state how the protobuf JSON reader treats objects.

  The theories, in the order of their imports:

  \<^descr> \<open>Prelude\<close>: errors (\<^verbatim>\<open>error.h\<close>), results, effects, bytes and strings, integers.
  \<^descr> \<open>Crypto\<close> (\<^verbatim>\<open>src/detail/crypto.cpp\<close>): base64 both ways, constant-time comparison, SHA-256 and
    HMAC on both backends. Shown: the encoder is that of RFC 4648, decoding inverts it, exactly
    which texts the decoder accepts, comparison is equality, CNG handles are released once.
  \<^descr> \<open>JsonText\<close>: a reference reader for JSON, the yardstick for the text the SDK writes by hand. Its
    fuel is the length of the text, and \<open>denotes\<close> states that this is enough.
  \<^descr> \<open>AccessToken\<close> (\<^verbatim>\<open>src/access_token.cpp\<close>): escaping is invertible, the claims text is one JSON
    object with exactly the members the setters describe, and a token decodes to the header, the
    claims and their HMAC.
  \<^descr> \<open>Protobuf\<close>: \<^verbatim>\<open>Struct\<close> and \<^verbatim>\<open>Value\<close>, the runtime and its contracts.
  \<^descr> \<open>Transport\<close> (\<^verbatim>\<open>http_transport.h\<close>, \<^verbatim>\<open>api_options.h\<close>): requests, responses, options, platform.
  \<^descr> \<open>ClientContext\<close> (\<^verbatim>\<open>src/detail/client_context.cpp\<close>): what the constructor guarantees, which
    tokens authorize a request, that request identifiers are version 4 UUIDs, and \<^verbatim>\<open>Call\<close> on every
    path.
  \<^descr> \<open>ServiceClient\<close>, \<open>RoomService\<close>, \<open>EgressService\<close>, \<open>IngressService\<close>, \<open>SipService\<close>,
    \<open>AgentDispatchService\<close>, \<open>ConnectorService\<close> (\<^verbatim>\<open>src/*_client.cpp\<close>): every method as written, and
    for each class a table of rows (wire method, message types, grant policy). The locale
    \<open>service_class\<close> says that a class implements its table; each class interprets it.
  \<^descr> \<open>LiveKitApi\<close> (\<^verbatim>\<open>src/livekit_api.cpp\<close>, \<^verbatim>\<open>src/detail/dispatch.inc\<close>): the dispatch of 52 operations
    refines the joined tables, and no operation presents more than its grants.
  \<^descr> \<open>WebhookReceiver\<close> (\<^verbatim>\<open>src/webhook_receiver.cpp\<close>): acceptance is equivalent to a declarative notion
    of authenticity; the textual search for time claims is characterised, with its defects.
  \<^descr> \<open>WebhookDispatch\<close>: the callbacks behind the mutex, first as a sequential function and then as a
    step relation over any number of threads that dispatch and replace callbacks.
  \<^descr> \<open>CApi\<close> (\<^verbatim>\<open>src/c_api.cpp\<close>, \<^verbatim>\<open>src/detail/grants.inc\<close>): the JSON operations, the transport and the key
    provider that call back, and \<^verbatim>\<open>lks_invoke\<close>, which answers every outcome with an envelope.
  \<^descr> \<open>CurlTransport\<close> (\<^verbatim>\<open>src/detail/curl_transport.cpp\<close>): the transport over libcurl, an arbitrary
    strategy that calls back. Shown: what is validated, under which options a transfer runs, that
    the handle is reset on every path, and what response a transfer leaves.
  \<^descr> \<open>CurlConcurrency\<close>: the same transport under any number of calls at once, a libcurl call at a
    step. Shown: the calls on its one handle never mix.
  \<^descr> \<open>WinHttpTransport\<close> (\<^verbatim>\<open>src/http_transport.cpp\<close>): the transport over WinHTTP. Shown: every handle
    is closed exactly once, the connection cache never confuses endpoints, and the loop that reads
    a body returns exactly when the body ends.
  \<^descr> \<open>ConnectionCache\<close>: the same cache under any number of calls at once, behind its mutex. Shown: every
    run is equivalent to one in which the calls happen one after the other.
  \<^descr> \<open>CurlCalls\<close>: API calls with the libcurl transport behind them. Shown: the transfer a call performs,
    option for option, and which requests of a context the transport refuses.
  \<^descr> \<open>WinHttpCalls\<close>: the header block of calls over WinHTTP, and what a reader of it sees.
  \<^descr> \<open>Preservation\<close>: what a call of the C ABI leaves alone. A property of the world that the platform,
    the allocator and the callback keep is kept by \<^verbatim>\<open>lks_invoke\<close>, whatever operation it runs.
  \<^descr> \<open>JsonRuntime\<close>: the contract two sides rely on when one prints a \<^verbatim>\<open>Struct\<close> and the other parses it,
    and a runtime that satisfies it.
  \<^descr> \<open>Jni\<close> (\<^verbatim>\<open>pkg/java/src/main/cpp/livekit_server_jni.cpp\<close>): the native methods of the Java binding
    and its callback, over a virtual machine that is a parameter. Shown: options, requests,
    responses, outcomes and events cross the ABI unchanged, the message of an error up to a NUL,
    where \<^verbatim>\<open>what()\<close> ends.
  \<^descr> \<open>JniDiscipline\<close>: how native code leaves the virtual machine. Shown: local frames are popped, and
    every failure is a pending Java exception, unless its message exceeds a Java array.
  \<^descr> \<open>Ruby\<close> (\<^verbatim>\<open>pkg/ruby/src/livekit_server_ruby.cpp\<close>): the callback bridge for Ruby, and that Ruby
    reads whole answers.
  \<^descr> \<open>Models\<close> (\<^verbatim>\<open>include/livekit/server/model/models.h\<close>, \<^verbatim>\<open>include/livekit/server/protocol_fwd.h\<close>): the
    declared message types, which are those the operations use.
  \<^descr> \<open>Interfaces\<close>: the overloads the client headers declare and the error codes of the C header,
    against the tables of the operations and the enumeration of the library.
  \<^descr> \<open>TokenExchange\<close>: tokens the SDK signs, at its own receiver. No access token is accepted as a
    webhook, and every webhook signed with the secret of its issuer is received.
  \<^descr> \<open>JavaWebhooks\<close> and \<open>Spec2Isabelle\<close>: a webhook from the bytes Java passes to the event Java
    gets, through the binding, the ABI and the receiver.

  \<^descr>\<^bold>\<open>Not modelled.\<close> The protobuf classes are generated by the build, and their runtime is a
    parameter. The bindings written in other languages, the tests, the examples and the generator
    scripts are not part of the library. Allocation failure is modelled only where the code tests
    for it, and references of the virtual machine are not counted apart from local frames. Where
    C++ leaves the order of argument evaluation open, the model takes it from left to right.
\<close>

section \<open>Webhooks through the Java binding\<close>


text \<open>A signed webhook that Java receives, for the witness.\<close>

definition sample_keys :: pb_struct where
  "sample_keys = [(''key'', TextValue ''secret'')]"

lemma sample_keys_props:
  "portable (StructValue sample_keys)" "texts sample_keys"
  "secrets_of sample_keys = [(''key'', ''secret'')]"
  by (code_simp, code_simp, code_simp)

definition sample_jwt :: string where
  "sample_jwt = (case sign_claims zero_backend ''secret'' sample_claims of Inr jwt \<Rightarrow> jwt | Inl f \<Rightarrow> [])"

lemma sample_jwt_signed: "sign_claims zero_backend ''secret'' sample_claims = Inr sample_jwt"
  by (simp add: sign_claims_def Let_def sample_jwt_def)

lemma sample_jwt_utf8: "utf8 (''Bearer '' @ sample_jwt)"
  by code_simp

lemma sample_input_short: "length (write_value (StructValue (webhook_input sample_keys ''{}'' (''Bearer '' @ sample_jwt)))) \<le> 1000"
  by code_simp

lemma sample_event_portable: "portable_decision (Inr (event_of json_protobuf ''{}'' ''{}''))"
  by code_simp


end
